(* ===== verification/Prelude.thy ===== *)
theory Prelude
  imports Complex_Main "HOL-Library.Finite_Map" "HOL-Library.State_Monad"
    "HOL-Library.Char_ord" "HOL-Library.List_Lexorder" "HOL-Library.Sublist"
begin

text \<open>
  The parts of the Go language and of its standard library that the operator uses, and the
  proof infrastructure that every other theory shares.

  \<^item> Go values: a nilable pointer is an \<open>option\<close>; a nilable \<open>map[string]string\<close> is
    \<open>go_map\<close> (a finite map under an \<open>option\<close>, so that \<open>reflect.DeepEqual\<close>, which tells
    a nil map from an empty one, is equality); a Go \<open>int\<close> is an \<open>int\<close> whose products wrap
    at 64 bits (\<open>wrap64\<close>); integer division truncates and panics on zero (\<open>go_div\<close>);
    the finite \<open>float64\<close> values are rationals.
  \<^item> Go errors: \<open>go_error\<close>, with the chain that \<open>fmt.Errorf("... %w", err)\<close> builds.
  \<^item> Go panics, and loops that do not end: \<open>outcome\<close>.
  \<^item> Effects: the state monad of the library, with a weakest precondition \<open>wp\<close> whose
    equations (collection \<open>wp\<close>) run a program symbolically.
\<close>

named_theorems wp \<open>equations of the weakest precondition\<close>
named_theorems go_defs \<open>definitions that the evaluation of a concrete run unfolds\<close>

section \<open>Integers and floats\<close>

definition wrap64 :: "int \<Rightarrow> int" where
  "wrap64 x = (x + 2 ^ 63) mod 2 ^ 64 - 2 ^ 63"

definition int64 :: "int \<Rightarrow> bool" where
  "int64 x \<longleftrightarrow> - (2 ^ 63) \<le> x \<and> x < 2 ^ 63"

text \<open>Quotient of Go: truncation towards zero.\<close>

definition go_quot :: "int \<Rightarrow> int \<Rightarrow> int" where
  "go_quot a b = sgn a * sgn b * (\<bar>a\<bar> div \<bar>b\<bar>)"

text \<open>
  \<open>float64(n)\<close> rounds an integer to 53 significant bits, ties to even; \<open>int(f)\<close>
  truncates towards zero.
\<close>

definition round_even :: "int \<Rightarrow> int \<Rightarrow> int" where
  "round_even n d =
     (let q = n div d; r = n mod d in
      if 2 * r < d then q else if 2 * r > d then q + 1 else if even q then q else q + 1)"

function float_unit :: "int \<Rightarrow> int \<Rightarrow> int" where
  "float_unit n u = (if u < 1 \<or> n < 2 ^ 53 * u then u else float_unit n (2 * u))"
  by pat_completeness auto
termination
  by (relation "measure (\<lambda>(n, u). nat (n - u))") auto

declare float_unit.simps [simp del]

definition float64_of_int :: "int \<Rightarrow> rat" where
  "float64_of_int n =
     (let u = float_unit \<bar>n\<bar> 1 in of_int (sgn n * round_even \<bar>n\<bar> u * u))"

definition int_of_float64 :: "rat \<Rightarrow> int" where
  "int_of_float64 f = (if f \<ge> 0 then \<lfloor>f\<rfloor> else \<lceil>f\<rceil>)"

section \<open>Strings\<close>

fun strings_Contains :: "string \<Rightarrow> string \<Rightarrow> bool" where
  "strings_Contains [] t = (t = [])"
| "strings_Contains (c # s) t = (prefix t (c # s) \<or> strings_Contains s t)"

text \<open>\<open>strings.Split\<close> for a separator of one character, the only kind the code uses.\<close>

fun strings_Split :: "string \<Rightarrow> char \<Rightarrow> string list" where
  "strings_Split [] d = [[]]"
| "strings_Split (c # s) d =
     (if c = d then [] # strings_Split s d
      else (case strings_Split s d of [] \<Rightarrow> [[c]] | w # ws \<Rightarrow> (c # w) # ws))"

text \<open>\<open>strings.ToLower\<close> on ASCII, which Kubernetes kinds and groups are.\<close>

definition char_lower :: "char \<Rightarrow> char" where
  "char_lower c =
     (if CHR ''A'' \<le> c \<and> c \<le> CHR ''Z'' then char_of (of_char c + 32 :: nat) else c)"

definition strings_ToLower :: "string \<Rightarrow> string" where
  "strings_ToLower s = map char_lower s"

section \<open>Maps\<close>

type_synonym go_map = "(string, string) fmap option"

text \<open>\<open>m[k]\<close>: the zero value for a missing key and for a nil map.\<close>

definition map_get :: "go_map \<Rightarrow> string \<Rightarrow> string" where
  "map_get m k =
     (case m of None \<Rightarrow> '''' | Some f \<Rightarrow> (case fmlookup f k of None \<Rightarrow> '''' | Some v \<Rightarrow> v))"

definition map_len_pos :: "go_map \<Rightarrow> bool" where
  "map_len_pos m = (case m of None \<Rightarrow> False | Some f \<Rightarrow> f \<noteq> fmempty)"

fun join_spaces :: "string list \<Rightarrow> string" where
  "join_spaces [] = ''''"
| "join_spaces [w] = w"
| "join_spaces (w # ws) = w @ '' '' @ join_spaces ws"

text \<open>The \<open>%+v\<close> format of a map (keys in order) and of a list of strings.\<close>

definition fmt_map :: "go_map \<Rightarrow> string" where
  "fmt_map m =
     ''map['' @ (case m of None \<Rightarrow> ''''
       | Some f \<Rightarrow> join_spaces (map (\<lambda>k. k @ '':'' @ map_get m k) (sorted_list_of_fset (fmdom f)))) @ '']''"

definition fmt_strings :: "string list \<Rightarrow> string" where
  "fmt_strings ws = ''['' @ join_spaces ws @ '']''"

section \<open>Errors and panics\<close>

text \<open>
  \<open>NewError\<close> is a leaf (\<open>errors.New\<close>, an error of a library); \<open>ApiStatus\<close> is a status error of
  the Kubernetes API with its reason and message; \<open>Wrap p e\<close> is \<open>fmt.Errorf(p + "%w", e)\<close>.
\<close>

datatype go_error = NewError string | ApiStatus string string | Wrap string go_error

fun error_msg :: "go_error \<Rightarrow> string" where
  "error_msg (NewError m) = m"
| "error_msg (ApiStatus r m) = m"
| "error_msg (Wrap p e) = p @ error_msg e"

text \<open>
  \<open>apierrs.IsNotFound\<close> takes the first status error of the chain (\<open>errors.As\<close>) and
  compares its reason.
\<close>

fun IsNotFound :: "go_error \<Rightarrow> bool" where
  "IsNotFound (NewError m) = False"
| "IsNotFound (ApiStatus r m) = (r = ''NotFound'')"
| "IsNotFound (Wrap p e) = IsNotFound e"

text \<open>\<open>fmt.Errorf\<close> with a nil \<open>%w\<close> operand is still an error.\<close>

fun wrap_nilable :: "string \<Rightarrow> go_error option \<Rightarrow> go_error" where
  "wrap_nilable p (Some e) = Wrap p e"
| "wrap_nilable p None = NewError (p @ ''%!w(<nil>)'')"

text \<open>
  The outcome of a Go call that may panic, or that may never return because of a loop.
\<close>

datatype 'a outcome = Ret 'a | Panic string | Diverge

definition go_div :: "int \<Rightarrow> int \<Rightarrow> int outcome" where
  "go_div a b =
     (if b = 0 then Panic ''runtime error: integer divide by zero'' else Ret (wrap64 (go_quot a b)))"

definition go_index :: "'a list \<Rightarrow> nat \<Rightarrow> 'a outcome" where
  "go_index xs i =
     (if i < length xs then Ret (xs ! i) else Panic ''runtime error: index out of range'')"

fun outcome_bind :: "'a outcome \<Rightarrow> ('a \<Rightarrow> 'b outcome) \<Rightarrow> 'b outcome" where
  "outcome_bind (Ret x) f = f x"
| "outcome_bind (Panic m) f = Panic m"
| "outcome_bind Diverge f = Diverge"

section \<open>Programs over a state\<close>

definition modify :: "('s \<Rightarrow> 's) \<Rightarrow> ('s, unit) state" where
  "modify f = State (\<lambda>s. ((), f s))"

definition asks :: "('s \<Rightarrow> 'a) \<Rightarrow> ('s, 'a) state" where
  "asks f = State (\<lambda>s. (f s, s))"

text \<open>\<open>wp m Q s\<close>: running \<open>m\<close> from \<open>s\<close> returns a value and a state that satisfy \<open>Q\<close>.\<close>

definition wp :: "('s, 'a) state \<Rightarrow> ('a \<Rightarrow> 's \<Rightarrow> bool) \<Rightarrow> 's \<Rightarrow> bool" where
  "wp m Q s = (case run_state m s of (a, s') \<Rightarrow> Q a s')"

section \<open>Lemmas: integers\<close>

lemma wrap64_id [simp]: "int64 x \<Longrightarrow> wrap64 x = x"
  unfolding wrap64_def int64_def by (subst mod_pos_pos_trivial) auto

lemma int64_wrap64 [simp]: "int64 (wrap64 x)"
proof -
  have "0 \<le> (x + 2 ^ 63) mod 2 ^ 64" "(x + 2 ^ 63) mod 2 ^ 64 < 2 ^ 64"
    by simp_all
  then show ?thesis unfolding int64_def wrap64_def by auto
qed

lemma go_quot_nonneg: "0 \<le> a \<Longrightarrow> 0 < b \<Longrightarrow> go_quot a b = a div b"
  by (cases "a = 0") (auto simp: go_quot_def)

lemma go_quot_mult [simp]: "b \<noteq> 0 \<Longrightarrow> go_quot (a * b) b = a"
proof -
  assume b: "b \<noteq> 0"
  then have "sgn (a * b) * sgn b = sgn a" by (auto simp: sgn_if mult_less_0_iff zero_less_mult_iff)
  moreover from b have "\<bar>a * b\<bar> div \<bar>b\<bar> = \<bar>a\<bar>" by (simp add: abs_mult)
  ultimately show ?thesis by (simp add: go_quot_def sgn_mult_abs)
qed

lemma float_unit_small: "n < 2 ^ 53 \<Longrightarrow> float_unit n 1 = 1"
  by (subst float_unit.simps) simp

lemma round_even_1 [simp]: "round_even n 1 = n"
  by (simp add: round_even_def)

text \<open>Integers below \<open>2 ^ 53\<close> survive the conversion to \<open>float64\<close> and back.\<close>

lemma float64_roundtrip: "\<bar>n\<bar> < 2 ^ 53 \<Longrightarrow> int_of_float64 (float64_of_int n) = n"
proof -
  assume "\<bar>n\<bar> < 2 ^ 53"
  then have "float64_of_int n = of_int (sgn n * \<bar>n\<bar>)"
    by (simp only: float64_of_int_def float_unit_small Let_def round_even_1 mult_1_right)
  then have "float64_of_int n = of_int n" by (simp only: sgn_mult_abs)
  then show ?thesis by (simp add: int_of_float64_def)
qed

section \<open>Lemmas: strings\<close>

lemma strings_Contains_iff_sublist: "strings_Contains s t \<longleftrightarrow> sublist t s"
  by (induction s) (auto simp: sublist_Cons_right)

lemma strings_Contains_append1 [intro]: "strings_Contains s t \<Longrightarrow> strings_Contains (p @ s) t"
  by (auto simp: strings_Contains_iff_sublist sublist_append)

lemma strings_Split_not_Nil [simp]: "strings_Split s d \<noteq> []"
  by (cases s) (auto split: list.splits)

lemma strings_Split_free: "d \<notin> set s \<Longrightarrow> strings_Split s d = [s]"
  by (induction s) auto

lemma strings_Split_append:
  "d \<notin> set s \<Longrightarrow> strings_Split (s @ d # t) d = s # strings_Split t d"
  by (induction s) auto

lemma strings_Split_parts_free: "w \<in> set (strings_Split s d) \<Longrightarrow> d \<notin> set w"
  by (induction s arbitrary: w) (auto split: if_splits list.splits)

section \<open>Lemmas: maps\<close>

lemma map_get_simps [simp]:
  "map_get None k = ''''"
  "map_get (Some f) k = (case fmlookup f k of None \<Rightarrow> '''' | Some v \<Rightarrow> v)"
  by (simp_all add: map_get_def)

section \<open>Lemmas: errors\<close>

lemma error_msg_wrap_nilable: "\<exists>t. error_msg (wrap_nilable p e) = p @ t"
  by (cases e) auto

lemma IsNotFound_wrap_nilable [simp]:
  "IsNotFound (wrap_nilable p e) \<longleftrightarrow> (\<exists>e'. e = Some e' \<and> IsNotFound e')"
  by (cases e) auto

lemma outcome_bind_Ret_iff:
  "outcome_bind m f = Ret y \<longleftrightarrow> (\<exists>x. m = Ret x \<and> f x = Ret y)"
  by (cases m) auto

lemma outcome_bind_Diverge_iff:
  "outcome_bind m f = Diverge \<longleftrightarrow> m = Diverge \<or> (\<exists>x. m = Ret x \<and> f x = Diverge)"
  by (cases m) auto

lemma outcome_total [simp]: "go_div a b \<noteq> Diverge" "go_index xs i \<noteq> Diverge"
  by (simp_all add: go_div_def go_index_def)

lemma outcome_bind_Panic_iff:
  "outcome_bind m f = Panic e \<longleftrightarrow> m = Panic e \<or> (\<exists>x. m = Ret x \<and> f x = Panic e)"
  by (cases m) auto

section \<open>Lemmas: programs\<close>

lemma run_state_modify [simp]: "run_state (modify f) s = ((), f s)"
  by (simp add: modify_def)

lemma run_state_asks [simp]: "run_state (asks f) s = (f s, s)"
  by (simp add: asks_def)

lemma wp_return [wp]: "wp (State_Monad.return a) Q = Q a"
  by (simp add: wp_def fun_eq_iff)

lemma wp_bind [wp]: "wp (State_Monad.bind m f) Q = wp m (\<lambda>a. wp (f a) Q)"
  by (simp add: wp_def fun_eq_iff split: prod.splits)

lemma wp_get [wp]: "wp State_Monad.get Q s = Q s s"
  by (simp add: wp_def)

lemma wp_set [wp]: "wp (State_Monad.set t) Q s = Q () t"
  by (simp add: wp_def)

lemma wp_modify [wp]: "wp (modify f) Q s = Q () (f s)"
  by (simp add: wp_def)

lemma wp_asks [wp]: "wp (asks f) Q s = Q (f s) s"
  by (simp add: wp_def)

lemma wp_if [wp]: "wp (if b then m else n) Q s = (if b then wp m Q s else wp n Q s)"
  by simp

lemma wp_case_option [wp]:
  "wp (case x of None \<Rightarrow> m | Some a \<Rightarrow> f a) Q s = (case x of None \<Rightarrow> wp m Q s | Some a \<Rightarrow> wp (f a) Q s)"
  by (cases x) simp_all

lemma wp_case_sum [wp]:
  "wp (case x of Inl a \<Rightarrow> f a | Inr b \<Rightarrow> g b) Q s = (case x of Inl a \<Rightarrow> wp (f a) Q s | Inr b \<Rightarrow> wp (g b) Q s)"
  by (cases x) simp_all

lemma wp_case_prod [wp]: "wp (case x of (a, b) \<Rightarrow> f a b) Q s = (case x of (a, b) \<Rightarrow> wp (f a b) Q s)"
  by (cases x) simp_all

lemma wp_case_outcome [wp]:
  "wp (case x of Ret a \<Rightarrow> f a | Panic m \<Rightarrow> g m | Diverge \<Rightarrow> d) Q s =
     (case x of Ret a \<Rightarrow> wp (f a) Q s | Panic m \<Rightarrow> wp (g m) Q s | Diverge \<Rightarrow> wp d Q s)"
  by (cases x) simp_all

lemma wp_run: "wp m Q s \<longleftrightarrow> Q (fst (run_state m s)) (snd (run_state m s))"
  by (simp add: wp_def split: prod.splits)

lemma wpI: "run_state m s = (a, t) \<Longrightarrow> Q a t \<Longrightarrow> wp m Q s"
  by (simp add: wp_def)

lemma wpD: "wp m Q s \<Longrightarrow> run_state m s = (a, t) \<Longrightarrow> Q a t"
  by (simp add: wp_def)

lemma wp_mono: "wp m P s \<Longrightarrow> (\<And>a t. P a t \<Longrightarrow> Q a t) \<Longrightarrow> wp m Q s"
  by (simp add: wp_def split: prod.splits)

lemma wp_conj: "wp m (\<lambda>a t. P a t \<and> Q a t) s \<longleftrightarrow> wp m P s \<and> wp m Q s"
  by (simp add: wp_def split: prod.splits)

section \<open>Programs that keep a part of the state\<close>

text \<open>
  \<open>keeps f m\<close>: whatever the state, the program \<open>m\<close> ends in a state with the same \<open>f\<close>. The rules in the
  collection \<open>keeps\<close> follow the structure of a program.
\<close>

named_theorems keeps \<open>introduction rules for the parts of the state that a program keeps\<close>

definition keeps :: "('s \<Rightarrow> 'b) \<Rightarrow> ('s, 'a) state \<Rightarrow> bool" where
  "keeps f m \<longleftrightarrow> (\<forall>s. f (snd (run_state m s)) = f s)"

lemma keepsD: "keeps f m \<Longrightarrow> run_state m s = (a, t) \<Longrightarrow> f t = f s"
  unfolding keeps_def by (metis snd_conv)

lemma keeps_run: "keeps f m \<Longrightarrow> f (snd (run_state m s)) = f s"
  by (simp add: keeps_def)

lemma wp_keeps: "keeps f m \<Longrightarrow> wp m (\<lambda>a t. f t = f s) s"
  by (simp add: keeps_def wp_run)

lemma keepsI: "(\<And>s. wp m (\<lambda>a t. f t = f s) s) \<Longrightarrow> keeps f m"
  by (simp add: keeps_def wp_run)

lemma keeps_compose: "keeps f m \<Longrightarrow> keeps (\<lambda>s. g (f s)) m"
  by (simp add: keeps_def)

lemma keeps_return [keeps]: "keeps f (State_Monad.return a)"
  by (simp add: keeps_def)

lemma keeps_get [keeps]: "keeps f State_Monad.get"
  by (simp add: keeps_def)

lemma keeps_asks [keeps]: "keeps f (asks g)"
  by (simp add: keeps_def)

lemma keeps_modify [keeps]: "(\<And>s. f (g s) = f s) \<Longrightarrow> keeps f (modify g)"
  by (simp add: keeps_def)

lemma keeps_bind [keeps]: "keeps f m \<Longrightarrow> (\<And>a. keeps f (g a)) \<Longrightarrow> keeps f (State_Monad.bind m g)"
  by (simp add: keeps_def split: prod.splits) (metis snd_conv)

lemma keeps_if [keeps]: "keeps f m \<Longrightarrow> keeps f n \<Longrightarrow> keeps f (if b then m else n)"
  by simp

lemma keeps_case_option [keeps]:
  "keeps f m \<Longrightarrow> (\<And>x. keeps f (g x)) \<Longrightarrow> keeps f (case y of None \<Rightarrow> m | Some x \<Rightarrow> g x)"
  by (cases y) auto

lemma keeps_case_sum [keeps]:
  "(\<And>x. keeps f (g x)) \<Longrightarrow> (\<And>x. keeps f (k x)) \<Longrightarrow> keeps f (case y of Inl x \<Rightarrow> g x | Inr x \<Rightarrow> k x)"
  by (cases y) auto

lemma keeps_case_prod [keeps]: "(\<And>x z. keeps f (g x z)) \<Longrightarrow> keeps f (case y of (x, z) \<Rightarrow> g x z)"
  by (cases y) auto

lemma keeps_case_outcome [keeps]:
  "(\<And>x. keeps f (g x)) \<Longrightarrow> (\<And>x. keeps f (k x)) \<Longrightarrow> keeps f d \<Longrightarrow>
   keeps f (case y of Ret x \<Rightarrow> g x | Panic x \<Rightarrow> k x | Diverge \<Rightarrow> d)"
  by (cases y) auto

end
