(* ===== verification/Workload.thy ===== *)
theory Workload
  imports Prelude
begin

text \<open>
  The interface \<open>workload.Workload\<close> (\<^verbatim>\<open>controllers/workload/workload.go\<close>), as an extensible record:
  a custom resource of the operator is a record that extends \<open>workload\<close> with its spec and the rest
  of its status, so a function over \<open>'a workload_scheme\<close> is one that Go writes over the interface.
  Also the event filter of the controllers (\<^verbatim>\<open>workload/predicates.go\<close>), the trigger of a request
  (\<^verbatim>\<open>controllers/triggers\<close>) and the node types.

  Object metadata is restricted to the fields that the sources read or write. A creation timestamp
  of 0 is Go's zero time.
\<close>

section \<open>Conditions and objects\<close>

record condition =
  cond_Type :: string
  cond_Status :: string
  cond_ObservedGeneration :: int
  cond_LastTransitionTime :: int
  cond_Reason :: string
  cond_Message :: string

record workload =
  Kind :: string
  Group :: string
  Version :: string
  Name :: string
  Namespace :: string
  Generation :: int
  CreationTimestamp :: int
  DeletionTimestamp :: "int option"
  Finalizers :: "string list"
  Status_Conditions :: "condition list"
  Status_ClusterID :: string

definition GetClusterID :: "'a workload_scheme \<Rightarrow> string" where
  "GetClusterID w = Status_ClusterID w"

definition GetConditions :: "'a workload_scheme \<Rightarrow> condition list" where
  "GetConditions w = Status_Conditions w"

definition SetConditions :: "condition list \<Rightarrow> 'a workload_scheme \<Rightarrow> 'a workload_scheme" where
  "SetConditions cs w = w\<lparr>Status_Conditions := cs\<rparr>"

section \<open>Triggers\<close>

datatype trigger = Unknown | Create | Update | Delete | Requeue

fun trigger_String :: "trigger \<Rightarrow> string" where
  "trigger_String Unknown = ''Unknown''"
| "trigger_String Create = ''Create''"
| "trigger_String Update = ''Update''"
| "trigger_String Delete = ''Delete''"
| "trigger_String Requeue = ''Requeue''"

definition GetTrigger :: "'a workload_scheme \<Rightarrow> trigger" where
  "GetTrigger obj =
     (if CreationTimestamp obj = 0 then Create
      else if DeletionTimestamp obj = None then Update
      else Delete)"

section \<open>The event filter\<close>

datatype 'o watch_event =
    UpdateEvent 'o 'o | CreateEvent 'o | DeleteEvent 'o bool | GenericEvent 'o

text \<open>\<open>DeleteEvent o u\<close>: \<open>u\<close> is the event's \<open>DeleteStateUnknown\<close>.\<close>

fun Predicates :: "('a workload_scheme) watch_event \<Rightarrow> bool" where
  "Predicates (UpdateEvent old new) = (Generation old \<noteq> Generation new)"
| "Predicates (CreateEvent obj) = True"
| "Predicates (DeleteEvent obj unknown) = (\<not> unknown)"
| "Predicates (GenericEvent obj) = False"

section \<open>Nodes\<close>

record node_condition =
  nc_Type :: string
  nc_Status :: string

type_synonym node = "node_condition list"

section \<open>Lemmas\<close>

lemma trigger_String_inj: "trigger_String s = trigger_String t \<longleftrightarrow> s = t"
  by (cases s; cases t) simp_all

lemma GetTrigger_cases: "GetTrigger w \<in> {Create, Update, Delete}"
  by (simp add: GetTrigger_def)

lemma SetConditions_simps [simp]:
  "GetConditions (SetConditions cs w) = cs"
  "GetClusterID (SetConditions cs w) = GetClusterID w"
  "Finalizers (SetConditions cs w) = Finalizers w"
  "Kind (SetConditions cs w) = Kind w"
  "Group (SetConditions cs w) = Group w"
  "GetTrigger (SetConditions cs w) = GetTrigger w"
  by (simp_all add: SetConditions_def GetConditions_def GetClusterID_def GetTrigger_def)

end
