(* ===== verification/OCM_Types.thy ===== *)
theory OCM_Types
  imports Prelude
begin

text \<open>
  The data that the operator exchanges with OpenShift Cluster Manager: the attributes of the SDK
  types (package \<open>clustersmgmt/v1\<close> of ocm-sdk-go) that the sources under \<^verbatim>\<open>src/\<close> read or write,
  and no other. An SDK object and its builder carry a presence bit per attribute; both are one
  record here whose fields are \<open>option\<close>s. The SDK's getters may be called on a nil object and
  return the zero value for an absent attribute: \<open>attr\<close> and \<open>sub\<close>.
\<close>

section \<open>Access to attributes\<close>

text \<open>\<open>attr z f obj\<close> is \<open>obj.F()\<close> for an attribute with zero value \<open>z\<close>.\<close>

definition attr :: "'b \<Rightarrow> ('a \<Rightarrow> 'b option) \<Rightarrow> 'a option \<Rightarrow> 'b" where
  "attr z f obj =
     (case obj of None \<Rightarrow> z | Some x \<Rightarrow> (case f x of None \<Rightarrow> z | Some v \<Rightarrow> v))"

text \<open>\<open>sub f obj\<close> is \<open>obj.F()\<close> for an attribute that is itself an object.\<close>

definition sub :: "('a \<Rightarrow> 'b option) \<Rightarrow> 'a option \<Rightarrow> 'b option" where
  "sub f obj = (case obj of None \<Rightarrow> None | Some x \<Rightarrow> f x)"

lemma attr_simps [simp]:
  "attr z f None = z"
  "attr z f (Some x) = (case f x of None \<Rightarrow> z | Some v \<Rightarrow> v)"
  by (simp_all add: attr_def)

lemma sub_simps [simp]:
  "sub f None = None"
  "sub f (Some x) = f x"
  by (simp_all add: sub_def)

section \<open>Responses\<close>

text \<open>What \<open>Send()\<close> gives: the status, the body (nil unless the call succeeded) and the error.\<close>

record 'a sdk_response =
  resp_Status :: int
  resp_Body :: "'a option"
  resp_Err :: "go_error option"

definition StatusNotFound :: int where
  "StatusNotFound = 404"

definition sdk_ok :: "'a \<Rightarrow> 'a sdk_response" where
  "sdk_ok x = \<lparr>resp_Status = 200, resp_Body = Some x, resp_Err = None\<rparr>"

definition sdk_error :: "int \<Rightarrow> string \<Rightarrow> 'a sdk_response" where
  "sdk_error n m = \<lparr>resp_Status = n, resp_Body = None, resp_Err = Some (NewError m)\<rparr>"

section \<open>Machine pools and node pools\<close>

record ocm_taint =
  taint_Key :: "string option"
  taint_Value :: "string option"
  taint_Effect :: "string option"

record ocm_autoscaling =
  as_MinReplicas :: "int option"
  as_MaxReplicas :: "int option"

record ocm_spot_options =
  spot_MaxPrice :: "rat option"

record ocm_aws_machine_pool =
  amp_SpotMarketOptions :: "ocm_spot_options option"

record ocm_machine_pool =
  mp_ID :: "string option"
  mp_InstanceType :: "string option"
  mp_Labels :: go_map
  mp_Taints :: "ocm_taint list option"
  mp_AWS :: "ocm_aws_machine_pool option"
  mp_Autoscaling :: "ocm_autoscaling option"
  mp_Replicas :: "int option"
  mp_AvailabilityZones :: "string list option"

record ocm_aws_node_pool =
  anp_InstanceType :: "string option"

record ocm_node_pool =
  np_ID :: "string option"
  np_Labels :: go_map
  np_Taints :: "ocm_taint list option"
  np_AWSNodePool :: "ocm_aws_node_pool option"
  np_Autoscaling :: "ocm_autoscaling option"
  np_Replicas :: "int option"

section \<open>Identity providers\<close>

record ocm_ldap_attributes =
  la_ID :: "string list option"
  la_Name :: "string list option"
  la_Email :: "string list option"
  la_PreferredUsername :: "string list option"

record ocm_ldap =
  ldap_URL :: "string option"
  ldap_BindDN :: "string option"
  ldap_Insecure :: "bool option"
  ldap_BindPassword :: "string option"
  ldap_Attributes :: "ocm_ldap_attributes option"
  ldap_CA :: "string option"

record ocm_gitlab =
  gl_URL :: "string option"
  gl_ClientID :: "string option"
  gl_ClientSecret :: "string option"
  gl_CA :: "string option"

record ocm_idp =
  idp_ID :: "string option"
  idp_Name :: "string option"
  idp_Type :: "string option"
  idp_MappingMethod :: "string option"
  idp_LDAP :: "ocm_ldap option"
  idp_Gitlab :: "ocm_gitlab option"

section \<open>Clusters\<close>

datatype cluster_state =
    ClusterStateReady | ClusterStateError | ClusterStateUninstalling | ClusterStateOther string

record ocm_oidc_config =
  oidc_ID :: "string option"
  oidc_IssuerUrl :: "string option"
  oidc_Managed :: "bool option"

record ocm_instance_roles =
  ir_WorkerRoleARN :: "string option"
  ir_MasterRoleARN :: "string option"

record ocm_sts =
  sts_OidcConfig :: "ocm_oidc_config option"
  sts_OperatorRolePrefix :: "string option"
  sts_RoleARN :: "string option"
  sts_SupportRoleARN :: "string option"
  sts_InstanceIAMRoles :: "ocm_instance_roles option"
  sts_AutoMode :: "bool option"

record ocm_aws =
  aws_PrivateLink :: "bool option"
  aws_AccountID :: "string option"
  aws_STS :: "ocm_sts option"
  aws_Tags :: go_map
  aws_EtcdKMSKeyARN :: "string option"
  aws_KMSKeyArn :: "string option"
  aws_SubnetIDs :: "string list option"

record ocm_nodes =
  nodes_ComputeMachineType :: "string option"
  nodes_ComputeLabels :: go_map
  nodes_AutoscaleCompute :: "ocm_autoscaling option"
  nodes_Compute :: "int option"
  nodes_AvailabilityZones :: "string list option"

record ocm_network =
  net_HostPrefix :: "int option"
  net_ServiceCIDR :: "string option"
  net_PodCIDR :: "string option"
  net_MachineCIDR :: "string option"

record ocm_proxy =
  proxy_HTTPProxy :: "string option"
  proxy_HTTPSProxy :: "string option"
  proxy_NoProxy :: "string option"

record ocm_version =
  ver_ID :: "string option"
  ver_RawID :: "string option"

record ocm_cluster =
  cl_ID :: "string option"
  cl_Name :: "string option"
  cl_State :: "cluster_state option"
  cl_ProductID :: "string option"
  cl_HypershiftEnabled :: "bool option"
  cl_DisableUserWorkloadMonitoring :: "bool option"
  cl_Properties :: go_map
  cl_Version :: "ocm_version option"
  cl_MultiAZ :: "bool option"
  cl_RegionID :: "string option"
  cl_FIPS :: "bool option"
  cl_EtcdEncryption :: "bool option"
  cl_AdditionalTrustBundle :: "string option"
  cl_Proxy :: "ocm_proxy option"
  cl_AWS :: "ocm_aws option"
  cl_Nodes :: "ocm_nodes option"
  cl_Network :: "ocm_network option"
  cl_BaseDomain :: "string option"

definition cluster_State :: "ocm_cluster option \<Rightarrow> cluster_state" where
  "cluster_State = attr (ClusterStateOther '''') cl_State"

section \<open>Credential requests and policies\<close>

record ocm_sts_operator =
  op_Name :: "string option"
  op_Namespace :: "string option"

record ocm_credential_request =
  cr_Name :: "string option"
  cr_Operator :: "ocm_sts_operator option"

record ocm_sts_policy =
  pol_ID :: "string option"
  pol_ARN :: "string option"
  pol_Details :: "string option"

section \<open>Objects with no attribute set\<close>

definition empty_cluster :: ocm_cluster where
  "empty_cluster = \<lparr>cl_ID = None, cl_Name = None, cl_State = None, cl_ProductID = None,
     cl_HypershiftEnabled = None, cl_DisableUserWorkloadMonitoring = None, cl_Properties = None,
     cl_Version = None, cl_MultiAZ = None, cl_RegionID = None, cl_FIPS = None,
     cl_EtcdEncryption = None, cl_AdditionalTrustBundle = None, cl_Proxy = None, cl_AWS = None,
     cl_Nodes = None, cl_Network = None, cl_BaseDomain = None\<rparr>"

definition empty_aws :: ocm_aws where
  "empty_aws = \<lparr>aws_PrivateLink = None, aws_AccountID = None, aws_STS = None, aws_Tags = None,
     aws_EtcdKMSKeyARN = None, aws_KMSKeyArn = None, aws_SubnetIDs = None\<rparr>"

definition empty_nodes :: ocm_nodes where
  "empty_nodes = \<lparr>nodes_ComputeMachineType = None, nodes_ComputeLabels = None,
     nodes_AutoscaleCompute = None, nodes_Compute = None, nodes_AvailabilityZones = None\<rparr>"

definition empty_machine_pool :: ocm_machine_pool where
  "empty_machine_pool = \<lparr>mp_ID = None, mp_InstanceType = None, mp_Labels = None, mp_Taints = None,
     mp_AWS = None, mp_Autoscaling = None, mp_Replicas = None, mp_AvailabilityZones = None\<rparr>"

definition empty_node_pool :: ocm_node_pool where
  "empty_node_pool = \<lparr>np_ID = None, np_Labels = None, np_Taints = None, np_AWSNodePool = None,
     np_Autoscaling = None, np_Replicas = None\<rparr>"

definition empty_idp :: ocm_idp where
  "empty_idp = \<lparr>idp_ID = None, idp_Name = None, idp_Type = None, idp_MappingMethod = None,
     idp_LDAP = None, idp_Gitlab = None\<rparr>"

end
