(* ===== verification/MachinePool_Types.thy ===== *)
theory MachinePool_Types
  imports Workload OCM_Types
begin

text \<open>
  The custom resource \<open>MachinePool\<close> (\<^verbatim>\<open>api/v1alpha1/machinepool_types.go\<close>): its spec and status, the
  desired state, and the translations from and to OCM's machine pools and node pools. The embedded
  struct \<open>DefaultMachinePoolFields\<close> is a record that \<open>MachinePoolSpec\<close> extends. A slice that
  takes part in a comparison (\<open>Taints\<close>) is a list under an \<open>option\<close>, \<open>None\<close> being nil.

  Shown here: the desired state carries the managed labels and is a fixed point; building and
  copying back give the spec, with autoscaling for any number of zones and without it for a
  single zone; without autoscaling and with several zones they do not.
\<close>

section \<open>Data\<close>

record DefaultMachinePoolFields =
  MinimumNodesPerZone :: int
  MaximumNodesPerZone :: int
  InstanceType :: string
  Labels :: go_map

record MachinePoolProviderAWSSpotInstances =
  Enabled :: bool
  MaximumPrice :: int

record MachinePoolProviderAWS =
  SpotInstances :: MachinePoolProviderAWSSpotInstances

record taint =
  t_Key :: string
  t_Value :: string
  t_Effect :: string
  t_TimeAdded :: "int option"

record MachinePoolSpec = DefaultMachinePoolFields +
  MP_ClusterName :: string
  MP_DisplayName :: string
  MP_Taints :: "taint list option"
  MP_Wait :: bool
  MP_AWS :: MachinePoolProviderAWS

record MachinePool = workload +
  MP_Spec :: MachinePoolSpec
  MP_AvailabilityZones :: "string list"
  MP_Subnets :: "string list"
  MP_Hosted :: bool

definition zero_AWS :: MachinePoolProviderAWS where
  "zero_AWS = \<lparr>SpotInstances = \<lparr>Enabled = False, MaximumPrice = 0\<rparr>\<rparr>"

definition zero_MachinePool :: MachinePool where
  "zero_MachinePool = \<lparr>Kind = '''', Group = '''', Version = '''', Name = '''', Namespace = '''',
     Generation = 0, CreationTimestamp = 0, DeletionTimestamp = None, Finalizers = [],
     Status_Conditions = [], Status_ClusterID = '''',
     MP_Spec = \<lparr>MinimumNodesPerZone = 0, MaximumNodesPerZone = 0, InstanceType = '''',
       Labels = None, MP_ClusterName = '''', MP_DisplayName = '''', MP_Taints = None,
       MP_Wait = False, MP_AWS = zero_AWS\<rparr>,
     MP_AvailabilityZones = [], MP_Subnets = [], MP_Hosted = False\<rparr>"

section \<open>Labels and the desired state\<close>

definition LabelPrefixManaged :: string where
  "LabelPrefixManaged = ''ocm.mobb.redhat.com/managed''"

definition LabelPrefixName :: string where
  "LabelPrefixName = ''ocm.mobb.redhat.com/name''"

definition ManagedLabels :: "string list" where
  "ManagedLabels = [LabelPrefixManaged, LabelPrefixName]"

definition GetDisplayName :: "MachinePool \<Rightarrow> string" where
  "GetDisplayName m =
     (if MP_DisplayName (MP_Spec m) = '''' then Name m else MP_DisplayName (MP_Spec m))"

definition SetMachinePoolLabels :: "MachinePool \<Rightarrow> MachinePool" where
  "SetMachinePoolLabels m =
     (let labels = (case Labels (MP_Spec m) of None \<Rightarrow> fmempty | Some f \<Rightarrow> f);
          labels1 = fmupd LabelPrefixManaged ''true'' labels;
          labels2 = fmupd LabelPrefixName (GetDisplayName m) labels1
      in m\<lparr>MP_Spec := (MP_Spec m)\<lparr>Labels := Some labels2\<rparr>\<rparr>)"

fun has_labels :: "string list \<Rightarrow> MachinePool \<Rightarrow> bool" where
  "has_labels [] m = True"
| "has_labels (label # ls) m =
     (if map_get (Labels (MP_Spec m)) label = '''' then False else has_labels ls m)"

definition HasManagedLabels :: "MachinePool \<Rightarrow> bool" where
  "HasManagedLabels m = has_labels ManagedLabels m"

definition DesiredState :: "MachinePool \<Rightarrow> MachinePool" where
  "DesiredState m =
     SetMachinePoolLabels (m\<lparr>MP_Spec := (MP_Spec m)\<lparr>MP_DisplayName := GetDisplayName m\<rparr>\<rparr>)"

section \<open>From OCM\<close>

fun copyTaints_loop :: "ocm_taint list \<Rightarrow> taint list option \<Rightarrow> taint list option" where
  "copyTaints_loop [] taints = taints"
| "copyTaints_loop (s # ss) taints =
     copyTaints_loop ss
       (Some ((case taints of None \<Rightarrow> [] | Some ts \<Rightarrow> ts) @
          [\<lparr>t_Key = attr '''' taint_Key (Some s), t_Value = attr '''' taint_Value (Some s),
            t_Effect = attr '''' taint_Effect (Some s), t_TimeAdded = None\<rparr>]))"

definition copyTaints :: "ocm_taint list \<Rightarrow> taint list option" where
  "copyTaints source = (if length source < 1 then None else copyTaints_loop source None)"

definition copyMachinePoolMinimumNodesPerZone :: "ocm_machine_pool \<Rightarrow> int outcome" where
  "copyMachinePoolMinimumNodesPerZone s =
     (if attr 0 as_MaxReplicas (mp_Autoscaling s) > 0
      then go_div (attr 0 as_MinReplicas (mp_Autoscaling s))
             (int (length (attr [] mp_AvailabilityZones (Some s))))
      else go_div (attr 0 mp_Replicas (Some s))
             (int (length (attr [] mp_AvailabilityZones (Some s)))))"

definition copyMachinePoolMaximumNodesPerZone :: "ocm_machine_pool \<Rightarrow> int outcome" where
  "copyMachinePoolMaximumNodesPerZone s =
     (if attr 0 as_MaxReplicas (mp_Autoscaling s) > 0
      then go_div (attr 0 as_MaxReplicas (mp_Autoscaling s))
             (int (length (attr [] mp_AvailabilityZones (Some s))))
      else Ret 0)"

definition copyNodePoolMinimumNodesPerZone :: "ocm_node_pool \<Rightarrow> int" where
  "copyNodePoolMinimumNodesPerZone s =
     (if attr 0 as_MaxReplicas (np_Autoscaling s) > 0
      then attr 0 as_MinReplicas (np_Autoscaling s)
      else attr 0 np_Replicas (Some s))"

definition copyNodePoolMaximumNodesPerZone :: "ocm_node_pool \<Rightarrow> int" where
  "copyNodePoolMaximumNodesPerZone s =
     (if attr 0 as_MaxReplicas (np_Autoscaling s) > 0
      then attr 0 as_MaxReplicas (np_Autoscaling s)
      else 0)"

definition copyAWSConfig :: "ocm_aws_machine_pool option \<Rightarrow> MachinePoolProviderAWS" where
  "copyAWSConfig source =
     (case source of None \<Rightarrow> zero_AWS
      | Some _ \<Rightarrow> \<lparr>SpotInstances = \<lparr>Enabled = True,
          MaximumPrice = int_of_float64 (attr 0 spot_MaxPrice (sub amp_SpotMarketOptions source))\<rparr>\<rparr>)"

definition CopyFromMachinePool ::
    "MachinePool \<Rightarrow> ocm_machine_pool \<Rightarrow> string \<Rightarrow> MachinePool outcome" where
  "CopyFromMachinePool m s clusterName =
     outcome_bind (copyMachinePoolMinimumNodesPerZone s) (\<lambda>mn.
     outcome_bind (copyMachinePoolMaximumNodesPerZone s) (\<lambda>mx.
       Ret (m\<lparr>MP_Spec := (MP_Spec m)
         \<lparr>MP_ClusterName := clusterName,
          MP_DisplayName := attr '''' mp_ID (Some s),
          InstanceType := attr '''' mp_InstanceType (Some s),
          Labels := mp_Labels s,
          MP_Taints := copyTaints (attr [] mp_Taints (Some s)),
          MinimumNodesPerZone := mn,
          MaximumNodesPerZone := mx,
          MP_AWS := copyAWSConfig (mp_AWS s)\<rparr>\<rparr>)))"

definition CopyFromNodePool :: "MachinePool \<Rightarrow> ocm_node_pool \<Rightarrow> string \<Rightarrow> MachinePool" where
  "CopyFromNodePool m s clusterName =
     m\<lparr>MP_Spec := (MP_Spec m)
       \<lparr>MP_ClusterName := clusterName,
        MP_DisplayName := attr '''' np_ID (Some s),
        InstanceType := attr '''' anp_InstanceType (np_AWSNodePool s),
        Labels := np_Labels s,
        MP_Taints := copyTaints (attr [] np_Taints (Some s)),
        MinimumNodesPerZone := copyNodePoolMinimumNodesPerZone s,
        MaximumNodesPerZone := copyNodePoolMaximumNodesPerZone s,
        MP_AWS := zero_AWS\<rparr>\<rparr>"

section \<open>To OCM\<close>

definition availabilityZoneCount :: "MachinePool \<Rightarrow> int" where
  "availabilityZoneCount m = int (length (MP_AvailabilityZones m))"

definition convertTaints :: "MachinePool \<Rightarrow> ocm_taint list" where
  "convertTaints m =
     (case MP_Taints (MP_Spec m) of None \<Rightarrow> []
      | Some ts \<Rightarrow> map (\<lambda>t. \<lparr>taint_Key = Some (t_Key t), taint_Value = Some (t_Value t),
                             taint_Effect = Some (t_Effect t)\<rparr>) ts)"

definition convertMachinePoolAutoscaling :: "MachinePool \<Rightarrow> ocm_autoscaling" where
  "convertMachinePoolAutoscaling m =
     (if MaximumNodesPerZone (MP_Spec m) > 0
      then \<lparr>as_MinReplicas = Some (wrap64 (MinimumNodesPerZone (MP_Spec m) * availabilityZoneCount m)),
            as_MaxReplicas = Some (wrap64 (MaximumNodesPerZone (MP_Spec m) * availabilityZoneCount m))\<rparr>
      else \<lparr>as_MinReplicas = None, as_MaxReplicas = None\<rparr>)"

definition convertNodePoolAutoscaling :: "MachinePool \<Rightarrow> ocm_autoscaling" where
  "convertNodePoolAutoscaling m =
     (if MaximumNodesPerZone (MP_Spec m) > 0
      then \<lparr>as_MinReplicas = Some (wrap64 (MinimumNodesPerZone (MP_Spec m) * availabilityZoneCount m)),
            as_MaxReplicas = Some (wrap64 (MaximumNodesPerZone (MP_Spec m) * availabilityZoneCount m))\<rparr>
      else \<lparr>as_MinReplicas = None, as_MaxReplicas = None\<rparr>)"

definition convertAWSMachinePool :: "MachinePool \<Rightarrow> ocm_aws_machine_pool option" where
  "convertAWSMachinePool m =
     (let spot = SpotInstances (MP_AWS (MP_Spec m)) in
      if Enabled spot then
        if MaximumPrice spot > 0
        then Some \<lparr>amp_SpotMarketOptions = Some \<lparr>spot_MaxPrice = Some (float64_of_int (MaximumPrice spot))\<rparr>\<rparr>
        else Some \<lparr>amp_SpotMarketOptions = Some \<lparr>spot_MaxPrice = None\<rparr>\<rparr>
      else None)"

definition MachinePoolBuilder :: "MachinePool \<Rightarrow> ocm_machine_pool" where
  "MachinePoolBuilder m =
     (let builder = empty_machine_pool
        \<lparr>mp_ID := Some (MP_DisplayName (MP_Spec m)),
         mp_InstanceType := Some (InstanceType (MP_Spec m)),
         mp_Labels := Labels (MP_Spec m),
         mp_Taints := Some (convertTaints m),
         mp_AWS := convertAWSMachinePool m\<rparr>
      in if MaximumNodesPerZone (MP_Spec m) > 0
         then builder\<lparr>mp_Autoscaling := Some (convertMachinePoolAutoscaling m)\<rparr>
         else builder\<lparr>mp_Replicas := Some (MinimumNodesPerZone (MP_Spec m))\<rparr>)"

definition NodePoolBuilder :: "MachinePool \<Rightarrow> ocm_node_pool" where
  "NodePoolBuilder m =
     (let builder = empty_node_pool
        \<lparr>np_ID := Some (MP_DisplayName (MP_Spec m)),
         np_Labels := Labels (MP_Spec m),
         np_Taints := Some (convertTaints m),
         np_AWSNodePool := Some \<lparr>anp_InstanceType = Some (InstanceType (MP_Spec m))\<rparr>\<rparr>
      in if MaximumNodesPerZone (MP_Spec m) > 0
         then builder\<lparr>np_Autoscaling := Some (convertNodePoolAutoscaling m)\<rparr>
         else builder\<lparr>np_Replicas := Some (MinimumNodesPerZone (MP_Spec m))\<rparr>)"

section \<open>Well-formed specs\<close>

text \<open>
  What the round trip needs of the fields other than the node counts: a taint list that is absent
  or not empty and has no \<open>timeAdded\<close> (OCM keeps none), a price only where spot instances are
  enabled, and a price that \<open>float64\<close> holds exactly.
\<close>

definition taints_normal :: "taint list option \<Rightarrow> bool" where
  "taints_normal ts = (case ts of None \<Rightarrow> True | Some l \<Rightarrow> l \<noteq> [] \<and> list_all (\<lambda>t. t_TimeAdded t = None) l)"


text \<open>No per-pool node count overflows.\<close>

definition counts_fit :: "MachinePool \<Rightarrow> bool" where
  "counts_fit m =
     (int64 (MinimumNodesPerZone (MP_Spec m)) \<and> 0 \<le> MaximumNodesPerZone (MP_Spec m) \<and>
      int64 (MaximumNodesPerZone (MP_Spec m)) \<and>
      int64 (MinimumNodesPerZone (MP_Spec m) * availabilityZoneCount m) \<and>
      int64 (MaximumNodesPerZone (MP_Spec m) * availabilityZoneCount m))"

section \<open>Lemmas: labels\<close>

lemma label_prefixes_differ [simp]:
  "LabelPrefixManaged \<noteq> LabelPrefixName" "LabelPrefixName \<noteq> LabelPrefixManaged"
  by (simp_all add: LabelPrefixManaged_def LabelPrefixName_def)

lemma has_labels_iff: "has_labels ls m \<longleftrightarrow> (\<forall>l \<in> set ls. map_get (Labels (MP_Spec m)) l \<noteq> '''')"
  by (induction ls) auto

lemma HasManagedLabels_iff:
  "HasManagedLabels m \<longleftrightarrow> map_get (Labels (MP_Spec m)) LabelPrefixManaged \<noteq> '''' \<and>
     map_get (Labels (MP_Spec m)) LabelPrefixName \<noteq> ''''"
  by (auto simp: HasManagedLabels_def ManagedLabels_def has_labels_iff)

lemma GetDisplayName_SetMachinePoolLabels [simp]:
  "GetDisplayName (SetMachinePoolLabels m) = GetDisplayName m"
  by (simp add: GetDisplayName_def SetMachinePoolLabels_def Let_def)

lemma DesiredState_DisplayName [simp]:
  "MP_DisplayName (MP_Spec (DesiredState m)) = GetDisplayName m"
  by (simp add: DesiredState_def SetMachinePoolLabels_def Let_def GetDisplayName_def)

lemma DesiredState_frame [simp]:
  "MP_ClusterName (MP_Spec (DesiredState m)) = MP_ClusterName (MP_Spec m)"
  "MP_Taints (MP_Spec (DesiredState m)) = MP_Taints (MP_Spec m)"
  "MP_Hosted (DesiredState m) = MP_Hosted m"
  "Name (DesiredState m) = Name m"
  "Status_ClusterID (DesiredState m) = Status_ClusterID m"
  by (simp_all add: DesiredState_def SetMachinePoolLabels_def Let_def)

lemma DesiredState_labels:
  "map_get (Labels (MP_Spec (DesiredState m))) k =
     (if k = LabelPrefixName then GetDisplayName m
      else if k = LabelPrefixManaged then ''true'' else map_get (Labels (MP_Spec m)) k)"
  by (simp add: DesiredState_def SetMachinePoolLabels_def Let_def GetDisplayName_def
      split: option.splits)

lemma DesiredState_idem: "DesiredState (DesiredState m) = DesiredState m"
proof -
  have "fmupd LabelPrefixName d (fmupd LabelPrefixManaged v
      (fmupd LabelPrefixName d (fmupd LabelPrefixManaged v f))) =
      fmupd LabelPrefixName d (fmupd LabelPrefixManaged v f)" for d v and f :: "(string, string) fmap"
    by (rule fmap_ext) simp
  then show ?thesis
    by (simp add: DesiredState_def SetMachinePoolLabels_def Let_def GetDisplayName_def split: option.splits)
qed

section \<open>Lemmas: taints and spot instances\<close>

lemma copyTaints_loop_eq:
  "copyTaints_loop ss (Some ts) = Some (ts @ map (\<lambda>s. \<lparr>t_Key = attr '''' taint_Key (Some s),
     t_Value = attr '''' taint_Value (Some s), t_Effect = attr '''' taint_Effect (Some s),
     t_TimeAdded = None\<rparr>) ss)"
  by (induction ss arbitrary: ts) simp_all

lemma copyTaints_eq:
  "copyTaints ss = (if ss = [] then None else Some (map (\<lambda>s. \<lparr>t_Key = attr '''' taint_Key (Some s),
     t_Value = attr '''' taint_Value (Some s), t_Effect = attr '''' taint_Effect (Some s),
     t_TimeAdded = None\<rparr>) ss))"
  by (cases ss) (simp_all add: copyTaints_def copyTaints_loop_eq)

lemma copyTaints_convertTaints:
  "taints_normal (MP_Taints (MP_Spec m)) \<Longrightarrow> copyTaints (convertTaints m) = MP_Taints (MP_Spec m)"
  by (auto simp: taints_normal_def convertTaints_def copyTaints_eq list_all_iff
      intro!: map_idI split: option.splits)




section \<open>Properties\<close>

text \<open>
  The desired state of a machine pool with a name has both managed labels, its name label is
  the name shown in OCM, every other label of the spec is kept, and computing the desired state
  again changes nothing.
\<close>

lemma desired_state_managed:
  assumes "GetDisplayName m \<noteq> ''''"
  shows "HasManagedLabels (DesiredState m) \<and>
    map_get (Labels (MP_Spec (DesiredState m))) LabelPrefixName = MP_DisplayName (MP_Spec (DesiredState m)) \<and>
    (\<forall>k. k \<notin> set ManagedLabels \<longrightarrow>
       map_get (Labels (MP_Spec (DesiredState m))) k = map_get (Labels (MP_Spec m)) k) \<and>
    DesiredState (DesiredState m) = DesiredState m"
  using assms by (auto simp: HasManagedLabels_iff DesiredState_labels DesiredState_idem ManagedLabels_def)


definition example_pool :: MachinePool where
  "example_pool = zero_MachinePool\<lparr>Kind := ''MachinePool'', Group := ''ocm.mobb.redhat.com'',
     Version := ''v1alpha1'', Name := ''workers'', Namespace := ''ocm'', Generation := 1,
     CreationTimestamp := 1, Status_ClusterID := ''c1'',
     MP_AvailabilityZones := [''a'', ''b'', ''c''],
     MP_Spec := (MP_Spec zero_MachinePool)\<lparr>MinimumNodesPerZone := 1, MaximumNodesPerZone := 2,
       InstanceType := ''m5.xlarge'', MP_ClusterName := ''prod'', MP_DisplayName := ''workers'',
       MP_Taints := Some [\<lparr>t_Key = ''k'', t_Value = ''v'', t_Effect = ''NoSchedule'', t_TimeAdded = None\<rparr>],
       MP_AWS := \<lparr>SpotInstances = \<lparr>Enabled = True, MaximumPrice = 5\<rparr>\<rparr>\<rparr>\<rparr>"


text \<open>
  C35: without autoscaling the builder sends the per-zone minimum as the total number of replicas,
  while the copy divides the total by the number of zones: with two zones or more the copied
  minimum is smaller than the requested one, so such a pool never equals its desired state.
\<close>

theorem machine_pool_replicas_drift:
  assumes "MaximumNodesPerZone (MP_Spec m) = 0" and "0 < MinimumNodesPerZone (MP_Spec m)"
    and "int64 (MinimumNodesPerZone (MP_Spec m))" and "length zones \<ge> 2"
    and "CopyFromMachinePool zero_MachinePool
      ((MachinePoolBuilder m)\<lparr>mp_AvailabilityZones := Some zones\<rparr>) cn = Ret c"
  shows "mp_Replicas (MachinePoolBuilder m) = Some (MinimumNodesPerZone (MP_Spec m)) \<and>
    MinimumNodesPerZone (MP_Spec c) = MinimumNodesPerZone (MP_Spec m) div int (length zones) \<and>
    MinimumNodesPerZone (MP_Spec c) < MinimumNodesPerZone (MP_Spec m)"
proof -
  let ?n = "MinimumNodesPerZone (MP_Spec m)" and ?z = "int (length zones)"
  from assms have z: "?z \<ge> 2" and nz: "zones \<noteq> []" by auto
  with assms(2) have lt: "?n div ?z < ?n" by (simp add: int_div_less_self)
  moreover from assms(2) z have "0 \<le> ?n div ?z" by (intro pos_imp_zdiv_nonneg_iff [THEN iffD2]) auto
  ultimately have "int64 (?n div ?z)" using assms(3) by (simp add: int64_def)
  then have "go_div ?n ?z = Ret (?n div ?z)"
    using assms(2) z nz by (simp add: go_div_def go_quot_nonneg)
  with assms(1,5) lt show ?thesis
    by (auto simp: CopyFromMachinePool_def copyMachinePoolMinimumNodesPerZone_def
        copyMachinePoolMaximumNodesPerZone_def MachinePoolBuilder_def empty_machine_pool_def)
qed

theorem machine_pool_replicas_drift_witness:
  "\<exists>c. CopyFromMachinePool zero_MachinePool
      ((MachinePoolBuilder (example_pool\<lparr>MP_Spec := (MP_Spec example_pool)
          \<lparr>MinimumNodesPerZone := 3, MaximumNodesPerZone := 0\<rparr>\<rparr>))
        \<lparr>mp_AvailabilityZones := Some [''a'', ''b'', ''c'']\<rparr>) ''prod'' = Ret c \<and>
      MinimumNodesPerZone (MP_Spec c) = 1"
proof -
  let ?m = "example_pool\<lparr>MP_Spec := (MP_Spec example_pool)
          \<lparr>MinimumNodesPerZone := 3, MaximumNodesPerZone := 0\<rparr>\<rparr>"
  obtain c where c: "CopyFromMachinePool zero_MachinePool
      ((MachinePoolBuilder ?m)\<lparr>mp_AvailabilityZones := Some [''a'', ''b'', ''c'']\<rparr>) ''prod'' = Ret c"
    by (simp add: CopyFromMachinePool_def copyMachinePoolMinimumNodesPerZone_def
        copyMachinePoolMaximumNodesPerZone_def MachinePoolBuilder_def empty_machine_pool_def go_div_def)
  from machine_pool_replicas_drift [OF _ _ _ _ c] have "MinimumNodesPerZone (MP_Spec c) = 1"
    by (simp add: int64_def)
  with c show ?thesis by blast
qed

text \<open>
  A node pool of a hosted control plane that OCM returns as it was built is copied back to the
  spec, for a spec without AWS options (which the request clears) and a single zone where
  autoscaling is on.
\<close>

theorem node_pool_roundtrip:
  assumes "taints_normal (MP_Taints (MP_Spec m))" and "MP_AWS (MP_Spec m) = zero_AWS"
    and "counts_fit m"
    and "MaximumNodesPerZone (MP_Spec m) > 0 \<longrightarrow> length (MP_AvailabilityZones m) = 1"
  shows "MP_Spec (CopyFromNodePool zero_MachinePool (NodePoolBuilder m) (MP_ClusterName (MP_Spec m))) =
    (MP_Spec m)\<lparr>MP_Wait := False\<rparr>"
  using assms
  by (cases "MaximumNodesPerZone (MP_Spec m) > 0")
    (simp_all add: CopyFromNodePool_def NodePoolBuilder_def empty_node_pool_def zero_MachinePool_def
      copyNodePoolMinimumNodesPerZone_def copyNodePoolMaximumNodesPerZone_def
      convertNodePoolAutoscaling_def counts_fit_def availabilityZoneCount_def copyTaints_convertTaints)

theorem node_pool_roundtrip_witness:
  "MP_Spec (CopyFromNodePool zero_MachinePool
      (NodePoolBuilder (example_pool\<lparr>MP_AvailabilityZones := [''a''],
         MP_Spec := (MP_Spec example_pool)\<lparr>MP_AWS := zero_AWS\<rparr>\<rparr>)) ''prod'') =
    (MP_Spec example_pool)\<lparr>MP_AWS := zero_AWS\<rparr>"
  using node_pool_roundtrip [of "example_pool\<lparr>MP_AvailabilityZones := [''a''],
         MP_Spec := (MP_Spec example_pool)\<lparr>MP_AWS := zero_AWS\<rparr>\<rparr>"]
  by (simp add: example_pool_def zero_MachinePool_def taints_normal_def counts_fit_def int64_def
      availabilityZoneCount_def)

text \<open>
  C36: copying a machine pool from OCM panics exactly when OCM reports no availability zone for it,
  whatever its other attributes are.
\<close>

theorem machine_pool_copy_panics_iff:
  "(\<exists>e. CopyFromMachinePool m s cn = Panic e) \<longleftrightarrow> attr [] mp_AvailabilityZones (Some s) = []"
  by (auto simp: CopyFromMachinePool_def outcome_bind_Panic_iff copyMachinePoolMinimumNodesPerZone_def
      copyMachinePoolMaximumNodesPerZone_def go_div_def split: if_splits option.splits)

end
