(* ===== verification/IdentityProvider_Types.thy ===== *)
theory IdentityProvider_Types
  imports Workload OCM_Types
begin

text \<open>
  The custom resources \<open>LDAPIdentityProvider\<close> and \<open>GitLabIdentityProvider\<close>
  (\<^verbatim>\<open>api/v1alpha1/ldapidentityprovider_types.go\<close>, \<^verbatim>\<open>api/v1alpha1/gitlabidentityprovider_types.go\<close>) and their
  translations from and to OCM's identity provider. References to a secret or a config map are
  their names.

  Shown here: the LDAP attributes are defaulted and never empty, an LDAP provider survives the
  round trip through OCM, a GitLab provider survives it only if its CA reference is the CA data.
\<close>

section \<open>Data\<close>

record LDAPAttributeMapping =
  attr_ID :: "string list"
  attr_PreferredUsername :: "string list"
  attr_Name :: "string list"
  attr_Email :: "string list"

record LDAPIdentityProviderSpec =
  LDAP_URL :: string
  LDAP_BindDN :: string
  LDAP_BindPassword :: string
  LDAP_Insecure :: bool
  LDAP_CA :: string
  LDAP_Attributes :: LDAPAttributeMapping
  LDAP_ClusterName :: string
  LDAP_DisplayName :: string
  LDAP_MappingMethod :: string

record LDAPIdentityProvider = workload +
  LDAP_Spec :: LDAPIdentityProviderSpec
  LDAP_ProviderID :: string

record GitLabIdentityProviderSpec =
  GL_ClientID :: string
  GL_ClientSecret :: string
  GL_URL :: string
  GL_CA :: string
  GL_MappingMethod :: string
  GL_ClusterName :: string
  GL_DisplayName :: string

record GitLabIdentityProvider = workload +
  GL_Spec :: GitLabIdentityProviderSpec
  GL_ProviderID :: string
  GL_CallbackURL :: string

definition zero_LDAP :: LDAPIdentityProvider where
  "zero_LDAP = \<lparr>Kind = '''', Group = '''', Version = '''', Name = '''', Namespace = '''',
     Generation = 0, CreationTimestamp = 0, DeletionTimestamp = None, Finalizers = [],
     Status_Conditions = [], Status_ClusterID = '''',
     LDAP_Spec = \<lparr>LDAP_URL = '''', LDAP_BindDN = '''', LDAP_BindPassword = '''', LDAP_Insecure = False,
       LDAP_CA = '''', LDAP_Attributes = \<lparr>attr_ID = [], attr_PreferredUsername = [], attr_Name = [],
       attr_Email = []\<rparr>, LDAP_ClusterName = '''', LDAP_DisplayName = '''', LDAP_MappingMethod = ''''\<rparr>,
     LDAP_ProviderID = ''''\<rparr>"

definition zero_GitLab :: GitLabIdentityProvider where
  "zero_GitLab = \<lparr>Kind = '''', Group = '''', Version = '''', Name = '''', Namespace = '''',
     Generation = 0, CreationTimestamp = 0, DeletionTimestamp = None, Finalizers = [],
     Status_Conditions = [], Status_ClusterID = '''',
     GL_Spec = \<lparr>GL_ClientID = '''', GL_ClientSecret = '''', GL_URL = '''', GL_CA = '''',
       GL_MappingMethod = '''', GL_ClusterName = '''', GL_DisplayName = ''''\<rparr>,
     GL_ProviderID = '''', GL_CallbackURL = ''''\<rparr>"

section \<open>LDAP\<close>

definition DefaultAttributeID :: string where
  "DefaultAttributeID = ''dn''"

definition DefaultAttributeUsername :: string where
  "DefaultAttributeUsername = ''uid''"

definition DefaultAttributeName :: string where
  "DefaultAttributeName = ''cn''"

definition DefaultAttributeEmail :: string where
  "DefaultAttributeEmail = ''mail''"

definition getLDAPAttributes :: "string list \<Rightarrow> string \<Rightarrow> string list" where
  "getLDAPAttributes attributes def = (if length attributes = 0 then [def] else attributes)"

definition LDAPAttributesToOpenShift ::
    "string list \<Rightarrow> string list \<Rightarrow> string list \<Rightarrow> string list \<Rightarrow> LDAPAttributeMapping" where
  "LDAPAttributesToOpenShift ids name email username =
     \<lparr>attr_ID = getLDAPAttributes ids DefaultAttributeID,
      attr_PreferredUsername = getLDAPAttributes username DefaultAttributeUsername,
      attr_Name = getLDAPAttributes name DefaultAttributeName,
      attr_Email = getLDAPAttributes email DefaultAttributeEmail\<rparr>"

definition LDAPAttributesToOCM ::
    "string list \<Rightarrow> string list \<Rightarrow> string list \<Rightarrow> string list \<Rightarrow> ocm_ldap_attributes" where
  "LDAPAttributesToOCM ids name email username =
     \<lparr>la_ID = Some (getLDAPAttributes ids DefaultAttributeID),
      la_Name = Some (getLDAPAttributes name DefaultAttributeName),
      la_Email = Some (getLDAPAttributes email DefaultAttributeEmail),
      la_PreferredUsername = Some (getLDAPAttributes username DefaultAttributeUsername)\<rparr>"

definition LDAP_CopyFrom :: "LDAPIdentityProvider \<Rightarrow> ocm_ldap option \<Rightarrow> LDAPIdentityProvider" where
  "LDAP_CopyFrom l source =
     l\<lparr>LDAP_Spec := (LDAP_Spec l)
       \<lparr>LDAP_URL := attr '''' ldap_URL source,
        LDAP_BindDN := attr '''' ldap_BindDN source,
        LDAP_Insecure := attr False ldap_Insecure source,
        LDAP_Attributes := LDAPAttributesToOpenShift
          (attr [] la_ID (sub ldap_Attributes source))
          (attr [] la_Name (sub ldap_Attributes source))
          (attr [] la_Email (sub ldap_Attributes source))
          (attr [] la_PreferredUsername (sub ldap_Attributes source))\<rparr>\<rparr>"

definition LDAP_Builder :: "LDAPIdentityProvider \<Rightarrow> string \<Rightarrow> string \<Rightarrow> ocm_idp" where
  "LDAP_Builder l ca bindPassword =
     empty_idp\<lparr>idp_MappingMethod := Some (LDAP_MappingMethod (LDAP_Spec l)),
       idp_Name := Some (LDAP_DisplayName (LDAP_Spec l)),
       idp_Type := Some ''LDAPIdentityProvider'',
       idp_LDAP := Some \<lparr>ldap_URL = Some (LDAP_URL (LDAP_Spec l)),
         ldap_BindDN = Some (LDAP_BindDN (LDAP_Spec l)),
         ldap_Insecure = Some (LDAP_Insecure (LDAP_Spec l)),
         ldap_BindPassword = Some bindPassword,
         ldap_Attributes = Some (LDAPAttributesToOCM
           (attr_ID (LDAP_Attributes (LDAP_Spec l)))
           (attr_Name (LDAP_Attributes (LDAP_Spec l)))
           (attr_Email (LDAP_Attributes (LDAP_Spec l)))
           (attr_PreferredUsername (LDAP_Attributes (LDAP_Spec l)))),
         ldap_CA = Some ca\<rparr>\<rparr>"

definition LDAPBindPasswordKey :: string where
  "LDAPBindPasswordKey = ''bindPassword''"

definition LDAPCAKey :: string where
  "LDAPCAKey = ''ca.crt''"

section \<open>GitLab\<close>

definition GitLabClientSecretKey :: string where
  "GitLabClientSecretKey = ''clientSecret''"

definition GitLabCAKey :: string where
  "GitLabCAKey = ''ca.crt''"

definition GL_CopyFrom :: "GitLabIdentityProvider \<Rightarrow> ocm_idp \<Rightarrow> GitLabIdentityProvider" where
  "GL_CopyFrom g source =
     g\<lparr>GL_Spec := (GL_Spec g)
       \<lparr>GL_CA := attr '''' gl_CA (idp_Gitlab source),
        GL_URL := attr '''' gl_URL (idp_Gitlab source),
        GL_ClientID := attr '''' gl_ClientID (idp_Gitlab source)\<rparr>\<rparr>"

definition GL_Builder :: "GitLabIdentityProvider \<Rightarrow> string \<Rightarrow> string \<Rightarrow> ocm_idp" where
  "GL_Builder g ca clientSecret =
     (let gitlabIDP = \<lparr>gl_URL = Some (GL_URL (GL_Spec g)), gl_ClientID = Some (GL_ClientID (GL_Spec g)),
                       gl_ClientSecret = Some clientSecret, gl_CA = None\<rparr>
      in empty_idp\<lparr>idp_MappingMethod := Some (GL_MappingMethod (GL_Spec g)),
           idp_Name := Some (GL_DisplayName (GL_Spec g)),
           idp_Type := Some ''GitlabIdentityProvider'',
           idp_Gitlab := Some (if ca \<noteq> '''' then gitlabIDP\<lparr>gl_CA := Some ca\<rparr> else gitlabIDP)\<rparr>)"

section \<open>Lemmas\<close>

lemma getLDAPAttributes_not_Nil [simp]: "getLDAPAttributes as d \<noteq> []"
  by (simp add: getLDAPAttributes_def)

lemma getLDAPAttributes_idem [simp]: "getLDAPAttributes (getLDAPAttributes as d) e = getLDAPAttributes as d"
  by (simp add: getLDAPAttributes_def)

text \<open>The attributes of a request are defaulted: no list is empty.\<close>

definition ldap_defaulted :: "LDAPAttributeMapping \<Rightarrow> bool" where
  "ldap_defaulted a \<longleftrightarrow> attr_ID a \<noteq> [] \<and> attr_Name a \<noteq> [] \<and> attr_Email a \<noteq> [] \<and>
     attr_PreferredUsername a \<noteq> []"

lemma ldap_defaulted_ToOpenShift [simp]: "ldap_defaulted (LDAPAttributesToOpenShift i n e u)"
  by (simp add: ldap_defaulted_def LDAPAttributesToOpenShift_def)

lemma ToOpenShift_defaulted:
  "ldap_defaulted a \<Longrightarrow>
   LDAPAttributesToOpenShift (attr_ID a) (attr_Name a) (attr_Email a) (attr_PreferredUsername a) = a"
  by (simp add: ldap_defaulted_def LDAPAttributesToOpenShift_def getLDAPAttributes_def)

text \<open>
  The part of an LDAP spec that the controller copies from its own desired state, because OCM does
  not return it: names and references.
\<close>

definition ldap_seed :: "LDAPIdentityProviderSpec \<Rightarrow> string \<Rightarrow> LDAPIdentityProvider" where
  "ldap_seed d mapping = zero_LDAP\<lparr>LDAP_Spec := (LDAP_Spec zero_LDAP)
     \<lparr>LDAP_ClusterName := LDAP_ClusterName d, LDAP_DisplayName := LDAP_DisplayName d,
      LDAP_BindPassword := LDAP_BindPassword d, LDAP_CA := LDAP_CA d, LDAP_MappingMethod := mapping\<rparr>\<rparr>"

definition gl_seed :: "GitLabIdentityProviderSpec \<Rightarrow> string \<Rightarrow> GitLabIdentityProvider" where
  "gl_seed d mapping = zero_GitLab\<lparr>GL_Spec := (GL_Spec zero_GitLab)
     \<lparr>GL_ClusterName := GL_ClusterName d, GL_DisplayName := GL_DisplayName d,
      GL_ClientSecret := GL_ClientSecret d, GL_CA := GL_CA d, GL_MappingMethod := mapping\<rparr>\<rparr>"

lemma LDAP_CopyFrom_Builder:
  assumes "ldap_defaulted (LDAP_Attributes (LDAP_Spec l))"
  shows "LDAP_Spec (LDAP_CopyFrom (ldap_seed (LDAP_Spec l) (attr '''' idp_MappingMethod (Some (LDAP_Builder l ca pw))))
    (idp_LDAP (LDAP_Builder l ca pw))) = LDAP_Spec l"
  using assms
  by (simp add: LDAP_CopyFrom_def LDAP_Builder_def ldap_seed_def LDAPAttributesToOCM_def empty_idp_def
      zero_LDAP_def ldap_defaulted_def LDAPAttributesToOpenShift_def getLDAPAttributes_def)

lemma GL_CopyFrom_Builder:
  "GL_Spec (GL_CopyFrom (gl_seed (GL_Spec g) (attr '''' idp_MappingMethod (Some (GL_Builder g ca secret))))
    (GL_Builder g ca secret)) = (GL_Spec g)\<lparr>GL_CA := ca\<rparr>"
  by (simp add: GL_CopyFrom_def GL_Builder_def gl_seed_def empty_idp_def zero_GitLab_def Let_def)

end
