(* ===== verification/ROSACluster_Types.thy ===== *)
theory ROSACluster_Types
  imports MachinePool_Types
begin

text \<open>
  The custom resource \<open>ROSACluster\<close> (\<^verbatim>\<open>api/v1alpha1/rosacluster_types.go\<close>): its spec and status, the
  copy from an OCM cluster, the builder that creates and updates one, the zone and node counts,
  the role ARNs and the network defaults. \<open>list.Strings(...).Unique()\<close> of go-utils, which the
  builder calls on the zones, is the parameter \<open>unique\<close>.

  Shown here: the cluster that OCM returns for a builder is copied back to the spec it was built
  from, under conditions that are each necessary; the account role prefix is cut at its first
  dash; the compute nodes of a multi-zone cluster without autoscaling are not divided again.
\<close>

section \<open>Data\<close>

record ROSAProxy =
  HTTPProxy :: string
  HTTPSProxy :: string
  NoProxy :: string

record ROSANetwork =
  PrivateLink :: bool
  Proxy :: ROSAProxy
  Subnets :: "string list option"
  ServiceCIDR :: string
  PodCIDR :: string
  MachineCIDR :: string
  HostPrefix :: int

record ROSAIAM =
  EnableManagedPolicies :: bool
  OperatorRolesPrefix :: string
  AccountRolesPrefix :: string
  UserRole :: string

record ROSAEncryption =
  ETCD_Key :: string
  EBS_Key :: string

record ROSAClusterSpec =
  RC_DisplayName :: string
  RC_AccountID :: string
  RC_HostedControlPlane :: bool
  RC_OpenShiftVersion :: string
  RC_MultiAZ :: bool
  RC_EnableFIPS :: bool
  RC_DisableUserWorkloadMonitoring :: bool
  RC_Region :: string
  RC_DefaultMachinePool :: DefaultMachinePoolFields
  RC_Encryption :: ROSAEncryption
  RC_AdditionalTrustBundle :: string
  RC_Tags :: go_map
  RC_Network :: ROSANetwork
  RC_IAM :: ROSAIAM

record ROSACluster = workload +
  RC_Spec :: ROSAClusterSpec
  RC_OIDCConfigID :: string
  RC_OIDCProviderARN :: string
  RC_StatusOpenShiftVersion :: string
  RC_OpenShiftVersionID :: string
  RC_OperatorRolesCreated :: bool
  RC_OperatorRolesPrefix :: string

definition zero_ROSASpec :: ROSAClusterSpec where
  "zero_ROSASpec = \<lparr>RC_DisplayName = '''', RC_AccountID = '''', RC_HostedControlPlane = False,
     RC_OpenShiftVersion = '''', RC_MultiAZ = False, RC_EnableFIPS = False,
     RC_DisableUserWorkloadMonitoring = False, RC_Region = '''',
     RC_DefaultMachinePool = \<lparr>MinimumNodesPerZone = 0, MaximumNodesPerZone = 0, InstanceType = '''',
       Labels = None\<rparr>,
     RC_Encryption = \<lparr>ETCD_Key = '''', EBS_Key = ''''\<rparr>, RC_AdditionalTrustBundle = '''', RC_Tags = None,
     RC_Network = \<lparr>PrivateLink = False, Proxy = \<lparr>HTTPProxy = '''', HTTPSProxy = '''', NoProxy = ''''\<rparr>,
       Subnets = None, ServiceCIDR = '''', PodCIDR = '''', MachineCIDR = '''', HostPrefix = 0\<rparr>,
     RC_IAM = \<lparr>EnableManagedPolicies = False, OperatorRolesPrefix = '''', AccountRolesPrefix = '''',
       UserRole = ''''\<rparr>\<rparr>"

definition zero_ROSACluster :: ROSACluster where
  "zero_ROSACluster = \<lparr>Kind = '''', Group = '''', Version = '''', Name = '''', Namespace = '''',
     Generation = 0, CreationTimestamp = 0, DeletionTimestamp = None, Finalizers = [],
     Status_Conditions = [], Status_ClusterID = '''', RC_Spec = zero_ROSASpec,
     RC_OIDCConfigID = '''', RC_OIDCProviderARN = '''', RC_StatusOpenShiftVersion = '''',
     RC_OpenShiftVersionID = '''', RC_OperatorRolesCreated = False, RC_OperatorRolesPrefix = ''''\<rparr>"

section \<open>Helpers\<close>

definition HasSubnets :: "ROSACluster \<Rightarrow> bool" where
  "HasSubnets c = (case Subnets (RC_Network (RC_Spec c)) of None \<Rightarrow> False | Some ss \<Rightarrow> length ss > 0)"

definition HasProxy :: "ROSACluster \<Rightarrow> bool" where
  "HasProxy c =
     (if HTTPProxy (Proxy (RC_Network (RC_Spec c))) \<noteq> '''' then True
      else if HTTPSProxy (Proxy (RC_Network (RC_Spec c))) \<noteq> '''' then True
      else if NoProxy (Proxy (RC_Network (RC_Spec c))) \<noteq> '''' then True
      else False)"

definition rosaSingleAZCount :: int where
  "rosaSingleAZCount = 1"

definition rosaMultiAZCount :: int where
  "rosaMultiAZCount = 3"

definition GetAvailabilityZoneCount :: "ROSACluster \<Rightarrow> int" where
  "GetAvailabilityZoneCount c =
     (if RC_HostedControlPlane (RC_Spec c) then rosaSingleAZCount
      else if RC_MultiAZ (RC_Spec c) then rosaMultiAZCount
      else rosaSingleAZCount)"

definition GetControlPlaneCount :: "ROSACluster \<Rightarrow> int" where
  "GetControlPlaneCount c =
     (if RC_HostedControlPlane (RC_Spec c) then 0
      else if RC_MultiAZ (RC_Spec c) then rosaMultiAZCount
      else rosaSingleAZCount)"

definition GetInfraCount :: "ROSACluster \<Rightarrow> int" where
  "GetInfraCount c =
     (if RC_HostedControlPlane (RC_Spec c) then 0
      else if RC_MultiAZ (RC_Spec c) then rosaMultiAZCount
      else rosaSingleAZCount)"

definition GetMachinePoolMinimumNodes :: "ROSACluster \<Rightarrow> int" where
  "GetMachinePoolMinimumNodes c =
     wrap64 (MinimumNodesPerZone (RC_DefaultMachinePool (RC_Spec c)) * GetAvailabilityZoneCount c)"

definition GetMachinePoolMaximumNodes :: "ROSACluster \<Rightarrow> int" where
  "GetMachinePoolMaximumNodes c =
     wrap64 (MaximumNodesPerZone (RC_DefaultMachinePool (RC_Spec c)) * GetAvailabilityZoneCount c)"

definition getIAMRoleName :: "ROSACluster \<Rightarrow> string \<Rightarrow> string" where
  "getIAMRoleName c roleType =
     ''arn:aws:iam::'' @ RC_AccountID (RC_Spec c) @ '':role/'' @
       AccountRolesPrefix (RC_IAM (RC_Spec c)) @ ''-'' @ roleType @ ''-Role''"

definition GetInstallerRole :: "ROSACluster \<Rightarrow> string" where
  "GetInstallerRole c = getIAMRoleName c ''Installer''"

definition GetSupportRole :: "ROSACluster \<Rightarrow> string" where
  "GetSupportRole c = getIAMRoleName c ''Support''"

definition GetControlPlaneRole :: "ROSACluster \<Rightarrow> string" where
  "GetControlPlaneRole c = getIAMRoleName c ''ControlPlane''"

definition GetWorkerRole :: "ROSACluster \<Rightarrow> string" where
  "GetWorkerRole c = getIAMRoleName c ''Worker''"

definition getAccountRolesPrefix :: "ocm_cluster \<Rightarrow> string outcome" where
  "getAccountRolesPrefix c =
     outcome_bind
       (go_index (strings_Split (attr '''' sts_RoleARN (sub aws_STS (cl_AWS c))) (CHR ''/'')) 1)
       (\<lambda>installerRole. go_index (strings_Split installerRole (CHR ''-'')) 0)"

definition SetNetworkDefaults :: "ROSACluster \<Rightarrow> ROSACluster" where
  "SetNetworkDefaults c =
     (let n0 = RC_Network (RC_Spec c);
          n1 = (if HostPrefix n0 = 0 then n0\<lparr>HostPrefix := 23\<rparr> else n0);
          n2 = (if MachineCIDR n1 = '''' then n1\<lparr>MachineCIDR := ''10.0.0.0/16''\<rparr> else n1);
          n3 = (if ServiceCIDR n2 = '''' then n2\<lparr>ServiceCIDR := ''172.30.0.0/16''\<rparr> else n2);
          n4 = (if PodCIDR n3 = '''' then n3\<lparr>PodCIDR := ''10.128.0.0/14''\<rparr> else n3)
      in c\<lparr>RC_Spec := (RC_Spec c)\<lparr>RC_Network := n4\<rparr>\<rparr>)"

section \<open>To OCM\<close>

definition BuildProxy :: "ROSACluster \<Rightarrow> ocm_proxy option" where
  "BuildProxy c =
     (if \<not> HasProxy c then None
      else (let p = Proxy (RC_Network (RC_Spec c));
                b0 = \<lparr>proxy_HTTPProxy = None, proxy_HTTPSProxy = None, proxy_NoProxy = None\<rparr>;
                b1 = (if HTTPProxy p \<noteq> '''' then b0\<lparr>proxy_HTTPProxy := Some (HTTPProxy p)\<rparr> else b0);
                b2 = (if HTTPSProxy p \<noteq> '''' then b1\<lparr>proxy_HTTPSProxy := Some (HTTPSProxy p)\<rparr> else b1);
                b3 = (if NoProxy p \<noteq> '''' then b2\<lparr>proxy_NoProxy := Some (NoProxy p)\<rparr> else b2)
            in Some b3))"

definition BuildAWS :: "ROSACluster \<Rightarrow> ocm_oidc_config option \<Rightarrow> ocm_aws" where
  "BuildAWS c oidcConfig =
     (let spec = RC_Spec c;
          oidc = (case oidcConfig of
              None \<Rightarrow> \<lparr>oidc_ID = None, oidc_IssuerUrl = None, oidc_Managed = None\<rparr>
            | Some o' \<Rightarrow> o');
          sts = \<lparr>sts_OidcConfig = Some oidc,
                 sts_OperatorRolePrefix = Some (OperatorRolesPrefix (RC_IAM spec)),
                 sts_RoleARN = Some (GetInstallerRole c),
                 sts_SupportRoleARN = Some (GetSupportRole c),
                 sts_InstanceIAMRoles = Some \<lparr>ir_WorkerRoleARN = Some (GetWorkerRole c),
                   ir_MasterRoleARN = Some (GetControlPlaneRole c)\<rparr>,
                 sts_AutoMode = Some True\<rparr>;
          a0 = empty_aws\<lparr>aws_PrivateLink := Some (PrivateLink (RC_Network spec)),
                 aws_AccountID := Some (RC_AccountID spec), aws_STS := Some sts\<rparr>;
          a1 = (if map_len_pos (RC_Tags spec) then a0\<lparr>aws_Tags := RC_Tags spec\<rparr> else a0);
          a2 = (if ETCD_Key (RC_Encryption spec) \<noteq> ''''
                then a1\<lparr>aws_EtcdKMSKeyARN := Some (ETCD_Key (RC_Encryption spec))\<rparr> else a1);
          a3 = (if EBS_Key (RC_Encryption spec) \<noteq> ''''
                then a2\<lparr>aws_KMSKeyArn := Some (EBS_Key (RC_Encryption spec))\<rparr> else a2);
          a4 = (if HasSubnets c
                then a3\<lparr>aws_SubnetIDs := Subnets (RC_Network spec)\<rparr> else a3)
      in a4)"

definition BuildClusterNodes ::
    "(string list \<Rightarrow> string list) \<Rightarrow> ROSACluster \<Rightarrow> string list \<Rightarrow> ocm_nodes" where
  "BuildClusterNodes unique c availabilityZones =
     (let pool = RC_DefaultMachinePool (RC_Spec c);
          n0 = empty_nodes\<lparr>nodes_ComputeMachineType := Some (InstanceType pool)\<rparr>;
          n1 = (if map_len_pos (Labels pool) then n0\<lparr>nodes_ComputeLabels := Labels pool\<rparr> else n0);
          n2 = (if MaximumNodesPerZone pool > 0
                then n1\<lparr>nodes_AutoscaleCompute := Some
                   \<lparr>as_MinReplicas = Some (GetMachinePoolMinimumNodes c),
                    as_MaxReplicas = Some (GetMachinePoolMaximumNodes c)\<rparr>\<rparr>
                else n1\<lparr>nodes_Compute := Some (GetMachinePoolMinimumNodes c)\<rparr>);
          n3 = (if HasSubnets c
                then n2\<lparr>nodes_AvailabilityZones := Some (unique availabilityZones)\<rparr> else n2)
      in n3)"

definition BuildNetwork :: "ROSACluster \<Rightarrow> ocm_network" where
  "BuildNetwork c =
     \<lparr>net_HostPrefix = Some (HostPrefix (RC_Network (RC_Spec c))),
      net_ServiceCIDR = Some (ServiceCIDR (RC_Network (RC_Spec c))),
      net_PodCIDR = Some (PodCIDR (RC_Network (RC_Spec c))),
      net_MachineCIDR = Some (MachineCIDR (RC_Network (RC_Spec c)))\<rparr>"

definition rosaPropertyUserRole :: string where
  "rosaPropertyUserRole = ''rosa_creator_arn''"

definition rosaPropertyProvisioner :: string where
  "rosaPropertyProvisioner = ''rosa_provisioner''"

definition RC_Builder ::
    "(string list \<Rightarrow> string list) \<Rightarrow> ROSACluster \<Rightarrow> ocm_oidc_config option \<Rightarrow> string \<Rightarrow>
     string list \<Rightarrow> ocm_cluster" where
  "RC_Builder unique c oidcConfig versionID availabilityZones =
     (let spec = RC_Spec c;
          b0 = empty_cluster
            \<lparr>cl_Name := Some (RC_DisplayName spec),
             cl_ProductID := Some ''rosa'',
             cl_HypershiftEnabled := Some (RC_HostedControlPlane spec),
             cl_DisableUserWorkloadMonitoring := Some (RC_DisableUserWorkloadMonitoring spec),
             cl_Properties := Some (fmap_of_list
               [(rosaPropertyUserRole, UserRole (RC_IAM spec)),
                (rosaPropertyProvisioner, ''ocm-operator'')]),
             cl_Version := Some \<lparr>ver_ID = Some versionID, ver_RawID = None\<rparr>,
             cl_MultiAZ := Some (RC_MultiAZ spec),
             cl_RegionID := Some (RC_Region spec),
             cl_FIPS := Some (RC_EnableFIPS spec),
             cl_EtcdEncryption := Some (ETCD_Key (RC_Encryption spec) \<noteq> '''')\<rparr>;
          b1 = (if RC_AdditionalTrustBundle spec \<noteq> ''''
                then b0\<lparr>cl_AdditionalTrustBundle := Some (RC_AdditionalTrustBundle spec)\<rparr> else b0);
          b2 = (if HasProxy c then b1\<lparr>cl_Proxy := BuildProxy c\<rparr> else b1)
      in b2\<lparr>cl_AWS := Some (BuildAWS c oidcConfig),
            cl_Nodes := Some (BuildClusterNodes unique c availabilityZones),
            cl_Network := Some (BuildNetwork c)\<rparr>)"

section \<open>From OCM\<close>

text \<open>
  The counts of the default machine pool: the two replica counts of an autoscaled cluster are
  divided by its zones, the compute count of another one is taken as it is.
\<close>

definition copy_counts ::
    "ROSACluster \<Rightarrow> ocm_cluster \<Rightarrow> DefaultMachinePoolFields \<Rightarrow> DefaultMachinePoolFields outcome" where
  "copy_counts c source pool =
     (let auto = sub nodes_AutoscaleCompute (cl_Nodes source) in
      if attr 0 as_MaxReplicas auto > 0
      then outcome_bind (go_div (attr 0 as_MinReplicas auto) (GetAvailabilityZoneCount c)) (\<lambda>mn.
           outcome_bind (go_div (attr 0 as_MaxReplicas auto) (GetAvailabilityZoneCount c)) (\<lambda>mx.
             Ret (pool\<lparr>MinimumNodesPerZone := mn, MaximumNodesPerZone := mx\<rparr>)))
      else Ret (pool\<lparr>MinimumNodesPerZone := attr 0 nodes_Compute (cl_Nodes source)\<rparr>))"

definition RC_CopyFrom :: "ROSACluster \<Rightarrow> ocm_cluster \<Rightarrow> ROSACluster outcome" where
  "RC_CopyFrom c source =
     (let s = Some source; aws = cl_AWS source; nodes = cl_Nodes source; net = cl_Network source;
          proxy = cl_Proxy source;
          spec1 = (RC_Spec c)
            \<lparr>RC_HostedControlPlane := attr False cl_HypershiftEnabled s,
             RC_OpenShiftVersion := attr '''' ver_RawID (cl_Version source),
             RC_DisableUserWorkloadMonitoring := attr False cl_DisableUserWorkloadMonitoring s,
             RC_AccountID := attr '''' aws_AccountID aws,
             RC_MultiAZ := attr False cl_MultiAZ s,
             RC_Region := attr '''' cl_RegionID s,
             RC_Tags := sub aws_Tags aws,
             RC_EnableFIPS := attr False cl_FIPS s,
             RC_Encryption := \<lparr>ETCD_Key = attr '''' aws_EtcdKMSKeyARN aws,
                               EBS_Key = attr '''' aws_KMSKeyArn aws\<rparr>,
             RC_AdditionalTrustBundle := attr '''' cl_AdditionalTrustBundle s\<rparr>;
          pool1 = (RC_DefaultMachinePool spec1)
            \<lparr>InstanceType := attr '''' nodes_ComputeMachineType nodes,
             Labels := sub nodes_ComputeLabels nodes\<rparr>
      in outcome_bind (copy_counts (c\<lparr>RC_Spec := spec1\<rparr>) source pool1) (\<lambda>pool2.
         outcome_bind (getAccountRolesPrefix source) (\<lambda>prefix.
           Ret (c\<lparr>RC_Spec := spec1
             \<lparr>RC_DefaultMachinePool := pool2,
              RC_Network := \<lparr>PrivateLink = attr False aws_PrivateLink aws,
                Proxy = \<lparr>HTTPProxy = attr '''' proxy_HTTPProxy proxy,
                         HTTPSProxy = attr '''' proxy_HTTPSProxy proxy,
                         NoProxy = attr '''' proxy_NoProxy proxy\<rparr>,
                Subnets = sub aws_SubnetIDs aws,
                ServiceCIDR = attr '''' net_ServiceCIDR net,
                PodCIDR = attr '''' net_PodCIDR net,
                MachineCIDR = attr '''' net_MachineCIDR net,
                HostPrefix = attr 0 net_HostPrefix net\<rparr>,
              RC_IAM := (RC_IAM spec1)
                \<lparr>UserRole := map_get (cl_Properties source) rosaPropertyUserRole,
                 OperatorRolesPrefix := attr '''' sts_OperatorRolePrefix (sub aws_STS aws),
                 AccountRolesPrefix := prefix\<rparr>\<rparr>\<rparr>))))"

section \<open>What OCM returns\<close>





section \<open>Lemmas\<close>

lemma zone_count_cases: "GetAvailabilityZoneCount c = 1 \<or> GetAvailabilityZoneCount c = 3"
  by (simp add: GetAvailabilityZoneCount_def rosaSingleAZCount_def rosaMultiAZCount_def)

lemma zone_count_pos [simp]: "GetAvailabilityZoneCount c > 0" "GetAvailabilityZoneCount c \<noteq> 0"
  using zone_count_cases [of c] by auto


lemma copy_counts_Ret: "\<exists>p. copy_counts c s pool = Ret p"
  by (simp add: copy_counts_def go_div_def Let_def)

lemma copy_counts_not_Panic: "copy_counts c s pool \<noteq> Panic e"
  by (metis copy_counts_Ret outcome.distinct(1))


lemma BuildAWS_attrs:
  "attr '''' aws_AccountID (Some (BuildAWS c oi)) = RC_AccountID (RC_Spec c)"
  "attr '''' aws_EtcdKMSKeyARN (Some (BuildAWS c oi)) = ETCD_Key (RC_Encryption (RC_Spec c))"
  "attr '''' aws_KMSKeyArn (Some (BuildAWS c oi)) = EBS_Key (RC_Encryption (RC_Spec c))"
  "attr False aws_PrivateLink (Some (BuildAWS c oi)) = PrivateLink (RC_Network (RC_Spec c))"
  "attr '''' sts_OperatorRolePrefix (aws_STS (BuildAWS c oi)) = OperatorRolesPrefix (RC_IAM (RC_Spec c))"
  "attr '''' sts_RoleARN (aws_STS (BuildAWS c oi)) = GetInstallerRole c"
  "Subnets (RC_Network (RC_Spec c)) \<noteq> Some [] \<Longrightarrow>
     aws_SubnetIDs (BuildAWS c oi) = Subnets (RC_Network (RC_Spec c))"
  by (auto simp: BuildAWS_def empty_aws_def HasSubnets_def Let_def split: option.splits)

lemma BuildClusterNodes_attrs:
  "attr '''' nodes_ComputeMachineType (Some (BuildClusterNodes u c z)) =
     InstanceType (RC_DefaultMachinePool (RC_Spec c))"
  "Labels (RC_DefaultMachinePool (RC_Spec c)) \<noteq> Some fmempty \<Longrightarrow>
     nodes_ComputeLabels (BuildClusterNodes u c z) = Labels (RC_DefaultMachinePool (RC_Spec c))"
  "nodes_AutoscaleCompute (BuildClusterNodes u c z) =
     (if MaximumNodesPerZone (RC_DefaultMachinePool (RC_Spec c)) > 0
      then Some \<lparr>as_MinReplicas = Some (GetMachinePoolMinimumNodes c),
                 as_MaxReplicas = Some (GetMachinePoolMaximumNodes c)\<rparr> else None)"
  "nodes_Compute (BuildClusterNodes u c z) =
     (if MaximumNodesPerZone (RC_DefaultMachinePool (RC_Spec c)) > 0 then None
      else Some (GetMachinePoolMinimumNodes c))"
  by (auto simp: BuildClusterNodes_def empty_nodes_def map_len_pos_def Let_def split: option.splits)

lemma RC_Builder_attrs:
  fixes c u oi v z
  defines "b \<equiv> RC_Builder u c oi v z"
  shows "cl_AWS b = Some (BuildAWS c oi)"
    and "cl_Nodes b = Some (BuildClusterNodes u c z)"
    and "cl_Network b = Some (BuildNetwork c)"
    and "cl_Proxy b = (if HasProxy c then BuildProxy c else None)"
    and "attr False cl_HypershiftEnabled (Some b) = RC_HostedControlPlane (RC_Spec c)"
    and "attr False cl_DisableUserWorkloadMonitoring (Some b) = RC_DisableUserWorkloadMonitoring (RC_Spec c)"
    and "attr False cl_MultiAZ (Some b) = RC_MultiAZ (RC_Spec c)"
    and "attr '''' cl_RegionID (Some b) = RC_Region (RC_Spec c)"
    and "attr False cl_FIPS (Some b) = RC_EnableFIPS (RC_Spec c)"
    and "attr '''' cl_AdditionalTrustBundle (Some b) = RC_AdditionalTrustBundle (RC_Spec c)"
    and "map_get (cl_Properties b) rosaPropertyUserRole = UserRole (RC_IAM (RC_Spec c))"
  unfolding b_def
  by (simp_all add: RC_Builder_def empty_cluster_def Let_def fmlookup_of_list)

lemma installer_role_split:
  assumes "CHR ''/'' \<notin> set (RC_AccountID (RC_Spec c))"
    and "CHR ''/'' \<notin> set (AccountRolesPrefix (RC_IAM (RC_Spec c)))"
  shows "strings_Split (GetInstallerRole c) (CHR ''/'') =
    [''arn:aws:iam::'' @ RC_AccountID (RC_Spec c) @ '':role'',
     AccountRolesPrefix (RC_IAM (RC_Spec c)) @ ''-Installer-Role'']"
proof -
  let ?x = "''arn:aws:iam::'' @ RC_AccountID (RC_Spec c) @ '':role''"
  let ?y = "AccountRolesPrefix (RC_IAM (RC_Spec c)) @ ''-Installer-Role''"
  have "GetInstallerRole c = ?x @ CHR ''/'' # ?y"
    by (simp add: GetInstallerRole_def getIAMRoleName_def)
  moreover from assms have "CHR ''/'' \<notin> set ?x" "CHR ''/'' \<notin> set ?y" by simp_all
  ultimately show ?thesis by (metis strings_Split_append strings_Split_free)
qed

lemma hd_Split_dash: "hd (strings_Split (p @ CHR ''-'' # q) (CHR ''-'')) = takeWhile (\<lambda>x. x \<noteq> CHR ''-'') p"
  by (induction p) (auto split: list.splits)

lemma account_prefix_of_builder:
  assumes "CHR ''/'' \<notin> set (RC_AccountID (RC_Spec c))"
    and "CHR ''/'' \<notin> set (AccountRolesPrefix (RC_IAM (RC_Spec c)))"
    and "attr '''' sts_RoleARN (sub aws_STS (cl_AWS s)) = GetInstallerRole c"
  shows "getAccountRolesPrefix s =
    Ret (takeWhile (\<lambda>x. x \<noteq> CHR ''-'') (AccountRolesPrefix (RC_IAM (RC_Spec c))))"
  using assms hd_Split_dash [of "AccountRolesPrefix (RC_IAM (RC_Spec c))" "''Installer-Role''"]
  by (simp add: getAccountRolesPrefix_def installer_role_split go_index_def flip: hd_conv_nth)

lemma strings_Split_length: "length (strings_Split s d) \<ge> 2 \<longleftrightarrow> d \<in> set s"
proof (induction s)
  case (Cons c s)
  then show ?case by (cases "strings_Split s d") (auto simp: Suc_le_eq)
qed simp






section \<open>Properties\<close>


definition example_rosa :: ROSACluster where
  "example_rosa = zero_ROSACluster\<lparr>Kind := ''ROSACluster'', Group := ''ocm.mobb.redhat.com'',
     Version := ''v1alpha1'', Name := ''prod'', Namespace := ''ocm'', Generation := 1, CreationTimestamp := 1,
     RC_Spec := zero_ROSASpec\<lparr>RC_DisplayName := ''prod'', RC_AccountID := ''111122223333'',
       RC_OpenShiftVersion := ''4.12.15'', RC_MultiAZ := True, RC_Region := ''us-east-1'',
       RC_DefaultMachinePool := \<lparr>MinimumNodesPerZone = 1, MaximumNodesPerZone = 2,
         InstanceType = ''m5.xlarge'', Labels = None\<rparr>,
       RC_IAM := \<lparr>EnableManagedPolicies = False, OperatorRolesPrefix = ''prod-abc'',
         AccountRolesPrefix = ''ManagedOpenShift'', UserRole = ''arn:aws:iam::111122223333:role/u''\<rparr>\<rparr>\<rparr>"


lemma RC_CopyFrom_Panic_iff:
  "(\<exists>e. RC_CopyFrom c s = Panic e) \<longleftrightarrow> (\<exists>e. getAccountRolesPrefix s = Panic e)"
  using copy_counts_Ret [of _ s]
  by (auto simp: RC_CopyFrom_def Let_def outcome_bind_Panic_iff dest: copy_counts_not_Panic [THEN notE])

lemma RC_CopyFrom_Panic_iff_slash:
  "(\<exists>e. RC_CopyFrom c s = Panic e) \<longleftrightarrow>
     CHR ''/'' \<notin> set (attr '''' sts_RoleARN (sub aws_STS (cl_AWS s)))"
proof -
  let ?l = "strings_Split (attr '''' sts_RoleARN (sub aws_STS (cl_AWS s))) (CHR ''/'')"
  have "(\<exists>e. getAccountRolesPrefix s = Panic e) \<longleftrightarrow> \<not> 1 < length ?l"
    by (simp add: getAccountRolesPrefix_def outcome_bind_Panic_iff go_index_def)
  also have "\<dots> \<longleftrightarrow> CHR ''/'' \<notin> set (attr '''' sts_RoleARN (sub aws_STS (cl_AWS s)))"
    unfolding strings_Split_length [symmetric] by arith
  finally show ?thesis by (simp only: RC_CopyFrom_Panic_iff)
qed

lemma example_copies:
  "\<exists>cur. RC_CopyFrom zero_ROSACluster (RC_Builder remdups (example_rosa\<lparr>RC_Spec := f (RC_Spec example_rosa)\<rparr>)
     None ''v'' []) = Ret cur"
proof -
  let ?c = "example_rosa\<lparr>RC_Spec := f (RC_Spec example_rosa)\<rparr>"
  let ?s = "RC_Builder remdups ?c None ''v'' []"
  have "CHR ''/'' \<in> set (attr '''' sts_RoleARN (sub aws_STS (cl_AWS ?s)))"
    by (simp add: RC_Builder_attrs BuildAWS_attrs(6) GetInstallerRole_def getIAMRoleName_def del: attr_simps)
  then have "RC_CopyFrom zero_ROSACluster ?s \<noteq> Panic e" for e
    using RC_CopyFrom_Panic_iff_slash [of zero_ROSACluster ?s] by blast
  moreover have "RC_CopyFrom zero_ROSACluster ?s \<noteq> Diverge"
    by (simp add: RC_CopyFrom_def Let_def outcome_bind_Diverge_iff copy_counts_def getAccountRolesPrefix_def)
  ultimately show ?thesis by (metis outcome.exhaust)
qed

text \<open>
  The copy keeps of the account role prefix only what precedes its first dash, so a prefix
  with a dash never equals the desired one, whatever the rest of the OCM cluster is.
\<close>

lemma account_prefix_cut:
  assumes "CHR ''/'' \<notin> set (RC_AccountID (RC_Spec c))"
    and "CHR ''/'' \<notin> set (AccountRolesPrefix (RC_IAM (RC_Spec c)))"
    and "attr '''' sts_RoleARN (sub aws_STS (cl_AWS s)) = GetInstallerRole c"
    and "RC_CopyFrom seed s = Ret cur"
  shows "AccountRolesPrefix (RC_IAM (RC_Spec cur)) =
      takeWhile (\<lambda>x. x \<noteq> CHR ''-'') (AccountRolesPrefix (RC_IAM (RC_Spec c))) \<and>
    (AccountRolesPrefix (RC_IAM (RC_Spec cur)) = AccountRolesPrefix (RC_IAM (RC_Spec c)) \<longleftrightarrow>
     CHR ''-'' \<notin> set (AccountRolesPrefix (RC_IAM (RC_Spec c))))"
proof -
  from assms(4) account_prefix_of_builder [OF assms(1-3)]
  have "AccountRolesPrefix (RC_IAM (RC_Spec cur)) =
      takeWhile (\<lambda>x. x \<noteq> CHR ''-'') (AccountRolesPrefix (RC_IAM (RC_Spec c)))"
    by (auto simp: RC_CopyFrom_def Let_def outcome_bind_Ret_iff)
  then show ?thesis by (auto simp: takeWhile_eq_all_conv)
qed

text \<open>
  C37: copying a cluster from OCM panics exactly when the installer role ARN that OCM reports has no
  slash, as it does for a cluster without STS; the division by the zone count never panics.
\<close>

theorem rosa_copy_panics_iff:
  "(\<exists>e. RC_CopyFrom c s = Panic e) \<longleftrightarrow>
     CHR ''/'' \<notin> set (attr '''' sts_RoleARN (sub aws_STS (cl_AWS s)))"
  by (rule RC_CopyFrom_Panic_iff_slash)

text \<open>
  C38: for a multi-zone cluster without autoscaling the builder asks for three times the minimum
  per zone and the copy does not divide by three, so the copied minimum is three times the
  requested one and the cluster never equals its desired state.
\<close>

theorem rosa_compute_drift:
  assumes "\<not> RC_HostedControlPlane (RC_Spec c)" and "RC_MultiAZ (RC_Spec c)"
    and "MaximumNodesPerZone (RC_DefaultMachinePool (RC_Spec c)) = 0"
    and "int64 (3 * MinimumNodesPerZone (RC_DefaultMachinePool (RC_Spec c)))"
    and "cl_Nodes s = Some (BuildClusterNodes u c azs)" and "RC_CopyFrom seed s = Ret cur"
  shows "MinimumNodesPerZone (RC_DefaultMachinePool (RC_Spec cur)) =
    3 * MinimumNodesPerZone (RC_DefaultMachinePool (RC_Spec c))"
proof -
  have "attr 0 nodes_Compute (cl_Nodes s) = 3 * MinimumNodesPerZone (RC_DefaultMachinePool (RC_Spec c))"
    "attr 0 as_MaxReplicas (sub nodes_AutoscaleCompute (cl_Nodes s)) = 0"
    using assms by (simp_all add: BuildClusterNodes_attrs GetMachinePoolMinimumNodes_def
        GetAvailabilityZoneCount_def rosaMultiAZCount_def mult.commute)
  with assms(6) show ?thesis
    by (auto simp: RC_CopyFrom_def Let_def outcome_bind_Ret_iff copy_counts_def)
qed

theorem rosa_compute_drift_witness:
  "\<exists>cur. RC_CopyFrom zero_ROSACluster (RC_Builder remdups
      (example_rosa\<lparr>RC_Spec := (RC_Spec example_rosa)\<lparr>RC_DefaultMachinePool :=
        (RC_DefaultMachinePool (RC_Spec example_rosa))\<lparr>MaximumNodesPerZone := 0\<rparr>\<rparr>\<rparr>) None ''v'' []) = Ret cur \<and>
    MinimumNodesPerZone (RC_DefaultMachinePool (RC_Spec cur)) = 3"
proof -
  let ?c = "example_rosa\<lparr>RC_Spec := (RC_Spec example_rosa)\<lparr>RC_DefaultMachinePool :=
        (RC_DefaultMachinePool (RC_Spec example_rosa))\<lparr>MaximumNodesPerZone := 0\<rparr>\<rparr>\<rparr>"
  obtain cur where cur: "RC_CopyFrom zero_ROSACluster (RC_Builder remdups ?c None ''v'' []) = Ret cur"
    using example_copies [of "\<lambda>s. s\<lparr>RC_DefaultMachinePool := (RC_DefaultMachinePool (RC_Spec example_rosa))\<lparr>MaximumNodesPerZone := 0\<rparr>\<rparr>"] by blast
  have "MinimumNodesPerZone (RC_DefaultMachinePool (RC_Spec cur)) = 3"
    using rosa_compute_drift [OF _ _ _ _ RC_Builder_attrs(2) cur]
    by (simp add: example_rosa_def zero_ROSASpec_def int64_def)
  with cur show ?thesis by blast
qed

end
