(* ===== verification/Services.thy ===== *)
theory Services
  imports MachinePool_Types IdentityProvider_Types ROSACluster_Types
begin

text \<open>
  The outside of the operator. Every call that leaves the process (the Kubernetes API server, the
  event recorder, OpenShift Cluster Manager, AWS, an HTTP endpoint) is a constructor of \<open>call\<close> with
  its arguments, and is appended to the history in the \<open>world\<close> when it is made. What the other
  side answers is not under \<^verbatim>\<open>src/\<close>: it is a parameter, a function of the history so far and of the
  arguments, collected in the records \<open>kube_api\<close>, \<open>ocm_api\<close> and \<open>aws_api\<close>. An answer that depends
  on the history can model any server, also one that other clients change in between. The pure
  functions of third-party packages are the record \<open>libs\<close>.

  \<open>'o\<close> is the type of the custom resource that the controller reconciles.

  A request (\<open>MachinePoolRequest\<close> and its siblings) is the record \<open>request\<close>, extended by each
  controller. It carries the world, so a phase is a program over the request.
\<close>

section \<open>Calls\<close>

datatype 'o call =
    KGet string string
  | KPatch 'o 'o
  | KStatusPatch 'o 'o
  | KSecretGet string string
  | KConfigMapGet string string
  | KListNodes go_map
  | KListMachinePools
  | KListLDAPs
  | KListGitLabs
  | KEvent string string string
  | ClusterSearch string
  | ClusterGet string
  | ClusterAdd ocm_cluster
  | ClusterUpdate string ocm_cluster
  | ClusterDelete string
  | MachinePoolGet string string
  | MachinePoolAdd string ocm_machine_pool
  | MachinePoolUpdate string string ocm_machine_pool
  | MachinePoolDelete string string
  | NodePoolGet string string
  | NodePoolAdd string ocm_node_pool
  | NodePoolUpdate string string ocm_node_pool
  | NodePoolDelete string string
  | IdpList string
  | IdpGet string string
  | IdpAdd string ocm_idp
  | IdpUpdate string string ocm_idp
  | IdpDelete string string
  | OidcGet string
  | OidcAdd ocm_oidc_config
  | OidcDelete string
  | VersionsSearch string
  | VersionsPage string int int
  | StsCredentialRequests bool
  | StsPolicies string
  | AwsNewClient string
  | AwsSubnetZone string string
  | AwsCreateOIDC string string string
  | AwsDeleteOIDC string string
  | AwsEnsurePolicy string string string string go_map
  | AwsEnsureRole string string string go_map bool
  | AwsAttachRolePolicy string string string
  | AwsGetOperatorRoles string string "(string, ocm_sts_operator option) fmap"
  | AwsDeleteOperatorRole string string bool
  | HttpGet string
  | StartTimers
  | SelectTimer

type_synonym 'o hist = "'o call list"

text \<open>
  \<open>KPatch base obj\<close> and \<open>KStatusPatch base obj\<close> are \<open>Patch(ctx, obj, client.MergeFrom(base))\<close> on the
  object and on its status subresource. The first argument of an AWS call is the region of the
  client it goes through. \<open>aws_client\<close> is the field \<open>AWSClient\<close> of the ROSA controller, by its region.
\<close>

record 'o world =
  calls :: "'o hist"
  aws_client :: "string option"

section \<open>Answers\<close>

text \<open>A successful patch returns the server's object, which controller-runtime decodes into \<open>obj\<close>.\<close>

record 'o kube_api =
  kube_Now :: "'o hist \<Rightarrow> int"
  kube_Get :: "'o hist \<Rightarrow> string \<Rightarrow> string \<Rightarrow> go_error + 'o"
  kube_Patch :: "'o hist \<Rightarrow> 'o \<Rightarrow> 'o \<Rightarrow> go_error + 'o"
  kube_StatusPatch :: "'o hist \<Rightarrow> 'o \<Rightarrow> 'o \<Rightarrow> go_error + 'o"
  kube_Secret :: "'o hist \<Rightarrow> string \<Rightarrow> string \<Rightarrow> go_error + go_map"
  kube_ConfigMap :: "'o hist \<Rightarrow> string \<Rightarrow> string \<Rightarrow> go_error + go_map"
  kube_Nodes :: "'o hist \<Rightarrow> go_map \<Rightarrow> go_error + node list"
  kube_MachinePools :: "'o hist \<Rightarrow> go_error + MachinePool list"
  kube_LDAPs :: "'o hist \<Rightarrow> go_error + LDAPIdentityProvider list"
  kube_GitLabs :: "'o hist \<Rightarrow> go_error + GitLabIdentityProvider list"

record 'o ocm_api =
  ocm_ClusterSearch :: "'o hist \<Rightarrow> string \<Rightarrow> ocm_cluster list sdk_response"
  ocm_ClusterGet :: "'o hist \<Rightarrow> string \<Rightarrow> ocm_cluster sdk_response"
  ocm_ClusterAdd :: "'o hist \<Rightarrow> ocm_cluster \<Rightarrow> ocm_cluster sdk_response"
  ocm_ClusterUpdate :: "'o hist \<Rightarrow> string \<Rightarrow> ocm_cluster \<Rightarrow> ocm_cluster sdk_response"
  ocm_ClusterDelete :: "'o hist \<Rightarrow> string \<Rightarrow> unit sdk_response"
  ocm_MachinePoolGet :: "'o hist \<Rightarrow> string \<Rightarrow> string \<Rightarrow> ocm_machine_pool sdk_response"
  ocm_MachinePoolAdd :: "'o hist \<Rightarrow> string \<Rightarrow> ocm_machine_pool \<Rightarrow> ocm_machine_pool sdk_response"
  ocm_MachinePoolUpdate :: "'o hist \<Rightarrow> string \<Rightarrow> string \<Rightarrow> ocm_machine_pool \<Rightarrow> ocm_machine_pool sdk_response"
  ocm_MachinePoolDelete :: "'o hist \<Rightarrow> string \<Rightarrow> string \<Rightarrow> unit sdk_response"
  ocm_NodePoolGet :: "'o hist \<Rightarrow> string \<Rightarrow> string \<Rightarrow> ocm_node_pool sdk_response"
  ocm_NodePoolAdd :: "'o hist \<Rightarrow> string \<Rightarrow> ocm_node_pool \<Rightarrow> ocm_node_pool sdk_response"
  ocm_NodePoolUpdate :: "'o hist \<Rightarrow> string \<Rightarrow> string \<Rightarrow> ocm_node_pool \<Rightarrow> ocm_node_pool sdk_response"
  ocm_NodePoolDelete :: "'o hist \<Rightarrow> string \<Rightarrow> string \<Rightarrow> unit sdk_response"

record 'o ocm_more =
  ocm_IdpList :: "'o hist \<Rightarrow> string \<Rightarrow> ocm_idp list sdk_response"
  ocm_IdpGet :: "'o hist \<Rightarrow> string \<Rightarrow> string \<Rightarrow> ocm_idp sdk_response"
  ocm_IdpAdd :: "'o hist \<Rightarrow> string \<Rightarrow> ocm_idp \<Rightarrow> ocm_idp sdk_response"
  ocm_IdpUpdate :: "'o hist \<Rightarrow> string \<Rightarrow> string \<Rightarrow> ocm_idp \<Rightarrow> ocm_idp sdk_response"
  ocm_IdpDelete :: "'o hist \<Rightarrow> string \<Rightarrow> string \<Rightarrow> unit sdk_response"
  ocm_OidcGet :: "'o hist \<Rightarrow> string \<Rightarrow> ocm_oidc_config sdk_response"
  ocm_OidcAdd :: "'o hist \<Rightarrow> ocm_oidc_config \<Rightarrow> ocm_oidc_config sdk_response"
  ocm_OidcDelete :: "'o hist \<Rightarrow> string \<Rightarrow> unit sdk_response"
  ocm_VersionsSearch :: "'o hist \<Rightarrow> string \<Rightarrow> ocm_version list sdk_response"
  ocm_VersionsPage :: "'o hist \<Rightarrow> string \<Rightarrow> int \<Rightarrow> int \<Rightarrow> (ocm_version list \<times> int) sdk_response"
  ocm_CredentialRequests :: "'o hist \<Rightarrow> bool \<Rightarrow> ocm_credential_request list sdk_response"
  ocm_Policies :: "'o hist \<Rightarrow> string \<Rightarrow> ocm_sts_policy list sdk_response"

text \<open>
  A page of versions comes with the size that the response reports. A peer certificate of an HTTPS
  response is given by its bytes, its CA bit and whether issuer and subject are the same bytes.
\<close>

record certificate =
  cert_Raw :: string
  cert_IsCA :: bool
  cert_SelfIssued :: bool

record 'o aws_api =
  aws_NewClient :: "'o hist \<Rightarrow> string \<Rightarrow> go_error option"
  aws_GetSubnetAvailabilityZone :: "'o hist \<Rightarrow> string \<Rightarrow> string \<Rightarrow> go_error + string"
  aws_CreateOpenIDConnectProvider :: "'o hist \<Rightarrow> string \<Rightarrow> string \<Rightarrow> string \<Rightarrow> go_error + string"
  aws_DeleteOpenIDConnectProvider :: "'o hist \<Rightarrow> string \<Rightarrow> string \<Rightarrow> go_error option"
  aws_EnsurePolicy :: "'o hist \<Rightarrow> string \<Rightarrow> string \<Rightarrow> string \<Rightarrow> string \<Rightarrow> go_map \<Rightarrow> go_error + string"
  aws_EnsureRole :: "'o hist \<Rightarrow> string \<Rightarrow> string \<Rightarrow> string \<Rightarrow> go_map \<Rightarrow> bool \<Rightarrow> go_error + string"
  aws_AttachRolePolicy :: "'o hist \<Rightarrow> string \<Rightarrow> string \<Rightarrow> string \<Rightarrow> go_error option"
  aws_GetOperatorRoles ::
    "'o hist \<Rightarrow> string \<Rightarrow> string \<Rightarrow> (string, ocm_sts_operator option) fmap \<Rightarrow> go_error + string list"
  aws_DeleteOperatorRole :: "'o hist \<Rightarrow> string \<Rightarrow> string \<Rightarrow> bool \<Rightarrow> go_error option"
  http_Get :: "'o hist \<Rightarrow> string \<Rightarrow> (go_error + certificate list option) option"
  select_timeout :: "'o hist \<Rightarrow> bool"
  rand_Int :: "'o hist \<Rightarrow> nat \<Rightarrow> nat \<Rightarrow> go_error + nat"

text \<open>
  \<open>select_timeout\<close> is the case that \<open>select\<close> takes, the timeout or the ticker. Go takes any of the
  cases that are ready, so it is an arbitrary function of the history: every sequence of choices is
  one of these functions. Each choice is recorded as a call \<open>SelectTimer\<close>, and \<open>StartTimers\<close>
  records that a new ticker and a new timeout were made. \<open>http_Get\<close> is an error, or the chain that the
  server presents, which is missing if the client was redirected to a plain connection; or \<open>None\<close> for a
  request that never returns: the client of \<open>http.Get\<close> has no timeout.
  \<open>rand_Int h i n\<close> is the \<open>i\<close>-th random number below \<open>n\<close> drawn after the history \<open>h\<close>.

  The third-party functions: \<open>list.Strings\<close> of go-utils, the finalizer functions of
  controller-runtime, the string of a group, version and kind, the SDK's \<open>Build\<close> methods, the
  helpers of the rosa packages, hashicorp's versions (by the raw identifiers that are parsed),
  \<open>url.ParseRequestURI\<close> (the host, if it parses) and SHA-1; and \<open>sort.Slice\<close>, whose result Go
  leaves open for elements that compare as equal.
\<close>

record libs =
  lib_Has :: "string list \<Rightarrow> string \<Rightarrow> bool"
  lib_Unique :: "string list \<Rightarrow> string list"
  lib_AddFinalizer :: "string list \<Rightarrow> string \<Rightarrow> string list"
  lib_RemoveFinalizer :: "string list \<Rightarrow> string \<Rightarrow> string list"
  lib_GVKString :: "string \<Rightarrow> string \<Rightarrow> string \<Rightarrow> string"
  lib_BuildCluster :: "ocm_cluster \<Rightarrow> go_error + ocm_cluster"
  lib_BuildMachinePool :: "ocm_machine_pool \<Rightarrow> go_error + ocm_machine_pool"
  lib_BuildNodePool :: "ocm_node_pool \<Rightarrow> go_error + ocm_node_pool"
  lib_BuildIdp :: "ocm_idp \<Rightarrow> go_error + ocm_idp"
  lib_BuildOidc :: "ocm_oidc_config \<Rightarrow> go_error + ocm_oidc_config"
  lib_BuildRole :: "string \<Rightarrow> string \<Rightarrow> string \<Rightarrow> go_error + string"

record rosa_libs =
  lib_GetPartition :: string
  lib_GetResourceIdFromARN :: "string \<Rightarrow> string \<times> go_error option"
  lib_GetOperatorPolicyKey :: "string \<Rightarrow> bool \<Rightarrow> string"
  lib_GetOperatorPolicyARN :: "string \<Rightarrow> string \<Rightarrow> string \<Rightarrow> string \<Rightarrow> string \<Rightarrow> string"
  lib_GenerateRolePolicy :: "string \<Rightarrow> string \<Rightarrow> ocm_sts_operator option \<Rightarrow> string \<Rightarrow> go_error + string"
  lib_tag_OperatorNamespace :: string
  lib_tag_OperatorName :: string
  lib_tag_RedHatManaged :: string
  lib_tag_RolePrefix :: string
  lib_tag_OpenShiftVersion :: string
  lib_tag_ManagedPolicies :: string
  lib_tag_HypershiftPolicies :: string
  lib_True :: string
  lib_NewVersion_ok :: "string \<Rightarrow> bool"
  lib_GreaterThan :: "string \<Rightarrow> string \<Rightarrow> bool"
  lib_sort_Slice :: "(ocm_version \<Rightarrow> ocm_version \<Rightarrow> bool) \<Rightarrow> ocm_version list \<Rightarrow> ocm_version list"
  lib_ParseHost :: "string \<Rightarrow> go_error + string"
  lib_sha1Hash :: "string \<Rightarrow> string"

record 'o services =
  Kube :: "'o kube_api"
  Ocm :: "'o ocm_api"
  Ocm2 :: "'o ocm_more"
  Aws :: "'o aws_api"
  Lib :: libs
  Rosa :: rosa_libs

section \<open>Making a call\<close>

definition invoke :: "'o call \<Rightarrow> ('o hist \<Rightarrow> 'a) \<Rightarrow> ('o world, 'a) state" where
  "invoke c ans = State (\<lambda>w. (ans (calls w), w\<lparr>calls := calls w @ [c]\<rparr>))"

section \<open>Requests\<close>

record 'o request =
  World :: "'o world"
  Original :: 'o
  Desired :: 'o
  Current :: "'o option"
  Trigger :: trigger

definition on_world :: "('o world, 'a) state \<Rightarrow> (('o, 'x) request_scheme, 'a) state" where
  "on_world m = State (\<lambda>r. (fst (run_state m (World r)), r\<lparr>World := snd (run_state m (World r))\<rparr>))"

section \<open>Lemmas\<close>

lemma run_state_invoke [simp]:
  "run_state (invoke c ans) w = (ans (calls w), w\<lparr>calls := calls w @ [c]\<rparr>)"
  by (simp add: invoke_def)

lemma wp_invoke [wp]: "wp (invoke c ans) Q w = Q (ans (calls w)) (w\<lparr>calls := calls w @ [c]\<rparr>)"
  by (simp add: wp_def)

lemma run_state_on_world [simp]:
  "run_state (on_world m) r = (fst (run_state m (World r)), r\<lparr>World := snd (run_state m (World r))\<rparr>)"
  by (simp add: on_world_def)

lemma wp_on_world [wp]: "wp (on_world m) Q r = wp m (\<lambda>a w. Q a (r\<lparr>World := w\<rparr>)) (World r)"
  by (simp add: wp_run)

lemma keeps_on_world [keeps]: "(\<And>r w. f (r\<lparr>World := w\<rparr>) = f r) \<Longrightarrow> keeps f (on_world m)"
  by (simp add: keeps_def)

section \<open>A sample environment\<close>

text \<open>
  An environment for concrete runs: a Kubernetes API that holds one object and echoes patches, an
  OCM account with one ready cluster and nothing else that accepts every change, an AWS account
  that accepts every call, and the third-party functions with their documented meaning on the
  inputs of the runs.
\<close>

definition sample_kube :: "'o \<Rightarrow> 'o kube_api" where
  "sample_kube obj = \<lparr>kube_Now = (\<lambda>h. int (length h)), kube_Get = (\<lambda>h ns n. Inr obj),
     kube_Patch = (\<lambda>h b p. Inr p), kube_StatusPatch = (\<lambda>h b p. Inr p),
     kube_Secret = (\<lambda>h ns n. Inr (Some (fmap_of_list [(LDAPBindPasswordKey, ''pw''), (GitLabClientSecretKey, ''cs'')]))),
     kube_ConfigMap = (\<lambda>h ns n. Inr (Some (fmap_of_list [(LDAPCAKey, ''ca'')]))),
     kube_Nodes = (\<lambda>h ls. Inr []), kube_MachinePools = (\<lambda>h. Inr []), kube_LDAPs = (\<lambda>h. Inr []),
     kube_GitLabs = (\<lambda>h. Inr [])\<rparr>"

definition sample_cluster :: ocm_cluster where
  "sample_cluster = empty_cluster\<lparr>cl_ID := Some ''c1'', cl_Name := Some ''prod'',
     cl_State := Some ClusterStateReady, cl_BaseDomain := Some ''example.com'',
     cl_AWS := Some (empty_aws\<lparr>aws_SubnetIDs := Some [''s1'']\<rparr>),
     cl_Nodes := Some (empty_nodes\<lparr>nodes_AvailabilityZones := Some [''a'', ''b'', ''c'']\<rparr>)\<rparr>"

definition sample_ocm :: "'o ocm_api" where
  "sample_ocm = \<lparr>ocm_ClusterSearch = (\<lambda>h f. sdk_ok [sample_cluster]),
     ocm_ClusterGet = (\<lambda>h i. sdk_ok sample_cluster), ocm_ClusterAdd = (\<lambda>h c. sdk_ok (c\<lparr>cl_ID := Some ''c1''\<rparr>)),
     ocm_ClusterUpdate = (\<lambda>h i c. sdk_ok c), ocm_ClusterDelete = (\<lambda>h i. sdk_ok ()),
     ocm_MachinePoolGet = (\<lambda>h c i. sdk_error 404 ''not found''), ocm_MachinePoolAdd = (\<lambda>h c p. sdk_ok p),
     ocm_MachinePoolUpdate = (\<lambda>h c i p. sdk_ok p), ocm_MachinePoolDelete = (\<lambda>h c i. sdk_ok ()),
     ocm_NodePoolGet = (\<lambda>h c i. sdk_error 404 ''not found''), ocm_NodePoolAdd = (\<lambda>h c p. sdk_ok p),
     ocm_NodePoolUpdate = (\<lambda>h c i p. sdk_ok p), ocm_NodePoolDelete = (\<lambda>h c i. sdk_ok ())\<rparr>"

definition sample_ocm2 :: "'o ocm_more" where
  "sample_ocm2 = \<lparr>ocm_IdpList = (\<lambda>h c. sdk_ok []), ocm_IdpGet = (\<lambda>h c i. sdk_error 404 ''not found''),
     ocm_IdpAdd = (\<lambda>h c p. sdk_ok (p\<lparr>idp_ID := Some ''i1''\<rparr>)), ocm_IdpUpdate = (\<lambda>h c i p. sdk_ok p),
     ocm_IdpDelete = (\<lambda>h c i. sdk_ok ()),
     ocm_OidcGet = (\<lambda>h i. sdk_ok \<lparr>oidc_ID = Some i, oidc_IssuerUrl = Some ''https://issuer'', oidc_Managed = Some True\<rparr>),
     ocm_OidcAdd = (\<lambda>h x. sdk_ok (x\<lparr>oidc_ID := Some ''o1'', oidc_IssuerUrl := Some ''https://issuer''\<rparr>)),
     ocm_OidcDelete = (\<lambda>h i. sdk_ok ()),
     ocm_VersionsSearch = (\<lambda>h f. sdk_ok [\<lparr>ver_ID = Some ''openshift-v4.12.15'', ver_RawID = Some ''4.12.15''\<rparr>]),
     ocm_VersionsPage = (\<lambda>h f p n. sdk_ok ([\<lparr>ver_ID = Some ''openshift-v4.12.15'', ver_RawID = Some ''4.12.15''\<rparr>], 1)),
     ocm_CredentialRequests = (\<lambda>h b. sdk_ok [\<lparr>cr_Name = Some ''r1'',
       cr_Operator = Some \<lparr>op_Name = Some ''op'', op_Namespace = Some ''ns''\<rparr>\<rparr>]),
     ocm_Policies = (\<lambda>h f. sdk_ok [\<lparr>pol_ID = Some ''operator_iam_role_policy'', pol_ARN = None, pol_Details = Some ''{}''\<rparr>])\<rparr>"

definition sample_aws :: "'o aws_api" where
  "sample_aws = \<lparr>aws_NewClient = (\<lambda>h r. None), aws_GetSubnetAvailabilityZone = (\<lambda>h r s. Inr ''a''),
     aws_CreateOpenIDConnectProvider = (\<lambda>h r u t. Inr ''arn:oidc''),
     aws_DeleteOpenIDConnectProvider = (\<lambda>h r a. None), aws_EnsurePolicy = (\<lambda>h r a d v t. Inr a),
     aws_EnsureRole = (\<lambda>h r n p t m. Inr n), aws_AttachRolePolicy = (\<lambda>h r n a. None),
     aws_GetOperatorRoles = (\<lambda>h r p m. Inr [''role1'']), aws_DeleteOperatorRole = (\<lambda>h r n m. None),
     http_Get = (\<lambda>h u. Some (Inr (Some [\<lparr>cert_Raw = ''root'', cert_IsCA = True, cert_SelfIssued = True\<rparr>]))),
     select_timeout = (\<lambda>h. 10 \<le> length (filter (\<lambda>c. c = SelectTimer) (takeWhile (\<lambda>c. c \<noteq> StartTimers) (rev h)))),
     rand_Int = (\<lambda>h i n. Inr (i mod n))\<rparr>"

definition sample_libs :: libs where
  "sample_libs = \<lparr>lib_Has = (\<lambda>xs x. x \<in> set xs), lib_Unique = remdups,
     lib_AddFinalizer = (\<lambda>xs x. if x \<in> set xs then xs else xs @ [x]), lib_RemoveFinalizer = (\<lambda>xs x. removeAll x xs),
     lib_GVKString = (\<lambda>g v k. g @ ''/'' @ v @ '', Kind='' @ k), lib_BuildCluster = Inr, lib_BuildMachinePool = Inr,
     lib_BuildNodePool = Inr, lib_BuildIdp = Inr, lib_BuildOidc = Inr, lib_BuildRole = (\<lambda>n ns a. Inr a)\<rparr>"

fun newest_first :: "(ocm_version \<Rightarrow> ocm_version \<Rightarrow> bool) \<Rightarrow> ocm_version \<Rightarrow> ocm_version list \<Rightarrow> ocm_version list" where
  "newest_first lt x [] = [x]"
| "newest_first lt x (y # ys) = (if lt y x then y # newest_first lt x ys else x # y # ys)"

definition sample_rosa :: rosa_libs where
  "sample_rosa = \<lparr>lib_GetPartition = ''aws'', lib_GetResourceIdFromARN = (\<lambda>a. (last (strings_Split a (CHR ''/'')), None)),
     lib_GetOperatorPolicyKey = (\<lambda>i h. i), lib_GetOperatorPolicyARN = (\<lambda>a p ns n path. a @ p @ ns @ n),
     lib_GenerateRolePolicy = (\<lambda>u a op d. Inr d), lib_tag_OperatorNamespace = ''operator_namespace'',
     lib_tag_OperatorName = ''operator_name'', lib_tag_RedHatManaged = ''red-hat-managed'',
     lib_tag_RolePrefix = ''rosa_role_prefix'', lib_tag_OpenShiftVersion = ''rosa_openshift_version'',
     lib_tag_ManagedPolicies = ''rosa_managed_policies'', lib_tag_HypershiftPolicies = ''rosa_hcp_policies'',
     lib_True = ''true'', lib_NewVersion_ok = (\<lambda>v. True), lib_GreaterThan = (\<lambda>v w. length v > length w),
     lib_sort_Slice = (\<lambda>lt xs. foldr (newest_first lt) xs []),
     lib_ParseHost = (\<lambda>u. Inr u), lib_sha1Hash = (\<lambda>s. s)\<rparr>"

definition sample_services :: "'o \<Rightarrow> 'o services" where
  "sample_services obj = \<lparr>Kube = sample_kube obj, Ocm = sample_ocm, Ocm2 = sample_ocm2, Aws = sample_aws,
     Lib = sample_libs, Rosa = sample_rosa\<rparr>"

definition empty_world :: "'o world" where
  "empty_world = \<lparr>calls = [], aws_client = None\<rparr>"

lemmas sample_defs = sample_services_def sample_kube_def sample_ocm_def sample_ocm2_def sample_aws_def
  sample_libs_def sample_rosa_def sample_cluster_def empty_world_def sdk_ok_def sdk_error_def StatusNotFound_def

lemma sample_kube_simps [simp]:
  "kube_Get (Kube (sample_services obj)) h ns n = Inr obj"
  "kube_Patch (Kube (sample_services obj)) h b p = Inr p"
  "kube_StatusPatch (Kube (sample_services obj)) h b p = Inr p"
  "kube_Nodes (Kube (sample_services obj)) h ls = Inr []"
  "kube_MachinePools (Kube (sample_services obj)) h = Inr []"
  "kube_LDAPs (Kube (sample_services obj)) h = Inr []"
  "kube_GitLabs (Kube (sample_services obj)) h = Inr []"
  by (simp_all add: sample_services_def sample_kube_def)

lemma sample_ocm_simps [simp]:
  "Ocm (sample_services obj) = sample_ocm"
  "Ocm2 (sample_services obj) = sample_ocm2"
  "Aws (sample_services obj) = sample_aws"
  "Lib (sample_services obj) = sample_libs"
  "Rosa (sample_services obj) = sample_rosa"
  by (simp_all add: sample_services_def)

lemma sample_lib_simps [simp]:
  "lib_Has sample_libs xs x \<longleftrightarrow> x \<in> set xs"
  "lib_AddFinalizer sample_libs xs x = (if x \<in> set xs then xs else xs @ [x])"
  "lib_RemoveFinalizer sample_libs xs x = removeAll x xs"
  "lib_BuildCluster sample_libs c = Inr c"
  "lib_BuildMachinePool sample_libs m = Inr m"
  "lib_BuildNodePool sample_libs m' = Inr m'"
  "lib_BuildIdp sample_libs i = Inr i"
  "lib_BuildOidc sample_libs oc = Inr oc"
  by (simp_all add: sample_libs_def)

end
