(* ===== verification/Kubernetes.thy ===== *)
theory Kubernetes
  imports Services
begin

text \<open>
  The Kubernetes helpers: \<^verbatim>\<open>pkg/kubernetes\<close> (status patches, labelled nodes, secrets and config maps), the
  child queries of the custom resources (\<open>FindAll\<close>, \<open>FindAllByClusterID\<close>, \<open>ExistsForClusterID\<close> in
  \<^verbatim>\<open>api/v1alpha1\<close>) and the events (\<^verbatim>\<open>controllers/events\<close>).

  A Go function that returns a value and an error is a program that returns a sum, or a pair where
  its caller looks at the value of a failed call too. \<open>PatchStatus\<close> also returns the object, which Go
  updates through the pointer.

  The locale \<open>cluster_child\<close> is the interface \<open>workload.ClusterChild\<close>; it is interpreted for the three
  kinds of children.
\<close>

section \<open>Status patches\<close>

definition optimisticLockErrorMessage :: string where
  "optimisticLockErrorMessage =
     ''the object has been modified; please apply your changes to the latest version and try again''"

definition isOptimisticLockError :: "go_error \<Rightarrow> bool" where
  "isOptimisticLockError err = strings_Contains (error_msg err) optimisticLockErrorMessage"

definition PatchStatus :: "'o services \<Rightarrow> 'o \<Rightarrow> 'o \<Rightarrow> ('o world, 'o \<times> go_error option) state" where
  "PatchStatus E current patched = do {
     res \<leftarrow> invoke (KStatusPatch current patched) (\<lambda>h. kube_StatusPatch (Kube E) h current patched);
     State_Monad.return (case res of
         Inr obj \<Rightarrow> (obj, None)
       | Inl err \<Rightarrow> (if isOptimisticLockError err then (patched, None)
                    else (patched, Some (Wrap ''unable to patch status - '' err))))
   }"

section \<open>Nodes\<close>

definition nodeConditionReady :: string where
  "nodeConditionReady = ''Ready''"

definition GetLabeledNodes :: "'o services \<Rightarrow> go_map \<Rightarrow> ('o world, go_error + node list) state" where
  "GetLabeledNodes E nodeLabels = do {
     res \<leftarrow> invoke (KListNodes nodeLabels) (\<lambda>h. kube_Nodes (Kube E) h nodeLabels);
     State_Monad.return (case res of Inr nodes \<Rightarrow> Inr nodes
       | Inl err \<Rightarrow> Inl (Wrap ''error listing nodes - '' err))
   }"

fun node_not_ready :: "node \<Rightarrow> bool" where
  "node_not_ready [] = False"
| "node_not_ready (c # cs) =
     (if nc_Type c = nodeConditionReady \<and> nc_Status c = ''False'' then True else node_not_ready cs)"

fun nodes_loop :: "node list \<Rightarrow> bool" where
  "nodes_loop [] = True"
| "nodes_loop (n # ns) = (if node_not_ready n then False else nodes_loop ns)"

definition NodesAreReady :: "node list \<Rightarrow> bool" where
  "NodesAreReady nodes = (if length nodes < 1 then False else nodes_loop nodes)"

section \<open>Secrets and config maps\<close>

definition GetSecretData ::
    "'o services \<Rightarrow> string \<Rightarrow> string \<Rightarrow> string \<Rightarrow> ('o world, string \<times> go_error option) state" where
  "GetSecretData E name namespace key = do {
     res \<leftarrow> invoke (KSecretGet namespace name) (\<lambda>h. kube_Secret (Kube E) h namespace name);
     State_Monad.return (case res of
         Inl err \<Rightarrow> ('''', Some (Wrap (''unable to retrieve secret ['' @ namespace @ ''/'' @ name @
           ''] from cluster - '') err))
       | Inr data \<Rightarrow> (if data = None \<or> length (map_get data key) = 0 then ('''', None)
                     else (map_get data key, None)))
   }"

definition GetConfigMapData ::
    "'o services \<Rightarrow> string \<Rightarrow> string \<Rightarrow> string \<Rightarrow> ('o world, string \<times> go_error option) state" where
  "GetConfigMapData E name namespace key = do {
     res \<leftarrow> invoke (KConfigMapGet namespace name) (\<lambda>h. kube_ConfigMap (Kube E) h namespace name);
     State_Monad.return (case res of
         Inl err \<Rightarrow> ('''', Some (Wrap (''unable to retrieve configmap ['' @ namespace @ ''/'' @ name @
           ''] from cluster - '') err))
       | Inr data \<Rightarrow> (if data = None \<or> map_get data key = '''' then ('''', None)
                     else (map_get data key, None)))
   }"

section \<open>Events\<close>

datatype event = UnknownEvent | Created | Updated | Deleted

fun event_String :: "event \<Rightarrow> string" where
  "event_String UnknownEvent = ''Unknown''"
| "event_String Created = ''Created''"
| "event_String Updated = ''Updated''"
| "event_String Deleted = ''Deleted''"

fun event_Type :: "event \<Rightarrow> string" where
  "event_Type UnknownEvent = ''Unknown''"
| "event_Type Created = ''Normal''"
| "event_Type Updated = ''Normal''"
| "event_Type Deleted = ''Normal''"

definition quoted :: "string \<Rightarrow> string" where
  "quoted s = CHR 0x27 # s @ [CHR 0x27]"

definition event_reason :: "string \<Rightarrow> event \<Rightarrow> string" where
  "event_reason gvk event = gvk @ event_String event"

definition event_message :: "string \<Rightarrow> event \<Rightarrow> string \<Rightarrow> string \<Rightarrow> string" where
  "event_message gvk event name cluster =
     gvk @ '' '' @ event_String event @ '' '' @ quoted name @ '' for cluster '' @ quoted cluster"

definition RegisterAction ::
    "('a workload_scheme) services \<Rightarrow> event \<Rightarrow> 'a workload_scheme \<Rightarrow> string \<Rightarrow> string \<Rightarrow>
     (('a workload_scheme) world, unit) state" where
  "RegisterAction E event object name cluster =
     (let gvk = lib_GVKString (Lib E) (Group object) (Version object) (Kind object)
      in invoke (KEvent (event_Type event) (event_reason gvk event) (event_message gvk event name cluster)) (\<lambda>h. ()))"

section \<open>Children of a cluster\<close>

definition MachinePool_FindAll :: "'o services \<Rightarrow> ('o world, go_error + MachinePool list) state" where
  "MachinePool_FindAll E = do {
     res \<leftarrow> invoke KListMachinePools (\<lambda>h. kube_MachinePools (Kube E) h);
     State_Monad.return (case res of Inr objects \<Rightarrow> Inr objects
       | Inl err \<Rightarrow> Inl (Wrap ''unable to retrieve machine pools - '' err))
   }"

definition MachinePool_FindAllByClusterID ::
    "'o services \<Rightarrow> string \<Rightarrow> ('o world, go_error + MachinePool list) state" where
  "MachinePool_FindAllByClusterID E clusterID = do {
     res \<leftarrow> MachinePool_FindAll E;
     State_Monad.return (case res of Inl err \<Rightarrow> Inl err
       | Inr objects \<Rightarrow> Inr (filter (\<lambda>x. Status_ClusterID x = clusterID) objects))
   }"

definition MachinePool_ExistsForClusterID ::
    "'o services \<Rightarrow> string \<Rightarrow> ('o world, bool \<times> go_error option) state" where
  "MachinePool_ExistsForClusterID E clusterID = do {
     res \<leftarrow> MachinePool_FindAllByClusterID E clusterID;
     State_Monad.return (case res of Inl err \<Rightarrow> (False, Some err)
       | Inr objects \<Rightarrow> (length objects > 0, None))
   }"

definition LDAP_FindAll :: "'o services \<Rightarrow> ('o world, go_error + LDAPIdentityProvider list) state" where
  "LDAP_FindAll E = do {
     res \<leftarrow> invoke KListLDAPs (\<lambda>h. kube_LDAPs (Kube E) h);
     State_Monad.return (case res of Inr objects \<Rightarrow> Inr objects
       | Inl err \<Rightarrow> Inl (Wrap ''unable to retrieve ldap identity providers - '' err))
   }"

definition LDAP_FindAllByClusterID ::
    "'o services \<Rightarrow> string \<Rightarrow> ('o world, go_error + LDAPIdentityProvider list) state" where
  "LDAP_FindAllByClusterID E clusterID = do {
     res \<leftarrow> LDAP_FindAll E;
     State_Monad.return (case res of Inl err \<Rightarrow> Inl err
       | Inr objects \<Rightarrow> Inr (filter (\<lambda>x. Status_ClusterID x = clusterID) objects))
   }"

definition LDAP_ExistsForClusterID ::
    "'o services \<Rightarrow> string \<Rightarrow> ('o world, bool \<times> go_error option) state" where
  "LDAP_ExistsForClusterID E clusterID = do {
     res \<leftarrow> LDAP_FindAllByClusterID E clusterID;
     State_Monad.return (case res of Inl err \<Rightarrow> (False, Some err)
       | Inr objects \<Rightarrow> (length objects > 0, None))
   }"

definition GitLab_FindAll :: "'o services \<Rightarrow> ('o world, go_error + GitLabIdentityProvider list) state" where
  "GitLab_FindAll E = do {
     res \<leftarrow> invoke KListGitLabs (\<lambda>h. kube_GitLabs (Kube E) h);
     State_Monad.return (case res of Inr objects \<Rightarrow> Inr objects
       | Inl err \<Rightarrow> Inl (Wrap ''unable to retrieve gitlab identity providers - '' err))
   }"

definition GitLab_FindAllByClusterID ::
    "'o services \<Rightarrow> string \<Rightarrow> ('o world, go_error + GitLabIdentityProvider list) state" where
  "GitLab_FindAllByClusterID E clusterID = do {
     res \<leftarrow> GitLab_FindAll E;
     State_Monad.return (case res of Inl err \<Rightarrow> Inl err
       | Inr objects \<Rightarrow> Inr (filter (\<lambda>x. Status_ClusterID x = clusterID) objects))
   }"

definition GitLab_ExistsForClusterID ::
    "'o services \<Rightarrow> string \<Rightarrow> ('o world, bool \<times> go_error option) state" where
  "GitLab_ExistsForClusterID E clusterID = do {
     res \<leftarrow> GitLab_FindAllByClusterID E clusterID;
     State_Monad.return (case res of Inl err \<Rightarrow> (False, Some err)
       | Inr objects \<Rightarrow> (length objects > 0, None))
   }"

section \<open>Calls that a program makes\<close>

text \<open>
  \<open>emits h P m\<close>: whatever the state, the program \<open>m\<close> only appends to the history \<open>h\<close>, and only calls
  that satisfy \<open>P\<close>. The rules in the collection \<open>emits\<close> follow the structure of a program.
\<close>

named_theorems emits \<open>introduction rules for the calls that a program makes\<close>

definition emits :: "('s \<Rightarrow> 'c list) \<Rightarrow> ('c \<Rightarrow> bool) \<Rightarrow> ('s, 'a) state \<Rightarrow> bool" where
  "emits h P m \<longleftrightarrow> (\<forall>s. \<exists>cs. h (snd (run_state m s)) = h s @ cs \<and> list_all P cs)"

abbreviation req_calls :: "('o, 'x) request_scheme \<Rightarrow> 'o hist" where
  "req_calls r \<equiv> calls (World r)"

lemma emitsD: "emits h P m \<Longrightarrow> run_state m s = (a, t) \<Longrightarrow> \<exists>cs. h t = h s @ cs \<and> list_all P cs"
  unfolding emits_def by (metis snd_conv)

lemma emits_return [emits]: "emits h P (State_Monad.return a)"
  by (simp add: emits_def)

lemma emits_get [emits]: "emits h P State_Monad.get"
  by (simp add: emits_def)

lemma emits_asks [emits]: "emits h P (asks f)"
  by (simp add: emits_def)

lemma emits_modify [emits]: "(\<And>s. h (f s) = h s) \<Longrightarrow> emits h P (modify f)"
  by (simp add: emits_def)

lemma emits_bind [emits]:
  assumes "emits h P m" and "\<And>a. emits h P (f a)"
  shows "emits h P (State_Monad.bind m f)"
  unfolding emits_def
proof
  fix s
  obtain a t where m: "run_state m s = (a, t)" by fastforce
  obtain b u where f: "run_state (f a) t = (b, u)" by fastforce
  from emitsD [OF assms(1) m] emitsD [OF assms(2) f] m f
  show "\<exists>cs. h (snd (run_state (State_Monad.bind m f) s)) = h s @ cs \<and> list_all P cs" by auto
qed

lemma emits_if [emits]: "emits h P m \<Longrightarrow> emits h P n \<Longrightarrow> emits h P (if b then m else n)"
  by simp

lemma emits_case_option [emits]:
  "emits h P m \<Longrightarrow> (\<And>x. emits h P (f x)) \<Longrightarrow> emits h P (case y of None \<Rightarrow> m | Some x \<Rightarrow> f x)"
  by (cases y) auto

lemma emits_case_sum [emits]:
  "(\<And>x. emits h P (f x)) \<Longrightarrow> (\<And>x. emits h P (g x)) \<Longrightarrow> emits h P (case y of Inl x \<Rightarrow> f x | Inr x \<Rightarrow> g x)"
  by (cases y) auto

lemma emits_case_prod [emits]:
  "(\<And>x z. emits h P (f x z)) \<Longrightarrow> emits h P (case y of (x, z) \<Rightarrow> f x z)"
  by (cases y) auto

lemma emits_case_outcome [emits]:
  "(\<And>x. emits h P (f x)) \<Longrightarrow> (\<And>x. emits h P (g x)) \<Longrightarrow> emits h P d \<Longrightarrow>
   emits h P (case y of Ret x \<Rightarrow> f x | Panic x \<Rightarrow> g x | Diverge \<Rightarrow> d)"
  by (cases y) auto

lemma emits_invoke [emits]: "P c \<Longrightarrow> emits calls P (invoke c ans)"
  by (simp add: emits_def)

lemma emits_on_world [emits]: "emits calls P m \<Longrightarrow> emits req_calls P (on_world m)"
  by (simp add: emits_def)

lemma emits_weaken: "emits h P m \<Longrightarrow> (\<And>c. P c \<Longrightarrow> Q c) \<Longrightarrow> emits h Q m"
  unfolding emits_def by (meson list.pred_mono_strong)

section \<open>Lemmas: Kubernetes helpers\<close>

lemma wp_PatchStatus [wp]:
  "wp (PatchStatus E current patched) Q w =
     Q (case kube_StatusPatch (Kube E) (calls w) current patched of
         Inr obj \<Rightarrow> (obj, None)
       | Inl err \<Rightarrow> (if isOptimisticLockError err then (patched, None)
                    else (patched, Some (Wrap ''unable to patch status - '' err))))
       (w\<lparr>calls := calls w @ [KStatusPatch current patched]\<rparr>)"
  by (simp add: PatchStatus_def wp)

lemma wp_GetLabeledNodes [wp]:
  "wp (GetLabeledNodes E ls) Q w =
     Q (case kube_Nodes (Kube E) (calls w) ls of Inr nodes \<Rightarrow> Inr nodes
        | Inl err \<Rightarrow> Inl (Wrap ''error listing nodes - '' err))
       (w\<lparr>calls := calls w @ [KListNodes ls]\<rparr>)"
  by (simp add: GetLabeledNodes_def wp)

lemma wp_RegisterAction [wp]:
  "wp (RegisterAction E ev obj n c) Q w =
     (let gvk = lib_GVKString (Lib E) (Group obj) (Version obj) (Kind obj)
      in Q () (w\<lparr>calls := calls w @ [KEvent (event_Type ev) (event_reason gvk ev) (event_message gvk ev n c)]\<rparr>))"
  by (simp add: RegisterAction_def wp Let_def)

lemma emits_PatchStatus [emits]: "P (KStatusPatch c p) \<Longrightarrow> emits calls P (PatchStatus E c p)"
  unfolding PatchStatus_def by (intro emits)

lemma emits_GetLabeledNodes [emits]: "P (KListNodes ls) \<Longrightarrow> emits calls P (GetLabeledNodes E ls)"
  unfolding GetLabeledNodes_def by (intro emits)

lemma emits_GetSecretData [emits]: "P (KSecretGet ns n) \<Longrightarrow> emits calls P (GetSecretData E n ns k)"
  unfolding GetSecretData_def by (intro emits)

lemma emits_GetConfigMapData [emits]: "P (KConfigMapGet ns n) \<Longrightarrow> emits calls P (GetConfigMapData E n ns k)"
  unfolding GetConfigMapData_def by (intro emits)

lemma emits_RegisterAction [emits]: "(\<And>t r m. P (KEvent t r m)) \<Longrightarrow> emits calls P (RegisterAction E ev obj n c)"
  unfolding RegisterAction_def Let_def by (intro emits)

lemma node_not_ready_iff:
  "node_not_ready n \<longleftrightarrow> (\<exists>c \<in> set n. nc_Type c = nodeConditionReady \<and> nc_Status c = ''False'')"
  by (induction n) auto

lemma nodes_loop_iff: "nodes_loop ns \<longleftrightarrow> (\<forall>n \<in> set ns. \<not> node_not_ready n)"
  by (induction ns) auto

section \<open>The interface of cluster children\<close>

text \<open>
  What a client relies on: the query makes one call; when the listing fails it reports the
  failure and no child; otherwise it reports whether a listed child has the cluster identifier.
\<close>

locale cluster_child =
  fixes list_call :: "'o call"
    and listing :: "'o services \<Rightarrow> 'o hist \<Rightarrow> go_error + ('c workload_scheme) list"
    and ExistsForClusterID :: "'o services \<Rightarrow> string \<Rightarrow> ('o world, bool \<times> go_error option) state"
  assumes one_call: "snd (run_state (ExistsForClusterID E cid) w) = w\<lparr>calls := calls w @ [list_call]\<rparr>"
    and listing_fails: "listing E (calls w) = Inl e \<Longrightarrow>
      \<exists>e'. fst (run_state (ExistsForClusterID E cid) w) = (False, Some e')"
    and listing_succeeds: "listing E (calls w) = Inr xs \<Longrightarrow>
      fst (run_state (ExistsForClusterID E cid) w) = (\<exists>x \<in> set xs. GetClusterID x = cid, None)"
begin

lemma exists_true_iff:
  "fst (run_state (ExistsForClusterID E cid) w) = (True, None) \<longleftrightarrow>
     (\<exists>xs. listing E (calls w) = Inr xs \<and> cid \<in> GetClusterID ` set xs)"
proof (cases "listing E (calls w)")
  case (Inl e)
  with listing_fails [OF Inl, of cid] show ?thesis by auto
next
  case (Inr xs)
  with listing_succeeds [OF Inr, of cid] show ?thesis by auto
qed

lemma no_child_iff:
  "fst (run_state (ExistsForClusterID E cid) w) = (False, None) \<longleftrightarrow>
     (\<exists>xs. listing E (calls w) = Inr xs \<and> cid \<notin> GetClusterID ` set xs)"
proof (cases "listing E (calls w)")
  case (Inl e)
  with listing_fails [OF Inl, of cid] show ?thesis by auto
next
  case (Inr xs)
  with listing_succeeds [OF Inr, of cid] show ?thesis by auto
qed

lemma exists_emits: "P list_call \<Longrightarrow> emits calls P (ExistsForClusterID E cid)"
  by (simp add: emits_def one_call)

end

lemmas child_defs =
  MachinePool_ExistsForClusterID_def MachinePool_FindAllByClusterID_def MachinePool_FindAll_def
  LDAP_ExistsForClusterID_def LDAP_FindAllByClusterID_def LDAP_FindAll_def
  GitLab_ExistsForClusterID_def GitLab_FindAllByClusterID_def GitLab_FindAll_def

interpretation mp_child: cluster_child KListMachinePools "\<lambda>E. kube_MachinePools (Kube E)"
  MachinePool_ExistsForClusterID
  by unfold_locales (auto simp: child_defs GetClusterID_def filter_empty_conv)

interpretation ldap_child: cluster_child KListLDAPs "\<lambda>E. kube_LDAPs (Kube E)" LDAP_ExistsForClusterID
  by unfold_locales (auto simp: child_defs GetClusterID_def filter_empty_conv)

interpretation gitlab_child: cluster_child KListGitLabs "\<lambda>E. kube_GitLabs (Kube E)" GitLab_ExistsForClusterID
  by unfold_locales (auto simp: child_defs GetClusterID_def filter_empty_conv)

lemmas child_emits [emits] = mp_child.exists_emits ldap_child.exists_emits gitlab_child.exists_emits

section \<open>Properties\<close>

text \<open>
  A set of nodes is taken to be ready exactly when it is not empty and no node has a condition
  \<open>Ready\<close> with status \<open>False\<close>. A node whose readiness is unknown, or that reports no condition at
  all, counts as ready.
\<close>

lemma NodesAreReady_iff:
  "NodesAreReady nodes \<longleftrightarrow>
     nodes \<noteq> [] \<and> \<not> (\<exists>n \<in> set nodes. \<exists>c \<in> set n. nc_Type c = ''Ready'' \<and> nc_Status c = ''False'')"
  by (cases nodes) (auto simp: NodesAreReady_def nodes_loop_iff node_not_ready_iff nodeConditionReady_def)

end
