(* ===== verification/AWS.thy ===== *)
theory AWS
  imports Kubernetes
begin

text \<open>
  The AWS client (\<^verbatim>\<open>pkg/aws\<close>): the OIDC provider with its thumbprint, the names of the operator roles,
  and the zones of a list of subnets. A client is given by the region it was built for. The polling
  loop of \<open>waitForThumbprint\<close> has no bound of its own, so it is a partial function: \<open>Diverge\<close> is a
  call that never returns. Which case its \<open>select\<close> takes is up to the environment, and a request to
  the endpoint may hang.

  Shown here: a role name never exceeds 64 characters and loses nothing when it is short enough; a
  generated prefix has the stated shape; the polling loop ends exactly in the first poll that times
  out or is answered, and hangs exactly when there is none or its request hangs.
\<close>

section \<open>Clients\<close>

definition NewClient :: "'o services \<Rightarrow> string \<Rightarrow> ('o world, go_error + string) state" where
  "NewClient E region = do {
     err \<leftarrow> invoke (AwsNewClient region) (\<lambda>h. aws_NewClient (Aws E) h region);
     State_Monad.return (case err of
         Some e \<Rightarrow> Inl (Wrap ''unable to create aws client - '' e)
       | None \<Rightarrow> Inr region)
   }"

section \<open>Thumbprints\<close>

definition nil_dereference :: string where
  "nil_dereference = ''runtime error: invalid memory address or nil pointer dereference''"

fun find_root_certificate :: "certificate list \<Rightarrow> certificate option" where
  "find_root_certificate [] = None"
| "find_root_certificate (cert # chain) =
     (if cert_IsCA cert then
        if cert_SelfIssued cert then Some cert else find_root_certificate chain
      else find_root_certificate chain)"

text \<open>The thumbprint of a response; a response without TLS has a nil connection state.\<close>

definition chain_thumbprint :: "'o services \<Rightarrow> certificate list option \<Rightarrow> (go_error + string) outcome" where
  "chain_thumbprint E tls =
     (case tls of
        None \<Rightarrow> Panic nil_dereference
      | Some certChain \<Rightarrow>
          (case find_root_certificate certChain of
             Some cert \<Rightarrow> Ret (Inr (lib_sha1Hash (Rosa E) (cert_Raw cert)))
           | None \<Rightarrow>
               if certChain = [] then Panic ''runtime error: index out of range [-1]''
               else Ret (Inr (lib_sha1Hash (Rosa E) (cert_Raw (last certChain))))))"

definition host_url :: "string \<Rightarrow> string" where
  "host_url host = ''https://'' @ host @ '':443''"

text \<open>The client of \<open>http.Get\<close> has no timeout, so the request may not return.\<close>

definition getThumbprint :: "'o services \<Rightarrow> string \<Rightarrow> ('o world, (go_error + string) outcome) state" where
  "getThumbprint E oidcEndpointURL =
     (case lib_ParseHost (Rosa E) oidcEndpointURL of
        Inl err \<Rightarrow> State_Monad.return (Ret (Inl (Wrap ''unable to parse uri from oidc endpoint url - '' err)))
      | Inr host \<Rightarrow> do {
          res \<leftarrow> invoke (HttpGet (host_url host)) (\<lambda>h. http_Get (Aws E) h (host_url host));
          State_Monad.return (case res of
              None \<Rightarrow> Diverge
            | Some (Inl err) \<Rightarrow> Ret (Inl (Wrap (''unable to get request from host ['' @ host @ ''] - '') err))
            | Some (Inr tls) \<Rightarrow> chain_thumbprint E tls)
        })"

definition ErrTimeoutThumbprint :: go_error where
  "ErrTimeoutThumbprint = NewError ''timed out waiting for thumbprint''"

partial_function (option) thumbprint_loop ::
    "'o services \<Rightarrow> string \<Rightarrow> 'o world \<Rightarrow> ((go_error + string) outcome \<times> 'o world) option" where
  "thumbprint_loop E oidcEndpointURL w =
     (case run_state (invoke SelectTimer (select_timeout (Aws E))) w of
        (timeout, w1) \<Rightarrow>
          if timeout then Some (Ret (Inl ErrTimeoutThumbprint), w1)
          else (case run_state (getThumbprint E oidcEndpointURL) w1 of
                  (res, w2) \<Rightarrow>
                    (case res of
                       Ret x \<Rightarrow> (case x of
                           Inl err \<Rightarrow> thumbprint_loop E oidcEndpointURL w2
                         | Inr thumbprint \<Rightarrow> Some (Ret (Inr thumbprint), w2))
                     | Panic m \<Rightarrow> Some (Panic m, w2)
                     | Diverge \<Rightarrow> Some (Diverge, w2))))"

text \<open>The ticker and the timeout are made anew by every call.\<close>

definition waitForThumbprint ::
    "'o services \<Rightarrow> string \<Rightarrow> ('o world, (go_error + string) outcome) state" where
  "waitForThumbprint E oidcEndpointURL = do {
     invoke StartTimers (\<lambda>h. ());
     State (\<lambda>w. case thumbprint_loop E oidcEndpointURL w of None \<Rightarrow> (Diverge, w) | Some x \<Rightarrow> x)
   }"

section \<open>OIDC providers\<close>

definition CreateOIDCProvider ::
    "'o services \<Rightarrow> string \<Rightarrow> string \<Rightarrow> ('o world, (go_error + string) outcome) state" where
  "CreateOIDCProvider E region issuerURL = do {
     res \<leftarrow> waitForThumbprint E issuerURL;
     (case res of
        Panic m \<Rightarrow> State_Monad.return (Panic m)
      | Diverge \<Rightarrow> State_Monad.return Diverge
      | Ret (Inl err) \<Rightarrow>
          State_Monad.return (Ret (Inl (Wrap ''unable to retrieve oidc provider thumbprint - '' err)))
      | Ret (Inr thumbprint) \<Rightarrow> do {
          arn \<leftarrow> invoke (AwsCreateOIDC region issuerURL thumbprint)
                   (\<lambda>h. aws_CreateOpenIDConnectProvider (Aws E) h region issuerURL thumbprint);
          State_Monad.return (Ret (case arn of
              Inl err \<Rightarrow> Inl (Wrap ''unable to create oidc provider - '' err)
            | Inr providerARN \<Rightarrow> Inr providerARN))
        })
   }"

definition DeleteOIDCProvider :: "'o services \<Rightarrow> string \<Rightarrow> string \<Rightarrow> ('o world, go_error option) state" where
  "DeleteOIDCProvider E region oidcProviderARN = do {
     err \<leftarrow> invoke (AwsDeleteOIDC region oidcProviderARN)
              (\<lambda>h. aws_DeleteOpenIDConnectProvider (Aws E) h region oidcProviderARN);
     State_Monad.return (case err of
         Some e \<Rightarrow> Some (Wrap ''delete oidc provider - '' e)
       | None \<Rightarrow> None)
   }"

section \<open>Names of roles\<close>

definition operatorRolesPrefixChars :: string where
  "operatorRolesPrefixChars = ''abcdefghijklmnopqrstuvwxyz0123456789''"

definition operatorRolesPrefixLength :: nat where
  "operatorRolesPrefixLength = 6"

definition operatorRolesMaxLength :: nat where
  "operatorRolesMaxLength = 64"

fun prefix_chars :: "(nat \<Rightarrow> go_error + nat) \<Rightarrow> nat \<Rightarrow> nat \<Rightarrow> string \<Rightarrow> string outcome" where
  "prefix_chars draw i 0 ident = Ret ident"
| "prefix_chars draw i (Suc n) ident =
     (case draw i of
        Inl err \<Rightarrow> Panic (error_msg err)
      | Inr num \<Rightarrow> outcome_bind (go_index operatorRolesPrefixChars num)
                    (\<lambda>c. prefix_chars draw (Suc i) n (ident @ [c])))"

definition GetOperatorRolesPrefixForCluster :: "'o services \<Rightarrow> 'o hist \<Rightarrow> string \<Rightarrow> string outcome" where
  "GetOperatorRolesPrefixForCluster E h cluster =
     outcome_bind
       (prefix_chars (\<lambda>i. rand_Int (Aws E) h i (length operatorRolesPrefixChars)) 0 operatorRolesPrefixLength '''')
       (\<lambda>ident. Ret (cluster @ ''-'' @ ident))"

definition GetOperatorRoleArn :: "rosa_libs \<Rightarrow> string \<Rightarrow> string \<Rightarrow> string \<Rightarrow> string \<Rightarrow> string" where
  "GetOperatorRoleArn L name namespace accountID pre =
     (let role0 = pre @ ''-'' @ namespace @ ''-'' @ name;
          role1 = (if length role0 > operatorRolesMaxLength then take operatorRolesMaxLength role0 else role0)
      in ''arn:'' @ lib_GetPartition L @ '':iam::'' @ accountID @ '':role/'' @ role1)"

section \<open>Zones\<close>

fun GetAvailabilityZonesBySubnet ::
    "'o services \<Rightarrow> string \<Rightarrow> string list \<Rightarrow> ('o world, go_error + string list) state" where
  "GetAvailabilityZonesBySubnet E region [] = State_Monad.return (Inr [])"
| "GetAvailabilityZonesBySubnet E region (subnet # subnetIDs) = do {
     res \<leftarrow> invoke (AwsSubnetZone region subnet)
              (\<lambda>h. aws_GetSubnetAvailabilityZone (Aws E) h region subnet);
     (case res of
        Inl err \<Rightarrow> State_Monad.return (Inl (Wrap (''unable to retrieve subnet id ['' @ subnet @ ''] - '') err))
      | Inr availabilityZone \<Rightarrow> do {
          rest \<leftarrow> GetAvailabilityZonesBySubnet E region subnetIDs;
          State_Monad.return (case rest of
              Inl err \<Rightarrow> Inl err
            | Inr zones \<Rightarrow> Inr (availabilityZone # zones))
        })
   }"

section \<open>Lemmas: thumbprints\<close>

lemma emits_getThumbprint [emits]: "(\<And>u. P (HttpGet u)) \<Longrightarrow> emits calls P (getThumbprint E url)"
  unfolding getThumbprint_def by (intro emits)

text \<open>
  One poll of the loop: the calls it makes, what the endpoint answers (an address that does not
  parse is an error without a request), and the history after \<open>n\<close> polls.
\<close>

definition poll_calls :: "'o services \<Rightarrow> string \<Rightarrow> 'o hist" where
  "poll_calls E url = SelectTimer #
     (case lib_ParseHost (Rosa E) url of Inl err \<Rightarrow> [] | Inr host \<Rightarrow> [HttpGet (host_url host)])"

definition poll_answer :: "'o services \<Rightarrow> string \<Rightarrow> 'o hist \<Rightarrow> (go_error + certificate list option) option" where
  "poll_answer E url h = (case lib_ParseHost (Rosa E) url of
       Inl err \<Rightarrow> Some (Inl err)
     | Inr host \<Rightarrow> http_Get (Aws E) (h @ [SelectTimer]) (host_url host))"

definition poll_hist :: "'o services \<Rightarrow> string \<Rightarrow> 'o hist \<Rightarrow> nat \<Rightarrow> 'o hist" where
  "poll_hist E url h n = h @ concat (replicate n (poll_calls E url))"

definition poll_failed :: "'o services \<Rightarrow> string \<Rightarrow> 'o hist \<Rightarrow> nat \<Rightarrow> bool" where
  "poll_failed E url h n \<longleftrightarrow>
     (\<forall>k<n. \<not> select_timeout (Aws E) (poll_hist E url h k) \<and>
        (\<exists>err. poll_answer E url (poll_hist E url h k) = Some (Inl err)))"

text \<open>How the wait ends in the poll after the history \<open>h\<close>: its outcome and the calls made by then.\<close>

definition poll_end :: "'o services \<Rightarrow> string \<Rightarrow> 'o hist \<Rightarrow> (go_error + string) outcome \<Rightarrow> 'o hist \<Rightarrow> bool" where
  "poll_end E url h out h' \<longleftrightarrow>
     (if select_timeout (Aws E) h then out = Ret (Inl ErrTimeoutThumbprint) \<and> h' = h @ [SelectTimer]
      else h' = h @ poll_calls E url \<and>
        (case poll_answer E url h of
           None \<Rightarrow> out = Diverge
         | Some (Inl err) \<Rightarrow> False
         | Some (Inr chain) \<Rightarrow> out = chain_thumbprint E chain))"

lemma poll_hist_0 [simp]: "poll_hist E url h 0 = h"
  by (simp add: poll_hist_def)

lemma poll_hist_Suc: "poll_hist E url h (Suc n) = poll_hist E url (h @ poll_calls E url) n"
  by (simp add: poll_hist_def)

lemma poll_hist_snoc: "poll_hist E url h (Suc n) = poll_hist E url h n @ poll_calls E url"
  unfolding poll_hist_def by (induction n) simp_all

lemma poll_failed_0 [simp]: "poll_failed E url h 0"
  by (simp add: poll_failed_def)

lemma poll_failed_Suc:
  "poll_failed E url h (Suc n) \<longleftrightarrow>
     \<not> select_timeout (Aws E) h \<and> (\<exists>err. poll_answer E url h = Some (Inl err)) \<and>
     poll_failed E url (h @ poll_calls E url) n"
  by (auto simp: poll_failed_def less_Suc_eq_0_disj poll_hist_Suc)

lemma chain_thumbprint_cases:
  obtains t where "chain_thumbprint E chain = Ret (Inr t)" | m where "chain_thumbprint E chain = Panic m"
proof (cases chain)
  case (Some cs)
  then show ?thesis using that
    by (cases "find_root_certificate cs"; cases "cs = []") (auto simp: chain_thumbprint_def)
qed (use that in \<open>simp add: chain_thumbprint_def\<close>)

lemma run_getThumbprint:
  "run_state (getThumbprint E url) (w\<lparr>calls := h @ [SelectTimer]\<rparr>) =
     (case poll_answer E url h of
        None \<Rightarrow> Diverge
      | Some (Inl err) \<Rightarrow> (case lib_ParseHost (Rosa E) url of
            Inl e \<Rightarrow> Ret (Inl (Wrap ''unable to parse uri from oidc endpoint url - '' e))
          | Inr host \<Rightarrow> Ret (Inl (Wrap (''unable to get request from host ['' @ host @ ''] - '') err)))
      | Some (Inr chain) \<Rightarrow> chain_thumbprint E chain,
      w\<lparr>calls := h @ poll_calls E url\<rparr>)"
  by (simp add: getThumbprint_def poll_answer_def poll_calls_def split: sum.splits option.splits)

lemma thumbprint_poll_cases:
  assumes body: "(case run_state (invoke SelectTimer (select_timeout (Aws E))) w of
      (timeout, w1) \<Rightarrow>
        if timeout then Some (Ret (Inl ErrTimeoutThumbprint), w1)
        else case run_state (getThumbprint E url) w1 of
          (res, w2) \<Rightarrow> (case res of
              Ret x \<Rightarrow> (case x of Inl err \<Rightarrow> loop w2 | Inr thumbprint \<Rightarrow> Some (Ret (Inr thumbprint), w2))
            | Panic m \<Rightarrow> Some (Panic m, w2) | Diverge \<Rightarrow> Some (Diverge, w2))) = r"
  obtains out w' where "r = Some (out, w')" "poll_end E url (calls w) out (calls w')"
  | "poll_failed E url (calls w) 1" "r = loop (w\<lparr>calls := calls w @ poll_calls E url\<rparr>)"
proof (cases "select_timeout (Aws E) (calls w)")
  case True
  with body that(1) show thesis by (auto simp: poll_end_def)
next
  case False
  consider "poll_answer E url (calls w) = None" | e where "poll_answer E url (calls w) = Some (Inl e)"
    | chain where "poll_answer E url (calls w) = Some (Inr chain)" by (metis option.exhaust sum.exhaust)
  then show thesis
  proof cases
    case 1
    with False body that(1) show thesis by (auto simp: run_getThumbprint poll_end_def)
  next
    case 2
    with False body have "r = loop (w\<lparr>calls := calls w @ poll_calls E url\<rparr>)"
      by (auto simp: run_getThumbprint split: sum.splits)
    with 2 False that(2) show thesis by (simp add: poll_failed_Suc)
  next
    case 3
    with False body that(1) show thesis
      by (cases E chain rule: chain_thumbprint_cases) (auto simp: run_getThumbprint poll_end_def)
  qed
qed

lemma thumbprint_loop_skip:
  "poll_failed E url (calls w) n \<Longrightarrow>
     thumbprint_loop E url w = thumbprint_loop E url (w\<lparr>calls := poll_hist E url (calls w) n\<rparr>)"
proof (induction n arbitrary: w)
  case (Suc n)
  let ?w = "w\<lparr>calls := calls w @ poll_calls E url\<rparr>"
  from Suc.prems have "thumbprint_loop E url w = thumbprint_loop E url ?w"
    by (cases rule: thumbprint_poll_cases [OF thumbprint_loop.simps [symmetric]])
       (auto simp: poll_failed_Suc poll_end_def)
  also from Suc.prems have "\<dots> = thumbprint_loop E url (?w\<lparr>calls := poll_hist E url (calls ?w) n\<rparr>)"
    by (intro Suc.IH) (simp add: poll_failed_Suc)
  finally show ?case by (simp add: poll_hist_Suc)
qed simp

lemma thumbprint_loop_Some:
  assumes "thumbprint_loop E url w = Some (out, w')"
  shows "\<exists>n. poll_failed E url (calls w) n \<and> poll_end E url (poll_hist E url (calls w) n) out (calls w')"
proof -
  have "\<exists>n. poll_failed E url (calls w) n \<and> poll_end E url (poll_hist E url (calls w) n) (fst x) (calls (snd x))"
    if "thumbprint_loop E url w = Some x" for x
  proof (rule thumbprint_loop.raw_induct [OF _ that], goal_cases)
    case (1 loop E url w x)
    from 1(2) show ?case
    proof (cases rule: thumbprint_poll_cases)
      case (1 out w')
      then show ?thesis by (intro exI [of _ 0]) simp
    next
      case 2
      from 1(1) [OF 2(2) [symmetric]] obtain n where
        "poll_failed E url (calls w @ poll_calls E url) n"
        "poll_end E url (poll_hist E url (calls w @ poll_calls E url) n) (fst x) (calls (snd x))" by auto
      with 2(1) show ?thesis by (intro exI [of _ "Suc n"]) (simp add: poll_failed_Suc poll_hist_Suc)
    qed
  qed
  from this [OF assms] show ?thesis by simp
qed

lemma thumbprint_loop_None:
  assumes "thumbprint_loop E url w = None"
  shows "poll_failed E url (calls w) n"
proof (induction n)
  case (Suc n)
  let ?w = "w\<lparr>calls := poll_hist E url (calls w) n\<rparr>"
  from thumbprint_loop_skip [OF Suc] assms have "thumbprint_loop E url ?w = None" by simp
  then have "poll_failed E url (calls ?w) 1"
    by (cases rule: thumbprint_poll_cases [OF thumbprint_loop.simps [of E url ?w, symmetric]]) auto
  with Suc show ?case by (auto simp: poll_failed_def less_Suc_eq)
qed simp

lemma run_waitForThumbprint:
  "run_state (waitForThumbprint E url) w =
     (case thumbprint_loop E url (w\<lparr>calls := calls w @ [StartTimers]\<rparr>) of
        None \<Rightarrow> (Diverge, w\<lparr>calls := calls w @ [StartTimers]\<rparr>) | Some x \<Rightarrow> x)"
  by (simp add: waitForThumbprint_def)

lemma emits_waitForThumbprint [emits]:
  assumes "P StartTimers" "P SelectTimer" "\<And>u. P (HttpGet u)"
  shows "emits calls P (waitForThumbprint E url)"
proof -
  have polls: "list_all P (poll_calls E url)" using assms by (auto simp: poll_calls_def split: sum.splits)
  then have "list_all P (concat (replicate n (poll_calls E url)))" for n by (induction n) auto
  with polls assms show ?thesis
    by (auto simp: emits_def run_waitForThumbprint poll_hist_def poll_end_def
          dest!: thumbprint_loop_Some split: option.splits if_splits)
qed

lemma emits_CreateOIDCProvider [emits]:
  assumes "P StartTimers" "P SelectTimer" "\<And>u. P (HttpGet u)" "\<And>t. P (AwsCreateOIDC region url t)"
  shows "emits calls P (CreateOIDCProvider E region url)"
  unfolding CreateOIDCProvider_def using assms by (intro emits) auto

lemma emits_DeleteOIDCProvider [emits]:
  "P (AwsDeleteOIDC region arn) \<Longrightarrow> emits calls P (DeleteOIDCProvider E region arn)"
  unfolding DeleteOIDCProvider_def by (intro emits)

lemma emits_NewClient [emits]: "P (AwsNewClient region) \<Longrightarrow> emits calls P (NewClient E region)"
  unfolding NewClient_def by (intro emits)

lemma wp_DeleteOIDCProvider [wp]:
  "wp (DeleteOIDCProvider E region arn) Q w =
     Q (case aws_DeleteOpenIDConnectProvider (Aws E) (calls w) region arn of
          Some e \<Rightarrow> Some (Wrap ''delete oidc provider - '' e) | None \<Rightarrow> None)
       (w\<lparr>calls := calls w @ [AwsDeleteOIDC region arn]\<rparr>)"
  by (simp add: DeleteOIDCProvider_def wp)

lemma wp_NewClient [wp]:
  "wp (NewClient E region) Q w =
     Q (case aws_NewClient (Aws E) (calls w) region of
          Some e \<Rightarrow> Inl (Wrap ''unable to create aws client - '' e) | None \<Rightarrow> Inr region)
       (w\<lparr>calls := calls w @ [AwsNewClient region]\<rparr>)"
  by (simp add: NewClient_def wp)

section \<open>Lemmas: zones and prefixes\<close>

lemma emits_GetAvailabilityZonesBySubnet [emits]:
  "(\<And>s. P (AwsSubnetZone region s)) \<Longrightarrow> emits calls P (GetAvailabilityZonesBySubnet E region ss)"
  by (induction ss) (auto intro!: emits)

lemma zones_length:
  "run_state (GetAvailabilityZonesBySubnet E region ss) w = (Inr zs, w') \<Longrightarrow> length zs = length ss"
  by (induction ss arbitrary: w zs w') (auto split: sum.splits prod.splits)

lemma prefix_chars_shape:
  "prefix_chars draw i n s = Ret p \<Longrightarrow> \<exists>t. p = s @ t \<and> length t = n \<and> set t \<subseteq> set operatorRolesPrefixChars"
proof (induction n arbitrary: i s)
  case (Suc n)
  then obtain k where k: "k < length operatorRolesPrefixChars"
    "prefix_chars draw (Suc i) n (s @ [operatorRolesPrefixChars ! k]) = Ret p"
    by (auto simp: go_index_def outcome_bind_Ret_iff split: sum.splits if_splits)
  from Suc.IH [OF k(2)] obtain t where "p = (s @ [operatorRolesPrefixChars ! k]) @ t" "length t = n"
    "set t \<subseteq> set operatorRolesPrefixChars" by auto
  with k show ?case by (intro exI [of _ "operatorRolesPrefixChars ! k # t"]) auto
qed simp

text \<open>A generated prefix is the cluster's name, a dash and six characters out of the lower-case letters and digits.\<close>

lemma operator_roles_prefix_shape:
  assumes "GetOperatorRolesPrefixForCluster E h cluster = Ret p"
  shows "\<exists>t. p = cluster @ ''-'' @ t \<and> length t = 6 \<and> set t \<subseteq> set ''abcdefghijklmnopqrstuvwxyz0123456789''"
proof -
  obtain ident where "p = cluster @ ''-'' @ ident"
    "prefix_chars (\<lambda>i. rand_Int (Aws E) h i (length operatorRolesPrefixChars)) 0 6 [] = Ret ident"
    using assms by (auto simp: GetOperatorRolesPrefixForCluster_def operatorRolesPrefixLength_def outcome_bind_Ret_iff)
  with prefix_chars_shape [OF this(2)] show ?thesis by (auto simp: operatorRolesPrefixChars_def)
qed

section \<open>Properties\<close>

text \<open>
  C40: the ARN of an operator role names a role of at most 64 characters, a prefix of the full name
  of the operator; two operators of one account get the same ARN exactly when their full names
  agree on the first 64 characters.
\<close>

theorem operator_role_arn_bound:
  "\<exists>role. GetOperatorRoleArn L name ns acc pre = ''arn:'' @ lib_GetPartition L @ '':iam::'' @ acc @ '':role/'' @ role \<and>
     length role \<le> 64 \<and> prefix role (pre @ ''-'' @ ns @ ''-'' @ name) \<and>
     (GetOperatorRoleArn L name ns acc pre = GetOperatorRoleArn L name' ns' acc pre' \<longleftrightarrow>
        role = take 64 (pre' @ ''-'' @ ns' @ ''-'' @ name'))"
proof -
  have cut: "GetOperatorRoleArn L n s acc p =
      ''arn:'' @ lib_GetPartition L @ '':iam::'' @ acc @ '':role/'' @ take 64 (p @ ''-'' @ s @ ''-'' @ n)" for n s p
    by (simp add: GetOperatorRoleArn_def Let_def operatorRolesMaxLength_def)
  moreover have "length (take 64 p) \<le> 64 \<and> prefix (take 64 p) p" for p :: string
    by (simp add: take_is_prefix)
  ultimately show ?thesis by (simp add: cut del: take_append length_take)
qed

text \<open>
  C39: how the wait for a thumbprint ends, whatever the timers and the endpoint do. The ticker and
  the timeout are those of this call. With \<open>H n\<close> the history after \<open>n\<close> polls, the wait goes through
  some number \<open>n\<close> of polls in which the timeout was not chosen and the endpoint answered with an
  error, and then ends in the next one: with the timeout's error if \<open>select\<close> takes the timeout,
  otherwise with the thumbprint of the chain that the endpoint presents (a panic if there is none),
  or it hangs in a request that never returns. The only other way to hang is that every poll fails and \<open>select\<close> never takes
  the timeout; an error of the endpoint alone never ends the wait.
\<close>

theorem waitForThumbprint_outcome:
  assumes "run_state (waitForThumbprint E url) w = (out, w')"
    and "H = poll_hist E url (calls w @ [StartTimers])"
  shows "(\<forall>n. poll_failed E url (H 0) n) \<and> out = Diverge \<or>
     (\<exists>n. poll_failed E url (H 0) n \<and>
        (if select_timeout (Aws E) (H n)
         then out = Ret (Inl ErrTimeoutThumbprint) \<and> calls w' = H n @ [SelectTimer]
         else calls w' = H (Suc n) \<and>
           (case poll_answer E url (H n) of
              None \<Rightarrow> out = Diverge
            | Some (Inl err) \<Rightarrow> False
            | Some (Inr chain) \<Rightarrow> out = chain_thumbprint E chain)))"
proof (cases "thumbprint_loop E url (w\<lparr>calls := calls w @ [StartTimers]\<rparr>)")
  case None
  from thumbprint_loop_None [OF this] None assms show ?thesis by (auto simp: run_waitForThumbprint)
next
  case (Some x)
  with assms have "thumbprint_loop E url (w\<lparr>calls := calls w @ [StartTimers]\<rparr>) = Some (out, w')"
    by (simp add: run_waitForThumbprint)
  from thumbprint_loop_Some [OF this] assms show ?thesis
    by (auto simp: poll_end_def poll_hist_snoc)
qed

theorem waitForThumbprint_outcome_witness:
  "fst (run_state (waitForThumbprint (sample_services ()) ''issuer'') empty_world) =
     Ret (Inr (lib_sha1Hash (Rosa (sample_services ())) ''root'')) \<and>
   calls (snd (run_state (waitForThumbprint (sample_services ()) ''issuer'') empty_world)) =
     [StartTimers, SelectTimer, HttpGet ''https://issuer:443'']"
proof -
  let ?E = "sample_services ()" and ?url = "''issuer''"
  have "poll_failed ?E ?url [StartTimers] n \<longleftrightarrow> n = 0" for n
    by (cases n) (auto simp: poll_failed_Suc poll_answer_def sample_defs)
  with waitForThumbprint_outcome [of ?E ?url empty_world, OF surjective_pairing refl] show ?thesis
    by (auto simp: poll_hist_snoc poll_calls_def poll_answer_def host_url_def chain_thumbprint_def sample_defs)
qed

end
