(* ===== verification/OCM_Client.thy ===== *)
theory OCM_Client
  imports AWS
begin

text \<open>
  The OCM clients (\<^verbatim>\<open>pkg/ocm\<close>): clusters, machine pools, node pools, identity providers, the GitLab
  variant of the latter, and OIDC configurations. A client object is given by the fields it is built from (the name it looks for and
  the cluster identifier), passed as arguments.

  Every \<open>Delete\<close> follows one contract, the locale \<open>ocm_deleter\<close>, interpreted for the six clients:
  one call, and no error exactly when OCM confirms or answers that the object is not found.

  Versions and operator roles are in the theory \<open>OCM_STS\<close>.
\<close>

section \<open>Clusters\<close>

definition name_filter :: "string \<Rightarrow> string" where
  "name_filter name = ''name = '' @ quoted name"

definition ClusterClient_Get :: "'o services \<Rightarrow> string \<Rightarrow> ('o world, go_error + ocm_cluster option) state" where
  "ClusterClient_Get E name = do {
     res \<leftarrow> invoke (ClusterSearch (name_filter name)) (\<lambda>h. ocm_ClusterSearch (Ocm E) h (name_filter name));
     State_Monad.return (case resp_Err res of
         Some err \<Rightarrow> Inl (Wrap ''unable to retrieve cluster from openshift cluster manager - '' err)
       | None \<Rightarrow> (case resp_Body res of
             None \<Rightarrow> Inr None
           | Some items \<Rightarrow> (if length items = 0 then Inr None else Inr (Some (items ! 0)))))
   }"

definition ClusterClient_Create ::
    "'o services \<Rightarrow> ocm_cluster \<Rightarrow> ('o world, go_error + ocm_cluster option) state" where
  "ClusterClient_Create E builder =
     (case lib_BuildCluster (Lib E) builder of
        Inl err \<Rightarrow> State_Monad.return (Inl (Wrap ''unable to build object for cluster creation - '' err))
      | Inr object \<Rightarrow> do {
          res \<leftarrow> invoke (ClusterAdd object) (\<lambda>h. ocm_ClusterAdd (Ocm E) h object);
          State_Monad.return (case resp_Err res of
              Some err \<Rightarrow> Inl (Wrap ''error in create request - '' err)
            | None \<Rightarrow> Inr (resp_Body res))
        })"

definition ClusterClient_Update ::
    "'o services \<Rightarrow> ocm_cluster \<Rightarrow> ('o world, go_error + ocm_cluster option) state" where
  "ClusterClient_Update E builder =
     (case lib_BuildCluster (Lib E) builder of
        Inl err \<Rightarrow> State_Monad.return (Inl (Wrap ''unable to build object for cluster update - '' err))
      | Inr object \<Rightarrow> do {
          res \<leftarrow> invoke (ClusterUpdate (attr '''' cl_ID (Some object)) object)
                   (\<lambda>h. ocm_ClusterUpdate (Ocm E) h (attr '''' cl_ID (Some object)) object);
          State_Monad.return (case resp_Err res of
              Some err \<Rightarrow> Inl (Wrap ''error in update request - '' err)
            | None \<Rightarrow> Inr (resp_Body res))
        })"

definition ClusterClient_Delete :: "'o services \<Rightarrow> string \<Rightarrow> ('o world, go_error option) state" where
  "ClusterClient_Delete E ident = do {
     res \<leftarrow> invoke (ClusterDelete ident) (\<lambda>h. ocm_ClusterDelete (Ocm E) h ident);
     State_Monad.return (case resp_Err res of
         Some err \<Rightarrow> (if resp_Status res = StatusNotFound then None
                     else Some (Wrap ''error in delete request - '' err))
       | None \<Rightarrow> None)
   }"

definition ClusterExists ::
    "'o services \<Rightarrow> string \<Rightarrow> ('o world, go_error + ocm_cluster option \<times> bool) state" where
  "ClusterExists E clusterName = do {
     res \<leftarrow> ClusterClient_Get E clusterName;
     State_Monad.return (case res of
         Inl err \<Rightarrow> Inl (Wrap (''unable to retrieve cluster ['' @ clusterName @ ''] - '') err)
       | Inr cluster \<Rightarrow> Inr (cluster, cluster \<noteq> None))
   }"

section \<open>Machine pools\<close>

definition MachinePoolClient_Get ::
    "'o services \<Rightarrow> string \<Rightarrow> string \<Rightarrow> ('o world, go_error + ocm_machine_pool option) state" where
  "MachinePoolClient_Get E name clusterID = do {
     res \<leftarrow> invoke (MachinePoolGet clusterID name) (\<lambda>h. ocm_MachinePoolGet (Ocm E) h clusterID name);
     State_Monad.return (case resp_Err res of
         Some err \<Rightarrow> (if resp_Status res = StatusNotFound then Inr None
                     else Inl (Wrap ''error in get request - '' err))
       | None \<Rightarrow> Inr (resp_Body res))
   }"

definition MachinePoolClient_Create ::
    "'o services \<Rightarrow> string \<Rightarrow> ocm_machine_pool \<Rightarrow> ('o world, go_error + ocm_machine_pool option) state" where
  "MachinePoolClient_Create E clusterID builder =
     (case lib_BuildMachinePool (Lib E) builder of
        Inl err \<Rightarrow> State_Monad.return (Inl (Wrap ''unable to build object for machine pool creation - '' err))
      | Inr object \<Rightarrow> do {
          res \<leftarrow> invoke (MachinePoolAdd clusterID object) (\<lambda>h. ocm_MachinePoolAdd (Ocm E) h clusterID object);
          State_Monad.return (case resp_Err res of
              Some err \<Rightarrow> Inl (Wrap ''error in create request - '' err)
            | None \<Rightarrow> Inr (resp_Body res))
        })"

definition MachinePoolClient_Update ::
    "'o services \<Rightarrow> string \<Rightarrow> ocm_machine_pool \<Rightarrow> ('o world, go_error + ocm_machine_pool option) state" where
  "MachinePoolClient_Update E clusterID builder =
     (case lib_BuildMachinePool (Lib E) builder of
        Inl err \<Rightarrow> State_Monad.return (Inl (Wrap ''unable to build object for machine pool update - '' err))
      | Inr object \<Rightarrow> do {
          res \<leftarrow> invoke (MachinePoolUpdate clusterID (attr '''' mp_ID (Some object)) object)
                   (\<lambda>h. ocm_MachinePoolUpdate (Ocm E) h clusterID (attr '''' mp_ID (Some object)) object);
          State_Monad.return (case resp_Err res of
              Some err \<Rightarrow> Inl (Wrap ''error in update request - '' err)
            | None \<Rightarrow> Inr (resp_Body res))
        })"

definition MachinePoolClient_Delete ::
    "'o services \<Rightarrow> string \<Rightarrow> string \<Rightarrow> ('o world, go_error option) state" where
  "MachinePoolClient_Delete E clusterID ident = do {
     res \<leftarrow> invoke (MachinePoolDelete clusterID ident) (\<lambda>h. ocm_MachinePoolDelete (Ocm E) h clusterID ident);
     State_Monad.return (case resp_Err res of
         Some err \<Rightarrow> (if resp_Status res = StatusNotFound then None
                     else Some (Wrap ''error in delete request - '' err))
       | None \<Rightarrow> None)
   }"

section \<open>Node pools\<close>

definition NodePoolClient_Get ::
    "'o services \<Rightarrow> string \<Rightarrow> string \<Rightarrow> ('o world, go_error + ocm_node_pool option) state" where
  "NodePoolClient_Get E name clusterID = do {
     res \<leftarrow> invoke (NodePoolGet clusterID name) (\<lambda>h. ocm_NodePoolGet (Ocm E) h clusterID name);
     State_Monad.return (case resp_Err res of
         Some err \<Rightarrow> (if resp_Status res = StatusNotFound then Inr None
                     else Inl (Wrap ''error in get request - '' err))
       | None \<Rightarrow> Inr (resp_Body res))
   }"

definition NodePoolClient_Create ::
    "'o services \<Rightarrow> string \<Rightarrow> ocm_node_pool \<Rightarrow> ('o world, go_error + ocm_node_pool option) state" where
  "NodePoolClient_Create E clusterID builder =
     (case lib_BuildNodePool (Lib E) builder of
        Inl err \<Rightarrow> State_Monad.return (Inl (Wrap ''unable to build object for node pool creation - '' err))
      | Inr object \<Rightarrow> do {
          res \<leftarrow> invoke (NodePoolAdd clusterID object) (\<lambda>h. ocm_NodePoolAdd (Ocm E) h clusterID object);
          State_Monad.return (case resp_Err res of
              Some err \<Rightarrow> Inl (Wrap ''error in create request - '' err)
            | None \<Rightarrow> Inr (resp_Body res))
        })"

definition NodePoolClient_Update ::
    "'o services \<Rightarrow> string \<Rightarrow> ocm_node_pool \<Rightarrow> ('o world, go_error + ocm_node_pool option) state" where
  "NodePoolClient_Update E clusterID builder =
     (case lib_BuildNodePool (Lib E) builder of
        Inl err \<Rightarrow> State_Monad.return (Inl (Wrap ''unable to build object for node pool update - '' err))
      | Inr object \<Rightarrow> do {
          res \<leftarrow> invoke (NodePoolUpdate clusterID (attr '''' np_ID (Some object)) object)
                   (\<lambda>h. ocm_NodePoolUpdate (Ocm E) h clusterID (attr '''' np_ID (Some object)) object);
          State_Monad.return (case resp_Err res of
              Some err \<Rightarrow> Inl (Wrap ''error in update request - '' err)
            | None \<Rightarrow> Inr (resp_Body res))
        })"

definition NodePoolClient_Delete ::
    "'o services \<Rightarrow> string \<Rightarrow> string \<Rightarrow> ('o world, go_error option) state" where
  "NodePoolClient_Delete E clusterID ident = do {
     res \<leftarrow> invoke (NodePoolDelete clusterID ident) (\<lambda>h. ocm_NodePoolDelete (Ocm E) h clusterID ident);
     State_Monad.return (case resp_Err res of
         Some err \<Rightarrow> (if resp_Status res = StatusNotFound then None
                     else Some (Wrap ''error in delete request - '' err))
       | None \<Rightarrow> None)
   }"

section \<open>Identity providers\<close>

fun find_idp :: "string \<Rightarrow> ocm_idp list \<Rightarrow> ocm_idp option" where
  "find_idp name [] = None"
| "find_idp name (idp # idps) = (if attr '''' idp_Name (Some idp) = name then Some idp else find_idp name idps)"

definition IdpClient_Get ::
    "'o services \<Rightarrow> string \<Rightarrow> string \<Rightarrow> ('o world, go_error + ocm_idp option) state" where
  "IdpClient_Get E name clusterID = do {
     res \<leftarrow> invoke (IdpList clusterID) (\<lambda>h. ocm_IdpList (Ocm2 E) h clusterID);
     State_Monad.return (case resp_Err res of
         Some err \<Rightarrow> Inl (Wrap ''error in get request - '' err)
       | None \<Rightarrow> Inr (find_idp name (case resp_Body res of None \<Rightarrow> [] | Some items \<Rightarrow> items)))
   }"

definition IdpClient_Create ::
    "'o services \<Rightarrow> string \<Rightarrow> ocm_idp \<Rightarrow> ('o world, go_error + ocm_idp option) state" where
  "IdpClient_Create E clusterID builder =
     (case lib_BuildIdp (Lib E) builder of
        Inl err \<Rightarrow> State_Monad.return (Inl (Wrap ''unable to build object for identity provider creation - '' err))
      | Inr object \<Rightarrow> do {
          res \<leftarrow> invoke (IdpAdd clusterID object) (\<lambda>h. ocm_IdpAdd (Ocm2 E) h clusterID object);
          State_Monad.return (case resp_Err res of
              Some err \<Rightarrow> Inl (Wrap ''error in create request - '' err)
            | None \<Rightarrow> Inr (resp_Body res))
        })"

definition IdpClient_Update ::
    "'o services \<Rightarrow> string \<Rightarrow> ocm_idp \<Rightarrow> ('o world, go_error + ocm_idp option) state" where
  "IdpClient_Update E clusterID builder =
     (case lib_BuildIdp (Lib E) builder of
        Inl err \<Rightarrow> State_Monad.return (Inl (Wrap ''unable to build object for identity provider update - '' err))
      | Inr object \<Rightarrow> do {
          res \<leftarrow> invoke (IdpUpdate clusterID (attr '''' idp_ID (Some object)) object)
                   (\<lambda>h. ocm_IdpUpdate (Ocm2 E) h clusterID (attr '''' idp_ID (Some object)) object);
          State_Monad.return (case resp_Err res of
              Some err \<Rightarrow> Inl (Wrap ''error in update request - '' err)
            | None \<Rightarrow> Inr (resp_Body res))
        })"

definition IdpClient_Delete ::
    "'o services \<Rightarrow> string \<Rightarrow> string \<Rightarrow> ('o world, go_error option) state" where
  "IdpClient_Delete E clusterID ident = do {
     res \<leftarrow> invoke (IdpDelete clusterID ident) (\<lambda>h. ocm_IdpDelete (Ocm2 E) h clusterID ident);
     State_Monad.return (case resp_Err res of
         Some err \<Rightarrow> (if resp_Status res = StatusNotFound then None
                     else Some (Wrap ''error in delete request - '' err))
       | None \<Rightarrow> None)
   }"

definition callbackURLPrefix :: string where
  "callbackURLPrefix = ''oauth''"

definition GetCallbackURL :: "ocm_cluster option \<Rightarrow> string \<Rightarrow> string" where
  "GetCallbackURL cluster name =
     callbackURLPrefix @ ''.'' @ attr '''' cl_Name cluster @ ''.'' @ attr '''' cl_BaseDomain cluster @
     ''/oauth2callback/'' @ name"

section \<open>GitLab identity providers\<close>

definition GitLabClient_Get ::
    "'o services \<Rightarrow> string \<Rightarrow> string \<Rightarrow> ('o world, go_error + ocm_gitlab option) state" where
  "GitLabClient_Get E name clusterID = do {
     res \<leftarrow> invoke (IdpGet clusterID name) (\<lambda>h. ocm_IdpGet (Ocm2 E) h clusterID name);
     State_Monad.return (case resp_Err res of
         Some err \<Rightarrow> (if resp_Status res = StatusNotFound then Inr None
                     else Inl (Wrap ''error in get request - '' err))
       | None \<Rightarrow> Inr (sub idp_Gitlab (resp_Body res)))
   }"

definition GitLabClient_Create ::
    "'o services \<Rightarrow> string \<Rightarrow> ocm_gitlab \<Rightarrow> ('o world, go_error + ocm_gitlab option) state" where
  "GitLabClient_Create E clusterID builder =
     (case lib_BuildIdp (Lib E) (empty_idp\<lparr>idp_Gitlab := Some builder\<rparr>) of
        Inl err \<Rightarrow> State_Monad.return
          (Inl (Wrap ''unable to build object for gitlab identity provider creation - '' err))
      | Inr object \<Rightarrow> do {
          res \<leftarrow> invoke (IdpAdd clusterID object) (\<lambda>h. ocm_IdpAdd (Ocm2 E) h clusterID object);
          State_Monad.return (case resp_Err res of
              Some err \<Rightarrow> Inl (Wrap ''error in create request - '' err)
            | None \<Rightarrow> Inr (sub idp_Gitlab (resp_Body res)))
        })"

definition GitLabClient_Update ::
    "'o services \<Rightarrow> string \<Rightarrow> ocm_gitlab \<Rightarrow> ('o world, go_error + ocm_gitlab option) state" where
  "GitLabClient_Update E clusterID builder =
     (case lib_BuildIdp (Lib E) (empty_idp\<lparr>idp_Gitlab := Some builder\<rparr>) of
        Inl err \<Rightarrow> State_Monad.return
          (Inl (Wrap ''unable to build object for gitlab identity provider update - '' err))
      | Inr object \<Rightarrow> do {
          res \<leftarrow> invoke (IdpUpdate clusterID (attr '''' idp_ID (Some object)) object)
                   (\<lambda>h. ocm_IdpUpdate (Ocm2 E) h clusterID (attr '''' idp_ID (Some object)) object);
          State_Monad.return (case resp_Err res of
              Some err \<Rightarrow> Inl (Wrap ''error in update request - '' err)
            | None \<Rightarrow> Inr (sub idp_Gitlab (resp_Body res)))
        })"

definition GitLabClient_Delete ::
    "'o services \<Rightarrow> string \<Rightarrow> string \<Rightarrow> ('o world, go_error option) state" where
  "GitLabClient_Delete E clusterID ident = do {
     res \<leftarrow> invoke (IdpDelete clusterID ident) (\<lambda>h. ocm_IdpDelete (Ocm2 E) h clusterID ident);
     State_Monad.return (case resp_Err res of
         Some err \<Rightarrow> (if resp_Status res = StatusNotFound then None
                     else Some (Wrap ''error in delete request - '' err))
       | None \<Rightarrow> None)
   }"

section \<open>OIDC configurations\<close>

definition OidcClient_Get ::
    "'o services \<Rightarrow> string \<Rightarrow> ('o world, go_error + ocm_oidc_config option) state" where
  "OidcClient_Get E ident = do {
     res \<leftarrow> invoke (OidcGet ident) (\<lambda>h. ocm_OidcGet (Ocm2 E) h ident);
     State_Monad.return (case resp_Err res of
         Some err \<Rightarrow> Inl (Wrap ''error in get request - '' err)
       | None \<Rightarrow> Inr (resp_Body res))
   }"

definition OidcClient_Create :: "'o services \<Rightarrow> ('o world, go_error + ocm_oidc_config option) state" where
  "OidcClient_Create E =
     (case lib_BuildOidc (Lib E) \<lparr>oidc_ID = None, oidc_IssuerUrl = None, oidc_Managed = Some True\<rparr> of
        Inl err \<Rightarrow> State_Monad.return (Inl (Wrap ''unable to build oidc config - '' err))
      | Inr object \<Rightarrow> do {
          res \<leftarrow> invoke (OidcAdd object) (\<lambda>h. ocm_OidcAdd (Ocm2 E) h object);
          State_Monad.return (case resp_Err res of
              Some err \<Rightarrow> Inl (Wrap ''error in create request - '' err)
            | None \<Rightarrow> Inr (resp_Body res))
        })"

definition OidcClient_Delete :: "'o services \<Rightarrow> string \<Rightarrow> ('o world, go_error option) state" where
  "OidcClient_Delete E ident = do {
     res \<leftarrow> invoke (OidcDelete ident) (\<lambda>h. ocm_OidcDelete (Ocm2 E) h ident);
     State_Monad.return (case resp_Err res of
         Some err \<Rightarrow> (if resp_Status res = StatusNotFound then None
                     else Some (Wrap ''error in delete request - '' err))
       | None \<Rightarrow> None)
   }"

section \<open>The contract of deletion\<close>

text \<open>OCM's answer to a deletion that leaves the object absent.\<close>

definition sdk_gone :: "unit sdk_response \<Rightarrow> bool" where
  "sdk_gone r \<longleftrightarrow> resp_Err r = None \<or> resp_Status r = StatusNotFound"

locale ocm_deleter =
  fixes del_call :: "string \<Rightarrow> 'o call"
    and answer :: "'o services \<Rightarrow> 'o hist \<Rightarrow> string \<Rightarrow> unit sdk_response"
    and Delete :: "'o services \<Rightarrow> string \<Rightarrow> ('o world, go_error option) state"
  assumes delete_call: "snd (run_state (Delete E i) w) = w\<lparr>calls := calls w @ [del_call i]\<rparr>"
    and delete_nil_iff: "fst (run_state (Delete E i) w) = None \<longleftrightarrow> sdk_gone (answer E (calls w) i)"
begin

lemma wp_deleteI:
  assumes "sdk_gone (answer E (calls w) i) \<Longrightarrow> Q None (w\<lparr>calls := calls w @ [del_call i]\<rparr>)"
    and "\<And>e. \<not> sdk_gone (answer E (calls w) i) \<Longrightarrow> Q (Some e) (w\<lparr>calls := calls w @ [del_call i]\<rparr>)"
  shows "wp (Delete E i) Q w"
  using assms delete_nil_iff [of E i w] by (cases "fst (run_state (Delete E i) w)") (auto simp: wp_run delete_call)

lemma delete_emits: "P (del_call i) \<Longrightarrow> emits calls P (Delete E i)"
  by (simp add: emits_def delete_call)

text \<open>Repeating a deletion that OCM still answers with not found is harmless.\<close>

lemma delete_again:
  assumes "resp_Status (answer E (calls w @ [del_call i]) i) = StatusNotFound"
  shows "fst (run_state (Delete E i) (snd (run_state (Delete E i) w))) = None"
  using assms by (simp add: delete_nil_iff delete_call sdk_gone_def)

end

lemmas delete_defs = ClusterClient_Delete_def MachinePoolClient_Delete_def NodePoolClient_Delete_def
  IdpClient_Delete_def GitLabClient_Delete_def OidcClient_Delete_def

interpretation cluster_del: ocm_deleter ClusterDelete "\<lambda>E. ocm_ClusterDelete (Ocm E)" ClusterClient_Delete
  by unfold_locales (auto simp: delete_defs sdk_gone_def split: option.splits)

interpretation machine_pool_del: ocm_deleter "MachinePoolDelete cid"
  "\<lambda>E h. ocm_MachinePoolDelete (Ocm E) h cid" "\<lambda>E. MachinePoolClient_Delete E cid" for cid
  by unfold_locales (auto simp: delete_defs sdk_gone_def split: option.splits)

interpretation node_pool_del: ocm_deleter "NodePoolDelete cid"
  "\<lambda>E h. ocm_NodePoolDelete (Ocm E) h cid" "\<lambda>E. NodePoolClient_Delete E cid" for cid
  by unfold_locales (auto simp: delete_defs sdk_gone_def split: option.splits)

interpretation idp_del: ocm_deleter "IdpDelete cid"
  "\<lambda>E h. ocm_IdpDelete (Ocm2 E) h cid" "\<lambda>E. IdpClient_Delete E cid" for cid
  by unfold_locales (auto simp: delete_defs sdk_gone_def split: option.splits)

interpretation gitlab_del: ocm_deleter "IdpDelete cid"
  "\<lambda>E h. ocm_IdpDelete (Ocm2 E) h cid" "\<lambda>E. GitLabClient_Delete E cid" for cid
  by unfold_locales (auto simp: delete_defs sdk_gone_def split: option.splits)

interpretation oidc_del: ocm_deleter OidcDelete "\<lambda>E. ocm_OidcDelete (Ocm2 E)" OidcClient_Delete
  by unfold_locales (auto simp: delete_defs sdk_gone_def split: option.splits)

lemmas delete_emits [emits] = cluster_del.delete_emits machine_pool_del.delete_emits node_pool_del.delete_emits
  idp_del.delete_emits gitlab_del.delete_emits oidc_del.delete_emits

lemmas delete_wpI = cluster_del.wp_deleteI machine_pool_del.wp_deleteI node_pool_del.wp_deleteI
  idp_del.wp_deleteI oidc_del.wp_deleteI

section \<open>Calls of the clients\<close>

lemma emits_clusters [emits]:
  "(\<And>f. P (ClusterSearch f)) \<Longrightarrow> emits calls P (ClusterClient_Get E n)"
  "(\<And>f. P (ClusterSearch f)) \<Longrightarrow> emits calls P (ClusterExists E n)"
  "(\<And>c. P (ClusterAdd c)) \<Longrightarrow> emits calls P (ClusterClient_Create E b)"
  "(\<And>i c. P (ClusterUpdate i c)) \<Longrightarrow> emits calls P (ClusterClient_Update E b)"
  unfolding ClusterClient_Get_def ClusterExists_def ClusterClient_Create_def ClusterClient_Update_def
  by (intro emits; simp)+

lemma emits_pools [emits]:
  "P (MachinePoolGet c n) \<Longrightarrow> emits calls P (MachinePoolClient_Get E n c)"
  "(\<And>p. P (MachinePoolAdd c p)) \<Longrightarrow> emits calls P (MachinePoolClient_Create E c b)"
  "(\<And>i p. P (MachinePoolUpdate c i p)) \<Longrightarrow> emits calls P (MachinePoolClient_Update E c b)"
  "P (NodePoolGet c n) \<Longrightarrow> emits calls P (NodePoolClient_Get E n c)"
  "(\<And>p. P (NodePoolAdd c p)) \<Longrightarrow> emits calls P (NodePoolClient_Create E c b')"
  "(\<And>i p. P (NodePoolUpdate c i p)) \<Longrightarrow> emits calls P (NodePoolClient_Update E c b')"
  unfolding MachinePoolClient_Get_def MachinePoolClient_Create_def MachinePoolClient_Update_def
    NodePoolClient_Get_def NodePoolClient_Create_def NodePoolClient_Update_def
  by (intro emits; simp)+

lemma emits_idps [emits]:
  "P (IdpList c) \<Longrightarrow> emits calls P (IdpClient_Get E n c)"
  "(\<And>p. P (IdpAdd c p)) \<Longrightarrow> emits calls P (IdpClient_Create E c b)"
  "(\<And>i p. P (IdpUpdate c i p)) \<Longrightarrow> emits calls P (IdpClient_Update E c b)"
  unfolding IdpClient_Get_def IdpClient_Create_def IdpClient_Update_def by (intro emits; simp)+

lemma emits_oidc [emits]:
  "P (OidcGet i) \<Longrightarrow> emits calls P (OidcClient_Get E i)"
  "(\<And>x. P (OidcAdd x)) \<Longrightarrow> emits calls P (OidcClient_Create E)"
  unfolding OidcClient_Get_def OidcClient_Create_def by (intro emits; simp)+

section \<open>Lookups\<close>

lemma find_idp_eq: "find_idp name idps = find (\<lambda>x. attr [] idp_Name (Some x) = name) idps"
  by (induction idps) auto

text \<open>What a lookup by name finds after the history \<open>h\<close>.\<close>

definition cluster_lookup :: "'o services \<Rightarrow> 'o hist \<Rightarrow> string \<Rightarrow> go_error + ocm_cluster option" where
  "cluster_lookup E h name = fst (run_state (ClusterClient_Get E name) \<lparr>calls = h, aws_client = None\<rparr>)"

lemma run_ClusterClient_Get:
  "run_state (ClusterClient_Get E name) w =
     (cluster_lookup E (calls w) name, w\<lparr>calls := calls w @ [ClusterSearch (name_filter name)]\<rparr>)"
  by (simp add: ClusterClient_Get_def cluster_lookup_def)

lemma wp_ClusterClient_Get [wp]:
  "wp (ClusterClient_Get E name) Q w =
     Q (cluster_lookup E (calls w) name) (w\<lparr>calls := calls w @ [ClusterSearch (name_filter name)]\<rparr>)"
  by (simp add: wp_def run_ClusterClient_Get)

lemma wp_ClusterExists [wp]:
  "wp (ClusterExists E name) Q w =
     Q (case cluster_lookup E (calls w) name of
          Inl err \<Rightarrow> Inl (Wrap (''unable to retrieve cluster ['' @ name @ ''] - '') err)
        | Inr cluster \<Rightarrow> Inr (cluster, cluster \<noteq> None))
       (w\<lparr>calls := calls w @ [ClusterSearch (name_filter name)]\<rparr>)"
  by (simp add: ClusterExists_def wp)

end
