(* ===== verification/Conditions.thy ===== *)
theory Conditions
  imports OCM_Client
begin

text \<open>
  The status conditions (\<^verbatim>\<open>controllers/conditions\<close>, and the condition constructors of the controllers):
  the conditions themselves as functions of the time they are made at, the comparison that ignores
  time and generation, \<open>addCondition\<close>, \<open>IsSet\<close> and \<open>Update\<close>.

  Shown here: the list of conditions implements a finite map from types to contents, of which
  \<open>addCondition\<close> is the update; the types stay distinct; \<open>Update\<close> makes no call when the condition is
  set and exactly one status patch otherwise.
\<close>

section \<open>Conditions\<close>

definition make_condition :: "string \<Rightarrow> string \<Rightarrow> string \<Rightarrow> string \<Rightarrow> int \<Rightarrow> condition" where
  "make_condition ty status reason message now =
     \<lparr>cond_Type = ty, cond_Status = status, cond_ObservedGeneration = 0, cond_LastTransitionTime = now,
      cond_Reason = reason, cond_Message = message\<rparr>"

definition Reconciling :: "trigger \<Rightarrow> int \<Rightarrow> condition" where
  "Reconciling trigger = make_condition ''Reconciling'' ''True'' (trigger_String trigger) ''beginning reconciliation''"

definition Reconciled :: "trigger \<Rightarrow> int \<Rightarrow> condition" where
  "Reconciled trigger = make_condition ''Reconciling'' ''False'' (trigger_String trigger) ''ending reconciliation''"

definition UpstreamCluster :: "trigger \<Rightarrow> bool \<Rightarrow> int \<Rightarrow> condition" where
  "UpstreamCluster trigger exists =
     (let (message, status) = (if exists then (''upstream cluster exists'', ''True'')
                               else (''upstream cluster is missing'', ''False''))
      in make_condition ''UpstreamClusterExists'' status (trigger_String trigger) message)"

definition IdentityProviderDeleted :: "int \<Rightarrow> condition" where
  "IdentityProviderDeleted = make_condition ''IdentityProviderDeleted'' ''True'' (trigger_String Delete)
     ''identity provider has been deleted from openshift cluster manager''"

definition MachinePoolDeleted :: "int \<Rightarrow> condition" where
  "MachinePoolDeleted = make_condition ''MachinePoolDeleted'' ''True'' (trigger_String Delete)
     ''machine pool has been deleted from openshift cluster manager''"

definition ClusterCreated :: "int \<Rightarrow> condition" where
  "ClusterCreated = make_condition ''ROSAClusterCreated'' ''True'' (trigger_String Create)
     ''rosa cluster has been created''"

definition ClusterUpdated :: "int \<Rightarrow> condition" where
  "ClusterUpdated = make_condition ''ROSAClusterUpdated'' ''True'' (trigger_String Update)
     ''rosa cluster has been updated''"

definition ClusterUninstalling :: "int \<Rightarrow> condition" where
  "ClusterUninstalling = make_condition ''ROSAClusterUninstalling'' ''True'' (trigger_String Delete)
     ''rosa cluster has been deleted from openshift cluster manager and is uninstalling''"

definition ClusterDeleted :: "int \<Rightarrow> condition" where
  "ClusterDeleted = make_condition ''ROSAClusterDeleted'' ''True'' (trigger_String Delete)
     ''rosa infrastructure has been deleted''"

definition OperatorRolesDeleted :: "int \<Rightarrow> condition" where
  "OperatorRolesDeleted = make_condition ''ROSAOperatorRolesDeleted'' ''True'' (trigger_String Delete)
     ''operator roles have been deleted from aws''"

definition OIDCProviderDeleted :: "int \<Rightarrow> condition" where
  "OIDCProviderDeleted = make_condition ''OIDCProviderDeleted'' ''True'' (trigger_String Delete)
     ''oidc provider has been deleted from aws''"

definition OIDCConfigDeleted :: "int \<Rightarrow> condition" where
  "OIDCConfigDeleted = make_condition ''OIDCConfigDeleted'' ''True'' (trigger_String Delete)
     ''oidc config has been deleted from ocm''"

section \<open>Operations\<close>

definition equalCondition :: "condition \<Rightarrow> condition \<Rightarrow> bool" where
  "equalCondition existing newCondition \<longleftrightarrow>
     existing\<lparr>cond_LastTransitionTime := cond_LastTransitionTime newCondition,
       cond_ObservedGeneration := cond_ObservedGeneration newCondition\<rparr> = newCondition"

fun is_set_loop :: "condition \<Rightarrow> condition list \<Rightarrow> bool" where
  "is_set_loop c [] = False"
| "is_set_loop c (existing # rest) = (if equalCondition c existing then True else is_set_loop c rest)"

definition IsSet :: "condition \<Rightarrow> 'a workload_scheme \<Rightarrow> bool" where
  "IsSet c on = is_set_loop c (GetConditions on)"

fun add_loop :: "condition list \<Rightarrow> condition \<Rightarrow> condition list option" where
  "add_loop [] c = None"
| "add_loop (existing # rest) c =
     (if cond_Type existing = cond_Type c then
        if equalCondition existing c then Some (existing # rest) else Some (c # rest)
      else map_option ((#) existing) (add_loop rest c))"

definition addCondition :: "condition list \<Rightarrow> condition \<Rightarrow> condition list" where
  "addCondition existing c =
     (if length existing < 1 then [c]
      else (case add_loop existing c of Some cs \<Rightarrow> cs | None \<Rightarrow> existing @ [c]))"

text \<open>A status patch of the original object of a request; \<open>base\<close> is the copy taken before the change.\<close>

definition patch_original ::
    "'o services \<Rightarrow> 'o \<Rightarrow> (('o, 'x) request_scheme, go_error option) state" where
  "patch_original E base = do {
     r \<leftarrow> State_Monad.get;
     (obj, err) \<leftarrow> on_world (PatchStatus E base (Original r));
     modify (\<lambda>r. r\<lparr>Original := obj\<rparr>);
     State_Monad.return err
   }"

definition condition_Update ::
    "('a workload_scheme) services \<Rightarrow> (int \<Rightarrow> condition) \<Rightarrow>
     (('a workload_scheme, 'x) request_scheme, go_error option) state" where
  "condition_Update E mk = do {
     r \<leftarrow> State_Monad.get;
     let c = mk (kube_Now (Kube E) (req_calls r));
     (if IsSet c (Original r) then State_Monad.return None
      else do {
        modify (\<lambda>r. r\<lparr>Original := SetConditions (addCondition (GetConditions (Original r)) c) (Original r)\<rparr>);
        patch_original E (Original r)
      })
   }"

definition UpdateDeletedConditionError :: "go_error \<Rightarrow> go_error" where
  "UpdateDeletedConditionError = Wrap ''error updating deleted condition - ''"

definition UpdateReconcilingConditionError :: "go_error \<Rightarrow> go_error" where
  "UpdateReconcilingConditionError = Wrap ''error updating reconciling condition - ''"

section \<open>The map that the list implements\<close>

definition cond_content :: "condition \<Rightarrow> string \<times> string \<times> string" where
  "cond_content c = (cond_Status c, cond_Reason c, cond_Message c)"

definition cond_map :: "condition list \<Rightarrow> string \<rightharpoonup> string \<times> string \<times> string" where
  "cond_map cs = map_of (map (\<lambda>c. (cond_Type c, cond_content c)) cs)"

definition conditions_wf :: "condition list \<Rightarrow> bool" where
  "conditions_wf cs \<longleftrightarrow> distinct (map cond_Type cs)"

lemma equalCondition_iff:
  "equalCondition a b \<longleftrightarrow> cond_Type a = cond_Type b \<and> cond_content a = cond_content b"
  by (cases a; cases b) (auto simp: equalCondition_def cond_content_def)

lemma is_set_loop_iff: "is_set_loop c cs \<longleftrightarrow> (\<exists>x \<in> set cs. equalCondition c x)"
  by (induction cs) auto

lemma IsSet_iff:
  "IsSet c w \<longleftrightarrow> (\<exists>x \<in> set (GetConditions w). cond_Type x = cond_Type c \<and> cond_content x = cond_content c)"
  unfolding IsSet_def is_set_loop_iff equalCondition_iff by metis

lemma IsSet_make_condition: "IsSet (make_condition ty s r m t) w \<longleftrightarrow> IsSet (make_condition ty s r m t') w"
  by (simp add: IsSet_iff make_condition_def cond_content_def)

lemma add_loop_None_iff: "add_loop cs c = None \<longleftrightarrow> cond_Type c \<notin> cond_Type ` set cs"
  by (induction cs) auto

lemma add_loop_Some: "add_loop cs c = Some ds \<Longrightarrow>
    cond_map ds = (cond_map cs)(cond_Type c \<mapsto> cond_content c) \<and> map cond_Type ds = map cond_Type cs"
proof (induction cs arbitrary: ds)
  case (Cons x cs)
  then show ?case
    by (auto simp: cond_map_def equalCondition_iff fun_upd_twist split: if_splits)
qed simp

lemma addCondition_cases:
  "addCondition cs c = (case add_loop cs c of Some ds \<Rightarrow> ds | None \<Rightarrow> cs @ [c])"
  by (cases cs) (auto simp: addCondition_def split: option.splits)

lemma cond_map_addCondition: "cond_map (addCondition cs c) = (cond_map cs)(cond_Type c \<mapsto> cond_content c)"
proof (cases "add_loop cs c")
  case None
  then have "cond_map cs (cond_Type c) = None"
    by (auto simp: add_loop_None_iff cond_map_def map_of_eq_None_iff image_image)
  with None show ?thesis
    by (auto simp: addCondition_cases cond_map_def map_add_def fun_eq_iff split: option.splits)
next
  case (Some ds)
  with add_loop_Some [OF Some] show ?thesis by (simp add: addCondition_cases)
qed

lemma conditions_wf_add: "conditions_wf cs \<Longrightarrow> conditions_wf (addCondition cs c)"
  using add_loop_Some [of cs c]
  by (auto simp: addCondition_cases conditions_wf_def add_loop_None_iff split: option.splits)

lemma cond_map_Some_iff: "conditions_wf cs \<Longrightarrow>
    cond_map cs ty = Some x \<longleftrightarrow> (\<exists>c \<in> set cs. cond_Type c = ty \<and> cond_content c = x)"
  by (auto simp: conditions_wf_def cond_map_def map_of_eq_Some_iff comp_def)

lemma IsSet_addCondition: "IsSet c (SetConditions (addCondition cs c) w)"
proof (cases "add_loop cs c")
  case None
  then show ?thesis by (simp add: IsSet_iff addCondition_cases)
next
  case (Some ds)
  then have "\<exists>x \<in> set ds. cond_Type x = cond_Type c \<and> cond_content x = cond_content c"
    by (induction cs arbitrary: ds) (auto simp: equalCondition_iff split: if_splits)
  with Some show ?thesis by (auto simp: IsSet_iff addCondition_cases)
qed

section \<open>Effects\<close>

lemma wp_patch_original [wp]:
  "wp (patch_original E base) Q r =
     (case (case kube_StatusPatch (Kube E) (req_calls r) base (Original r) of
         Inr obj \<Rightarrow> (obj, None)
       | Inl err \<Rightarrow> (if isOptimisticLockError err then (Original r, None)
                    else (Original r, Some (Wrap ''unable to patch status - '' err)))) of
       (obj, err) \<Rightarrow> Q err (r\<lparr>World := (World r)\<lparr>calls := req_calls r @ [KStatusPatch base (Original r)]\<rparr>,
                              Original := obj\<rparr>))"
  by (simp add: patch_original_def wp)

lemma emits_patch_original [emits]:
  "(\<And>p. P (KStatusPatch base p)) \<Longrightarrow> emits req_calls P (patch_original E base)"
  unfolding patch_original_def by (intro emits) auto

lemma emits_condition_Update [emits]:
  "(\<And>b p. P (KStatusPatch b p)) \<Longrightarrow> emits req_calls P (condition_Update E mk)"
  unfolding condition_Update_def Let_def by (intro emits) auto

lemma keeps_patch_original [keeps]:
  assumes "\<And>r w. f (r\<lparr>World := w\<rparr>) = f r" "\<And>r obj. f (r\<lparr>Original := obj\<rparr>) = f r"
  shows "keeps f (patch_original E base)"
  unfolding patch_original_def by (intro keeps assms)

lemma keeps_condition_Update [keeps]:
  assumes "\<And>r w. f (r\<lparr>World := w\<rparr>) = f r" "\<And>r obj. f (r\<lparr>Original := obj\<rparr>) = f r"
  shows "keeps f (condition_Update E mk)"
  unfolding condition_Update_def Let_def by (intro keeps assms)

lemma condition_Update_set:
  "IsSet (mk (kube_Now (Kube E) (req_calls r))) (Original r) \<Longrightarrow>
   run_state (condition_Update E mk) r = (None, r)"
  by (simp add: condition_Update_def Let_def)

text \<open>The parts of a request that a condition update leaves alone.\<close>

definition same_request :: "('o, 'x) request_scheme \<Rightarrow> ('o, 'x) request_scheme \<Rightarrow> bool" where
  "same_request r s \<longleftrightarrow> r\<lparr>World := World s, Original := Original s\<rparr> = s"

lemma same_request_refl [simp]: "same_request r r"
  by (simp add: same_request_def)

lemma same_request_upd [simp]:
  "same_request r (s\<lparr>World := w\<rparr>) = same_request r s"
  "same_request r (s\<lparr>Original := o'\<rparr>) = same_request r s"
  by (cases r; cases s; auto simp: same_request_def)+

lemma same_request_trans: "same_request r s \<Longrightarrow> same_request s t \<Longrightarrow> same_request r t"
  by (cases r; cases s; cases t) (simp add: same_request_def)

lemma same_requestD:
  assumes "same_request r s"
  shows "Desired s = Desired r" "Current s = Current r" "Trigger s = Trigger r"
    "request.more s = request.more r"
  using assms by (auto simp: same_request_def dest: arg_cong [of _ _ Desired] arg_cong [of _ _ Current]
      arg_cong [of _ _ Trigger] arg_cong [of _ _ request.more])

section \<open>Properties\<close>

text \<open>
  C24: the condition list implements a map from condition types to status, reason and message, and
  \<open>addCondition\<close> is the update of that map; a list with one condition per type stays such a list.
\<close>

theorem addCondition_refines:
  "cond_map (addCondition cs c) = (cond_map cs)(cond_Type c \<mapsto> (cond_Status c, cond_Reason c, cond_Message c)) \<and>
   (conditions_wf cs \<longrightarrow> conditions_wf (addCondition cs c))"
  using cond_map_addCondition conditions_wf_add by (simp add: cond_content_def)

theorem addCondition_refines_witness:
  "conditions_wf (addCondition [Reconciling Create 1, ClusterCreated 2] (Reconciled Create 3)) \<and>
   cond_map (addCondition [Reconciling Create 1, ClusterCreated 2] (Reconciled Create 3)) ''Reconciling'' =
     Some (''False'', ''Create'', ''ending reconciliation'')"
  using addCondition_refines [of "[Reconciling Create 1, ClusterCreated 2]" "Reconciled Create 3"]
  by (simp add: conditions_wf_def Reconciling_def ClusterCreated_def Reconciled_def make_condition_def)

text \<open>
  C25: updating a condition makes no call and changes nothing when the object has the condition
  (whatever its time), and otherwise makes exactly one call, a status patch from the object as it
  was to the object with the condition added; if the server stores what it is sent, the condition
  is set afterwards, so that a second update makes no call.
\<close>

theorem condition_Update_behaviour:
  assumes "run_state (condition_Update E mk) r = (err, r')"
    and "c = mk (kube_Now (Kube E) (req_calls r))"
    and "new = SetConditions (addCondition (GetConditions (Original r)) c) (Original r)"
  shows "if IsSet c (Original r) then err = None \<and> r' = r
    else req_calls r' = req_calls r @ [KStatusPatch (Original r) new] \<and>
      (kube_StatusPatch (Kube E) (req_calls r) (Original r) new = Inr new \<longrightarrow>
        err = None \<and> Original r' = new \<and> IsSet c (Original r'))"
proof (cases "IsSet c (Original r)")
  case True
  with assms show ?thesis by (simp add: condition_Update_set)
next
  case False
  have "wp (condition_Update E mk) (\<lambda>err r'. req_calls r' = req_calls r @ [KStatusPatch (Original r) new] \<and>
      (kube_StatusPatch (Kube E) (req_calls r) (Original r) new = Inr new \<longrightarrow>
        err = None \<and> Original r' = new)) r"
    using False assms(2,3) by (simp add: condition_Update_def wp Let_def split: sum.splits)
  from wpD [OF this assms(1)] False assms(3) IsSet_addCondition show ?thesis by auto
qed

definition sample_request :: "'o \<Rightarrow> 'o request" where
  "sample_request obj = \<lparr>World = empty_world, Original = obj, Desired = obj, Current = None, Trigger = Update\<rparr>"

theorem condition_Update_behaviour_witness:
  "\<exists>err r'. run_state (condition_Update (sample_services example_pool) (Reconciling Update))
      (sample_request example_pool) = (err, r') \<and> length (req_calls r') = 1 \<and>
    IsSet (Reconciling Update 0) (Original r')"
proof -
  obtain err r' where r: "run_state (condition_Update (sample_services example_pool) (Reconciling Update))
      (sample_request example_pool) = (err, r')" by fastforce
  have "\<not> IsSet (Reconciling Update 0) example_pool"
    by (simp add: IsSet_iff GetConditions_def example_pool_def zero_MachinePool_def)
  with condition_Update_behaviour [OF r refl refl] r show ?thesis
    by (auto simp: sample_request_def sample_defs)
qed

end
