(* ===== verification/Controllers.thy ===== *)
theory Controllers
  imports Conditions
begin

text \<open>
  What the four controllers share: results and requeues (\<^verbatim>\<open>controllers/requeue\<close>), request errors, the
  upstream cluster of a request (\<^verbatim>\<open>controllers/request\<close>), the phase handler and the common phases
  (\<^verbatim>\<open>controllers/phases\<close>), finalizers (\<^verbatim>\<open>controllers/finalizers.go\<close>) and the reconciliation loop
  (\<^verbatim>\<open>controllers/controller.go\<close>).

  The Go interfaces \<open>request.Request\<close>, \<open>request.Cluster\<close> and \<open>controllers.Controller\<close> are the records
  \<open>request_ops\<close>, \<open>cluster_ops\<close> and \<open>controller\<close>, which each controller fills in. A duration is an
  integer in nanoseconds. Log output and the conversions between interface types, which the HOL
  types make unnecessary, are left out.
\<close>

section \<open>Results\<close>

record ctrl_result =
  Result_Requeue :: bool
  Result_RequeueAfter :: int

type_synonym go_result = "ctrl_result \<times> go_error option"

record 'r request_ops =
  DefaultRequeue :: "'r \<Rightarrow> int"
  GetName :: "'r \<Rightarrow> string"

record 'r cluster_ops = "'r request_ops" +
  GetClusterName :: "'r \<Rightarrow> string"
  SetClusterStatus :: "ocm_cluster option \<Rightarrow> 'r \<Rightarrow> 'r"

definition Second :: int where
  "Second = 1000000000"

definition After :: "int \<Rightarrow> go_error option \<Rightarrow> go_result" where
  "After seconds err = (\<lparr>Result_Requeue = True, Result_RequeueAfter = seconds\<rparr>, err)"

definition Skip :: "go_error option \<Rightarrow> go_result" where
  "Skip err = (\<lparr>Result_Requeue = False, Result_RequeueAfter = 0\<rparr>, err)"

definition requeue_None :: go_result where
  "requeue_None = Skip None"

definition OnError :: "('r, 'y) request_ops_scheme \<Rightarrow> 'r \<Rightarrow> go_error option \<Rightarrow> go_result" where
  "OnError ops req err = After (DefaultRequeue ops req) err"

definition OnSuccess :: "('r, 'y) request_ops_scheme \<Rightarrow> 'r \<Rightarrow> go_result" where
  "OnSuccess ops req = After (DefaultRequeue ops req) None"

definition Retry :: "('r, 'y) request_ops_scheme \<Rightarrow> 'r \<Rightarrow> go_result" where
  "Retry ops req = OnSuccess ops req"

definition Next :: go_result where
  "Next = Skip None"

section \<open>Errors\<close>

definition request_Error :: "('a workload_scheme, 'x) request_scheme \<Rightarrow> go_error option \<Rightarrow> go_error option" where
  "request_Error req err =
     (case err of None \<Rightarrow> None
      | Some e \<Rightarrow> Some (Wrap (''request='' @ Namespace (Original req) @ ''/'' @ Name (Original req) @ '' - '') e))"

definition GetError ::
    "(('a workload_scheme, 'x) request_scheme, 'y) request_ops_scheme \<Rightarrow>
     ('a workload_scheme, 'x) request_scheme \<Rightarrow> go_error \<Rightarrow> go_error" where
  "GetError ops req err = Wrap (''unable to get ['' @ Kind (Original req) @ ''] with name ['' @
     GetName ops req @ ''] from ocm - '') err"

definition CreateError ::
    "(('a workload_scheme, 'x) request_scheme, 'y) request_ops_scheme \<Rightarrow>
     ('a workload_scheme, 'x) request_scheme \<Rightarrow> go_error \<Rightarrow> go_error" where
  "CreateError ops req err = Wrap (''unable to create ['' @ Kind (Original req) @ ''] with name ['' @
     GetName ops req @ ''] in ocm - '') err"

definition UpdateError ::
    "(('a workload_scheme, 'x) request_scheme, 'y) request_ops_scheme \<Rightarrow>
     ('a workload_scheme, 'x) request_scheme \<Rightarrow> go_error \<Rightarrow> go_error" where
  "UpdateError ops req err = Wrap (''unable to update ['' @ Kind (Original req) @ ''] with name ['' @
     GetName ops req @ ''] in ocm - '') err"

definition DeleteError ::
    "(('a workload_scheme, 'x) request_scheme, 'y) request_ops_scheme \<Rightarrow>
     ('a workload_scheme, 'x) request_scheme \<Rightarrow> go_error \<Rightarrow> go_error" where
  "DeleteError ops req err = Wrap (''unable to delete ['' @ Kind (Original req) @ ''] with name ['' @
     GetName ops req @ ''] from ocm - '') err"

section \<open>Phases\<close>

type_synonym 'r phase = "string \<times> ('r, go_result outcome) state"

text \<open>
  \<open>Execute\<close> runs the phases in order; an error stops it with the default requeue and the error
  wrapped, a requeue stops it with the phase's result.
\<close>

fun Execute ::
    "(('a workload_scheme, 'x) request_scheme, 'y) request_ops_scheme \<Rightarrow>
     (('a workload_scheme, 'x) request_scheme) phase list \<Rightarrow>
     (('a workload_scheme, 'x) request_scheme, go_result outcome) state" where
  "Execute ops [] = State_Monad.return (Ret (Skip None))"
| "Execute ops ((name, f) # phases) = do {
     out \<leftarrow> f;
     (case out of
        Panic m \<Rightarrow> State_Monad.return (Panic m)
      | Diverge \<Rightarrow> State_Monad.return Diverge
      | Ret (result, err) \<Rightarrow>
          (case err of
             Some e \<Rightarrow> do {
               r \<leftarrow> State_Monad.get;
               State_Monad.return (Ret (OnError ops r
                 (request_Error r (Some (Wrap (''error in phase ['' @ name @ ''] - '') e)))))
             }
           | None \<Rightarrow>
               (if Result_Requeue result then State_Monad.return (Ret (result, None))
                else Execute ops phases)))
   }"

section \<open>The upstream cluster\<close>

definition errRetrieveClusterMessage :: string where
  "errRetrieveClusterMessage = ''unable to retrieve cluster from ocm''"

definition ErrMissingClusterID :: go_error where
  "ErrMissingClusterID = NewError ''unable to find cluster id''"

text \<open>
  The first part: the cluster by name when the object has no cluster identifier, and by
  identifier otherwise. The Boolean says whether the status is to be updated with the cluster
  found; the early returns without an error have it false. A failed lookup by identifier with a
  status other than 404 is not reported: it goes on with the body of the response.
\<close>

definition find_upstream ::
    "('a workload_scheme) services \<Rightarrow> (('a workload_scheme, 'x) request_scheme, 'y) cluster_ops_scheme \<Rightarrow>
     (('a workload_scheme, 'x) request_scheme, go_error + ocm_cluster option \<times> bool) state" where
  "find_upstream E ops = do {
     r \<leftarrow> State_Monad.get;
     (if GetClusterID (Original r) = '''' then do {
        res \<leftarrow> on_world (ClusterClient_Get E (GetClusterName ops r));
        State_Monad.return (case res of
            Inl err \<Rightarrow> Inl (Wrap (errRetrieveClusterMessage @ '': ['' @ GetClusterName ops r @ ''] - '') err)
          | Inr None \<Rightarrow> Inr (None, False)
          | Inr (Some cluster) \<Rightarrow>
              if attr '''' cl_ID (Some cluster) = ''''
              then Inl (Wrap (errRetrieveClusterMessage @ '': ['' @ GetClusterName ops r @ ''] - '') ErrMissingClusterID)
              else Inr (Some cluster, True))
      } else do {
        res \<leftarrow> on_world (invoke (ClusterGet (GetClusterID (Original r)))
                 (\<lambda>h. ocm_ClusterGet (Ocm E) h (GetClusterID (Original r))));
        State_Monad.return
          (if resp_Err res \<noteq> None \<and> resp_Status res = StatusNotFound then Inr (None, False)
           else Inr (resp_Body res, True))
      })
   }"

text \<open>
  The second part: the status is updated and patched. The comparison that should skip the patch
  compares a pointer to an unstructured object with a typed object and is never true; the conversion
  before it, \<open>ToUnstructured\<close>, does not fail for the typed objects of the operator.
\<close>

definition GetUpstreamCluster ::
    "('a workload_scheme) services \<Rightarrow> (('a workload_scheme, 'x) request_scheme, 'y) cluster_ops_scheme \<Rightarrow>
     (('a workload_scheme, 'x) request_scheme, go_error + ocm_cluster option) state" where
  "GetUpstreamCluster E ops = do {
     found \<leftarrow> find_upstream E ops;
     (case found of
        Inl err \<Rightarrow> State_Monad.return (Inl err)
      | Inr (cluster, update) \<Rightarrow>
          if \<not> update then State_Monad.return (Inr cluster)
          else do {
            r \<leftarrow> State_Monad.get;
            modify (SetClusterStatus ops cluster);
            err \<leftarrow> patch_original E (Original r);
            State_Monad.return (case err of
                Some e \<Rightarrow> Inl (Wrap (''unable to update status.clusterID='' @ attr '''' cl_ID cluster @ '' - '') e)
              | None \<Rightarrow> Inr cluster)
          })
   }"

definition defaultMissingUpstreamRequeue :: int where
  "defaultMissingUpstreamRequeue = 60 * Second"

definition HandleClusterPhase ::
    "('a workload_scheme) services \<Rightarrow> (('a workload_scheme, 'x) request_scheme, 'y) cluster_ops_scheme \<Rightarrow>
     trigger \<Rightarrow> (('a workload_scheme, 'x) request_scheme, go_result outcome) state" where
  "HandleClusterPhase E ops trigger = do {
     found \<leftarrow> GetUpstreamCluster E ops;
     r \<leftarrow> State_Monad.get;
     (case found of
        Inl err \<Rightarrow> State_Monad.return (Ret (After defaultMissingUpstreamRequeue
          (Some (Wrap (''unable to handle upstream cluster: ['' @ GetClusterName ops r @ ''] - '') err))))
      | Inr cluster \<Rightarrow> do {
          let clusterExists = (cluster \<noteq> None);
          err \<leftarrow> condition_Update E (UpstreamCluster trigger clusterExists);
          State_Monad.return (Ret (case err of
              Some e \<Rightarrow> After defaultMissingUpstreamRequeue
                (Some (Wrap (''unable to update status on cluster: ['' @ GetClusterName ops r @ ''] - '') e))
            | None \<Rightarrow>
                if \<not> clusterExists then After defaultMissingUpstreamRequeue None
                else if cluster_State cluster \<noteq> ClusterStateReady then After defaultMissingUpstreamRequeue None
                else Next))
        })
   }"

section \<open>Finalizers\<close>

definition defaultFinalizerSuffix :: string where
  "defaultFinalizerSuffix = ''finalizer''"

definition FinalizerName :: "'a workload_scheme \<Rightarrow> string" where
  "FinalizerName object = strings_ToLower (Kind object @ ''.'' @ Group object @ ''/'' @ defaultFinalizerSuffix)"

definition HasFinalizer :: "('a workload_scheme) services \<Rightarrow> 'a workload_scheme \<Rightarrow> bool" where
  "HasFinalizer E object = lib_Has (Lib E) (Finalizers object) (FinalizerName object)"

definition AddFinalizer ::
    "('a workload_scheme) services \<Rightarrow> (('a workload_scheme, 'x) request_scheme, go_error option) state" where
  "AddFinalizer E = do {
     r \<leftarrow> State_Monad.get;
     (if \<not> HasFinalizer E (Original r) then do {
        let original = Original r;
        let object = original\<lparr>Finalizers := lib_AddFinalizer (Lib E) (Finalizers original) (FinalizerName original)\<rparr>;
        res \<leftarrow> on_world (invoke (KPatch original object) (\<lambda>h. kube_Patch (Kube E) h original object));
        modify (\<lambda>r. r\<lparr>Original := (case res of Inl e \<Rightarrow> object | Inr obj \<Rightarrow> obj)\<rparr>);
        State_Monad.return (case res of
            Inl err \<Rightarrow> Some (Wrap ''unable to add finalizer - '' err)
          | Inr obj \<Rightarrow> None)
      } else State_Monad.return None)
   }"

definition RemoveFinalizer ::
    "('a workload_scheme) services \<Rightarrow> (('a workload_scheme, 'x) request_scheme, go_error option) state" where
  "RemoveFinalizer E = do {
     r \<leftarrow> State_Monad.get;
     (if HasFinalizer E (Original r) then do {
        let original = Original r;
        let object = original\<lparr>Finalizers := lib_RemoveFinalizer (Lib E) (Finalizers original) (FinalizerName original)\<rparr>;
        res \<leftarrow> on_world (invoke (KPatch original object) (\<lambda>h. kube_Patch (Kube E) h original object));
        modify (\<lambda>r. r\<lparr>Original := (case res of Inl e \<Rightarrow> object | Inr obj \<Rightarrow> obj)\<rparr>);
        State_Monad.return (case res of
            Inl err \<Rightarrow> Some (Wrap ''unable to remove finalizer - '' err)
          | Inr obj \<Rightarrow> None)
      } else State_Monad.return None)
   }"

definition AddFinalizerError :: "go_error \<Rightarrow> go_error" where
  "AddFinalizerError = Wrap ''unable to add finalizers - ''"

definition RemoveFinalizerError :: "go_error \<Rightarrow> go_error" where
  "RemoveFinalizerError = Wrap ''unable to remove finalizers - ''"

section \<open>Completion\<close>

definition Complete ::
    "('a workload_scheme) services \<Rightarrow> (('a workload_scheme, 'x) request_scheme, 'y) request_ops_scheme \<Rightarrow>
     trigger \<Rightarrow> int \<Rightarrow> (('a workload_scheme, 'x) request_scheme, go_result outcome) state" where
  "Complete E ops trigger interval = do {
     err \<leftarrow> condition_Update E (Reconciled trigger);
     r \<leftarrow> State_Monad.get;
     State_Monad.return (Ret (case err of
         Some e \<Rightarrow> OnError ops r (Some (UpdateReconcilingConditionError e))
       | None \<Rightarrow> After interval None))
   }"

definition CompleteDestroy ::
    "('a workload_scheme) services \<Rightarrow> (('a workload_scheme, 'x) request_scheme, 'y) request_ops_scheme \<Rightarrow>
     (('a workload_scheme, 'x) request_scheme, go_result outcome) state" where
  "CompleteDestroy E ops = do {
     err \<leftarrow> RemoveFinalizer E;
     r \<leftarrow> State_Monad.get;
     State_Monad.return (Ret (case err of
         Some e \<Rightarrow> OnError ops r (Some (RemoveFinalizerError e))
       | None \<Rightarrow> requeue_None))
   }"

section \<open>The reconciliation loop\<close>

text \<open>
  \<open>NewRequest\<close> runs on the world; the world of the request it returns is set when the request is
  run (\<open>run_request\<close>).
\<close>

record ('o, 'r) controller =
  NewRequest :: "string \<Rightarrow> string \<Rightarrow> ('o world, (go_error + 'r) outcome) state"
  ReconcileCreate :: "('r, go_result outcome) state"
  ReconcileUpdate :: "('r, go_result outcome) state"
  ReconcileDelete :: "('r, go_result outcome) state"

definition run_request ::
    "('o, 'x) request_scheme \<Rightarrow> (('o, 'x) request_scheme, 'a) state \<Rightarrow> ('o world, 'a) state" where
  "run_request r m = State (\<lambda>w.
     (fst (run_state m (r\<lparr>World := w\<rparr>)), World (snd (run_state m (r\<lparr>World := w\<rparr>)))))"

definition defaultRequeue :: int where
  "defaultRequeue = 30 * Second"

definition ErrTriggerUnknown :: go_error where
  "ErrTriggerUnknown = NewError ''unknown controller trigger''"

definition dispatch ::
    "('a workload_scheme) services \<Rightarrow> ('a workload_scheme, ('a workload_scheme, 'x) request_scheme) controller \<Rightarrow>
     (('a workload_scheme, 'x) request_scheme, go_result outcome) state" where
  "dispatch E C = do {
     r \<leftarrow> State_Monad.get;
     let trigger = GetTrigger (Original r);
     err \<leftarrow> condition_Update E (Reconciling trigger);
     (case err of
        Some e \<Rightarrow> State_Monad.return (Ret (After defaultRequeue (Some (UpdateReconcilingConditionError e))))
      | None \<Rightarrow>
          (if trigger_String trigger = ''Create'' then ReconcileCreate C
           else if trigger_String trigger = ''Update'' then ReconcileUpdate C
           else if trigger_String trigger = ''Delete'' then ReconcileDelete C
           else do {
             r' \<leftarrow> State_Monad.get;
             State_Monad.return (Ret (Skip (request_Error r' (Some ErrTriggerUnknown))))
           }))
   }"

definition Reconcile ::
    "('a workload_scheme) services \<Rightarrow> ('a workload_scheme, ('a workload_scheme, 'x) request_scheme) controller \<Rightarrow>
     string \<Rightarrow> string \<Rightarrow> (('a workload_scheme) world, go_result outcome) state" where
  "Reconcile E C namespace name = do {
     res \<leftarrow> NewRequest C namespace name;
     (case res of
        Panic m \<Rightarrow> State_Monad.return (Panic m)
      | Diverge \<Rightarrow> State_Monad.return Diverge
      | Ret (Inl err) \<Rightarrow>
          State_Monad.return (Ret (if \<not> IsNotFound err
            then Skip (Some (Wrap ''unable to create request - '' err)) else Skip None))
      | Ret (Inr req) \<Rightarrow> run_request req (dispatch E C))
   }"

section \<open>Lemmas: results\<close>

lemmas result_defs = After_def Skip_def requeue_None_def OnError_def OnSuccess_def Retry_def Next_def

lemma result_simps [simp]:
  "Result_Requeue (fst (After d e))" "\<not> Result_Requeue (fst (Skip e))" "\<not> Result_Requeue (fst Next)"
  "snd (After d e) = e" "snd (Skip e) = e" "snd Next = None"
  "After d e \<noteq> Next" "After d e \<noteq> Skip e'" "OnError ops r e \<noteq> Next" "Retry ops r \<noteq> Next"
  by (simp_all add: result_defs)

text \<open>A phase passes when it returns neither an error nor a requeue.\<close>

definition passed :: "go_result outcome \<Rightarrow> bool" where
  "passed out \<longleftrightarrow> (\<exists>res. out = Ret (res, None) \<and> \<not> Result_Requeue res)"

lemma passed_simps [simp]:
  "\<not> passed (Panic m)" "\<not> passed Diverge" "\<not> passed (Ret (After d e))" "passed (Ret Next)"
  "\<not> passed (Ret (OnError ops r e))" "\<not> passed (Ret (Retry ops r))" "passed (Ret requeue_None)"
  "passed (Ret (Skip e)) \<longleftrightarrow> e = None"
  by (simp_all add: passed_def result_defs)

section \<open>Lemmas: the phase handler\<close>

text \<open>What \<open>Execute\<close> returns when a phase did not pass.\<close>

definition stop_result ::
    "(('a workload_scheme, 'x) request_scheme, 'y) request_ops_scheme \<Rightarrow> string \<Rightarrow> go_result outcome \<Rightarrow>
     ('a workload_scheme, 'x) request_scheme \<Rightarrow> go_result outcome" where
  "stop_result ops name out r =
     (case out of Ret (res, Some e) \<Rightarrow>
        Ret (OnError ops r (request_Error r (Some (Wrap (''error in phase ['' @ name @ ''] - '') e))))
      | out \<Rightarrow> out)"

lemma wp_Execute_Nil [wp]: "wp (Execute ops []) Q r = Q (Ret (Skip None)) r"
  by (simp add: wp)

lemma wp_Execute_Cons [wp]:
  "wp (Execute ops ((n, f) # ps)) Q r =
     wp f (\<lambda>out s. if passed out then wp (Execute ops ps) Q s else Q (stop_result ops n out s) s) r"
proof -
  have "wp (case out of Panic m \<Rightarrow> State_Monad.return (Panic m) | Diverge \<Rightarrow> State_Monad.return Diverge
      | Ret (result, err) \<Rightarrow> (case err of
           Some e \<Rightarrow> do { r \<leftarrow> State_Monad.get;
             State_Monad.return (Ret (OnError ops r (request_Error r (Some (Wrap (''error in phase ['' @ n @ ''] - '') e))))) }
         | None \<Rightarrow> (if Result_Requeue result then State_Monad.return (Ret (result, None)) else Execute ops ps))) Q s =
     (if passed out then wp (Execute ops ps) Q s else Q (stop_result ops n out s) s)" for out s
    by (cases out) (auto simp: passed_def stop_result_def wp split: prod.splits option.splits)
  then show ?thesis
    unfolding Execute.simps wp_bind by (intro arg_cong [where f = "\<lambda>X. wp f X r"] ext)
qed

declare Execute.simps [simp del]

lemma run_Execute_Nil: "run_state (Execute ops []) r = (Ret (Skip None), r)"
  by (simp add: Execute.simps)

lemma run_Execute_Cons:
  assumes "run_state f r = (out, s)"
  shows "run_state (Execute ops ((n, f) # ps)) r =
    (if passed out then run_state (Execute ops ps) s else (stop_result ops n out s, s))"
proof -
  let ?x = "run_state (Execute ops ((n, f) # ps)) r"
  have "wp (Execute ops ((n, f) # ps)) (\<lambda>a t. (a, t) = (if passed out then run_state (Execute ops ps) s
      else (stop_result ops n out s, s))) r"
    unfolding wp_Execute_Cons using assms by (simp add: wp_run)
  then show ?thesis by (simp add: wp_run)
qed

lemma emits_Execute [emits]:
  "(\<And>n f. (n, f) \<in> set ps \<Longrightarrow> emits req_calls P f) \<Longrightarrow> emits req_calls P (Execute ops ps)"
proof (induction ps)
  case Nil
  then show ?case by (simp add: emits_def run_Execute_Nil)
next
  case (Cons p ps)
  obtain n f where p: "p = (n, f)" by fastforce
  show ?case unfolding p Execute.simps using Cons p by (intro emits) auto
qed

text \<open>The phases run from \<open>r\<close> to \<open>s\<close> and every one of them passes.\<close>

inductive passes :: "'r phase list \<Rightarrow> 'r \<Rightarrow> 'r \<Rightarrow> bool" where
  passes_Nil: "passes [] r r"
| passes_Cons: "run_state f r = (out, s) \<Longrightarrow> passed out \<Longrightarrow> passes ps s t \<Longrightarrow> passes ((n, f) # ps) r t"

inductive_cases passes_NilE [elim!]: "passes [] r s"
inductive_cases passes_ConsE [elim!]: "passes ((n, f) # ps) r s"
inductive_simps passes_Nil_iff [simp]: "passes [] r s"
inductive_simps passes_Cons_iff: "passes ((n, f) # ps) r s"

lemma passes_append: "passes (ps @ qs) r t \<longleftrightarrow> (\<exists>s. passes ps r s \<and> passes qs s t)"
proof (induction ps arbitrary: r)
  case (Cons p ps)
  obtain n f where "p = (n, f)" by fastforce
  with Cons show ?case by (auto simp: passes_Cons_iff)
qed simp

lemma Execute_passes: "passes ps r s \<Longrightarrow> run_state (Execute ops ps) r = (Ret (Skip None), s)"
  by (induction rule: passes.induct) (simp_all add: run_Execute_Nil run_Execute_Cons)

lemma Execute_stops:
  assumes "passes pre r s" and "run_state f s = (out, t)" and "\<not> passed out"
  shows "run_state (Execute ops (pre @ (n, f) # post)) r = (stop_result ops n out t, t)"
  using assms by (induction rule: passes.induct) (simp_all add: run_Execute_Cons)

lemma stop_result_not_passed [simp]: "\<not> passed out \<Longrightarrow> \<not> passed (stop_result ops n out s)"
  by (auto simp: stop_result_def passed_def OnError_def After_def split: outcome.splits prod.splits option.splits)

lemma Execute_cases:
  "run_state (Execute ops ps) r = (res, t) \<Longrightarrow>
   passes ps r t \<and> res = Ret (Skip None) \<or>
   (\<exists>pre n f post s out. ps = pre @ (n, f) # post \<and> passes pre r s \<and> run_state f s = (out, t) \<and>
      \<not> passed out \<and> res = stop_result ops n out t)"
proof (induction ps arbitrary: r)
  case Nil
  then show ?case by (simp add: run_Execute_Nil)
next
  case (Cons p ps)
  obtain n f where p: "p = (n, f)" by fastforce
  obtain out s where f: "run_state f r = (out, s)" by fastforce
  show ?case
  proof (cases "passed out")
    case False
    with Cons.prems f p have "s = t" "res = stop_result ops n out t" by (auto simp: run_Execute_Cons)
    with False f p show ?thesis
      by (intro disjI2 exI [of _ "[]"] exI [of _ n] exI [of _ f] exI [of _ ps] exI [of _ r] exI [of _ out]) auto
  next
    case True
    with Cons.prems f p have "run_state (Execute ops ps) s = (res, t)" by (simp add: run_Execute_Cons)
    from Cons.IH [OF this] show ?thesis
    proof (elim disjE exE conjE)
      assume "passes ps s t" and "res = Ret (Skip None)"
      with True f p show ?thesis by (auto intro: passes_Cons)
    next
      fix pre n' f' post s' out'
      assume "ps = pre @ (n', f') # post" and "passes pre s s'" and "run_state f' s' = (out', t)"
        and "\<not> passed out'" and "res = stop_result ops n' out' t"
      with True f p show ?thesis
        by (intro disjI2 exI [of _ "(n, f) # pre"] exI [of _ n'] exI [of _ f'] exI [of _ post] exI [of _ s'] exI [of _ out'])
          (auto intro: passes_Cons)
    qed
  qed
qed

section \<open>Lemmas: finalizers and completion\<close>

lemma wp_RemoveFinalizer:
  "wp (RemoveFinalizer E) Q r =
     (if HasFinalizer E (Original r)
      then (let obj = (Original r)\<lparr>Finalizers := lib_RemoveFinalizer (Lib E) (Finalizers (Original r)) (FinalizerName (Original r))\<rparr>;
                w = (World r)\<lparr>calls := req_calls r @ [KPatch (Original r) obj]\<rparr>
            in case kube_Patch (Kube E) (req_calls r) (Original r) obj of
                 Inl err \<Rightarrow> Q (Some (Wrap ''unable to remove finalizer - '' err)) (r\<lparr>World := w, Original := obj\<rparr>)
               | Inr obj' \<Rightarrow> Q None (r\<lparr>World := w, Original := obj'\<rparr>))
      else Q None r)"
  by (simp add: RemoveFinalizer_def wp Let_def split: sum.splits)

lemma wp_AddFinalizer:
  "wp (AddFinalizer E) Q r =
     (if \<not> HasFinalizer E (Original r)
      then (let obj = (Original r)\<lparr>Finalizers := lib_AddFinalizer (Lib E) (Finalizers (Original r)) (FinalizerName (Original r))\<rparr>;
                w = (World r)\<lparr>calls := req_calls r @ [KPatch (Original r) obj]\<rparr>
            in case kube_Patch (Kube E) (req_calls r) (Original r) obj of
                 Inl err \<Rightarrow> Q (Some (Wrap ''unable to add finalizer - '' err)) (r\<lparr>World := w, Original := obj\<rparr>)
               | Inr obj' \<Rightarrow> Q None (r\<lparr>World := w, Original := obj'\<rparr>))
      else Q None r)"
  by (simp add: AddFinalizer_def wp Let_def split: sum.splits)

lemma emits_finalizers [emits]:
  "(\<And>b p. P (KPatch b p)) \<Longrightarrow> emits req_calls P (AddFinalizer E)"
  "(\<And>b p. P (KPatch b p)) \<Longrightarrow> emits req_calls P (RemoveFinalizer E)"
  unfolding AddFinalizer_def RemoveFinalizer_def Let_def by (intro emits; simp)+

lemma emits_Complete [emits]:
  "(\<And>b p. P (KStatusPatch b p)) \<Longrightarrow> emits req_calls P (Complete E ops t i)"
  unfolding Complete_def by (intro emits)

lemma emits_CompleteDestroy [emits]:
  "(\<And>b p. P (KPatch b p)) \<Longrightarrow> emits req_calls P (CompleteDestroy E ops)"
  unfolding CompleteDestroy_def by (intro emits)

lemma keeps_finalizers [keeps]:
  assumes "\<And>r w. f (r\<lparr>World := w\<rparr>) = f r" "\<And>r obj. f (r\<lparr>Original := obj\<rparr>) = f r"
  shows "keeps f (AddFinalizer E)" "keeps f (RemoveFinalizer E)"
  unfolding AddFinalizer_def RemoveFinalizer_def Let_def by (intro keeps assms)+

lemma keeps_completion [keeps]:
  assumes "\<And>r w. f (r\<lparr>World := w\<rparr>) = f r" "\<And>r obj. f (r\<lparr>Original := obj\<rparr>) = f r"
  shows "keeps f (Complete E ops t i)" "keeps f (CompleteDestroy E ops)"
  unfolding Complete_def CompleteDestroy_def by (intro keeps assms)+

lemma keeps_Execute [keeps]:
  "(\<And>n f. (n, f) \<in> set ps \<Longrightarrow> keeps g f) \<Longrightarrow> keeps g (Execute ops ps)"
proof (induction ps)
  case Nil
  then show ?case by (simp add: keeps_def run_Execute_Nil)
next
  case (Cons p ps)
  obtain n f where p: "p = (n, f)" by fastforce
  show ?case unfolding p Execute.simps using Cons p by (intro keeps) auto
qed

lemma wp_run_request [wp]:
  "wp (run_request r m) Q w = wp m (\<lambda>a r'. Q a (World r')) (r\<lparr>World := w\<rparr>)"
  by (simp add: run_request_def wp_run)

section \<open>Lemmas: calls of a certain kind\<close>

lemma filter_emits:
  assumes "emits h (\<lambda>c. \<not> P c) m" and "run_state m s = (a, t)"
  shows "filter P (h t) = filter P (h s)"
  using emitsD [OF assms] by (auto simp: list_all_iff filter_empty_conv)

lemma wp_filter_emits: "emits h (\<lambda>c. \<not> P c) m \<Longrightarrow> wp m (\<lambda>a t. filter P (h t) = filter P (h s)) s"
  by (auto simp: wp_def dest: filter_emits split: prod.splits)

text \<open>A patch of the object itself: of its finalizers, the only part the operator patches outside the status.\<close>

fun object_patch :: "'o call \<Rightarrow> bool" where
  "object_patch (KPatch b p) = True"
| "object_patch _ = False"

abbreviation object_patches :: "('o, 'x) request_scheme \<Rightarrow> 'o hist" where
  "object_patches r \<equiv> filter object_patch (req_calls r)"

lemma wp_True [simp]: "wp m (\<lambda>a s. True) r"
  by (simp add: wp_run)

text \<open>A list of phases whose last one never passes always asks for a requeue.\<close>

lemma stop_result_requeues:
  "\<not> passed out \<Longrightarrow> stop_result ops n out s = Ret (res, e) \<Longrightarrow> Result_Requeue res"
  by (auto simp: stop_result_def passed_def OnError_def After_def split: outcome.splits prod.splits option.splits)

lemma Execute_requeues:
  assumes "\<And>r. \<not> passed (fst (run_state f r))"
    and "run_state (Execute ops (ps @ [(n, f)])) r = (Ret (res, e), t)"
  shows "Result_Requeue res"
  using Execute_cases [OF assms(2)]
proof (elim disjE exE conjE)
  assume "passes (ps @ [(n, f)]) r t"
  then have False
    using assms(1) by (induction ps arbitrary: r) (auto simp: passes_Cons_iff, metis fst_conv)
  then show ?thesis ..
qed (metis stop_result_requeues)

lemma Complete_not_passed: "\<not> passed (fst (run_state (Complete E ops t i) r))"
  by (auto simp: Complete_def split: prod.splits option.splits)

section \<open>Requests that belong to a cluster\<close>

text \<open>The cluster that the lookup by name or by identifier finds.\<close>

definition upstream_of ::
    "('a workload_scheme) services \<Rightarrow> (('a workload_scheme, 'x) request_scheme, 'y) cluster_ops_scheme \<Rightarrow>
     ('a workload_scheme, 'x) request_scheme \<Rightarrow> ocm_cluster option" where
  "upstream_of E ops r =
     (if GetClusterID (Original r) = []
      then (case cluster_lookup E (req_calls r) (GetClusterName ops r) of Inl e \<Rightarrow> None | Inr c \<Rightarrow> c)
      else resp_Body (ocm_ClusterGet (Ocm E) (req_calls r) (GetClusterID (Original r))))"

text \<open>
  What the common phases rely on in a \<open>request.Cluster\<close>: setting the cluster status touches only the
  status of the original object, never its conditions or metadata; it records the cluster
  identifier once; the cluster name comes from the desired state.
\<close>

locale cluster_request =
  fixes ops :: "(('a workload_scheme, 'x) request_scheme, 'y) cluster_ops_scheme"
  assumes status_world: "World (SetClusterStatus ops c r) = World r"
    and status_rest: "same_request r (SetClusterStatus ops c r)"
    and status_meta: "Finalizers (Original (SetClusterStatus ops c r)) = Finalizers (Original r)"
      "Kind (Original (SetClusterStatus ops c r)) = Kind (Original r)"
      "Group (Original (SetClusterStatus ops c r)) = Group (Original r)"
      "GetConditions (Original (SetClusterStatus ops c r)) = GetConditions (Original r)"
    and status_id: "GetClusterID (Original (SetClusterStatus ops c r)) =
      (if GetClusterID (Original r) = '''' then attr '''' cl_ID c else GetClusterID (Original r))"
    and name_desired: "same_request r s \<Longrightarrow> GetClusterName ops s = GetClusterName ops r"
begin

lemma find_emits:
  assumes "\<And>f. P (ClusterSearch f)" "\<And>i. P (ClusterGet i)"
  shows "emits req_calls P (find_upstream E ops)"
  unfolding find_upstream_def using assms by (intro emits) auto

lemma upstream_emits:
  assumes "\<And>f. P (ClusterSearch f)" "\<And>i. P (ClusterGet i)" "\<And>b p. P (KStatusPatch b p)"
  shows "emits req_calls P (GetUpstreamCluster E ops)"
  unfolding GetUpstreamCluster_def using assms status_world by (intro emits find_emits) auto

lemma handle_emits:
  assumes "\<And>f. P (ClusterSearch f)" "\<And>i. P (ClusterGet i)" "\<And>b p. P (KStatusPatch b p)"
  shows "emits req_calls P (HandleClusterPhase E ops t)"
  unfolding HandleClusterPhase_def Let_def using assms by (intro emits upstream_emits) auto

lemma handle_keeps:
  assumes "\<And>r w. f (r\<lparr>World := w\<rparr>) = f r" "\<And>r obj. f (r\<lparr>Original := obj\<rparr>) = f r"
    "\<And>c r. f (SetClusterStatus ops c r) = f r"
  shows "keeps f (HandleClusterPhase E ops t)"
  unfolding HandleClusterPhase_def GetUpstreamCluster_def find_upstream_def Let_def by (intro keeps assms)

lemma wp_find_upstream:
  "wp (find_upstream E ops) (\<lambda>found s. same_request r s \<and> Original s = Original r \<and>
     (\<forall>c b. found = Inr (c, b) \<longrightarrow> (c \<noteq> None \<longrightarrow> b \<and> c = upstream_of E ops r \<and>
       (GetClusterID (Original r) = '''' \<longrightarrow> attr '''' cl_ID c \<noteq> '''')))) r"
  by (auto simp: find_upstream_def wp upstream_of_def split: sum.splits option.splits)

lemma wp_GetUpstreamCluster:
  "wp (GetUpstreamCluster E ops) (\<lambda>found s. same_request r s \<and>
     (\<forall>c. found = Inr (Some c) \<longrightarrow> upstream_of E ops r = Some c)) r"
proof -
  have sr: "same_request r (SetClusterStatus ops c s)" if "same_request r s" for c s
    using that status_rest by (rule same_request_trans)
  show ?thesis
    unfolding GetUpstreamCluster_def wp_bind
    by (rule wp_mono [OF wp_find_upstream]) (auto simp: wp sr split: sum.splits option.splits)
qed

lemma same_condition_Update:
  "wp (condition_Update E mk) (\<lambda>err s. same_request r s) s0" if "same_request r s0"
  using that by (auto simp: condition_Update_def wp Let_def split: sum.splits)

lemma wp_HandleClusterPhase:
  "wp (HandleClusterPhase E ops t) (\<lambda>out s. same_request r s \<and>
     (passed out \<longrightarrow> (\<exists>c. upstream_of E ops r = Some c \<and> cluster_State (Some c) = ClusterStateReady))) r"
  unfolding HandleClusterPhase_def wp_bind
proof (rule wp_mono [OF wp_GetUpstreamCluster])
  fix found :: "go_error + ocm_cluster option" and s
  assume "same_request r s \<and> (\<forall>c. found = Inr (Some c) \<longrightarrow> upstream_of E ops r = Some c)"
  then have s: "same_request r s" and c: "\<And>c. found = Inr (Some c) \<Longrightarrow> upstream_of E ops r = Some c" by auto
  let ?k = "\<lambda>x b s. condition_Update E (UpstreamCluster t b) \<bind> (\<lambda>err. State_Monad.return (Ret (case err of
      Some e \<Rightarrow> After defaultMissingUpstreamRequeue
        (Some (Wrap (''unable to update status on cluster: ['' @ GetClusterName ops s @ ''] - '') e))
    | None \<Rightarrow> if \<not> b then After defaultMissingUpstreamRequeue None
        else if cluster_State x \<noteq> ClusterStateReady then After defaultMissingUpstreamRequeue None
        else Next)))"
  let ?Q = "\<lambda>out s. same_request r s \<and>
     (passed out \<longrightarrow> (\<exists>c. upstream_of E ops r = Some c \<and> cluster_State (Some c) = ClusterStateReady))"
  have "wp (?k x (x \<noteq> None) s) ?Q s" if "found = Inr x" for x
    unfolding wp_bind wp_return
    by (rule wp_mono [OF same_condition_Update [OF s]]) (use that c in \<open>auto split: option.splits\<close>)
  then show "wp State_Monad.get (\<lambda>r'. wp (case found of
        Inl err \<Rightarrow> State_Monad.return (Ret (After defaultMissingUpstreamRequeue
          (Some (Wrap (''unable to handle upstream cluster: ['' @ GetClusterName ops r' @ ''] - '') err))))
      | Inr cluster \<Rightarrow> (let clusterExists = cluster \<noteq> None in ?k cluster clusterExists r')) ?Q) s"
    using s by (cases found) (simp_all only: wp_get wp_return sum.case Let_def passed_simps simp_thms)
qed

end

text \<open>
  What the finalizer functions of controller-runtime and of go-utils promise, and that the API server
  stores the finalizers of a patch as they were sent.
\<close>

definition finalizer_libs :: "libs \<Rightarrow> bool" where
  "finalizer_libs L \<longleftrightarrow> (\<forall>fs n. lib_Has L (lib_AddFinalizer L fs n) n) \<and>
     (\<forall>fs n. \<not> lib_Has L (lib_RemoveFinalizer L fs n) n)"

definition patch_stores :: "('a workload_scheme) services \<Rightarrow> bool" where
  "patch_stores E \<longleftrightarrow> (\<forall>h b p p'. kube_Patch (Kube E) h b p = Inr p' \<longrightarrow>
     Finalizers p' = Finalizers p \<and> Kind p' = Kind p \<and> Group p' = Group p)"

text \<open>The common shape of a create path: the finalizer, then phases that end with \<open>Complete\<close>.\<close>

lemma create_path_requeues:
  assumes "run_state (do {
      err \<leftarrow> AddFinalizer E;
      (case err of
         Some e \<Rightarrow> do {
           req \<leftarrow> State_Monad.get;
           State_Monad.return (Ret (OnError ops req (Some (AddFinalizerError e))))
         }
       | None \<Rightarrow> Execute ops phases)
    }) r = (Ret (res, err), s)"
    and phases: "phases = ps @ [(n, Complete E ops' t i)]"
  shows "Result_Requeue res"
proof -
  obtain e s' where a: "run_state (AddFinalizer E) r = (e, s')" by fastforce
  show ?thesis
  proof (cases e)
    case None
    with assms(1) a phases have "run_state (Execute ops (ps @ [(n, Complete E ops' t i)])) s' = (Ret (res, err), s)" by simp
    from Execute_requeues [OF Complete_not_passed this] show ?thesis .
  next
    case (Some x)
    with assms(1) a show ?thesis by (auto simp: OnError_def After_def)
  qed
qed

section \<open>Guarded deletion\<close>

text \<open>
  The contract of a delete path: the phases before \<open>CompleteDestroy\<close> never patch the object, and
  they all pass only when what the object stands for is gone. Then the finalizer stays on the object
  until it is gone.
\<close>

locale guarded_delete =
  fixes phases :: "('a workload_scheme) services \<Rightarrow> (('a workload_scheme, 'x) request_scheme) phase list"
    and gone :: "('a workload_scheme) services \<Rightarrow> ('a workload_scheme, 'x) request_scheme \<Rightarrow> bool"
  assumes phases_patch_nothing: "(n, f) \<in> set (phases E) \<Longrightarrow> emits req_calls (\<lambda>c. \<not> object_patch c) f"
    and phases_guard: "passes (phases E) r s \<Longrightarrow> gone E r"
begin

lemma passes_patch_nothing:
  "passes ps r s \<Longrightarrow> set ps \<subseteq> set (phases E) \<Longrightarrow> object_patches s = object_patches r"
proof (induction rule: passes.induct)
  case (passes_Cons f r out s ps t n)
  then have "emits req_calls (\<lambda>c. \<not> object_patch c) f" using phases_patch_nothing [of n f E] by simp
  from filter_emits [OF this passes_Cons.hyps(1)] passes_Cons show ?case by simp
qed simp

lemma patched_only_if_passed:
  assumes run: "run_state (Execute ops (phases E @ [(n, f)])) r = (out, t)"
    and patched: "object_patches t \<noteq> object_patches r"
  shows "\<exists>s. passes (phases E) r s \<and> snd (run_state f s) = t"
  using Execute_cases [OF run]
proof (elim disjE exE conjE)
  assume "passes (phases E @ [(n, f)]) r t"
  then show ?thesis unfolding passes_append by auto
next
  fix pre m g post s o'
  assume ps: "phases E @ [(n, f)] = pre @ (m, g) # post" and pre: "passes pre r s" and g: "run_state g s = (o', t)"
  show ?thesis
  proof (cases post rule: rev_cases)
    case Nil
    with ps pre g show ?thesis by auto
  next
    case (snoc post' x)
    with ps have phs: "phases E = pre @ (m, g) # post'" by auto
    then have "(m, g) \<in> set (phases E)" by simp
    from filter_emits [OF phases_patch_nothing [OF this] g] have "object_patches t = object_patches s" .
    moreover have "object_patches s = object_patches r"
      using passes_patch_nothing [OF pre, of E] phs by auto
    ultimately show ?thesis using patched by simp
  qed
qed

lemma patched_only_if_gone:
  assumes "run_state (Execute ops (phases E @ [(n, f)])) r = (out, t)" and "object_patches t \<noteq> object_patches r"
  shows "gone E r"
  using patched_only_if_passed [OF assms] phases_guard by blast

text \<open>When they all pass, the finalizer is removed and no requeue is asked for.\<close>

lemma completes:
  assumes "passes (phases E) r s" and "finalizer_libs (Lib E)" and "patch_stores E"
    and "\<And>h b p. \<exists>p'. kube_Patch (Kube E) h b p = Inr p'"
  shows "\<exists>t. run_state (Execute ops (phases E @ [(n, CompleteDestroy E ops')])) r = (Ret (Skip None), t) \<and>
    \<not> HasFinalizer E (Original t)"
proof -
  have "wp (RemoveFinalizer E) (\<lambda>e t. e = None \<and> \<not> HasFinalizer E (Original t)) s"
    using assms(2-4) by (auto simp: wp_RemoveFinalizer Let_def HasFinalizer_def FinalizerName_def finalizer_libs_def
        patch_stores_def split: sum.splits) (metis Inl_Inr_False)
  then have "wp (CompleteDestroy E ops') (\<lambda>out t. out = Ret requeue_None \<and> \<not> HasFinalizer E (Original t)) s"
    unfolding CompleteDestroy_def wp_bind by (rule wp_mono) (simp add: wp)
  then obtain t where t: "run_state (CompleteDestroy E ops') s = (Ret requeue_None, t)" "\<not> HasFinalizer E (Original t)"
    by (auto simp: wp_def split: prod.splits)
  then have "passes [(n, CompleteDestroy E ops')] s t" by (simp add: passes_Cons_iff)
  with assms(1) have "passes (phases E @ [(n, CompleteDestroy E ops')]) r t" unfolding passes_append by (intro exI conjI)
  with t(2) Execute_passes show ?thesis by blast
qed

end

section \<open>Justified changes\<close>

text \<open>
  The contract of the phases that look up the current state in OCM and apply the desired one: the
  lookup makes no change; applying makes at most one, which what the lookup found justifies
  (\<open>why E s c\<close>: the lookup from \<open>s\<close> justifies the call \<open>c\<close>). A whole create path whose other phases make
  no change then makes at most one change, justified by the lookup that the path makes.

  The create path adds the finalizer and runs the phases: \<open>create_reaches E pre r s\<close> says that from the request \<open>r\<close> it
  gets to \<open>s\<close> with the finalizer on the object and the phases \<open>pre\<close> passed.
\<close>

definition create_reaches ::
    "('a workload_scheme) services \<Rightarrow> (('a workload_scheme, 'x) request_scheme) phase list \<Rightarrow>
     ('a workload_scheme, 'x) request_scheme \<Rightarrow> ('a workload_scheme, 'x) request_scheme \<Rightarrow> bool" where
  "create_reaches E pre r s \<longleftrightarrow> (\<exists>a. run_state (AddFinalizer E) r = (None, a) \<and> passes pre a s)"

locale justified_changes =
  fixes look :: "('a workload_scheme) services \<Rightarrow> (('a workload_scheme, 'x) request_scheme, go_result outcome) state"
    and apply_desired :: "('a workload_scheme) services \<Rightarrow> (('a workload_scheme, 'x) request_scheme, go_result outcome) state"
    and change :: "'a workload_scheme call \<Rightarrow> bool"
    and why :: "('a workload_scheme) services \<Rightarrow> ('a workload_scheme, 'x) request_scheme \<Rightarrow> 'a workload_scheme call \<Rightarrow> bool"
  assumes patch_no_change: "\<not> change (KPatch b p)"
    and look_no_change: "emits req_calls (\<lambda>c. \<not> change c) (look E)"
    and apply_justified: "run_state (look E) s = (out, t) \<Longrightarrow> passed out \<Longrightarrow> Current s = None \<Longrightarrow>
      wp (apply_desired E) (\<lambda>out u. filter change (req_calls u) = filter change (req_calls t) \<or>
        (\<exists>c. filter change (req_calls u) = filter change (req_calls t) @ [c] \<and> why E s c)) t"
begin

lemma look_apply_changes:
  assumes "Current s = None" and late: "\<And>n f. (n, f) \<in> set late \<Longrightarrow> emits req_calls (\<lambda>c. \<not> change c) f"
  shows "wp (Execute ops ((n2, look E) # (n3, apply_desired E) # late))
    (\<lambda>out u. filter change (req_calls u) = filter change (req_calls s) \<or>
      (\<exists>c. filter change (req_calls u) = filter change (req_calls s) @ [c] \<and> why E s c)) s"
    (is "wp _ ?Q s")
proof -
  have rest: "wp (Execute ops late) ?Q u" if "?Q out u" for out u
    by (rule wp_mono [OF wp_filter_emits [OF emits_Execute [OF late]]]) (use that in auto)
  obtain o2 v where look: "run_state (look E) s = (o2, v)" by fastforce
  have v: "filter change (req_calls v) = filter change (req_calls s)"
    using filter_emits [OF look_no_change look] by simp
  have "wp (apply_desired E) (\<lambda>out u. if passed out then wp (Execute ops late) ?Q u else ?Q (stop_result ops n3 out u) u) v"
    if "passed o2"
  proof (rule wp_mono [OF apply_justified [OF look that assms(1)]])
    fix o3 :: "go_result outcome" and u :: "('a workload_scheme, 'x) request_scheme"
    assume "filter change (req_calls u) = filter change (req_calls v) \<or>
      (\<exists>c. filter change (req_calls u) = filter change (req_calls v) @ [c] \<and> why E s c)"
    with v have "?Q o3 u" by auto
    with rest [OF this] show "if passed o3 then wp (Execute ops late) ?Q u else ?Q (stop_result ops n3 o3 u) u"
      by (cases "passed o3") simp_all
  qed
  with look v show ?thesis
    unfolding wp_Execute_Cons [of _ n2] wp_Execute_Cons [of _ n3] by (simp add: wp_def [of "look E"])
qed

lemma phases_changes:
  assumes "Current r = None" and "\<And>n f. (n, f) \<in> set late \<Longrightarrow> emits req_calls (\<lambda>c. \<not> change c) f"
    and "\<And>n f s. (n, f) \<in> set pre \<Longrightarrow> same_request r s \<Longrightarrow>
      wp f (\<lambda>out t. same_request r t \<and> filter change (req_calls t) = filter change (req_calls s)) s"
    and "same_request r a"
  shows "wp (Execute ops (pre @ (n2, look E) # (n3, apply_desired E) # late))
    (\<lambda>out u. filter change (req_calls u) = filter change (req_calls a) \<or>
      (\<exists>s c. passes pre a s \<and> same_request r s \<and> filter change (req_calls u) = filter change (req_calls a) @ [c] \<and>
        why E s c)) a"
  using assms(3,4)
proof (induction pre arbitrary: a)
  case Nil
  then have "Current a = None" using assms(1) same_requestD(2) by metis
  from look_apply_changes [OF this assms(2)] Nil show ?case by (auto elim!: wp_mono)
next
  case (Cons p pre)
  obtain n f where p: "p = (n, f)" by fastforce
  obtain out t where f: "run_state f a = (out, t)" by fastforce
  have t: "same_request r t" "filter change (req_calls t) = filter change (req_calls a)"
    using wpD [OF Cons.prems(1) [of n f a] f] Cons.prems(2) p by simp_all
  show ?case
  proof (cases "passed out")
    case True
    have "wp (Execute ops (pre @ (n2, look E) # (n3, apply_desired E) # late))
      (\<lambda>out u. filter change (req_calls u) = filter change (req_calls t) \<or>
        (\<exists>s c. passes pre t s \<and> same_request r s \<and> filter change (req_calls u) = filter change (req_calls t) @ [c] \<and>
          why E s c)) t"
      by (rule Cons.IH [OF _ t(1)]) (rule Cons.prems(1), erule list.set_intros(2), assumption)
    then show ?thesis
      unfolding p append_Cons wp_Execute_Cons wp_def [of f] f using True t(2)
      by (auto elim!: wp_mono intro: passes_Cons [OF f])
  next
    case False
    with f t p show ?thesis by (simp add: wp_Execute_Cons wp_def [of f])
  qed
qed

lemma create_path_changes:
  assumes "Current r = None" and "\<And>n f. (n, f) \<in> set late \<Longrightarrow> emits req_calls (\<lambda>c. \<not> change c) f"
    and "\<And>n f s. (n, f) \<in> set pre \<Longrightarrow> same_request r s \<Longrightarrow>
      wp f (\<lambda>out t. same_request r t \<and> filter change (req_calls t) = filter change (req_calls s)) s"
    and "phases = pre @ (n2, look E) # (n3, apply_desired E) # late"
    and "run_state (do {
      err \<leftarrow> AddFinalizer E;
      (case err of
         Some e \<Rightarrow> do {
           req \<leftarrow> State_Monad.get;
           State_Monad.return (Ret (OnError ops' req (Some (AddFinalizerError e))))
         }
       | None \<Rightarrow> Execute ops phases)
    }) r = (out, u)"
  shows "filter change (req_calls u) = filter change (req_calls r) \<or>
    (\<exists>s c. create_reaches E pre r s \<and> same_request r s \<and> filter change (req_calls u) = filter change (req_calls r) @ [c] \<and>
      why E s c)"
proof -
  obtain e a where a: "run_state (AddFinalizer E) r = (e, a)" by fastforce
  have sr: "same_request r a"
    using wpD [OF _ a, of "\<lambda>e s. same_request r s"] by (simp add: wp_AddFinalizer Let_def split: sum.splits)
  have calls: "filter change (req_calls a) = filter change (req_calls r)"
    using filter_emits [OF emits_finalizers(1) a] patch_no_change by blast
  show ?thesis
  proof (cases e)
    case None
    with assms(4,5) a have run: "run_state (Execute ops (pre @ (n2, look E) # (n3, apply_desired E) # late)) a = (out, u)"
      by simp
    from wpD [OF phases_changes [OF assms(1-3) sr] run] calls None a show ?thesis
      unfolding create_reaches_def by auto
  next
    case (Some x)
    with assms(5) a calls show ?thesis by auto
  qed
qed

end

text \<open>The same for requests that belong to a cluster, whose first phase looks up the cluster.\<close>

locale justified_apply = cluster_request ops + justified_changes look apply_desired change why
  for ops :: "(('a workload_scheme, 'x) request_scheme, 'y) cluster_ops_scheme"
    and look :: "('a workload_scheme) services \<Rightarrow> (('a workload_scheme, 'x) request_scheme, go_result outcome) state"
    and apply_desired :: "('a workload_scheme) services \<Rightarrow> (('a workload_scheme, 'x) request_scheme, go_result outcome) state"
    and change :: "'a workload_scheme call \<Rightarrow> bool"
    and why :: "('a workload_scheme) services \<Rightarrow> ('a workload_scheme, 'x) request_scheme \<Rightarrow> 'a workload_scheme call \<Rightarrow> bool" +
  assumes common_no_change: "\<not> change (KStatusPatch b p)" "\<not> change (ClusterSearch q)" "\<not> change (ClusterGet i)"
begin

lemma handle_no_change:
  assumes "same_request r s"
  shows "wp (HandleClusterPhase E ops t) (\<lambda>out u. same_request r u \<and>
    filter change (req_calls u) = filter change (req_calls s)) s"
  unfolding wp_conj
proof
  show "wp (HandleClusterPhase E ops t) (\<lambda>out. same_request r) s"
    using assms by (intro wp_mono [OF wp_HandleClusterPhase]) (blast intro: same_request_trans)
  show "wp (HandleClusterPhase E ops t) (\<lambda>out u. filter change (req_calls u) = filter change (req_calls s)) s"
    by (intro wp_filter_emits handle_emits common_no_change)
qed

lemma cluster_path_changes:
  assumes "Current r = None" and "\<And>n f. (n, f) \<in> set late \<Longrightarrow> emits req_calls (\<lambda>c. \<not> change c) f"
    and "phases = (n1, HandleClusterPhase E ops t) # (n2, look E) # (n3, apply_desired E) # late"
    and "run_state (do {
      err \<leftarrow> AddFinalizer E;
      (case err of
         Some e \<Rightarrow> do {
           req \<leftarrow> State_Monad.get;
           State_Monad.return (Ret (OnError ops' req (Some (AddFinalizerError e))))
         }
       | None \<Rightarrow> Execute ops phases)
    }) r = (out, u)"
  shows "filter change (req_calls u) = filter change (req_calls r) \<or>
    (\<exists>s c. create_reaches E (take 1 phases) r s \<and> same_request r s \<and>
      filter change (req_calls u) = filter change (req_calls r) @ [c] \<and> why E s c)"
  unfolding assms(3) take_Suc_Cons take_0 One_nat_def
  by (rule create_path_changes [where pre = "[(n1, HandleClusterPhase E ops t)]" and late = late and phases = phases,
        OF assms(1) assms(2) _ _ assms(4)])
    (use handle_no_change assms(3) in auto)

end

section \<open>Properties\<close>

text \<open>
  C23: the phase handler, completely: either all phases pass, in order, and the result is an empty
  one without error; or some phase is the first that does not pass, the phases before it have all
  passed, no phase after it has run, and the result is that phase's own (a requeue or a panic), or
  for an error the default requeue with the error wrapped in the request's and the phase's name.
\<close>

theorem Execute_spec:
  "run_state (Execute ops ps) r = (res, t) \<longleftrightarrow>
     passes ps r t \<and> res = Ret (Skip None) \<or>
     (\<exists>pre n f post s out. ps = pre @ (n, f) # post \<and> passes pre r s \<and> run_state f s = (out, t) \<and>
        \<not> passed out \<and> res = stop_result ops n out t)"
  using Execute_cases [of ops ps r res t] Execute_passes [of ps r t ops] Execute_stops by metis

text \<open>
  When the request cannot be created, reconciliation stops there: nothing else is called, the
  result never asks for a requeue, and the error is returned unless the object was not found.
\<close>

lemma Reconcile_no_request:
  assumes "run_state (NewRequest C ns n) w = (Ret (Inl err), w')"
  shows "run_state (Reconcile E C ns n) w =
    (Ret (Skip (if IsNotFound err then None else Some (Wrap ''unable to create request - '' err))), w')"
  using assms by (simp add: Reconcile_def)

text \<open>
  C26: once the request exists and the reconciling condition is recorded, the object decides what
  runs: the create logic for an object that has no creation time, the delete logic exactly for a
  created object that has a deletion time, and the update logic otherwise. The branch for an
  unknown trigger is never taken.
\<close>

theorem Reconcile_routes:
  assumes "run_state (NewRequest C ns n) w = (Ret (Inr req), w')"
    and "run_state (condition_Update E (Reconciling (GetTrigger (Original req)))) (req\<lparr>World := w'\<rparr>) = (None, r)"
  shows "run_state (Reconcile E C ns n) w =
    (let run = run_state (if CreationTimestamp (Original req) = 0 then ReconcileCreate C
                          else if DeletionTimestamp (Original req) \<noteq> None then ReconcileDelete C
                          else ReconcileUpdate C) r
     in (fst run, World (snd run)))"
proof -
  have "run_state (dispatch E C) (req\<lparr>World := w'\<rparr>) = run_state (if CreationTimestamp (Original req) = 0
      then ReconcileCreate C else if DeletionTimestamp (Original req) \<noteq> None then ReconcileDelete C
      else ReconcileUpdate C) r"
    using assms(2)
    by (cases "CreationTimestamp (Original req) = 0"; cases "DeletionTimestamp (Original req)")
      (simp_all add: dispatch_def Let_def GetTrigger_def)
  with assms(1) show ?thesis by (simp add: Reconcile_def run_request_def Let_def)
qed

theorem Reconcile_routes_witness:
  "\<exists>w. run_state (Reconcile (sample_services example_pool)
      (\<lparr>NewRequest = (\<lambda>ns n. State_Monad.return (Ret (Inr (sample_request (example_pool\<lparr>DeletionTimestamp := Some 2\<rparr>))))),
        ReconcileCreate = State_Monad.return (Panic ''create''), ReconcileUpdate = State_Monad.return (Panic ''update''),
        ReconcileDelete = State_Monad.return (Ret Next)\<rparr>
        :: (MachinePool, MachinePool request) controller) ''ns'' ''n'') empty_world = (Ret Next, w)"
proof -
  let ?o = "example_pool\<lparr>DeletionTimestamp := Some 2\<rparr>"
  let ?E = "sample_services example_pool"
  have g: "GetTrigger ?o = Delete" by (simp add: GetTrigger_def example_pool_def)
  have "\<not> IsSet (Reconciling Delete t) ?o" for t
    by (simp add: IsSet_iff GetConditions_def example_pool_def zero_MachinePool_def)
  then have "\<exists>r. run_state (condition_Update ?E (Reconciling Delete)) (sample_request ?o\<lparr>World := empty_world\<rparr>) = (None, r)"
    by (simp add: condition_Update_def patch_original_def PatchStatus_def Let_def sample_request_def)
  then obtain r where c: "run_state (condition_Update ?E (Reconciling (GetTrigger (Original (sample_request ?o)))))
      (sample_request ?o\<lparr>World := empty_world\<rparr>) = (None, r)"
    by (auto simp: g sample_request_def simp del: GetTrigger_def)
  have "CreationTimestamp (Original (sample_request ?o)) = 1" "DeletionTimestamp (Original (sample_request ?o)) = Some 2"
    by (simp_all add: sample_request_def example_pool_def)
  then show ?thesis by (subst Reconcile_routes [OF _ c]) simp_all
qed

text \<open>
  C27: adding the finalizer makes no call when the object has it and one patch otherwise, and without
  an error leaves it on the object; removing it makes no call when the object does not have it and
  one patch otherwise, and without an error leaves the object without it.
\<close>

theorem finalizers_correct:
  assumes "finalizer_libs (Lib E)" and "patch_stores E"
    and "run_state (AddFinalizer E) r = (None, r1)" and "run_state (RemoveFinalizer E) r = (None, r2)"
  shows "HasFinalizer E (Original r1) \<and> \<not> HasFinalizer E (Original r2) \<and>
    length (req_calls r1) = length (req_calls r) + (if HasFinalizer E (Original r) then 0 else 1) \<and>
    length (req_calls r2) = length (req_calls r) + (if HasFinalizer E (Original r) then 1 else 0)"
proof -
  have "wp (AddFinalizer E) (\<lambda>e r1. e = None \<longrightarrow> HasFinalizer E (Original r1) \<and>
      length (req_calls r1) = length (req_calls r) + (if HasFinalizer E (Original r) then 0 else 1)) r"
    using assms(1,2) by (auto simp: wp_AddFinalizer Let_def HasFinalizer_def FinalizerName_def finalizer_libs_def
        patch_stores_def split: sum.splits)
  moreover have "wp (RemoveFinalizer E) (\<lambda>e r2. e = None \<longrightarrow> \<not> HasFinalizer E (Original r2) \<and>
      length (req_calls r2) = length (req_calls r) + (if HasFinalizer E (Original r) then 1 else 0)) r"
    using assms(1,2) by (auto simp: wp_RemoveFinalizer Let_def HasFinalizer_def FinalizerName_def finalizer_libs_def
        patch_stores_def split: sum.splits)
  ultimately show ?thesis using assms(3,4) by (auto dest!: wpD)
qed

theorem finalizers_correct_witness:
  "\<exists>r. run_state (AddFinalizer (sample_services example_pool)) (sample_request example_pool) = (None, r) \<and>
    HasFinalizer (sample_services example_pool) (Original r) \<and> length (req_calls r) = 1"
proof -
  let ?E = "sample_services example_pool"
  have h: "\<not> HasFinalizer ?E example_pool"
    by (simp add: HasFinalizer_def example_pool_def zero_MachinePool_def)
  have laws: "finalizer_libs (Lib ?E)" "patch_stores ?E"
    by (auto simp: finalizer_libs_def patch_stores_def)
  obtain r1 where r1: "run_state (AddFinalizer ?E) (sample_request example_pool) = (None, r1)"
    by (cases "HasFinalizer ?E example_pool") (auto simp: AddFinalizer_def Let_def sample_request_def)
  obtain r2 where r2: "run_state (RemoveFinalizer ?E) (sample_request example_pool) = (None, r2)"
    by (cases "HasFinalizer ?E example_pool") (auto simp: RemoveFinalizer_def Let_def sample_request_def)
  from finalizers_correct [OF laws r1 r2] h r1 show ?thesis by (simp add: sample_request_def empty_world_def)
qed

end
