(* ===== verification/Runs.thy ===== *)
theory Runs
  imports Controllers
begin

text \<open>
  Runs of a controller: any number of reconciliations, of any resources and in any order, as an inductive relation on
  the world. Each reconciliation starts where the one before has ended, whatever its outcome. The answers
  of the servers are a function of the whole history, so they may change between two reconciliations.

  A call of a run is justified by what has happened before it. The locale \<open>justified_steps\<close> lifts this from one
  reconciliation to all runs, and \<open>safe_controller\<close> reduces it to the parts of a controller: a change is made only
  after a request has been created; an object is removed in OCM only for a resource that is being deleted, and added
  or updated only after the lookup that justifies it.
\<close>

inductive reached :: "(string \<Rightarrow> string \<Rightarrow> ('w, 'a) state) \<Rightarrow> 'w \<Rightarrow> 'w \<Rightarrow> bool"
  for R :: "string \<Rightarrow> string \<Rightarrow> ('w, 'a) state" and w\<^sub>0 :: 'w where
  reached_start: "reached R w\<^sub>0 w\<^sub>0"
| reached_step: "reached R w\<^sub>0 w \<Longrightarrow> run_state (R ns n) w = (out, w') \<Longrightarrow> reached R w\<^sub>0 w'"

text \<open>\<open>Just h c\<close>: the call \<open>c\<close> is justified after the history \<open>h\<close>.\<close>

fun justified_from :: "('c list \<Rightarrow> 'c \<Rightarrow> bool) \<Rightarrow> 'c list \<Rightarrow> 'c list \<Rightarrow> bool" where
  "justified_from Just h [] = True"
| "justified_from Just h (c # cs) = (Just h c \<and> justified_from Just (h @ [c]) cs)"

lemma justified_from_append [simp]:
  "justified_from Just h (cs @ ds) \<longleftrightarrow> justified_from Just h cs \<and> justified_from Just (h @ cs) ds"
  by (induction cs arbitrary: h) auto

lemma justified_fromI:
  "(\<And>pre c post. cs = pre @ c # post \<Longrightarrow> Just (h @ pre) c) \<Longrightarrow> justified_from Just h cs"
proof (induction cs arbitrary: h)
  case (Cons d ds)
  have "Just (h @ pre) c" if "d # ds = pre @ c # post" for pre c post using Cons.prems that .
  from this [of "[]" d ds] this [of "d # pre" for pre] show ?case
    by (auto intro!: Cons.IH)
qed simp

lemma justified_from_mono:
  "justified_from J h cs \<Longrightarrow> (\<And>rest c. J (h @ rest) c \<Longrightarrow> K (h @ rest) c) \<Longrightarrow> justified_from K h cs"
proof (induction cs arbitrary: h)
  case (Cons c cs)
  from Cons.prems(1) Cons.prems(2) [of "[]" c] Cons.prems(2) [of "c # rest" for rest] show ?case
    by (auto intro: Cons.IH)
qed simp

lemma justified_from_all: "list_all P cs \<Longrightarrow> (\<And>g c. P c \<Longrightarrow> Just g c) \<Longrightarrow> justified_from Just h cs"
  by (induction cs arbitrary: h) auto

lemma emits_justified:
  assumes "emits h P m" and "run_state m s = (a, t)" and "\<And>g c. P c \<Longrightarrow> Just g c"
  shows "\<exists>cs. h t = h s @ cs \<and> justified_from Just (h s) cs"
  using emitsD [OF assms(1,2)] justified_from_all [of P _ Just] assms(3) by blast

text \<open>When a list has a single element with \<open>P\<close>, after a prefix \<open>xs\<close> that has none, whatever has \<open>P\<close> comes after \<open>xs\<close>.\<close>

lemma single_after:
  assumes "filter P (xs @ ys) = [c]" and "filter P xs = []" and "xs @ ys = pre @ d # post" and "P d"
  shows "d = c" and "\<exists>rest. pre = xs @ rest \<and> filter P rest = []"
proof -
  have "d \<in> set (filter P (xs @ ys))" using assms(3,4) by simp
  with assms(1) show "d = c" by simp
  have "filter P pre @ d # filter P post = [c]" using assms(1,3,4) by simp
  then have none: "filter P pre = []" by (auto simp: append_eq_Cons_conv)
  have "d \<notin> set xs" using assms(2,4) by (auto simp: filter_empty_conv)
  with assms(3) have "\<exists>rest. pre = xs @ rest"
    by (auto simp: append_eq_append_conv2 Cons_eq_append_conv append_eq_Cons_conv)
  with none show "\<exists>rest. pre = xs @ rest \<and> filter P rest = []" by auto
qed

lemma emits_any: "emits h P m \<Longrightarrow> emits h (\<lambda>c. True) m"
  by (rule emits_weaken) simp_all

lemma passes_emits:
  assumes "passes ps r s" and "\<And>n f. (n, f) \<in> set ps \<Longrightarrow> emits h P f"
  shows "\<exists>cs. h s = h r @ cs \<and> list_all P cs"
  using assms
proof (induction rule: passes.induct)
  case (passes_Cons f r out s ps t n)
  then obtain ds where "h t = h s @ ds" "list_all P ds" by auto
  with emitsD [OF passes_Cons.prems [of n f] passes_Cons.hyps(1)] show ?case by auto
qed simp

lemma Execute_after_passes: "passes ps r s \<Longrightarrow> run_state (Execute ops (ps @ qs)) r = run_state (Execute ops qs) s"
  by (induction rule: passes.induct) (simp_all add: run_Execute_Cons)

section \<open>The delete path\<close>

text \<open>All calls that a request has made after the history \<open>h\<close> are justified.\<close>

definition justified_after :: "('o hist \<Rightarrow> 'o call \<Rightarrow> bool) \<Rightarrow> 'o hist \<Rightarrow> ('o, 'x) request_scheme \<Rightarrow> bool" where
  "justified_after J h u \<longleftrightarrow> (\<exists>cs. req_calls u = h @ cs \<and> justified_from J h cs)"

lemma justified_after_start [simp]: "justified_after J (req_calls s) s"
  by (simp add: justified_after_def)

lemma justified_afterI: "req_calls u = h @ cs \<Longrightarrow> justified_from J h cs \<Longrightarrow> justified_after J h u"
  by (auto simp: justified_after_def)

lemma wp_justified_emits:
  assumes "justified_after J h t" and "emits req_calls P m" and "\<And>g c. P c \<Longrightarrow> J g c"
  shows "wp m (\<lambda>a u. justified_after J h u) t"
  unfolding wp_run
proof -
  obtain a u where m: "run_state m t = (a, u)" by fastforce
  from assms(1) obtain xs where xs: "req_calls t = h @ xs" "justified_from J h xs" by (auto simp: justified_after_def)
  from emits_justified [OF assms(2) m, of J] assms(3) obtain ys where
    "req_calls u = req_calls t @ ys" "justified_from J (req_calls t) ys" by blast
  with xs m show "justified_after J h (snd (run_state m t))" by (auto intro!: justified_afterI [of _ _ "xs @ ys"])
qed

text \<open>A path whose first phase makes justified calls, and whose other phases make none that need to be justified.\<close>

lemma wp_justified_Execute:
  assumes "wp f (\<lambda>out u. justified_after J h u) s" and "\<And>n g. (n, g) \<in> set ps \<Longrightarrow> emits req_calls P g"
    and "\<And>g c. P c \<Longrightarrow> J g c"
  shows "wp (Execute ops ((name, f) # ps)) (\<lambda>out u. justified_after J h u) s"
proof -
  obtain out u where f: "run_state f s = (out, u)" by fastforce
  have u: "justified_after J h u" by (rule wpD [OF assms(1) f])
  have "emits req_calls P (Execute ops ps)" using assms(2) by (intro emits) blast
  from wp_justified_emits [OF u this, of] assms(3) have "wp (Execute ops ps) (\<lambda>out u. justified_after J h u) u" by blast
  with u show ?thesis by (auto simp: wp_run run_Execute_Cons [OF f])
qed

section \<open>The create path\<close>

context justified_changes
begin

text \<open>
  Every change of the create path comes after the lookup that justifies it, with no other change in between, so it has whatever
  reason such a lookup gives.
\<close>

lemma create_path_justified:
  assumes "Current r = None" and late: "\<And>n f. (n, f) \<in> set late \<Longrightarrow> emits req_calls (\<lambda>c. \<not> change c) f"
    and pre: "\<And>n f. (n, f) \<in> set pre \<Longrightarrow> emits req_calls (\<lambda>c. \<not> change c) f"
    and same: "\<And>n f s. (n, f) \<in> set pre \<Longrightarrow> same_request r s \<Longrightarrow> wp f (\<lambda>out t. same_request r t) s"
    and grows: "emits req_calls (\<lambda>c. True) (apply_desired E)"
    and ps: "phases = pre @ (n2, look E) # (n3, apply_desired E) # late"
    and run: "run_state (do {
      err \<leftarrow> AddFinalizer E;
      (case err of
         Some e \<Rightarrow> do {
           req \<leftarrow> State_Monad.get;
           State_Monad.return (Ret (OnError ops' req (Some (AddFinalizerError e))))
         }
       | None \<Rightarrow> Execute ops phases)
    }) r = (out, u)"
    and reasons: "\<And>s found t rest x c. same_request r s \<Longrightarrow> req_calls s = req_calls r @ x \<Longrightarrow>
      run_state (look E) s = (found, t) \<Longrightarrow> why E s c \<Longrightarrow> filter change rest = [] \<Longrightarrow> reason (req_calls t @ rest) c"
  shows "\<exists>cs. req_calls u = req_calls r @ cs \<and> justified_from (\<lambda>h c. change c \<longrightarrow> reason h c) (req_calls r) cs"
proof -
  have "emits req_calls (\<lambda>c. True) f" if "(n, f) \<in> set phases" for n f
    using that ps grows emits_any [OF late] emits_any [OF pre] emits_any [OF look_no_change] by auto
  then have "emits req_calls (\<lambda>c. True) (do {
      err \<leftarrow> AddFinalizer E;
      (case err of
         Some e \<Rightarrow> do {
           req \<leftarrow> State_Monad.get;
           State_Monad.return (Ret (OnError ops' req (Some (AddFinalizerError e))))
         }
       | None \<Rightarrow> Execute ops phases)
    })" by (intro emits) auto
  from emitsD [OF this run] obtain cs where cs: "req_calls u = req_calls r @ cs" by auto
  have step: "wp f (\<lambda>out t. same_request r t \<and> filter change (req_calls t) = filter change (req_calls s)) s"
    if "(n, f) \<in> set pre" "same_request r s" for n f s
    unfolding wp_conj using same [OF that] wp_filter_emits [OF pre [OF that(1)]] by blast
  have "filter change (req_calls u) = filter change (req_calls r) \<or>
    (\<exists>s c. create_reaches E pre r s \<and> same_request r s \<and> filter change (req_calls u) = filter change (req_calls r) @ [c] \<and>
      why E s c)"
    by (rule create_path_changes [OF assms(1) _ _ ps run]) (erule late, erule (1) step)
  then consider (none) "filter change cs = []"
    | (one) s c where "create_reaches E pre r s" "same_request r s" "filter change cs = [c]" "why E s c"
    using cs by auto
  then show ?thesis
  proof cases
    case none
    then have "list_all (\<lambda>c. \<not> change c) cs" by (simp add: list_all_iff filter_empty_conv)
    with cs show ?thesis by (auto elim: justified_from_all)
  next
    case (one s c)
    obtain found t where look: "run_state (look E) s = (found, t)" by fastforce
    from one(1) obtain a where a: "run_state (AddFinalizer E) r = (None, a)" and s: "passes pre a s"
      by (auto simp: create_reaches_def)
    have "\<exists>cs. req_calls s = req_calls a @ cs \<and> list_all (\<lambda>c. \<not> change c) cs"
      by (rule passes_emits [OF s]) (rule pre)
    then have "\<exists>z. req_calls s = req_calls r @ z \<and> list_all (\<lambda>c. \<not> change c) z"
      using emitsD [OF emits_finalizers(1) a, of "\<lambda>c. \<not> change c"] patch_no_change by auto
    moreover from this have "\<exists>x. req_calls t = req_calls r @ x \<and> filter change x = []"
      using emitsD [OF look_no_change look] by (auto simp: list_all_iff filter_empty_conv)
    ultimately obtain x z where z: "req_calls s = req_calls r @ z"
      and x: "req_calls t = req_calls r @ x" "filter change x = []" by blast
    have "run_state (Execute ops ((n2, look E) # (n3, apply_desired E) # late)) s = (out, u)"
      using run a Execute_after_passes [OF s, of ops "(n2, look E) # (n3, apply_desired E) # late"] ps by simp
    then have "u = t \<or> run_state (Execute ops ((n3, apply_desired E) # late)) t = (out, u)"
      using look by (auto simp: run_Execute_Cons [OF look] split: if_splits)
    moreover have "emits req_calls (\<lambda>c. True) (Execute ops ((n3, apply_desired E) # late))"
      using grows emits_any [OF late] by (intro emits) auto
    ultimately obtain y where "req_calls u = req_calls t @ y" using emitsD by force
    then have y: "cs = x @ y" using cs x by simp
    have "justified_from (\<lambda>h c. change c \<longrightarrow> reason h c) (req_calls r) cs"
    proof (intro justified_fromI impI)
      fix p d q
      assume d: "cs = p @ d # q" "change d"
      obtain rest where "d = c" "p = x @ rest" "filter change rest = []"
        using single_after [OF one(3) [unfolded y] x(2) d(1) [unfolded y] d(2)] by blast
      with reasons [OF one(2) z look one(4), of rest] x(1) show "reason (req_calls r @ p) d" by simp
    qed
    with cs show ?thesis by blast
  qed
qed

end

context justified_apply
begin

lemma cluster_path_justified:
  assumes "Current r = None" and "\<And>n f. (n, f) \<in> set late \<Longrightarrow> emits req_calls (\<lambda>c. \<not> change c) f"
    and "emits req_calls (\<lambda>c. True) (apply_desired E)"
    and "phases = (n1, HandleClusterPhase E ops t) # (n2, look E) # (n3, apply_desired E) # late"
    and "run_state (do {
      err \<leftarrow> AddFinalizer E;
      (case err of
         Some e \<Rightarrow> do {
           req \<leftarrow> State_Monad.get;
           State_Monad.return (Ret (OnError ops' req (Some (AddFinalizerError e))))
         }
       | None \<Rightarrow> Execute ops phases)
    }) r = (out, u)"
    and "\<And>s found t rest x c. same_request r s \<Longrightarrow> req_calls s = req_calls r @ x \<Longrightarrow>
      run_state (look E) s = (found, t) \<Longrightarrow> why E s c \<Longrightarrow> filter change rest = [] \<Longrightarrow> reason (req_calls t @ rest) c"
  shows "\<exists>cs. req_calls u = req_calls r @ cs \<and> justified_from (\<lambda>h c. change c \<longrightarrow> reason h c) (req_calls r) cs"
proof (rule create_path_justified [where pre = "[(n1, HandleClusterPhase E ops t)]" and late = late and phases = phases
      and reason = reason, OF assms(1) assms(2) _ _ assms(3) _ assms(5,6)])
  fix n f
  assume "(n, f) \<in> set [(n1, HandleClusterPhase E ops t)]"
  then show "emits req_calls (\<lambda>c. \<not> change c) f" using common_no_change by (auto intro!: handle_emits)
  fix s
  assume "same_request r s" and "(n, f) \<in> set [(n1, HandleClusterPhase E ops t)]"
  then show "wp f (\<lambda>out. same_request r) s" by (auto intro: wp_mono [OF handle_no_change])
qed (use assms(4) in auto)

end

section \<open>Runs\<close>

text \<open>
  Additions that happen once. A call \<open>c\<close> with \<open>key c = Some k\<close> adds an object with the key \<open>k\<close>; after a history with
  \<open>absent k\<close> a lookup finds no such object. If every addition of a run follows a lookup that has found nothing, with no other
  addition in between, then an object that is found from its addition until it is removed is not added a second time before it
  is removed.
\<close>

locale unique_additions =
  fixes run :: "'o hist \<Rightarrow> bool"
    and key :: "'o call \<Rightarrow> 'k option"
    and absent :: "'k \<Rightarrow> 'o hist \<Rightarrow> bool"
  assumes looked_up: "run (pre @ c # post) \<Longrightarrow> key c = Some k \<Longrightarrow>
      \<exists>h later. pre = h @ later \<and> absent k h \<and> (\<forall>d \<in> set later. key d = None)"
begin

lemma added_once:
  assumes "run (h @ c # h' @ d # post)" and "key c = Some k" and "key d = Some k"
    and "\<And>g. absent k (h @ c # g) \<Longrightarrow> \<exists>x \<in> set g. removes x"
  shows "\<exists>x \<in> set h'. removes x"
proof -
  from looked_up [of "h @ c # h'" d post k] assms(1,3) obtain g later where
    g: "h @ c # h' = g @ later" "absent k g" "\<forall>x \<in> set later. key x = None" by auto
  have "c \<notin> set later" using g(3) assms(2) by auto
  with g(1) obtain g' where "g = h @ c # g'" "h' = g' @ later"
    by (auto simp: append_eq_append_conv2 Cons_eq_append_conv append_eq_Cons_conv)
  with assms(4) g(2) show ?thesis by auto
qed

end

locale justified_steps =
  fixes R :: "string \<Rightarrow> string \<Rightarrow> ('o world, 'a) state"
    and Just :: "'o hist \<Rightarrow> 'o call \<Rightarrow> bool"
  assumes step: "run_state (R ns n) w = (out, w') \<Longrightarrow> \<exists>cs. calls w' = calls w @ cs \<and> justified_from Just (calls w) cs"
begin

lemma reached_justified: "reached R w\<^sub>0 w \<Longrightarrow> \<exists>cs. calls w = calls w\<^sub>0 @ cs \<and> justified_from Just (calls w\<^sub>0) cs"
proof (induction rule: reached.induct)
  case (reached_step w ns n out w')
  then show ?case
    using step [of ns n w out w'] by auto
qed simp

lemma every_call_justified:
  assumes "reached R empty_world w" and "calls w = pre @ c # post"
  shows "Just pre c"
  using reached_justified [OF assms(1)] assms(2) by (simp add: empty_world_def)

end

section \<open>Controllers\<close>

text \<open>The request \<open>r\<close> was created, and starts with the world in which its creation has ended.\<close>

definition request_made :: "('o, ('o, 'x) request_scheme) controller \<Rightarrow> ('o, 'x) request_scheme \<Rightarrow> bool" where
  "request_made C r \<longleftrightarrow> (\<exists>ns n w req w'. run_state (NewRequest C ns n) w = (Ret (Inr req), w') \<and> r = req\<lparr>World := w'\<rparr>)"

text \<open>The state of a request when it is dispatched: its object as the update of the condition has left it.\<close>

definition dispatched :: "('a workload_scheme) services \<Rightarrow> ('a workload_scheme, 'x) request_scheme \<Rightarrow> ('a workload_scheme, 'x) request_scheme \<Rightarrow> bool" where
  "dispatched E r s \<longleftrightarrow> run_state (condition_Update E (Reconciling (GetTrigger (Original r)))) r = (None, s)"

text \<open>
  A change is allowed after the history \<open>h\<close> if a request was made before: for a resource that is being deleted the change is a
  removal, for any other there is a reason.
\<close>

definition change_allowed ::
    "('a workload_scheme) services \<Rightarrow> ('a workload_scheme, ('a workload_scheme, 'x) request_scheme) controller \<Rightarrow>
     ('a workload_scheme call \<Rightarrow> bool) \<Rightarrow>
     (('a workload_scheme, 'x) request_scheme \<Rightarrow> 'a workload_scheme hist \<Rightarrow> 'a workload_scheme call \<Rightarrow> bool) \<Rightarrow>
     (('a workload_scheme, 'x) request_scheme \<Rightarrow> 'a workload_scheme hist \<Rightarrow> 'a workload_scheme call \<Rightarrow> bool) \<Rightarrow>
     'a workload_scheme hist \<Rightarrow> 'a workload_scheme call \<Rightarrow> bool" where
  "change_allowed E C change removal reason h c \<longleftrightarrow> (change c \<longrightarrow> (\<exists>r rest. request_made C r \<and> h = req_calls r @ rest \<and>
     (if GetTrigger (Original r) = Delete then \<exists>s. dispatched E r s \<and> removal s h c else reason r h c)))"

lemma condition_Update_same: "run_state (condition_Update E mk) r = (err, s) \<Longrightarrow> same_request r s"
  using wpD [of "condition_Update E mk" "\<lambda>err s. same_request r s" r err s]
  by (auto simp: condition_Update_def wp Let_def split: sum.splits)

lemma dispatchedD:
  assumes "dispatched E r s"
  shows "same_request r s" and "\<exists>x. req_calls s = req_calls r @ x"
  using assms condition_Update_same [of E _ r] emitsD [OF emits_condition_Update, of "\<lambda>c. True" E _ r]
  unfolding dispatched_def by blast+

locale safe_controller =
  fixes E :: "('a workload_scheme) services"
    and C :: "('a workload_scheme, ('a workload_scheme, 'x) request_scheme) controller"
    and change :: "'a workload_scheme call \<Rightarrow> bool"
    and removal :: "('a workload_scheme, 'x) request_scheme \<Rightarrow> 'a workload_scheme hist \<Rightarrow> 'a workload_scheme call \<Rightarrow> bool"
    and reason :: "('a workload_scheme, 'x) request_scheme \<Rightarrow> 'a workload_scheme hist \<Rightarrow> 'a workload_scheme call \<Rightarrow> bool"
  assumes status_no_change: "\<not> change (KStatusPatch b p)"
    and new_emits: "emits calls (\<lambda>c. \<not> change c) (NewRequest C ns n)"
    and new_current: "run_state (NewRequest C ns n) w = (Ret (Inr req), w') \<Longrightarrow> Current req = None"
    and create_justified: "Current r = None \<Longrightarrow> run_state (ReconcileCreate C) r = (out, t) \<Longrightarrow>
      \<exists>cs. req_calls t = req_calls r @ cs \<and> justified_from (\<lambda>h c. change c \<longrightarrow> reason r h c) (req_calls r) cs"
    and update_creates: "ReconcileUpdate C = ReconcileCreate C"
    and reason_same: "same_request r s \<Longrightarrow> req_calls s = req_calls r @ x \<Longrightarrow> reason s h c \<Longrightarrow> reason r h c"
    and delete_justified: "run_state (ReconcileDelete C) r = (out, t) \<Longrightarrow>
      \<exists>cs. req_calls t = req_calls r @ cs \<and> justified_from (\<lambda>h c. change c \<longrightarrow> removal r h c) (req_calls r) cs"
begin

lemma dispatch_justified:
  assumes "Current r = None" and "run_state (dispatch E C) r = (out, t)"
  shows "\<exists>cs. req_calls t = req_calls r @ cs \<and> justified_from (\<lambda>h c. change c \<longrightarrow>
    (if GetTrigger (Original r) = Delete then \<exists>s. dispatched E r s \<and> removal s h c else reason r h c)) (req_calls r) cs"
    (is "\<exists>cs. _ \<and> justified_from ?J _ cs")
proof -
  let ?t = "GetTrigger (Original r)"
  obtain err s where c: "run_state (condition_Update E (Reconciling ?t)) r = (err, s)" by fastforce
  have s: "same_request r s" by (rule condition_Update_same [OF c])
  obtain x where x: "req_calls s = req_calls r @ x" "justified_from ?J (req_calls r) x"
    using emits_justified [OF emits_condition_Update c, of "\<lambda>c. \<not> change c" ?J] status_no_change by blast
  have "\<exists>y. req_calls t = req_calls s @ y \<and> justified_from ?J (req_calls s) y"
  proof (cases err)
    case (Some e)
    with assms(2) c show ?thesis by (simp add: dispatch_def Let_def)
  next
    case None
    show ?thesis
    proof (cases "?t = Delete")
      case True
      with assms(2) c None have "run_state (ReconcileDelete C) s = (out, t)" by (simp add: dispatch_def Let_def)
      moreover have "dispatched E r s" using c None by (simp add: dispatched_def)
      ultimately show ?thesis using delete_justified [of s out t] True by (auto elim!: justified_from_mono)
    next
      case False
      then have "?t = Create \<or> ?t = Update" using GetTrigger_cases [of "Original r"] by auto
      with assms(2) c None have run: "run_state (ReconcileCreate C) s = (out, t)"
        by (auto simp: dispatch_def Let_def update_creates)
      have "Current s = None" using assms(1) same_requestD(2) [OF s] by simp
      from create_justified [OF this run] False show ?thesis
        using reason_same [OF s x(1)] by (auto elim!: justified_from_mono)
    qed
  qed
  then obtain y where "req_calls t = req_calls s @ y" "justified_from ?J (req_calls s) y" by blast
  with x have "req_calls t = req_calls r @ x @ y \<and> justified_from ?J (req_calls r) (x @ y)"
    unfolding justified_from_append by simp
  then show ?thesis by blast
qed

lemma reconcile_justified:
  assumes "run_state (Reconcile E C ns n) w = (out, w')"
  shows "\<exists>cs. calls w' = calls w @ cs \<and> justified_from (change_allowed E C change removal reason) (calls w) cs"
proof -
  obtain res w1 where new: "run_state (NewRequest C ns n) w = (res, w1)" by fastforce
  obtain x where x: "calls w1 = calls w @ x" "justified_from (change_allowed E C change removal reason) (calls w) x"
    using emits_justified [OF new_emits new, of "change_allowed E C change removal reason"] by (auto simp: change_allowed_def)
  show ?thesis
  proof (cases "\<exists>req. res = Ret (Inr req)")
    case True
    then obtain req where r: "res = Ret (Inr req)" by blast
    obtain o' t where run': "run_state (dispatch E C) (req\<lparr>World := w1\<rparr>) = (o', t)" by fastforce
    then have run: "run_state (dispatch E C) (req\<lparr>World := w1\<rparr>) = (out, t)" and w': "w' = World t"
      using assms new r by (auto simp: Reconcile_def run_request_def Let_def)
    have made: "request_made C (req\<lparr>World := w1\<rparr>)" using new r unfolding request_made_def by blast
    obtain y where y: "req_calls t = calls w1 @ y" "justified_from (\<lambda>h c. change c \<longrightarrow>
        (if GetTrigger (Original req) = Delete then \<exists>s. dispatched E (req\<lparr>World := w1\<rparr>) s \<and> removal s h c else reason (req\<lparr>World := w1\<rparr>) h c)) (calls w1) y"
      using dispatch_justified [OF _ run] new_current [OF new [unfolded r]] by auto
    have "change_allowed E C change removal reason (calls w1 @ rest) c" if "change c \<longrightarrow>
        (if GetTrigger (Original req) = Delete then \<exists>s. dispatched E (req\<lparr>World := w1\<rparr>) s \<and> removal s (calls w1 @ rest) c else reason (req\<lparr>World := w1\<rparr>) (calls w1 @ rest) c)" for rest c
      unfolding change_allowed_def
      using that made by (intro impI exI [of _ "req\<lparr>World := w1\<rparr>"] exI [of _ rest]) (simp split: if_splits)
    with y(2) have "justified_from (change_allowed E C change removal reason) (calls w1) y"
      by (rule justified_from_mono)
    with x y w' show ?thesis by auto
  next
    case False
    with assms new have "w' = w1" by (auto simp: Reconcile_def split: outcome.splits sum.splits)
    with x show ?thesis by auto
  qed
qed

end

sublocale safe_controller \<subseteq> justified_steps "Reconcile E C" "change_allowed E C change removal reason"
  by unfold_locales (rule reconcile_justified)

context safe_controller
begin

text \<open>In every run, every change is allowed by what came before it.\<close>

lemma run_safe:
  assumes "reached (Reconcile E C) empty_world w" and "calls w = pre @ c # post" and "change c"
  shows "\<exists>r rest. request_made C r \<and> pre = req_calls r @ rest \<and>
    (if GetTrigger (Original r) = Delete then \<exists>s. dispatched E r s \<and> removal s pre c else reason r pre c)"
  using every_call_justified [OF assms(1,2)] assms(3) by (simp add: change_allowed_def)

end

end
