(* ===== verification/MachinePool_Controller.thy ===== *)
theory MachinePool_Controller
  imports Runs
begin

text \<open>
  The machine pool controller (\<^verbatim>\<open>controllers/reconcilers/machinepool\<close>): the creation of a request with its
  validation, the request's methods, the phases and the three reconciliation functions. Node pools
  are used instead of machine pools for hosted control planes.

  Shown here: what a request guarantees; that a pool which does not carry the managed labels is never
  changed; that a pool in its desired state is left alone; that the finalizer is removed only
  after OCM has confirmed that the pool is gone; and, for every run of the controller, that a pool is changed only for a
  resource that was read before and only for a reason.
\<close>

section \<open>Requests\<close>

definition maximumNameLength :: nat where
  "maximumNameLength = 15"

definition defaultMachinePoolRequeue :: int where
  "defaultMachinePoolRequeue = 30 * Second"

definition ErrMachinePoolNameLength :: go_error where
  "ErrMachinePoolNameLength = NewError ''machine pool name exceeds maximum length of 15 characters''"

definition ErrMachinePoolReservedLabel :: go_error where
  "ErrMachinePoolReservedLabel = NewError (''problem with system reserved labels: '' @ fmt_strings ManagedLabels)"

type_synonym mp_request = "MachinePool request"

definition MP_NewRequest ::
    "MachinePool services \<Rightarrow> string \<Rightarrow> string \<Rightarrow> (MachinePool world, (go_error + mp_request) outcome) state" where
  "MP_NewRequest E namespace name = do {
     res \<leftarrow> invoke (KGet namespace name) (\<lambda>h. kube_Get (Kube E) h namespace name);
     w \<leftarrow> State_Monad.get;
     State_Monad.return (Ret (case res of
         Inl err \<Rightarrow> (if \<not> IsNotFound err then Inl (Wrap ''unable to fetch cluster object - '' err) else Inl err)
       | Inr original \<Rightarrow>
           if HasManagedLabels original
           then Inl (Wrap (''spec.labels cannot contain reserved labels ['' @ fmt_map (Labels (MP_Spec original)) @ ''] - '')
                  ErrMachinePoolReservedLabel)
           else (let desired = DesiredState original in
             if length (MP_DisplayName (MP_Spec desired)) > maximumNameLength
             then Inl (Wrap (''requested name ['' @ MP_DisplayName (MP_Spec desired) @ ''] is invalid - '')
                    ErrMachinePoolNameLength)
             else (let desired' = (if MP_Hosted desired
                                   then desired\<lparr>MP_Spec := (MP_Spec desired)\<lparr>MP_AWS := zero_AWS\<rparr>\<rparr> else desired)
               in Inr \<lparr>World = w, Original = original, Desired = desired', Current = None,
                      Trigger = GetTrigger original\<rparr>))))
   }"

definition MP_SetClusterStatus :: "ocm_cluster option \<Rightarrow> mp_request \<Rightarrow> mp_request" where
  "MP_SetClusterStatus cluster req =
     (let o0 = Original req;
          o1 = (if Status_ClusterID o0 = '''' then o0\<lparr>Status_ClusterID := attr '''' cl_ID cluster\<rparr> else o0);
          o2 = (if length (MP_AvailabilityZones o1) = 0
                then o1\<lparr>MP_AvailabilityZones := attr [] nodes_AvailabilityZones (sub cl_Nodes cluster)\<rparr> else o1);
          o3 = (if length (MP_Subnets o2) = 0
                then o2\<lparr>MP_Subnets := attr [] aws_SubnetIDs (sub cl_AWS cluster)\<rparr> else o2);
          o4 = o3\<lparr>MP_Hosted := attr False cl_HypershiftEnabled cluster\<rparr>
      in req\<lparr>Original := o4\<rparr>)"

definition mp_ops :: "mp_request cluster_ops" where
  "mp_ops = \<lparr>DefaultRequeue = (\<lambda>req. defaultMachinePoolRequeue),
     GetName = (\<lambda>req. MP_DisplayName (MP_Spec (Desired req))),
     GetClusterName = (\<lambda>req. MP_ClusterName (MP_Spec (Desired req))),
     SetClusterStatus = MP_SetClusterStatus\<rparr>"

text \<open>\<open>desired()\<close> copies the wait field into the current state before it compares.\<close>

definition MP_desired :: "(mp_request, bool) state" where
  "MP_desired = do {
     req \<leftarrow> State_Monad.get;
     (case Current req of
        None \<Rightarrow> State_Monad.return False
      | Some cur \<Rightarrow> do {
          let cur' = cur\<lparr>MP_Spec := (MP_Spec cur)\<lparr>MP_Wait := MP_Wait (MP_Spec (Desired req))\<rparr>\<rparr>;
          modify (\<lambda>r. r\<lparr>Current := Some cur'\<rparr>);
          State_Monad.return (MP_Spec (Desired req) = MP_Spec cur')
        })
   }"

definition createMachinePool :: "MachinePool services \<Rightarrow> string \<Rightarrow> (mp_request, go_error option) state" where
  "createMachinePool E clusterID = do {
     req \<leftarrow> State_Monad.get;
     res \<leftarrow> on_world (MachinePoolClient_Create E clusterID (MachinePoolBuilder (Desired req)));
     State_Monad.return (case res of Inl err \<Rightarrow> Some (Wrap ''unable to create machine pool - '' err) | Inr _ \<Rightarrow> None)
   }"

definition createNodePool :: "MachinePool services \<Rightarrow> string \<Rightarrow> (mp_request, go_error option) state" where
  "createNodePool E clusterID = do {
     req \<leftarrow> State_Monad.get;
     res \<leftarrow> on_world (NodePoolClient_Create E clusterID (NodePoolBuilder (Desired req)));
     State_Monad.return (case res of Inl err \<Rightarrow> Some (Wrap ''unable to create node pool - '' err) | Inr _ \<Rightarrow> None)
   }"

definition updateMachinePool :: "MachinePool services \<Rightarrow> string \<Rightarrow> (mp_request, go_error option) state" where
  "updateMachinePool E clusterID = do {
     req \<leftarrow> State_Monad.get;
     res \<leftarrow> on_world (MachinePoolClient_Update E clusterID (MachinePoolBuilder (Desired req)));
     State_Monad.return (case res of Inl err \<Rightarrow> Some (Wrap ''unable to update machine pool - '' err) | Inr _ \<Rightarrow> None)
   }"

definition updateNodePool :: "MachinePool services \<Rightarrow> string \<Rightarrow> (mp_request, go_error option) state" where
  "updateNodePool E clusterID = do {
     req \<leftarrow> State_Monad.get;
     res \<leftarrow> on_world (NodePoolClient_Update E clusterID (NodePoolBuilder (Desired req)));
     State_Monad.return (case res of Inl err \<Rightarrow> Some (Wrap ''unable to update node pool - '' err) | Inr _ \<Rightarrow> None)
   }"

definition deleteMachinePool :: "MachinePool services \<Rightarrow> string \<Rightarrow> (mp_request, go_error option) state" where
  "deleteMachinePool E clusterID = do {
     req \<leftarrow> State_Monad.get;
     err \<leftarrow> on_world (MachinePoolClient_Delete E clusterID (MP_DisplayName (MP_Spec (Desired req))));
     State_Monad.return (map_option (Wrap ''unable to delete machine pool - '') err)
   }"

definition deleteNodePool :: "MachinePool services \<Rightarrow> string \<Rightarrow> (mp_request, go_error option) state" where
  "deleteNodePool E clusterID = do {
     req \<leftarrow> State_Monad.get;
     err \<leftarrow> on_world (NodePoolClient_Delete E clusterID (MP_DisplayName (MP_Spec (Desired req))));
     State_Monad.return (map_option (Wrap ''unable to delete node pool - '') err)
   }"

section \<open>Phases\<close>

definition errMachinePoolManagedLabels :: "mp_request \<Rightarrow> go_map \<Rightarrow> go_error \<Rightarrow> go_error" where
  "errMachinePoolManagedLabels req labels err =
     Wrap (''machine pool ['' @ GetName mp_ops req @ ''] is missing managed labels ['' @ fmt_map labels @ ''] - '') err"

definition errGetMachinePoolLabels :: "mp_request \<Rightarrow> go_error \<Rightarrow> go_error" where
  "errGetMachinePoolLabels req err =
     Wrap (''unable to get labeled nodes for machine pool ['' @ GetName mp_ops req @ ''] - '') err"

text \<open>The lookup of the pool, copied into the resource; \<open>None\<close> is a pool that does not exist.\<close>

definition current_pool ::
    "MachinePool services \<Rightarrow> mp_request \<Rightarrow> (MachinePool world, (go_error + MachinePool option) outcome) state" where
  "current_pool E req =
     (if MP_Hosted (Original req) then do {
        pool \<leftarrow> NodePoolClient_Get E (MP_DisplayName (MP_Spec (Desired req))) (Status_ClusterID (Original req));
        State_Monad.return (case pool of
            Inl err \<Rightarrow> Ret (Inl err)
          | Inr None \<Rightarrow> Ret (Inr None)
          | Inr (Some nodePool) \<Rightarrow>
              Ret (Inr (Some (CopyFromNodePool zero_MachinePool nodePool (MP_ClusterName (MP_Spec (Desired req)))))))
      } else do {
        pool \<leftarrow> MachinePoolClient_Get E (MP_DisplayName (MP_Spec (Desired req))) (Status_ClusterID (Original req));
        State_Monad.return (case pool of
            Inl err \<Rightarrow> Ret (Inl err)
          | Inr None \<Rightarrow> Ret (Inr None)
          | Inr (Some machinePool) \<Rightarrow>
              outcome_bind (CopyFromMachinePool zero_MachinePool machinePool (MP_ClusterName (MP_Spec (Desired req))))
                (\<lambda>cur. Ret (Inr (Some cur))))
      })"

definition MP_GetCurrentState :: "MachinePool services \<Rightarrow> (mp_request, go_result outcome) state" where
  "MP_GetCurrentState E = do {
     req \<leftarrow> State_Monad.get;
     found \<leftarrow> on_world (current_pool E req);
     (case found of
        Panic m \<Rightarrow> State_Monad.return (Panic m)
      | Diverge \<Rightarrow> State_Monad.return Diverge
      | Ret (Inl err) \<Rightarrow> State_Monad.return (Ret (OnError mp_ops req (Some (GetError mp_ops req err))))
      | Ret (Inr None) \<Rightarrow> State_Monad.return (Ret Next)
      | Ret (Inr (Some cur)) \<Rightarrow> do {
          modify (\<lambda>r. r\<lparr>Current := Some cur\<rparr>);
          (if \<not> HasManagedLabels cur
           then State_Monad.return (Ret (OnError mp_ops req
             (Some (errMachinePoolManagedLabels req (Labels (MP_Spec cur)) ErrMachinePoolReservedLabel))))
           else State_Monad.return (Ret Next))
        })
   }"

definition mp_register :: "MachinePool services \<Rightarrow> event \<Rightarrow> (mp_request, unit) state" where
  "mp_register E event = do {
     req \<leftarrow> State_Monad.get;
     on_world (RegisterAction E event (Original req) (MP_DisplayName (MP_Spec (Desired req)))
       (Status_ClusterID (Original req)))
   }"

definition MP_Apply :: "MachinePool services \<Rightarrow> (mp_request, go_result outcome) state" where
  "MP_Apply E = do {
     ok \<leftarrow> MP_desired;
     (if ok then State_Monad.return (Ret Next)
      else do {
        modify (\<lambda>r. r\<lparr>Desired := (Desired r)\<lparr>MP_AvailabilityZones := MP_AvailabilityZones (Original r),
          MP_Subnets := MP_Subnets (Original r)\<rparr>\<rparr>);
        req \<leftarrow> State_Monad.get;
        let clusterID = Status_ClusterID (Original req);
        (if Current req = None then do {
           createErr \<leftarrow> (if MP_Hosted (Original req) then createNodePool E clusterID else createMachinePool E clusterID);
           (case createErr of
              Some err \<Rightarrow> State_Monad.return (Ret
                (if strings_Contains (error_msg err) ''is being deleted from cluster'' then Retry mp_ops req
                 else OnError mp_ops req (Some (CreateError mp_ops req err))))
            | None \<Rightarrow> do {
                mp_register E Created;
                State_Monad.return (Ret Next)
              })
         } else do {
           updateErr \<leftarrow> (if MP_Hosted (Original req) then updateNodePool E clusterID else updateMachinePool E clusterID);
           (case updateErr of
              Some err \<Rightarrow> State_Monad.return (Ret (OnError mp_ops req (Some (UpdateError mp_ops req err))))
            | None \<Rightarrow> do {
                mp_register E Updated;
                State_Monad.return (Ret Next)
              })
         })
      })
   }"

text \<open>\<open>Destroy\<close> from the point where the cluster is known to exist.\<close>

definition MP_destroy_pool :: "MachinePool services \<Rightarrow> (mp_request, go_result outcome) state" where
  "MP_destroy_pool E = do {
     req \<leftarrow> State_Monad.get;
     let clusterID = Status_ClusterID (Original req);
     deleteErr \<leftarrow> (if MP_Hosted (Original req) then deleteNodePool E clusterID else deleteMachinePool E clusterID);
     (case deleteErr of
        Some err \<Rightarrow> State_Monad.return (Ret (OnError mp_ops req (Some (DeleteError mp_ops req err))))
      | None \<Rightarrow> do {
          mp_register E Deleted;
          err \<leftarrow> condition_Update E MachinePoolDeleted;
          State_Monad.return (Ret (case err of
              Some e \<Rightarrow> OnError mp_ops req (Some (UpdateDeletedConditionError e))
            | None \<Rightarrow> Next))
        })
   }"

definition MP_Destroy :: "MachinePool services \<Rightarrow> (mp_request, go_result outcome) state" where
  "MP_Destroy E = do {
     req \<leftarrow> State_Monad.get;
     (if IsSet (MachinePoolDeleted (kube_Now (Kube E) (req_calls req))) (Original req)
      then State_Monad.return (Ret Next)
      else do {
        res \<leftarrow> on_world (ClusterExists E (MP_ClusterName (MP_Spec (Desired req))));
        (case res of
           Inl err \<Rightarrow> State_Monad.return (Ret (OnError mp_ops req (Some err)))
         | Inr (cluster, exists) \<Rightarrow>
             if \<not> exists then State_Monad.return (Ret Next) else MP_destroy_pool E)
      })
   }"

definition MP_WaitUntilReady :: "MachinePool services \<Rightarrow> (mp_request, go_result outcome) state" where
  "MP_WaitUntilReady E = do {
     req \<leftarrow> State_Monad.get;
     (if \<not> MP_Wait (MP_Spec (Original req)) then State_Monad.return (Ret Next)
      else do {
        nodes \<leftarrow> on_world (GetLabeledNodes E (Labels (MP_Spec (Desired req))));
        State_Monad.return (Ret (case nodes of
            Inl err \<Rightarrow> OnError mp_ops req (Some (errGetMachinePoolLabels req err))
          | Inr items \<Rightarrow> if \<not> NodesAreReady items then Retry mp_ops req else Next))
      })
   }"

definition MP_WaitUntilMissing :: "MachinePool services \<Rightarrow> (mp_request, go_result outcome) state" where
  "MP_WaitUntilMissing E = do {
     req \<leftarrow> State_Monad.get;
     (if \<not> MP_Wait (MP_Spec (Original req)) then State_Monad.return (Ret Next)
      else do {
        nodes \<leftarrow> on_world (GetLabeledNodes E (Labels (MP_Spec (Desired req))));
        State_Monad.return (Ret (case nodes of
            Inl err \<Rightarrow> OnError mp_ops req (Some (errGetMachinePoolLabels req err))
          | Inr items \<Rightarrow> if length items > 0 then Retry mp_ops req else Next))
      })
   }"

section \<open>Reconciliation\<close>

definition mp_create_phases :: "MachinePool services \<Rightarrow> int \<Rightarrow> mp_request phase list" where
  "mp_create_phases E interval =
     [(''HandleUpstreamCluster'', HandleClusterPhase E mp_ops Create),
      (''GetCurrentState'', MP_GetCurrentState E),
      (''Apply'', MP_Apply E),
      (''WaitUntilReady'', MP_WaitUntilReady E),
      (''Complete'', Complete E mp_ops Create interval)]"

definition mp_delete_phases :: "MachinePool services \<Rightarrow> mp_request phase list" where
  "mp_delete_phases E =
     [(''Destroy'', MP_Destroy E),
      (''WaitUntilMissing'', MP_WaitUntilMissing E),
      (''CompleteDestroy'', CompleteDestroy E mp_ops)]"

definition MP_ReconcileCreate :: "MachinePool services \<Rightarrow> int \<Rightarrow> (mp_request, go_result outcome) state" where
  "MP_ReconcileCreate E interval = do {
     err \<leftarrow> AddFinalizer E;
     (case err of
        Some e \<Rightarrow> do {
          req \<leftarrow> State_Monad.get;
          State_Monad.return (Ret (OnError mp_ops req (Some (AddFinalizerError e))))
        }
      | None \<Rightarrow> Execute mp_ops (mp_create_phases E interval))
   }"

definition MP_ReconcileUpdate :: "MachinePool services \<Rightarrow> int \<Rightarrow> (mp_request, go_result outcome) state" where
  "MP_ReconcileUpdate E interval = MP_ReconcileCreate E interval"

definition MP_ReconcileDelete :: "MachinePool services \<Rightarrow> (mp_request, go_result outcome) state" where
  "MP_ReconcileDelete E = Execute mp_ops (mp_delete_phases E)"

definition mp_controller :: "MachinePool services \<Rightarrow> int \<Rightarrow> (MachinePool, mp_request) controller" where
  "mp_controller E interval = \<lparr>NewRequest = MP_NewRequest E, ReconcileCreate = MP_ReconcileCreate E interval,
     ReconcileUpdate = MP_ReconcileUpdate E interval, ReconcileDelete = MP_ReconcileDelete E\<rparr>"

definition MP_Reconcile ::
    "MachinePool services \<Rightarrow> int \<Rightarrow> string \<Rightarrow> string \<Rightarrow> (MachinePool world, go_result outcome) state" where
  "MP_Reconcile E interval = Reconcile E (mp_controller E interval)"

section \<open>Changes\<close>

text \<open>The calls that change a pool in OCM, and the patches of the object's metadata.\<close>

fun pool_add :: "'o call \<Rightarrow> bool" where
  "pool_add (MachinePoolAdd c p) = True"
| "pool_add (NodePoolAdd c p') = True"
| "pool_add _ = False"

fun pool_update :: "'o call \<Rightarrow> bool" where
  "pool_update (MachinePoolUpdate c i p) = True"
| "pool_update (NodePoolUpdate c i p') = True"
| "pool_update _ = False"

fun pool_delete :: "'o call \<Rightarrow> bool" where
  "pool_delete (MachinePoolDelete c i) = True"
| "pool_delete (NodePoolDelete c i) = True"
| "pool_delete _ = False"

definition pool_change :: "'o call \<Rightarrow> bool" where
  "pool_change c \<longleftrightarrow> pool_add c \<or> pool_update c \<or> pool_delete c"

lemma pool_change_simps [simp]:
  "\<not> pool_change (KPatch b p)" "\<not> pool_change (KStatusPatch b p)" "\<not> pool_change (ClusterSearch f)"
  "\<not> pool_change (ClusterGet i)" "\<not> pool_change (KListNodes l)" "\<not> pool_change (KEvent x y z)"
  "\<not> pool_change (MachinePoolGet c n)" "\<not> pool_change (NodePoolGet c n)"
  "pool_change (MachinePoolAdd c mp)" "pool_change (NodePoolAdd c np)"
  "pool_change (MachinePoolUpdate c n mp)" "pool_change (NodePoolUpdate c n np)"
  by (simp_all add: pool_change_def)

section \<open>The interfaces of the common phases\<close>

interpretation mp_cluster: cluster_request mp_ops
proof unfold_locales
  show "same_request r (SetClusterStatus mp_ops c r)" for c and r :: mp_request
    by (simp add: mp_ops_def MP_SetClusterStatus_def Let_def)
  show "same_request r s \<Longrightarrow> GetClusterName mp_ops s = GetClusterName mp_ops r" for r s :: mp_request
    by (simp add: mp_ops_def same_requestD)
qed (simp_all add: mp_ops_def MP_SetClusterStatus_def Let_def GetClusterID_def GetConditions_def)

lemma emits_current_pool [emits]:
  "(\<And>c n. P (MachinePoolGet c n)) \<Longrightarrow> (\<And>c n. P (NodePoolGet c n)) \<Longrightarrow> emits calls P (current_pool E r)"
  unfolding current_pool_def by (intro emits) auto

lemma emits_MP_GetCurrentState [emits]:
  "(\<And>c n. P (MachinePoolGet c n)) \<Longrightarrow> (\<And>c n. P (NodePoolGet c n)) \<Longrightarrow> emits req_calls P (MP_GetCurrentState E)"
  unfolding MP_GetCurrentState_def by (intro emits) auto

lemma emits_MP_desired [emits]: "emits req_calls P MP_desired"
  unfolding MP_desired_def Let_def by (intro emits) auto

lemma emits_mp_register [emits]: "(\<And>x y z. P (KEvent x y z)) \<Longrightarrow> emits req_calls P (mp_register E ev)"
  unfolding mp_register_def by (intro emits) auto

lemma emits_waits [emits]:
  "(\<And>l. P (KListNodes l)) \<Longrightarrow> emits req_calls P (MP_WaitUntilReady E)"
  "(\<And>l. P (KListNodes l)) \<Longrightarrow> emits req_calls P (MP_WaitUntilMissing E)"
  unfolding MP_WaitUntilReady_def MP_WaitUntilMissing_def by (intro emits; simp)+

lemma emits_pool_ops [emits]:
  "(\<And>c p. P (MachinePoolAdd c p)) \<Longrightarrow> emits req_calls P (createMachinePool E cid)"
  "(\<And>c p. P (NodePoolAdd c p)) \<Longrightarrow> emits req_calls P (createNodePool E cid)"
  "(\<And>c i p. P (MachinePoolUpdate c i p)) \<Longrightarrow> emits req_calls P (updateMachinePool E cid)"
  "(\<And>c i p. P (NodePoolUpdate c i p)) \<Longrightarrow> emits req_calls P (updateNodePool E cid)"
  "(\<And>c i. P (MachinePoolDelete c i)) \<Longrightarrow> emits req_calls P (deleteMachinePool E cid)"
  "(\<And>c i. P (NodePoolDelete c i)) \<Longrightarrow> emits req_calls P (deleteNodePool E cid)"
  unfolding createMachinePool_def createNodePool_def updateMachinePool_def updateNodePool_def
    deleteMachinePool_def deleteNodePool_def by (intro emits; simp)+

section \<open>Lemmas: requests\<close>

lemma MP_NewRequest_cases:
  assumes "run_state (MP_NewRequest E ns n) w = (Ret (Inr req), w')"
  shows "\<not> HasManagedLabels (Original req)" and "length (MP_DisplayName (MP_Spec (Desired req))) \<le> 15"
    and "kube_Get (Kube E) (calls w) ns n = Inr (Original req)" and "w' = w\<lparr>calls := calls w @ [KGet ns n]\<rparr>"
    and "Current req = None"
    and "Desired req = (if MP_Hosted (Original req)
      then (DesiredState (Original req))\<lparr>MP_Spec := (MP_Spec (DesiredState (Original req)))\<lparr>MP_AWS := zero_AWS\<rparr>\<rparr>
      else DesiredState (Original req))"
  using assms by (auto simp: MP_NewRequest_def Let_def maximumNameLength_def split: sum.splits if_splits)

section \<open>Lemmas: the create path\<close>

text \<open>
  A call that creates or updates a pool carries what the builder makes of a resource with the
  desired specification \<open>d\<close>, and one that deletes a pool its display name.
\<close>

definition sent_from :: "MachinePool services \<Rightarrow> MachinePoolSpec \<Rightarrow> MachinePool call \<Rightarrow> bool" where
  "sent_from E d c \<longleftrightarrow> (case c of
      MachinePoolAdd cid p \<Rightarrow> (\<exists>x. MP_Spec x = d \<and> lib_BuildMachinePool (Lib E) (MachinePoolBuilder x) = Inr p)
    | MachinePoolUpdate cid i p \<Rightarrow> (\<exists>x. MP_Spec x = d \<and> lib_BuildMachinePool (Lib E) (MachinePoolBuilder x) = Inr p)
    | NodePoolAdd cid p \<Rightarrow> (\<exists>x. MP_Spec x = d \<and> lib_BuildNodePool (Lib E) (NodePoolBuilder x) = Inr p)
    | NodePoolUpdate cid i p \<Rightarrow> (\<exists>x. MP_Spec x = d \<and> lib_BuildNodePool (Lib E) (NodePoolBuilder x) = Inr p)
    | MachinePoolDelete cid i \<Rightarrow> i = MP_DisplayName d
    | NodePoolDelete cid i \<Rightarrow> i = MP_DisplayName d
    | _ \<Rightarrow> True)"

text \<open>Whether a call is about a node pool, and its cluster; the call that looks a pool up, and what it finds.\<close>

fun pool_of :: "'o call \<Rightarrow> (bool \<times> string) option" where
  "pool_of (MachinePoolAdd cid p) = Some (False, cid)"
| "pool_of (NodePoolAdd cid q) = Some (True, cid)"
| "pool_of (MachinePoolUpdate cid i p) = Some (False, cid)"
| "pool_of (NodePoolUpdate cid i q) = Some (True, cid)"
| "pool_of c = None"

definition pool_get :: "bool \<Rightarrow> string \<Rightarrow> string \<Rightarrow> 'o call" where
  "pool_get hosted cid name = (if hosted then NodePoolGet cid name else MachinePoolGet cid name)"

definition pool_found ::
    "MachinePool services \<Rightarrow> MachinePool hist \<Rightarrow> bool \<Rightarrow> string \<Rightarrow> MachinePoolSpec \<Rightarrow> (go_error + MachinePool option) outcome" where
  "pool_found E h hosted cid d =
     (if hosted then
        (case fst (run_state (NodePoolClient_Get E (MP_DisplayName d) cid) \<lparr>calls = h, aws_client = None\<rparr>) of
            Inl err \<Rightarrow> Ret (Inl err)
          | Inr found \<Rightarrow> Ret (Inr (map_option (\<lambda>p. CopyFromNodePool zero_MachinePool p (MP_ClusterName d)) found)))
      else
        (case fst (run_state (MachinePoolClient_Get E (MP_DisplayName d) cid) \<lparr>calls = h, aws_client = None\<rparr>) of
            Inl err \<Rightarrow> Ret (Inl err)
          | Inr None \<Rightarrow> Ret (Inr None)
          | Inr (Some p) \<Rightarrow> outcome_bind (CopyFromMachinePool zero_MachinePool p (MP_ClusterName d)) (\<lambda>cur. Ret (Inr (Some cur)))))"

abbreviation pool_at :: "MachinePool services \<Rightarrow> mp_request \<Rightarrow> (go_error + MachinePool option) outcome" where
  "pool_at E r \<equiv> pool_found E (req_calls r) (MP_Hosted (Original r)) (Status_ClusterID (Original r)) (MP_Spec (Desired r))"

lemma run_current_pool:
  "run_state (current_pool E r) w =
     (pool_found E (calls w) (MP_Hosted (Original r)) (Status_ClusterID (Original r)) (MP_Spec (Desired r)),
      w\<lparr>calls := calls w @ [pool_get (MP_Hosted (Original r)) (Status_ClusterID (Original r)) (MP_DisplayName (MP_Spec (Desired r)))]\<rparr>)"
  by (auto simp: current_pool_def pool_found_def pool_get_def NodePoolClient_Get_def MachinePoolClient_Get_def
      split: option.splits sum.splits)

text \<open>
  A pool differs from the desired specification in more than the field \<open>wait\<close>. Why a change may be made: what the lookup
  of the pool has found.
\<close>

definition pool_differs :: "MachinePoolSpec \<Rightarrow> MachinePool \<Rightarrow> bool" where
  "pool_differs d cur \<longleftrightarrow> d \<noteq> (MP_Spec cur)\<lparr>MP_Wait := MP_Wait d\<rparr>"

definition pool_reason :: "(go_error + MachinePool option) outcome \<Rightarrow> MachinePoolSpec \<Rightarrow> 'o call \<Rightarrow> bool" where
  "pool_reason found d c \<longleftrightarrow> (case found of
      Ret (Inr None) \<Rightarrow> pool_add c
    | Ret (Inr (Some cur)) \<Rightarrow> HasManagedLabels cur \<and> pool_differs d cur \<and> pool_update c
    | _ \<Rightarrow> False)"

abbreviation pool_changes :: "mp_request \<Rightarrow> MachinePool call list" where
  "pool_changes r \<equiv> filter pool_change (req_calls r)"

lemma wp_MP_GetCurrentState:
  "wp (MP_GetCurrentState E) (\<lambda>out t. Desired t = Desired s \<and> Original t = Original s \<and>
     req_calls t = req_calls s @
       [pool_get (MP_Hosted (Original s)) (Status_ClusterID (Original s)) (MP_DisplayName (MP_Spec (Desired s)))] \<and>
     (passed out \<longrightarrow> pool_at E s = Ret (Inr None) \<and> Current t = Current s \<or>
       (\<exists>cur. pool_at E s = Ret (Inr (Some cur)) \<and> HasManagedLabels cur \<and> Current t = Some cur))) s"
  by (auto simp: MP_GetCurrentState_def wp wp_def [of "current_pool E s"] run_current_pool
      split: outcome.splits sum.splits option.splits)

text \<open>A change that is sent for a request.\<close>

definition pool_sent :: "MachinePool services \<Rightarrow> mp_request \<Rightarrow> MachinePool call \<Rightarrow> bool" where
  "pool_sent E r c \<longleftrightarrow> pool_of c = Some (MP_Hosted (Original r), Status_ClusterID (Original r)) \<and> sent_from E (MP_Spec (Desired r)) c"

lemma wp_pool_create:
  "wp (if MP_Hosted (Original r) then createNodePool E (Status_ClusterID (Original r))
       else createMachinePool E (Status_ClusterID (Original r)))
     (\<lambda>e s. pool_changes s = pool_changes r \<or>
       (\<exists>c. pool_changes s = pool_changes r @ [c] \<and> pool_add c \<and> pool_sent E r c)) r"
  by (auto simp: wp createNodePool_def createMachinePool_def NodePoolClient_Create_def MachinePoolClient_Create_def
      pool_sent_def sent_from_def split: sum.splits)

lemma wp_pool_update:
  "wp (if MP_Hosted (Original r) then updateNodePool E (Status_ClusterID (Original r))
       else updateMachinePool E (Status_ClusterID (Original r)))
     (\<lambda>e s. pool_changes s = pool_changes r \<or>
       (\<exists>c. pool_changes s = pool_changes r @ [c] \<and> pool_update c \<and> pool_sent E r c)) r"
  by (auto simp: wp updateNodePool_def updateMachinePool_def NodePoolClient_Update_def MachinePoolClient_Update_def
      pool_sent_def sent_from_def split: sum.splits)

lemma wp_mp_register [wp]:
  "wp (mp_register E ev) Q r = wp (on_world (RegisterAction E ev (Original r) (MP_DisplayName (MP_Spec (Desired r)))
     (Status_ClusterID (Original r)))) Q r"
  by (simp add: mp_register_def wp)

text \<open>The change that applying the desired state makes, if any, from the state of the request.\<close>

definition applied_change :: "MachinePool services \<Rightarrow> mp_request \<Rightarrow> MachinePool call \<Rightarrow> bool" where
  "applied_change E t c \<longleftrightarrow> pool_sent E t c \<and> (case Current t of
      None \<Rightarrow> pool_add c
    | Some cur \<Rightarrow> pool_differs (MP_Spec (Desired t)) cur \<and> pool_update c)"

lemma wp_MP_Apply:
  "wp (MP_Apply E) (\<lambda>out u. pool_changes u = pool_changes t \<or>
     (\<exists>c. pool_changes u = pool_changes t @ [c] \<and> applied_change E t c)) t"
proof -
  let ?z = "\<lambda>r. r\<lparr>Desired := (Desired r)\<lparr>MP_AvailabilityZones := MP_AvailabilityZones (Original r),
          MP_Subnets := MP_Subnets (Original r)\<rparr>\<rparr>"
  show ?thesis
  proof (cases "Current t")
    case None
    have "wp (if MP_Hosted (Original t) then createNodePool E (Status_ClusterID (Original t))
        else createMachinePool E (Status_ClusterID (Original t)))
        (\<lambda>e s. pool_changes s = pool_changes t \<or> (\<exists>c. pool_changes s = pool_changes t @ [c] \<and> applied_change E t c)) (?z t)"
      using wp_pool_create [of "?z t" E] None by (auto simp: applied_change_def pool_sent_def elim!: wp_mono)
    then show ?thesis
      unfolding MP_Apply_def MP_desired_def using None
      by (auto simp: wp Let_def elim!: wp_mono split: option.splits)
  next
    case (Some cur)
    let ?u = "?z (t\<lparr>Current := Some (cur\<lparr>MP_Spec := (MP_Spec cur)\<lparr>MP_Wait := MP_Wait (MP_Spec (Desired t))\<rparr>\<rparr>)\<rparr>)"
    have "wp (if MP_Hosted (Original t) then updateNodePool E (Status_ClusterID (Original t))
        else updateMachinePool E (Status_ClusterID (Original t)))
        (\<lambda>e s. pool_changes s = pool_changes t \<or> (\<exists>c. pool_changes s = pool_changes t @ [c] \<and> pool_update c \<and> pool_sent E t c)) ?u"
      using wp_pool_update [of ?u E] by (auto simp: pool_sent_def elim!: wp_mono)
    then show ?thesis
      unfolding MP_Apply_def MP_desired_def using Some
      by (auto simp: wp Let_def applied_change_def pool_differs_def elim!: wp_mono split: option.splits)
  qed
qed

definition pool_why :: "MachinePool services \<Rightarrow> mp_request \<Rightarrow> MachinePool call \<Rightarrow> bool" where
  "pool_why E s c \<longleftrightarrow> pool_sent E s c \<and> pool_reason (pool_at E s) (MP_Spec (Desired s)) c"

interpretation mp_apply: justified_apply mp_ops MP_GetCurrentState MP_Apply pool_change pool_why
proof
  show "emits req_calls (\<lambda>c. \<not> pool_change c) (MP_GetCurrentState E)" for E by (intro emits) simp_all
next
  fix E out and s t :: mp_request
  assume look: "run_state (MP_GetCurrentState E) s = (out, t)" and "passed out" and "Current s = None"
  then have "pool_why E s c" if "applied_change E t c" for c
    using wpD [OF wp_MP_GetCurrentState look] that
    by (auto simp: pool_why_def applied_change_def pool_sent_def pool_reason_def)
  then show "wp (MP_Apply E) (\<lambda>out u. pool_changes u = pool_changes t \<or>
      (\<exists>c. pool_changes u = pool_changes t @ [c] \<and> pool_why E s c)) t"
    by (intro wp_mono [OF wp_MP_Apply]) blast
qed simp_all

section \<open>Lemmas: the delete path\<close>

text \<open>
  When the pool may be taken to be gone: the object says so, or its cluster does not exist, or OCM
  confirms the deletion that is sent next.
\<close>

definition pool_gone :: "MachinePool services \<Rightarrow> mp_request \<Rightarrow> bool" where
  "pool_gone E r \<longleftrightarrow>
     (let name = MP_ClusterName (MP_Spec (Desired r)); pool = MP_DisplayName (MP_Spec (Desired r));
          cid = Status_ClusterID (Original r); h = req_calls r @ [ClusterSearch (name_filter name)]
      in IsSet (MachinePoolDeleted 0) (Original r) \<or> cluster_lookup E (req_calls r) name = Inr None \<or>
         (if MP_Hosted (Original r) then sdk_gone (ocm_NodePoolDelete (Ocm E) h cid pool)
          else sdk_gone (ocm_MachinePoolDelete (Ocm E) h cid pool)))"

lemma IsSet_MachinePoolDeleted: "IsSet (MachinePoolDeleted t) w \<Longrightarrow> IsSet (MachinePoolDeleted 0) w"
  unfolding MachinePoolDeleted_def using IsSet_make_condition by blast

lemma wp_pool_delete:
  assumes "\<And>w. Q None (r\<lparr>World := w\<rparr>) \<or> \<not> (if b then sdk_gone (ocm_NodePoolDelete (Ocm E) (req_calls r) cid (MP_DisplayName (MP_Spec (Desired r))))
      else sdk_gone (ocm_MachinePoolDelete (Ocm E) (req_calls r) cid (MP_DisplayName (MP_Spec (Desired r)))))"
    and "\<And>e w. Q (Some e) (r\<lparr>World := w\<rparr>)"
  shows "wp (if b then deleteNodePool E cid else deleteMachinePool E cid) Q r"
proof (cases b)
  case True
  have "wp (NodePoolClient_Delete E cid (MP_DisplayName (MP_Spec (Desired r))))
      (\<lambda>e w. Q (map_option (Wrap ''unable to delete node pool - '') e) (r\<lparr>World := w\<rparr>)) (World r)"
    using assms True by (intro node_pool_del.wp_deleteI) auto
  with True show ?thesis by (simp add: deleteNodePool_def wp)
next
  case False
  have "wp (MachinePoolClient_Delete E cid (MP_DisplayName (MP_Spec (Desired r))))
      (\<lambda>e w. Q (map_option (Wrap ''unable to delete machine pool - '') e) (r\<lparr>World := w\<rparr>)) (World r)"
    using assms False by (intro machine_pool_del.wp_deleteI) auto
  with False show ?thesis by (simp add: deleteMachinePool_def wp)
qed

lemma wp_condition_Update_Desired: "wp (condition_Update E mk) (\<lambda>e s. Desired s = Desired r) s0"
  if "Desired s0 = Desired r"
  using that by (auto simp: condition_Update_def wp Let_def split: sum.splits)

lemma wp_MP_destroy_pool:
  assumes "Desired s = Desired r"
    and "(if MP_Hosted (Original s)
      then sdk_gone (ocm_NodePoolDelete (Ocm E) (req_calls s) (Status_ClusterID (Original s)) (MP_DisplayName (MP_Spec (Desired r))))
      else sdk_gone (ocm_MachinePoolDelete (Ocm E) (req_calls s) (Status_ClusterID (Original s)) (MP_DisplayName (MP_Spec (Desired r)))))
      \<Longrightarrow> G"
  shows "wp (MP_destroy_pool E) (\<lambda>out s. Desired s = Desired r \<and> (passed out \<longrightarrow> G)) s"
proof -
  let ?cid = "Status_ClusterID (Original s)"
  have del: "wp (if MP_Hosted (Original s) then deleteNodePool E ?cid else deleteMachinePool E ?cid)
      (\<lambda>e s. Desired s = Desired r \<and> (e = None \<longrightarrow> G)) s"
    using assms by (intro wp_pool_delete) auto
  have cond: "wp (condition_Update E MachinePoolDeleted) (\<lambda>e s. Desired s = Desired r \<and> (b e \<longrightarrow> G)) s'"
    if "Desired s' = Desired r" "G" for s' b
    using that by (auto intro: wp_mono [OF wp_condition_Update_Desired])
  show ?thesis
    unfolding MP_destroy_pool_def wp_bind wp_get Let_def
  proof (rule wp_mono [OF del], goal_cases)
    case (1 e t)
    then show ?case
      by (cases e) (auto simp: wp_return wp_bind wp_mp_register wp_on_world wp_RegisterAction Let_def
          intro!: cond wp_condition_Update_Desired)
  qed
qed

lemma wp_MP_Destroy_gone:
  "wp (MP_Destroy E) (\<lambda>out s. Desired s = Desired r \<and> (passed out \<longrightarrow> pool_gone E r)) r"
proof (cases "IsSet (MachinePoolDeleted (kube_Now (Kube E) (req_calls r))) (Original r)")
  case True
  then have "pool_gone E r" by (simp add: pool_gone_def Let_def IsSet_MachinePoolDeleted [OF True])
  with True show ?thesis by (simp add: MP_Destroy_def wp)
next
  case False
  let ?n = "MP_ClusterName (MP_Spec (Desired r))"
  let ?s = "r\<lparr>World := (World r)\<lparr>calls := req_calls r @ [ClusterSearch (name_filter ?n)]\<rparr>\<rparr>"
  have "wp (MP_destroy_pool E) (\<lambda>out s. Desired s = Desired r \<and> (passed out \<longrightarrow> pool_gone E r)) ?s"
    by (rule wp_MP_destroy_pool) (auto simp: pool_gone_def Let_def split: if_splits)
  moreover have "cluster_lookup E (req_calls r) ?n = Inr None \<Longrightarrow> pool_gone E r"
    by (simp add: pool_gone_def Let_def)
  ultimately show ?thesis
    using False by (auto simp: MP_Destroy_def wp split: sum.splits)
qed

lemma wp_MP_WaitUntilMissing:
  "wp (MP_WaitUntilMissing E) (\<lambda>out t. object_patches t = object_patches s \<and>
     (passed out \<longrightarrow> \<not> MP_Wait (MP_Spec (Original s)) \<or>
        kube_Nodes (Kube E) (req_calls s) (Labels (MP_Spec (Desired s))) = Inr [])) s"
  by (auto simp: MP_WaitUntilMissing_def wp split: sum.splits)

text \<open>What has to hold before the finalizer may be removed.\<close>

definition delete_guarded :: "MachinePool services \<Rightarrow> mp_request \<Rightarrow> bool" where
  "delete_guarded E r \<longleftrightarrow> pool_gone E r \<and>
     (let s = snd (run_state (MP_Destroy E) r)
      in MP_Wait (MP_Spec (Original s)) \<longrightarrow> kube_Nodes (Kube E) (req_calls s) (Labels (MP_Spec (Desired r))) = Inr [])"

interpretation mp_guarded: guarded_delete
  "\<lambda>E. [(''Destroy'', MP_Destroy E), (''WaitUntilMissing'', MP_WaitUntilMissing E)]" delete_guarded
proof
  fix n f E
  assume "(n, f) \<in> set [(''Destroy'', MP_Destroy E), (''WaitUntilMissing'', MP_WaitUntilMissing E)]"
  moreover have "emits req_calls (\<lambda>c. \<not> object_patch c) (MP_Destroy E)"
    unfolding MP_Destroy_def MP_destroy_pool_def Let_def by (intro emits) simp_all
  moreover have "emits req_calls (\<lambda>c. \<not> object_patch c) (MP_WaitUntilMissing E)" by (intro emits) simp
  ultimately show "emits req_calls (\<lambda>c. \<not> object_patch c) f" by auto
next
  fix E r t
  assume "passes [(''Destroy'', MP_Destroy E), (''WaitUntilMissing'', MP_WaitUntilMissing E)] r t"
  then obtain o1 s o2 where d: "run_state (MP_Destroy E) r = (o1, s)" "passed o1"
    and w: "run_state (MP_WaitUntilMissing E) s = (o2, t)" "passed o2" by (auto simp: passes_Cons_iff)
  from wpD [OF wp_MP_Destroy_gone d(1)] wpD [OF wp_MP_WaitUntilMissing w(1)] d w
  show "delete_guarded E r" by (simp add: delete_guarded_def)
qed

text \<open>What the machine pool controller wants OCM to have for a resource.\<close>

definition mp_wanted :: "MachinePool \<Rightarrow> MachinePoolSpec" where
  "mp_wanted obj = (let spec = MP_Spec (DesiredState obj) in if MP_Hosted obj then spec\<lparr>MP_AWS := zero_AWS\<rparr> else spec)"

section \<open>Runs\<close>

text \<open>
  Why a pool may be added or updated for the request \<open>r\<close>: the last lookup, with no change since, has found it missing, or
  managed and different from the desired state. The delete path deletes the pool of the desired name in the recorded cluster, right
  after OCM has found the cluster and while the deletion is not recorded.
\<close>

definition mp_reason :: "MachinePool services \<Rightarrow> mp_request \<Rightarrow> MachinePool hist \<Rightarrow> MachinePool call \<Rightarrow> bool" where
  "mp_reason E r h c \<longleftrightarrow> (let d = MP_Spec (Desired r) in
     \<exists>mid hosted cid later. h = req_calls r @ mid @ pool_get hosted cid (MP_DisplayName d) # later \<and> filter pool_change later = [] \<and>
       pool_of c = Some (hosted, cid) \<and> sent_from E d c \<and> pool_reason (pool_found E (req_calls r @ mid) hosted cid d) d c)"

definition mp_removal :: "MachinePool services \<Rightarrow> mp_request \<Rightarrow> MachinePool hist \<Rightarrow> MachinePool call \<Rightarrow> bool" where
  "mp_removal E s h c \<longleftrightarrow> (let d = MP_Spec (Desired s); cluster = MP_ClusterName d; cid = Status_ClusterID (Original s) in
     \<not> IsSet (MachinePoolDeleted 0) (Original s) \<and> h = req_calls s @ [ClusterSearch (name_filter cluster)] \<and>
     (\<exists>x. cluster_lookup E (req_calls s) cluster = Inr (Some x)) \<and>
     c = (if MP_Hosted (Original s) then NodePoolDelete cid (MP_DisplayName d) else MachinePoolDelete cid (MP_DisplayName d)))"

lemma mp_reason_same:
  assumes "same_request r s" and "req_calls s = req_calls r @ x" and "mp_reason E s h c"
  shows "mp_reason E r h c"
proof -
  from assms(3) obtain mid hosted cid later where
    "h = req_calls r @ (x @ mid) @ pool_get hosted cid (MP_DisplayName (MP_Spec (Desired r))) # later" "filter pool_change later = []"
    "pool_of c = Some (hosted, cid)" "sent_from E (MP_Spec (Desired r)) c"
    "pool_reason (pool_found E (req_calls r @ x @ mid) hosted cid (MP_Spec (Desired r))) (MP_Spec (Desired r)) c"
    using assms(2) same_requestD(1) [OF assms(1)] by (auto simp: mp_reason_def Let_def)
  then show ?thesis unfolding mp_reason_def Let_def by blast
qed

lemma wp_MP_destroy_pool_justified:
  assumes "\<not> IsSet (MachinePoolDeleted t) (Original s)" and "cluster_lookup E (req_calls s) (MP_ClusterName (MP_Spec (Desired s))) = Inr (Some x)"
  shows "wp (MP_destroy_pool E) (\<lambda>out u. justified_after (\<lambda>h c. pool_change c \<longrightarrow> mp_removal E s h c) (req_calls s) u)
    (s\<lparr>World := (World s)\<lparr>calls := req_calls s @ [ClusterSearch (name_filter (MP_ClusterName (MP_Spec (Desired s))))]\<rparr>\<rparr>)"
proof -
  let ?J = "\<lambda>h c. pool_change c \<longrightarrow> mp_removal E s h c"
  have "\<not> IsSet (MachinePoolDeleted 0) (Original s)"
    using assms(1) unfolding MachinePoolDeleted_def using IsSet_make_condition by blast
  with assms(2) have del: "justified_after ?J (req_calls s) (s\<lparr>World := (World s)\<lparr>calls := req_calls s @
      [ClusterSearch (name_filter (MP_ClusterName (MP_Spec (Desired s)))), (if MP_Hosted (Original s)
        then NodePoolDelete (Status_ClusterID (Original s)) (MP_DisplayName (MP_Spec (Desired s)))
        else MachinePoolDelete (Status_ClusterID (Original s)) (MP_DisplayName (MP_Spec (Desired s))))]\<rparr>\<rparr>)"
    by (intro justified_afterI) (auto simp: mp_removal_def Let_def)
  have then_none: "wp (K e) (\<lambda>out u. justified_after ?J (req_calls s) u) u"
    if "justified_after ?J (req_calls s) u" "\<And>e. emits req_calls (\<lambda>c. \<not> pool_change c) (K e)" for K u and e :: "go_error option"
    by (rule wp_justified_emits [OF that]) simp
  show ?thesis
    using del unfolding MP_destroy_pool_def Let_def
    by (auto simp: wp_bind wp_get wp_if wp_on_world wp_return deleteMachinePool_def deleteNodePool_def MachinePoolClient_Delete_def
        NodePoolClient_Delete_def wp_invoke intro!: then_none emits)
qed

lemma wp_MP_Destroy_justified:
  "wp (MP_Destroy E) (\<lambda>out u. justified_after (\<lambda>h c. pool_change c \<longrightarrow> mp_removal E s h c) (req_calls s) u) s"
proof (cases "IsSet (MachinePoolDeleted (kube_Now (Kube E) (req_calls s))) (Original s)")
  case False
  from False show ?thesis
    unfolding MP_Destroy_def
    by (auto simp: wp_bind wp_get wp_if wp_on_world wp_ClusterExists wp_return split: sum.splits option.splits
        intro!: wp_MP_destroy_pool_justified justified_afterI)
qed (simp add: MP_Destroy_def wp)

interpretation mp_safe: safe_controller E "mp_controller E interval" pool_change "mp_removal E" "mp_reason E" for E interval
proof
  fix ns n
  show "emits calls (\<lambda>c. \<not> pool_change c) (NewRequest (mp_controller E interval) ns n)"
    unfolding mp_controller_def by (simp add: MP_NewRequest_def Let_def) (intro emits; simp add: pool_change_def)
next
  fix r t :: mp_request and out
  assume r: "Current r = None" and "run_state (ReconcileCreate (mp_controller E interval)) r = (out, t)"
  then have run: "run_state (MP_ReconcileCreate E interval) r = (out, t)" by (simp add: mp_controller_def)
  show "\<exists>cs. req_calls t = req_calls r @ cs \<and>
      justified_from (\<lambda>h c. pool_change c \<longrightarrow> mp_reason E r h c) (req_calls r) cs"
  proof (rule mp_apply.cluster_path_justified [OF r, where late = "drop 3 (mp_create_phases E interval)",
        OF _ _ _ run [unfolded MP_ReconcileCreate_def]])
    fix s u :: mp_request and rest :: "MachinePool hist" and found x c
    assume "same_request r s" "req_calls s = req_calls r @ x" "run_state (MP_GetCurrentState E) s = (found, u)" "pool_why E s c"
      "filter pool_change rest = []"
    then show "mp_reason E r (req_calls u @ rest) c"
      using wpD [OF wp_MP_GetCurrentState, of E s found u] same_requestD(1) [of r s]
      by (auto simp: mp_reason_def pool_why_def pool_sent_def Let_def)
  qed (auto simp: mp_create_phases_def MP_Apply_def Let_def intro!: emits)
next
  fix r t :: mp_request and out
  assume run: "run_state (ReconcileDelete (mp_controller E interval)) r = (out, t)"
  have "wp (MP_ReconcileDelete E) (\<lambda>out u. justified_after (\<lambda>h c. pool_change c \<longrightarrow> mp_removal E r h c) (req_calls r) u) r"
    unfolding MP_ReconcileDelete_def mp_delete_phases_def
    by (rule wp_justified_Execute [OF wp_MP_Destroy_justified, where P = "\<lambda>c. \<not> pool_change c"]) (auto intro!: emits)
  from wpD [OF this] run show "\<exists>cs. req_calls t = req_calls r @ cs \<and>
      justified_from (\<lambda>h c. pool_change c \<longrightarrow> mp_removal E r h c) (req_calls r) cs"
    by (simp add: mp_controller_def justified_after_def)
qed (auto simp: mp_controller_def MP_ReconcileUpdate_def dest: MP_NewRequest_cases intro: mp_reason_same)

section \<open>Properties\<close>

text \<open>
  C21: a request is only made for a resource that Kubernetes holds, that does not carry all reserved labels
  and whose display name has at most 15 characters. Its desired state carries the managed
  labels whenever the resource has a name, and no spot settings for a hosted control plane.
\<close>

theorem MP_NewRequest_valid:
  assumes "run_state (MP_NewRequest E ns n) w = (Ret (Inr req), w')"
  shows "kube_Get (Kube E) (calls w) ns n = Inr (Original req) \<and> \<not> HasManagedLabels (Original req) \<and>
    MP_Spec (Desired req) = mp_wanted (Original req) \<and>
    length (MP_DisplayName (MP_Spec (Desired req))) \<le> 15 \<and>
    (GetDisplayName (Original req) \<noteq> [] \<longrightarrow> HasManagedLabels (Desired req)) \<and>
    (MP_Hosted (Original req) \<longrightarrow> MP_AWS (MP_Spec (Desired req)) = zero_AWS)"
  using MP_NewRequest_cases [OF assms]
  by (auto simp: mp_wanted_def Let_def HasManagedLabels_iff DesiredState_labels ManagedLabels_def)

theorem MP_NewRequest_valid_witness:
  "\<exists>req w'. run_state (MP_NewRequest (sample_services example_pool) ''ocm'' ''workers'') empty_world = (Ret (Inr req), w') \<and>
     HasManagedLabels (Desired req)"
proof -
  let ?E = "sample_services example_pool"
  have nm: "\<not> HasManagedLabels example_pool" "GetDisplayName example_pool = ''workers''"
    by (simp_all add: HasManagedLabels_iff example_pool_def zero_MachinePool_def GetDisplayName_def)
  then obtain req w' where r: "run_state (MP_NewRequest ?E ''ocm'' ''workers'') empty_world = (Ret (Inr req), w')"
    by (simp add: MP_NewRequest_def Let_def maximumNameLength_def)
  from MP_NewRequest_valid [OF r] r nm show ?thesis by auto
qed

text \<open>
  C5: in every run of the controller (any reconciliations in any order, whatever the servers answer), every change to a pool in OCM
  follows a request \<open>r\<close> for a resource that was read before. For a resource that is being deleted the change deletes the pool of
  the desired display name in the recorded cluster, right after OCM has found that cluster and while the deletion is not
  recorded. For any other resource a pool is added only after a lookup, later than the reading of the resource, has
  found it missing, or updated only after a lookup has found it with the managed labels and different from the desired state; what is
  sent carries the desired state, and no pool was changed since the lookup.
\<close>

theorem mp_run_safe:
  assumes "reached (MP_Reconcile E interval) empty_world w" and "calls w = pre @ c # post" and "pool_change c"
  shows "\<exists>h ns n rest r. pre = h @ KGet ns n # rest \<and> kube_Get (Kube E) h ns n = Inr (Original r) \<and>
    MP_Spec (Desired r) = mp_wanted (Original r) \<and> req_calls r = h @ [KGet ns n] \<and>
    (if GetTrigger (Original r) = Delete then \<exists>s. dispatched E r s \<and> mp_removal E s pre c else mp_reason E r pre c)"
proof -
  from mp_safe.run_safe [OF assms(1) [unfolded MP_Reconcile_def] assms(2,3)] obtain r rest where
    made: "request_made (mp_controller E interval) r" and pre: "pre = req_calls r @ rest"
    and why: "if GetTrigger (Original r) = Delete then \<exists>s. dispatched E r s \<and> mp_removal E s pre c else mp_reason E r pre c" by blast
  from made obtain ns n v req w' where new: "run_state (MP_NewRequest E ns n) v = (Ret (Inr req), w')"
    and r: "r = req\<lparr>World := w'\<rparr>"
    unfolding request_made_def by (auto simp: mp_controller_def)
  note req = MP_NewRequest_cases [OF new]
  have d: "MP_Spec (Desired r) = mp_wanted (Original r)" using req(6) r by (simp add: mp_wanted_def Let_def)
  have h: "req_calls r = calls v @ [KGet ns n]" using req(4) r by simp
  have o: "kube_Get (Kube E) (calls v) ns n = Inr (Original r)" using req(3) r by simp
  have "pre = calls v @ KGet ns n # rest" using pre h by simp
  with why o d h show ?thesis by blast
qed

text \<open>A pool that is marked for deletion, and an OCM that does not delete it yet.\<close>

definition doomed_pool :: MachinePool where
  "doomed_pool = example_pool\<lparr>DeletionTimestamp := Some 2, Status_Conditions := [Reconciling Delete 0]\<rparr>"

definition mp_failing :: "MachinePool services" where
  "mp_failing = (sample_services doomed_pool)\<lparr>Ocm := sample_ocm\<lparr>ocm_MachinePoolDelete := (\<lambda>h cid i. sdk_error 500 ''down'')\<rparr>\<rparr>"

theorem mp_run_safe_witness:
  "\<exists>w pre c post. reached (MP_Reconcile mp_failing 5) empty_world w \<and> calls w = pre @ c # post \<and> pool_change c \<and>
     (\<exists>h ns n rest cid. pre = h @ KGet ns n # rest \<and> c = MachinePoolDelete cid ''workers'')"
proof -
  have t: "GetTrigger doomed_pool = Delete" "\<not> HasManagedLabels doomed_pool" "GetDisplayName doomed_pool = ''workers''"
    "\<not> MP_Hosted doomed_pool"
    by (simp_all add: GetTrigger_def doomed_pool_def example_pool_def zero_MachinePool_def HasManagedLabels_iff GetDisplayName_def)
  have "IsSet (Reconciling Delete 0) doomed_pool" by (simp add: IsSet_iff GetConditions_def doomed_pool_def)
  then have c: "IsSet (Reconciling Delete x) doomed_pool" for x
    unfolding Reconciling_def using IsSet_make_condition by blast
  have d: "\<not> IsSet (MachinePoolDeleted x) doomed_pool" for x
    by (simp add: IsSet_iff GetConditions_def doomed_pool_def MachinePoolDeleted_def Reconciling_def make_condition_def)
  have e: "kube_Get (Kube mp_failing) h ns n = Inr doomed_pool" "ocm_MachinePoolDelete (Ocm mp_failing) h cid i = sdk_error 500 ''down''" for h ns n cid i
    by (simp_all add: mp_failing_def)
  have l: "cluster_lookup mp_failing h name = Inr (Some sample_cluster)" for h name
    by (simp add: cluster_lookup_def ClusterClient_Get_def mp_failing_def sample_ocm_def sdk_ok_def)
  have "wp (MP_Reconcile mp_failing 5 ''ocm'' ''workers'') (\<lambda>out w. filter pool_change (calls w) \<noteq> []) empty_world"
    by (simp add: MP_Reconcile_def Reconcile_def mp_controller_def wp MP_NewRequest_def Let_def t maximumNameLength_def dispatch_def
      condition_Update_def c d MP_ReconcileDelete_def mp_delete_phases_def MP_Destroy_def
      MP_destroy_pool_def wp_ClusterExists deleteMachinePool_def MachinePoolClient_Delete_def e l sdk_error_def
      StatusNotFound_def pool_change_def)
  moreover obtain out w where run: "run_state (MP_Reconcile mp_failing 5 ''ocm'' ''workers'') empty_world = (out, w)" by fastforce
  ultimately have "filter pool_change (calls w) \<noteq> []" by (rule wpD)
  then obtain pre c post where w: "calls w = pre @ c # post" "pool_change c"
    by (auto simp: filter_empty_conv in_set_conv_decomp)
  have r: "reached (MP_Reconcile mp_failing 5) empty_world w" by (rule reached_step [where R = "MP_Reconcile mp_failing 5", OF reached_start run])
  have same: "s = r" if "dispatched mp_failing r s" "Original r = doomed_pool" for r s :: mp_request
    using that c t(1) by (simp add: dispatched_def condition_Update_def Let_def)
  have k: "MP_DisplayName (mp_wanted doomed_pool) = ''workers''" using t by (simp add: mp_wanted_def Let_def)
  from mp_run_safe [OF r w] obtain h ns n rest r' where
    m: "pre = h @ KGet ns n # rest" "kube_Get (Kube mp_failing) h ns n = Inr (Original r')" "MP_Spec (Desired r') = mp_wanted (Original r')"
    and why: "if GetTrigger (Original r') = Delete then \<exists>s. dispatched mp_failing r' s \<and> mp_removal mp_failing s pre c
      else mp_reason mp_failing r' pre c" by blast
  from m(2) e(1) have o: "Original r' = doomed_pool" by simp
  with why same t(1) have "mp_removal mp_failing r' pre c" by auto
  then have "\<exists>cid. c = MachinePoolDelete cid ''workers''" using m(3) o t(4) k by (auto simp: mp_removal_def Let_def)
  with m(1) have "\<exists>h ns n rest cid. pre = h @ KGet ns n # rest \<and> c = MachinePoolDelete cid ''workers''" by blast
  with r w show ?thesis by blast
qed

text \<open>
  C4: creating or updating a pool makes at most one change in OCM, and only a justified one: the
  pool is created only if OCM has just answered that it does not exist; it is updated only if the pool
  that OCM has just returned carries the managed labels and differs from the desired state (but for the
  field \<open>wait\<close>). A pool is never deleted on this path. \<open>s\<close> is the state in which the path makes its lookup.
\<close>

theorem mp_create_changes_justified:
  assumes "run_state (MP_ReconcileCreate E interval) r = (out, t)" and "Current r = None"
  shows "pool_changes t = pool_changes r \<or>
    (\<exists>s c. create_reaches E (take 1 (mp_create_phases E interval)) r s \<and> same_request r s \<and>
      pool_changes t = pool_changes r @ [c] \<and> pool_why E s c)"
  by (rule mp_apply.cluster_path_changes [OF assms(2), where late = "drop 3 (mp_create_phases E interval)" and
        phases = "mp_create_phases E interval", OF _ _ assms(1) [unfolded MP_ReconcileCreate_def]])
    (auto simp: mp_create_phases_def intro!: emits)

theorem mp_create_changes_justified_witness:
  "\<exists>t s c. t = snd (run_state (MP_ReconcileCreate (sample_services example_pool) 5) (sample_request example_pool)) \<and>
     (pool_changes t = [] \<or> pool_changes t = [c] \<and> pool_why (sample_services example_pool) s c)"
proof -
  obtain out t where t: "run_state (MP_ReconcileCreate (sample_services example_pool) 5) (sample_request example_pool) = (out, t)"
    by fastforce
  from mp_create_changes_justified [OF t] t show ?thesis
    by (auto simp: sample_request_def empty_world_def)
qed

text \<open>
  The create and update path never leaves a resource unattended: unless the program panics or hangs, the result
  asks for a requeue, with an error or not.
\<close>

lemma mp_create_requeues:
  assumes "run_state (MP_ReconcileCreate E interval) r = (Ret (res, err), t)"
  shows "Result_Requeue res"
  by (rule create_path_requeues [OF assms [unfolded MP_ReconcileCreate_def],
        where ps = "butlast (mp_create_phases E interval)" and n = "''Complete''"]) (simp add: mp_create_phases_def)

text \<open>
  C1: on the delete path the object, and so its finalizer, is patched only when the pool is gone: its deletion
  is recorded in the conditions, or its cluster does not exist, or OCM has confirmed the deletion;
  and, if the resource asks to wait, no node with the pool's labels is left.
\<close>

theorem mp_finalizer_kept_until_gone:
  assumes "run_state (MP_ReconcileDelete E) r = (out, t)" and "object_patches t \<noteq> object_patches r"
    and "s = snd (run_state (MP_Destroy E) r)"
  shows "pool_gone E r \<and> (MP_Wait (MP_Spec (Original s)) \<longrightarrow>
    kube_Nodes (Kube E) (req_calls s) (Labels (MP_Spec (Desired r))) = Inr [])"
  using mp_guarded.patched_only_if_gone [of mp_ops E "''CompleteDestroy''" "CompleteDestroy E mp_ops" r out t] assms
  by (simp add: MP_ReconcileDelete_def mp_delete_phases_def delete_guarded_def Let_def)

text \<open>A pool whose deletion is recorded, with the finalizer still on it.\<close>

definition deleted_pool :: MachinePool where
  "deleted_pool = example_pool\<lparr>Finalizers := [FinalizerName example_pool], DeletionTimestamp := Some 2,
     Status_Conditions := [MachinePoolDeleted 0]\<rparr>"

lemma deleted_pool_simps [simp]:
  "FinalizerName (deleted_pool\<lparr>Finalizers := fs\<rparr>) = FinalizerName example_pool"
  "FinalizerName deleted_pool = FinalizerName example_pool" "Finalizers deleted_pool = [FinalizerName example_pool]"
  "\<not> MP_Wait (MP_Spec deleted_pool)" "IsSet (MachinePoolDeleted t) deleted_pool"
proof -
  have "IsSet (MachinePoolDeleted 0) deleted_pool"
    by (simp add: IsSet_iff deleted_pool_def GetConditions_def)
  then show "IsSet (MachinePoolDeleted t) deleted_pool"
    unfolding MachinePoolDeleted_def using IsSet_make_condition by blast
qed (simp_all add: deleted_pool_def FinalizerName_def example_pool_def zero_MachinePool_def)

lemma passes_recorded:
  assumes "IsSet (MachinePoolDeleted (kube_Now (Kube E) (req_calls r))) (Original r)"
    and "\<not> MP_Wait (MP_Spec (Original r))"
  shows "passes [(''Destroy'', MP_Destroy E), (''WaitUntilMissing'', MP_WaitUntilMissing E)] r r"
  using assms by (auto simp: passes_Cons_iff MP_Destroy_def MP_WaitUntilMissing_def)

theorem mp_finalizer_kept_until_gone_witness:
  "pool_gone (sample_services deleted_pool) (sample_request deleted_pool) \<and>
   object_patches (snd (run_state (MP_ReconcileDelete (sample_services deleted_pool)) (sample_request deleted_pool))) \<noteq> []"
proof -
  let ?E = "sample_services deleted_pool" and ?r = "sample_request deleted_pool"
  have passes: "passes [(''Destroy'', MP_Destroy ?E), (''WaitUntilMissing'', MP_WaitUntilMissing ?E)] ?r ?r"
    by (rule passes_recorded) (simp_all add: sample_request_def)
  have "wp (CompleteDestroy ?E mp_ops) (\<lambda>out t. passed out \<and> object_patches t \<noteq> []) ?r"
    by (simp add: CompleteDestroy_def wp wp_RemoveFinalizer HasFinalizer_def sample_request_def Let_def)
  then obtain out t where c: "run_state (CompleteDestroy ?E mp_ops) ?r = (out, t)" "passed out" and p: "object_patches t \<noteq> []"
    by (auto simp: wp_def split: prod.splits)
  with passes have t: "run_state (MP_ReconcileDelete ?E) ?r = (Ret (Skip None), t)"
    unfolding MP_ReconcileDelete_def mp_delete_phases_def by (intro Execute_passes) (auto simp: passes_Cons_iff)
  from p  have "object_patches t \<noteq> object_patches ?r" by (simp add: sample_request_def empty_world_def)
  from mp_finalizer_kept_until_gone [OF t this refl] t p show ?thesis by simp
qed

text \<open>
  Once the deletion of a pool is recorded and the resource does not ask to wait, the delete path
  ends: with an API server that accepts the patch, and finalizer functions that do what they promise, the object
  no longer has the finalizer and the result asks for no requeue.
\<close>

theorem mp_delete_completes:
  assumes "IsSet (MachinePoolDeleted (kube_Now (Kube E) (req_calls r))) (Original r)"
    and "\<not> MP_Wait (MP_Spec (Original r))" and "finalizer_libs (Lib E)" and "patch_stores E"
    and "\<And>h b p. \<exists>p'. kube_Patch (Kube E) h b p = Inr p'"
  shows "\<exists>t. run_state (MP_ReconcileDelete E) r = (Ret (Skip None), t) \<and> \<not> HasFinalizer E (Original t)"
  using mp_guarded.completes [OF passes_recorded [OF assms(1,2)] assms(3-5), of mp_ops "''CompleteDestroy''" mp_ops]
  by (simp add: MP_ReconcileDelete_def mp_delete_phases_def)

theorem mp_delete_completes_witness:
  "\<exists>t. run_state (MP_ReconcileDelete (sample_services deleted_pool)) (sample_request deleted_pool) = (Ret (Skip None), t) \<and>
     FinalizerName (Original t) \<notin> set (Finalizers (Original t))"
  using mp_delete_completes [of "sample_services deleted_pool" "sample_request deleted_pool"]
  by (simp add: sample_request_def finalizer_libs_def patch_stores_def HasFinalizer_def)

end
