(* ===== verification/Identity_Providers.thy ===== *)
theory Identity_Providers
  imports Runs
begin

text \<open>
  What the two identity provider controllers share in their properties: the calls that change an
  identity provider in OCM, what a lookup by name finds, and when a provider may be taken to be gone.
\<close>

section \<open>Changes\<close>

fun idp_add :: "'o call \<Rightarrow> bool" where
  "idp_add (IdpAdd c p) = True"
| "idp_add _ = False"

fun idp_update :: "'o call \<Rightarrow> bool" where
  "idp_update (IdpUpdate c i p) = True"
| "idp_update _ = False"

fun idp_delete :: "'o call \<Rightarrow> bool" where
  "idp_delete (IdpDelete c i) = True"
| "idp_delete _ = False"

definition idp_change :: "'o call \<Rightarrow> bool" where
  "idp_change c \<longleftrightarrow> idp_add c \<or> idp_update c \<or> idp_delete c"

lemma idp_change_simps [simp]:
  "\<not> idp_change (KPatch b p)" "\<not> idp_change (KStatusPatch b p)" "\<not> idp_change (ClusterSearch f)"
  "\<not> idp_change (ClusterGet i)" "\<not> idp_change (KEvent x y z)" "\<not> idp_change (IdpList c)"
  "idp_change (IdpAdd c q)" "idp_change (IdpUpdate c n q)"
  by (simp_all add: idp_change_def)

text \<open>The calls that add or update a provider with what the SDK builds from \<open>b\<close>.\<close>

definition sends_add :: "'o services \<Rightarrow> string \<Rightarrow> ocm_idp \<Rightarrow> 'o call \<Rightarrow> bool" where
  "sends_add E cid b c \<longleftrightarrow> (\<exists>idp. lib_BuildIdp (Lib E) b = Inr idp \<and> c = IdpAdd cid idp)"

definition sends_update :: "'o services \<Rightarrow> string \<Rightarrow> ocm_idp \<Rightarrow> 'o call \<Rightarrow> bool" where
  "sends_update E cid b c \<longleftrightarrow> (\<exists>idp. lib_BuildIdp (Lib E) b = Inr idp \<and> c = IdpUpdate cid (attr [] idp_ID (Some idp)) idp)"

abbreviation idp_changes :: "('o, 'x) request_scheme \<Rightarrow> 'o hist" where
  "idp_changes r \<equiv> filter idp_change (req_calls r)"

section \<open>Lookups\<close>

text \<open>The provider that OCM lists under a name after the history \<open>h\<close>; an error is \<open>Inl\<close>.\<close>

definition idp_lookup :: "'o services \<Rightarrow> 'o hist \<Rightarrow> string \<Rightarrow> string \<Rightarrow> go_error + ocm_idp option" where
  "idp_lookup E h name cid =
     (let res = ocm_IdpList (Ocm2 E) h cid
      in case resp_Err res of
           Some err \<Rightarrow> Inl (Wrap ''error in get request - '' err)
         | None \<Rightarrow> Inr (find (\<lambda>x. attr [] idp_Name (Some x) = name) (case resp_Body res of None \<Rightarrow> [] | Some xs \<Rightarrow> xs)))"

lemma wp_IdpClient_Get [wp]:
  "wp (IdpClient_Get E name cid) Q w =
     Q (idp_lookup E (calls w) name cid) (w\<lparr>calls := calls w @ [IdpList cid]\<rparr>)"
  by (simp add: IdpClient_Get_def wp idp_lookup_def find_idp_eq Let_def cong: option.case_cong)

text \<open>
  Why the call \<open>c\<close> may be made after the history \<open>h\<close> for a request that started with the history \<open>h\<^sub>0\<close>: OCM has
  listed no provider of the name in between, and one is added; or it has listed one that differs from the desired state, which is
  updated. Either way what is sent is built from \<open>b\<close>, and nothing has been changed since the listing.
\<close>

definition idp_reason ::
    "'o services \<Rightarrow> string \<Rightarrow> ocm_idp \<Rightarrow> (ocm_idp \<Rightarrow> bool) \<Rightarrow> 'o hist \<Rightarrow> 'o hist \<Rightarrow> 'o call \<Rightarrow> bool" where
  "idp_reason E name b differs h\<^sub>0 h c \<longleftrightarrow> (\<exists>mid cid later. h = h\<^sub>0 @ mid @ IdpList cid # later \<and> filter idp_change later = [] \<and>
     (case idp_lookup E (h\<^sub>0 @ mid) name cid of
        Inl err \<Rightarrow> False
      | Inr None \<Rightarrow> sends_add E cid b c
      | Inr (Some idp) \<Rightarrow> differs idp \<and> sends_update E cid b c))"

lemma idp_reason_later:
  assumes "idp_reason E name b differs (h\<^sub>0 @ x) h c"
  shows "idp_reason E name b differs h\<^sub>0 h c"
proof -
  from assms obtain mid cid later where "h = h\<^sub>0 @ (x @ mid) @ IdpList cid # later \<and> filter idp_change later = [] \<and>
     (case idp_lookup E (h\<^sub>0 @ x @ mid) name cid of
        Inl err \<Rightarrow> False
      | Inr None \<Rightarrow> sends_add E cid b c
      | Inr (Some idp) \<Rightarrow> differs idp \<and> sends_update E cid b c)" by (auto simp: idp_reason_def)
  then show ?thesis unfolding idp_reason_def by blast
qed

lemma idp_reasonI:
  assumes "req_calls s = h\<^sub>0 @ x" and "h = req_calls s @ IdpList cid # later" and "filter idp_change later = []"
    and "idp_lookup E (req_calls s) name cid = Inr None \<and> sends_add E cid b c \<or>
      (\<exists>idp. idp_lookup E (req_calls s) name cid = Inr (Some idp) \<and> differs idp \<and> sends_update E cid b c)"
  shows "idp_reason E name b differs h\<^sub>0 h c"
proof -
  have "h = h\<^sub>0 @ x @ IdpList cid # later \<and> filter idp_change later = [] \<and> (case idp_lookup E (h\<^sub>0 @ x) name cid of
        Inl err \<Rightarrow> False
      | Inr None \<Rightarrow> sends_add E cid b c
      | Inr (Some idp) \<Rightarrow> differs idp \<and> sends_update E cid b c)" using assms by auto
  then show ?thesis unfolding idp_reason_def by blast
qed

section \<open>Deletion\<close>

text \<open>
  When an identity provider may be taken to be gone: the object says so, or its cluster does not
  exist, or OCM confirms the deletion of the provider identifier that the status records.
\<close>

definition idp_gone :: "('a workload_scheme) services \<Rightarrow> 'a workload_scheme hist \<Rightarrow> 'a workload_scheme \<Rightarrow> string \<Rightarrow> string \<Rightarrow> bool" where
  "idp_gone E h obj cluster provider \<longleftrightarrow>
     IsSet (IdentityProviderDeleted 0) obj \<or> cluster_lookup E h cluster = Inr None \<or>
     sdk_gone (ocm_IdpDelete (Ocm2 E) (h @ [ClusterSearch (name_filter cluster)]) (Status_ClusterID obj) provider)"

lemma IsSet_IdentityProviderDeleted:
  "IsSet (IdentityProviderDeleted t) w \<Longrightarrow> IsSet (IdentityProviderDeleted 0) w"
  unfolding IdentityProviderDeleted_def using IsSet_make_condition by blast

text \<open>
  Why a provider may be deleted for a request that is dispatched in the state \<open>s\<close>: its deletion is not recorded yet, and OCM has
  just found its cluster. What is deleted is the recorded provider of the recorded cluster.
\<close>

definition idp_removal ::
    "('a workload_scheme) services \<Rightarrow> ('a workload_scheme, 'x) request_scheme \<Rightarrow> string \<Rightarrow> string \<Rightarrow> 'a workload_scheme hist \<Rightarrow>
     'a workload_scheme call \<Rightarrow> bool" where
  "idp_removal E s cluster provider h c \<longleftrightarrow> \<not> IsSet (IdentityProviderDeleted 0) (Original s) \<and>
     h = req_calls s @ [ClusterSearch (name_filter cluster)] \<and> (\<exists>x. cluster_lookup E (req_calls s) cluster = Inr (Some x)) \<and>
     c = IdpDelete (Status_ClusterID (Original s)) provider"

lemma wp_idp_delete_justified:
  assumes "\<not> IsSet (IdentityProviderDeleted t) (Original s)" and "cluster_lookup E (req_calls s) cluster = Inr (Some x)"
    and "\<And>e. emits req_calls (\<lambda>c. \<not> idp_change c) (K e)"
  shows "wp (IdpClient_Delete E (Status_ClusterID (Original s)) provider)
    (\<lambda>e w. wp (K e) (\<lambda>out. justified_after (\<lambda>h c. idp_change c \<longrightarrow> idp_removal E s cluster provider h c) (req_calls s)) (s\<lparr>World := w\<rparr>))
    ((World s)\<lparr>calls := req_calls s @ [ClusterSearch (name_filter cluster)]\<rparr>)"
proof -
  have "\<not> IsSet (IdentityProviderDeleted 0) (Original s)"
    using assms(1) unfolding IdentityProviderDeleted_def using IsSet_make_condition by blast
  with assms(2) have "justified_after (\<lambda>h c. idp_change c \<longrightarrow> idp_removal E s cluster provider h c) (req_calls s)
      (s\<lparr>World := (World s)\<lparr>calls := req_calls s @ [ClusterSearch (name_filter cluster), IdpDelete (Status_ClusterID (Original s)) provider]\<rparr>\<rparr>)"
    by (intro justified_afterI) (auto simp: idp_removal_def)
  from wp_justified_emits [OF this assms(3)] show ?thesis by (simp add: wp IdpClient_Delete_def)
qed

section \<open>Names\<close>

abbreviation idp_name :: "ocm_idp \<Rightarrow> string" where
  "idp_name idp \<equiv> attr [] idp_Name (Some idp)"

fun idp_key :: "'o call \<Rightarrow> (string \<times> string) option" where
  "idp_key (IdpAdd cid idp) = Some (cid, idp_name idp)"
| "idp_key _ = None"

definition idp_absent :: "'o services \<Rightarrow> string \<times> string \<Rightarrow> 'o hist \<Rightarrow> bool" where
  "idp_absent E k h \<longleftrightarrow> idp_lookup E h (snd k) (fst k) = Inr None"

text \<open>
  What is relied on: the SDK builds an object with the name of its builder; OCM lists a provider that it has accepted until a provider
  of that cluster is deleted, if it answers at all.
\<close>

definition builds_idp_names :: "'o services \<Rightarrow> bool" where
  "builds_idp_names E \<longleftrightarrow> (\<forall>b idp. lib_BuildIdp (Lib E) b = Inr idp \<longrightarrow> idp_name idp = idp_name b)"

definition lists_idps :: "'o services \<Rightarrow> bool" where
  "lists_idps E \<longleftrightarrow> (\<forall>h cid idp h'. resp_Err (ocm_IdpAdd (Ocm2 E) h cid idp) = None \<longrightarrow> (\<forall>i. IdpDelete cid i \<notin> set h') \<longrightarrow>
     (let res = ocm_IdpList (Ocm2 E) (h @ IdpAdd cid idp # h') cid in
        resp_Err res = None \<longrightarrow> (\<exists>xs x. resp_Body res = Some xs \<and> x \<in> set xs \<and> idp_name x = idp_name idp)))"

lemma idp_key_change: "\<not> idp_change c \<Longrightarrow> idp_key c = None"
  by (cases c) simp_all

lemma idp_reason_looked_up:
  assumes "idp_reason E (idp_name b) b differs h\<^sub>0 pre c" and "builds_idp_names E" and "idp_key c = Some k"
  shows "\<exists>h later. pre = h @ later \<and> idp_absent E k h \<and> (\<forall>d \<in> set later. idp_key d = None)"
proof -
  from assms(1) obtain mid cid later where pre: "pre = h\<^sub>0 @ mid @ IdpList cid # later" and none: "filter idp_change later = []"
    and why: "case idp_lookup E (h\<^sub>0 @ mid) (idp_name b) cid of
        Inl err \<Rightarrow> False
      | Inr None \<Rightarrow> sends_add E cid b c
      | Inr (Some idp) \<Rightarrow> differs idp \<and> sends_update E cid b c" by (auto simp: idp_reason_def)
  from why assms(2,3) have "idp_absent E k (h\<^sub>0 @ mid)"
    by (auto simp: sends_add_def sends_update_def builds_idp_names_def idp_absent_def simp del: attr_simps
        split: sum.splits option.splits)
  moreover have "\<forall>d \<in> set (IdpList cid # later). idp_key d = None" using none idp_key_change by (auto simp: filter_empty_conv)
  ultimately show ?thesis using pre by (intro exI [of _ "h\<^sub>0 @ mid"] exI [of _ "IdpList cid # later"]) simp
qed

lemma lists_idps_absent:
  assumes "lists_idps E" and "resp_Err (ocm_IdpAdd (Ocm2 E) h cid idp) = None"
    and "idp_absent E (cid, idp_name idp) (h @ IdpAdd cid idp # g)"
  shows "\<exists>x \<in> set g. \<exists>i. x = IdpDelete cid i"
proof (rule ccontr)
  assume "\<not> ?thesis"
  then have "\<forall>i. IdpDelete cid i \<notin> set g" by blast
  with assms(1,2) have "let res = ocm_IdpList (Ocm2 E) (h @ IdpAdd cid idp # g) cid in
        resp_Err res = None \<longrightarrow> (\<exists>xs x. resp_Body res = Some xs \<and> x \<in> set xs \<and> idp_name x = idp_name idp)"
    unfolding lists_idps_def by blast
  with assms(3) show False by (auto simp: idp_absent_def idp_lookup_def Let_def find_None_iff simp del: attr_simps split: option.splits)
qed

text \<open>An OCM account that stores the providers that are added, all with one identifier, until they are deleted.\<close>

fun store_idp :: "string \<Rightarrow> 'o call \<Rightarrow> ocm_idp list \<Rightarrow> ocm_idp list" where
  "store_idp cid (IdpAdd c idp) idps = (if c = cid then idps @ [idp\<lparr>idp_ID := Some ''i1''\<rparr>] else idps)"
| "store_idp cid (IdpDelete c i) idps = (if c = cid then filter (\<lambda>x. idp_ID x \<noteq> Some i) idps else idps)"
| "store_idp cid _ idps = idps"

definition storing_ocm :: "'o ocm_more" where
  "storing_ocm = sample_ocm2\<lparr>ocm_IdpList := (\<lambda>h cid. sdk_ok (fold (store_idp cid) h []))\<rparr>"

lemma store_idp_keeps: "(\<forall>i. c \<noteq> IdpDelete cid i) \<Longrightarrow> set idps \<subseteq> set (store_idp cid c idps)"
  by (cases c) auto

lemma stored_until_deleted: "(\<forall>i. IdpDelete cid i \<notin> set h) \<Longrightarrow> x \<in> set idps \<Longrightarrow> x \<in> set (fold (store_idp cid) h idps)"
proof (induction h arbitrary: idps)
  case (Cons c h)
  from Cons.prems store_idp_keeps [of c cid idps] have "x \<in> set (store_idp cid c idps)" by auto
  with Cons show ?case by auto
qed simp

lemma storing_ocm_lists:
  fixes E :: "'o services"
  shows "Ocm2 E = storing_ocm \<Longrightarrow> lists_idps E"
  unfolding lists_idps_def Let_def
proof (intro allI impI)
  fix h h' :: "'o hist" and cid idp
  assume E: "Ocm2 E = storing_ocm" and "\<forall>i. IdpDelete cid i \<notin> set h'"
  from stored_until_deleted [OF this(2), of "idp\<lparr>idp_ID := Some ''i1''\<rparr>"]
  have "idp\<lparr>idp_ID := Some ''i1''\<rparr> \<in> set (fold (store_idp cid) (h @ IdpAdd cid idp # h') [])" by simp
  moreover have "idp_name (idp\<lparr>idp_ID := Some ''i1''\<rparr>) = idp_name idp" by simp
  moreover have "resp_Body (ocm_IdpList (Ocm2 E) g cid) = Some (fold (store_idp cid) g [])" for g
    using E by (simp add: storing_ocm_def sdk_ok_def)
  ultimately show "\<exists>xs x. resp_Body (ocm_IdpList (Ocm2 E) (h @ IdpAdd cid idp # h') cid) = Some xs \<and> x \<in> set xs \<and>
    idp_name x = idp_name idp" by blast
qed

text \<open>
  Services whose resource \<open>settled\<close> is marked for deletion, as \<open>doomed\<close>, as soon as its provider has been added, and is back when
  the provider has been deleted.
\<close>

definition recreating :: "'o \<Rightarrow> 'o \<Rightarrow> 'o services" where
  "recreating settled doomed = (sample_services settled)\<lparr>Ocm2 := storing_ocm, Kube := (sample_kube settled)\<lparr>kube_Get := (\<lambda>h ns n.
     Inr (if idp_add (last (KGet ns n # filter idp_change h)) then doomed else settled))\<rparr>\<rparr>"

lemma fold_store_filter: "fold (store_idp cid) h idps = fold (store_idp cid) (filter idp_change h) idps"
proof (induction h arbitrary: idps)
  case (Cons c h)
  then show ?case by (cases c) (simp_all add: idp_change_def)
qed simp

lemma recreating_simps [simp]:
  "kube_Get (Kube (recreating settled doomed)) h ns n =
     Inr (if idp_add (last (KGet ns n # filter idp_change h)) then doomed else settled)"
  "kube_StatusPatch (Kube (recreating settled doomed)) h b p = Inr p" "kube_Patch (Kube (recreating settled doomed)) h b p = Inr p"
  "Ocm (recreating settled doomed) = sample_ocm" "Lib (recreating settled doomed) = sample_libs"
  "ocm_IdpAdd (Ocm2 (recreating settled doomed)) h cid idp = sdk_ok (idp\<lparr>idp_ID := Some ''i1''\<rparr>)"
  "ocm_IdpDelete (Ocm2 (recreating settled doomed)) h cid i = sdk_ok ()"
  "ocm_IdpList (Ocm2 (recreating settled doomed)) h cid = sdk_ok (fold (store_idp cid) (filter idp_change h) [])"
  "kube_Secret (Kube (recreating settled doomed)) h ns n =
     Inr (Some (fmap_of_list [(LDAPBindPasswordKey, ''pw''), (GitLabClientSecretKey, ''cs'')]))"
  "kube_ConfigMap (Kube (recreating settled doomed)) h ns n = Inr (Some (fmap_of_list [(LDAPCAKey, ''ca'')]))"
  by (simp_all add: fold_store_filter [symmetric] recreating_def storing_ocm_def sample_services_def sample_kube_def sample_ocm2_def)

lemma recreating_relies: "builds_idp_names (recreating settled doomed)" "lists_idps (recreating settled doomed)"
  using storing_ocm_lists [of "recreating settled doomed"] by (simp_all add: builds_idp_names_def recreating_def)

lemma filter_first_last:
  assumes "filter P xs = [x, y, z]"
  shows "\<exists>h h' post. xs = h @ x # h' @ z # post"
proof -
  from filter_eq_ConsD [OF assms] obtain h v where v: "xs = h @ x # v" "filter P v = [y, z]" by auto
  then have "z \<in> set v" by (metis filter_is_subset in_mono list.set_intros)
  with v(1) show ?thesis by (auto simp: in_set_conv_decomp)
qed

text \<open>
  A controller that adds the provider of the settled resource and deletes that of the doomed one adds it, deletes it and adds it again.
\<close>

lemma recreating_run:
  assumes adds: "\<And>w. fold (store_idp ''c1'') (filter idp_change (calls w)) [] = [] \<Longrightarrow>
      kube_Get (Kube (recreating settled doomed)) (calls w) ns n = Inr settled \<Longrightarrow>
      wp (R ns n) (\<lambda>out t. \<exists>b. filter idp_change (calls t) = filter idp_change (calls w) @ [IdpAdd ''c1'' b] \<and> idp_name b = name) w"
    and deletes: "\<And>w. kube_Get (Kube (recreating settled doomed)) (calls w) ns n = Inr doomed \<Longrightarrow>
      wp (R ns n) (\<lambda>out t. filter idp_change (calls t) = filter idp_change (calls w) @ [IdpDelete ''c1'' ''i1'']) w"
  shows "\<exists>w h a h' b post. reached R empty_world w \<and> calls w = h @ IdpAdd ''c1'' a # h' @ IdpAdd ''c1'' b # post \<and> idp_name a = idp_name b"
proof -
  obtain o1 w1 o2 w2 o3 w3 where run: "run_state (R ns n) empty_world = (o1, w1)" "run_state (R ns n) w1 = (o2, w2)"
    "run_state (R ns n) w2 = (o3, w3)" by (metis surj_pair)
  have "wp (R ns n) (\<lambda>out t. \<exists>b. filter idp_change (calls t) = [IdpAdd ''c1'' b] \<and> idp_name b = name) empty_world"
    using adds [of empty_world] by (simp add: empty_world_def)
  from wpD [OF this run(1)] obtain a where a: "filter idp_change (calls w1) = [IdpAdd ''c1'' a]" "idp_name a = name" by auto
  from wpD [OF deletes run(2)] a(1) have d: "filter idp_change (calls w2) = [IdpAdd ''c1'' a, IdpDelete ''c1'' ''i1'']" by simp
  from wpD [OF adds run(3)] d obtain b where b: "filter idp_change (calls w3) = [IdpAdd ''c1'' a, IdpDelete ''c1'' ''i1'', IdpAdd ''c1'' b]"
    "idp_name b = name" by auto
  then obtain h h' post where "calls w3 = h @ IdpAdd ''c1'' a # h' @ IdpAdd ''c1'' b # post"
    using filter_first_last [OF b(1)] by blast
  moreover have "reached R empty_world w3" using run by (blast intro: reached_start reached_step)
  moreover have "idp_name a = idp_name b" using a(2) b(2) by simp
  ultimately show ?thesis by blast
qed

end
