(* ===== verification/LDAP_Controller.thy ===== *)
theory LDAP_Controller
  imports Identity_Providers
begin

text \<open>
  The LDAP identity provider controller (\<^verbatim>\<open>controllers/reconcilers/ldapidentityprovider\<close>). Its request extends
  the common one with the OCM client, by the name and the cluster identifier it was made from, and with the
  bind password and the CA data. The fields \<open>CurrentBindPassword\<close> and \<open>CurrentCA\<close>, which the code never
  uses, are left out.

  Shown here: what a request needs; that a provider is created only if OCM lists none of its name and
  left alone when OCM holds what was built from the desired state; that the finalizer is removed only
  when the provider is gone; that in every run a provider is changed only for a reason and none is created twice.
\<close>

section \<open>Requests\<close>

record ldap_request = "LDAPIdentityProvider request" +
  LDAP_OCMClient :: "(string \<times> string) option"
  LDAP_DesiredBindPassword :: string
  LDAP_DesiredCA :: string

definition ErrMissingBindPassword :: go_error where
  "ErrMissingBindPassword = NewError ''unable to locate ldap bind password data''"

definition LDAP_ErrMissingCA :: go_error where
  "LDAP_ErrMissingCA = NewError ''ca specified but unable to locate ca data''"

definition errGetBindPassword :: "LDAPIdentityProvider \<Rightarrow> go_error" where
  "errGetBindPassword from = Wrap (''unable to retrieve bind password from secret ['' @ Namespace from @ ''/'' @
     LDAP_BindPassword (LDAP_Spec from) @ ''] at key ['' @ LDAPBindPasswordKey @ ''] - '') ErrMissingBindPassword"

definition errGetCert :: "LDAPIdentityProvider \<Rightarrow> go_error" where
  "errGetCert from = Wrap (''unable to retrieve ca cert from config map ['' @ Namespace from @ ''/'' @
     LDAP_CA (LDAP_Spec from) @ ''] at key ['' @ LDAPCAKey @ ''] - '') LDAP_ErrMissingCA"

definition defaultLDAPIdentityProviderRequeue :: int where
  "defaultLDAPIdentityProviderRequeue = 30 * Second"

text \<open>The desired state: the display name and the attributes are defaulted.\<close>

definition ldap_desired_state :: "LDAPIdentityProvider \<Rightarrow> LDAPIdentityProvider" where
  "ldap_desired_state original =
     (let desired = (if LDAP_DisplayName (LDAP_Spec original) = ''''
                     then original\<lparr>LDAP_Spec := (LDAP_Spec original)\<lparr>LDAP_DisplayName := Name original\<rparr>\<rparr> else original);
          as = LDAP_Attributes (LDAP_Spec desired)
      in desired\<lparr>LDAP_Spec := (LDAP_Spec desired)\<lparr>LDAP_Attributes :=
           LDAPAttributesToOpenShift (attr_ID as) (attr_Name as) (attr_Email as) (attr_PreferredUsername as)\<rparr>\<rparr>)"

definition LDAP_NewRequest ::
    "LDAPIdentityProvider services \<Rightarrow> string \<Rightarrow> string \<Rightarrow>
     (LDAPIdentityProvider world, (go_error + ldap_request) outcome) state" where
  "LDAP_NewRequest E namespace name = do {
     res \<leftarrow> invoke (KGet namespace name) (\<lambda>h. kube_Get (Kube E) h namespace name);
     (case res of
        Inl err \<Rightarrow> State_Monad.return (Ret (Inl
          (if \<not> IsNotFound err then Wrap ''unable to fetch cluster object - '' err else err)))
      | Inr original \<Rightarrow> do {
          (bindPassword, err) \<leftarrow> GetSecretData E (LDAP_BindPassword (LDAP_Spec original)) namespace LDAPBindPasswordKey;
          (if bindPassword = '''' then State_Monad.return (Ret (Inl (errGetBindPassword original)))
           else do {
             (ca, caErr) \<leftarrow> (if LDAP_CA (LDAP_Spec original) \<noteq> ''''
                then GetConfigMapData E (LDAP_CA (LDAP_Spec original)) namespace LDAPCAKey
                else State_Monad.return ('''', None));
             (if LDAP_CA (LDAP_Spec original) \<noteq> '''' \<and> ca = ''''
              then State_Monad.return (Ret (Inl (errGetCert original)))
              else do {
                w \<leftarrow> State_Monad.get;
                State_Monad.return (Ret (Inr \<lparr>World = w, Original = original, Desired = ldap_desired_state original,
                  Current = None, Trigger = GetTrigger original, LDAP_OCMClient = None,
                  LDAP_DesiredBindPassword = bindPassword, LDAP_DesiredCA = ca\<rparr>))
              })
           })
        })
   }"

definition LDAP_SetClusterStatus :: "ocm_cluster option \<Rightarrow> ldap_request \<Rightarrow> ldap_request" where
  "LDAP_SetClusterStatus cluster req =
     (if Status_ClusterID (Original req) = ''''
      then req\<lparr>Original := (Original req)\<lparr>Status_ClusterID := attr '''' cl_ID cluster\<rparr>\<rparr> else req)"

definition ldap_ops :: "ldap_request cluster_ops" where
  "ldap_ops = \<lparr>DefaultRequeue = (\<lambda>req. defaultLDAPIdentityProviderRequeue),
     GetName = (\<lambda>req. LDAP_DisplayName (LDAP_Spec (Desired req))),
     GetClusterName = (\<lambda>req. LDAP_ClusterName (LDAP_Spec (Desired req))),
     SetClusterStatus = LDAP_SetClusterStatus\<rparr>"

definition LDAP_desired :: "ldap_request \<Rightarrow> bool" where
  "LDAP_desired req =
     (case Current req of None \<Rightarrow> False | Some cur \<Rightarrow> LDAP_Spec (Desired req) = LDAP_Spec cur)"

section \<open>Phases\<close>

definition LDAP_GetCurrentState :: "LDAPIdentityProvider services \<Rightarrow> (ldap_request, go_result outcome) state" where
  "LDAP_GetCurrentState E = do {
     modify (\<lambda>req. req\<lparr>LDAP_OCMClient := Some (LDAP_DisplayName (LDAP_Spec (Desired req)), Status_ClusterID (Original req))\<rparr>);
     req \<leftarrow> State_Monad.get;
     res \<leftarrow> on_world (IdpClient_Get E (LDAP_DisplayName (LDAP_Spec (Desired req))) (Status_ClusterID (Original req)));
     (case res of
        Inl err \<Rightarrow> State_Monad.return (Ret (OnError ldap_ops req (Some (GetError ldap_ops req err))))
      | Inr None \<Rightarrow> State_Monad.return (Ret Next)
      | Inr (Some idp) \<Rightarrow> do {
          modify (\<lambda>req. req\<lparr>Current := Some (LDAP_CopyFrom
            (ldap_seed (LDAP_Spec (Desired req)) (attr '''' idp_MappingMethod (Some idp))) (idp_LDAP idp))\<rparr>);
          State_Monad.return (Ret Next)
        })
   }"

definition ldap_register :: "LDAPIdentityProvider services \<Rightarrow> event \<Rightarrow> (ldap_request, unit) state" where
  "ldap_register E event = do {
     req \<leftarrow> State_Monad.get;
     on_world (RegisterAction E event (Original req) (LDAP_DisplayName (LDAP_Spec (Desired req)))
       (Status_ClusterID (Original req)))
   }"

definition LDAP_errUnableToUpdateStatusProviderID :: "ldap_request \<Rightarrow> string \<Rightarrow> go_error \<Rightarrow> go_result" where
  "LDAP_errUnableToUpdateStatusProviderID req i err = OnError ldap_ops req (Some (Wrap
     (''unable to update ldap identity provider ['' @ GetName ldap_ops req @ ''] status [providerID='' @ i @ ''] - '') err))"

text \<open>The client is nil only if \<open>GetCurrentState\<close> has not run; a method call on it panics.\<close>

definition LDAP_ApplyIdentityProvider :: "LDAPIdentityProvider services \<Rightarrow> (ldap_request, go_result outcome) state" where
  "LDAP_ApplyIdentityProvider E = do {
     req \<leftarrow> State_Monad.get;
     (if LDAP_desired req then State_Monad.return (Ret Next)
      else (case LDAP_OCMClient req of
          None \<Rightarrow> State_Monad.return (Panic ''invalid memory address or nil pointer dereference'')
        | Some (name, clusterID) \<Rightarrow> do {
            let builder = LDAP_Builder (Desired req) (LDAP_DesiredCA req) (LDAP_DesiredBindPassword req);
            (if Current req = None then do {
               res \<leftarrow> on_world (IdpClient_Create E clusterID builder);
               (case res of
                  Inl err \<Rightarrow> State_Monad.return (Ret (OnError ldap_ops req (Some (CreateError ldap_ops req err))))
                | Inr idp \<Rightarrow> do {
                    modify (\<lambda>r. r\<lparr>Original := (Original r)\<lparr>LDAP_ProviderID := attr '''' idp_ID idp\<rparr>\<rparr>);
                    err \<leftarrow> patch_original E (Original req);
                    (case err of
                       Some e \<Rightarrow> State_Monad.return
                         (Ret (LDAP_errUnableToUpdateStatusProviderID req (attr '''' idp_ID idp) e))
                     | None \<Rightarrow> do {
                         ldap_register E Created;
                         State_Monad.return (Ret Next)
                       })
                  })
             } else do {
               res \<leftarrow> on_world (IdpClient_Update E clusterID builder);
               (case res of
                  Inl err \<Rightarrow> State_Monad.return (Ret (OnError ldap_ops req (Some (UpdateError ldap_ops req err))))
                | Inr _ \<Rightarrow> do {
                    ldap_register E Updated;
                    State_Monad.return (Ret Next)
                  })
             })
          }))
   }"

definition LDAP_Destroy :: "LDAPIdentityProvider services \<Rightarrow> (ldap_request, go_result outcome) state" where
  "LDAP_Destroy E = do {
     req \<leftarrow> State_Monad.get;
     (if IsSet (IdentityProviderDeleted (kube_Now (Kube E) (req_calls req))) (Original req)
      then State_Monad.return (Ret Next)
      else do {
        res \<leftarrow> on_world (ClusterExists E (LDAP_ClusterName (LDAP_Spec (Desired req))));
        (case res of
           Inl err \<Rightarrow> State_Monad.return (Ret (OnError ldap_ops req (Some err)))
         | Inr (cluster, exists) \<Rightarrow>
             if \<not> exists then State_Monad.return (Ret Next)
             else do {
               deleteErr \<leftarrow> on_world (IdpClient_Delete E (Status_ClusterID (Original req)) (LDAP_ProviderID (Original req)));
               (case deleteErr of
                  Some err \<Rightarrow> State_Monad.return (Ret (OnError ldap_ops req (Some (DeleteError ldap_ops req err))))
                | None \<Rightarrow> do {
                    ldap_register E Deleted;
                    err \<leftarrow> condition_Update E IdentityProviderDeleted;
                    State_Monad.return (Ret (case err of
                        Some e \<Rightarrow> OnError ldap_ops req (Some (UpdateDeletedConditionError e))
                      | None \<Rightarrow> Next))
                  })
             })
      })
   }"

section \<open>Reconciliation\<close>

definition ldap_create_phases :: "LDAPIdentityProvider services \<Rightarrow> int \<Rightarrow> ldap_request phase list" where
  "ldap_create_phases E interval =
     [(''HandleUpstreamCluster'', HandleClusterPhase E ldap_ops Create),
      (''GetCurrentState'', LDAP_GetCurrentState E),
      (''ApplyIdentityProvider'', LDAP_ApplyIdentityProvider E),
      (''Complete'', Complete E ldap_ops Create interval)]"

definition LDAP_ReconcileCreate ::
    "LDAPIdentityProvider services \<Rightarrow> int \<Rightarrow> (ldap_request, go_result outcome) state" where
  "LDAP_ReconcileCreate E interval = do {
     err \<leftarrow> AddFinalizer E;
     (case err of
        Some e \<Rightarrow> do {
          req \<leftarrow> State_Monad.get;
          State_Monad.return (Ret (OnError ldap_ops req (Some (AddFinalizerError e))))
        }
      | None \<Rightarrow> Execute ldap_ops (ldap_create_phases E interval))
   }"

definition LDAP_ReconcileUpdate ::
    "LDAPIdentityProvider services \<Rightarrow> int \<Rightarrow> (ldap_request, go_result outcome) state" where
  "LDAP_ReconcileUpdate E interval = LDAP_ReconcileCreate E interval"

definition LDAP_ReconcileDelete :: "LDAPIdentityProvider services \<Rightarrow> (ldap_request, go_result outcome) state" where
  "LDAP_ReconcileDelete E = Execute ldap_ops
     [(''Destroy'', LDAP_Destroy E),
      (''CompleteDestroy'', CompleteDestroy E ldap_ops)]"

definition ldap_controller ::
    "LDAPIdentityProvider services \<Rightarrow> int \<Rightarrow> (LDAPIdentityProvider, ldap_request) controller" where
  "ldap_controller E interval = \<lparr>NewRequest = LDAP_NewRequest E, ReconcileCreate = LDAP_ReconcileCreate E interval,
     ReconcileUpdate = LDAP_ReconcileUpdate E interval, ReconcileDelete = LDAP_ReconcileDelete E\<rparr>"

definition LDAP_Reconcile ::
    "LDAPIdentityProvider services \<Rightarrow> int \<Rightarrow> string \<Rightarrow> string \<Rightarrow>
     (LDAPIdentityProvider world, go_result outcome) state" where
  "LDAP_Reconcile E interval = Reconcile E (ldap_controller E interval)"

section \<open>The interfaces of the common phases\<close>

interpretation ldap_cluster: cluster_request ldap_ops
proof unfold_locales
  show "same_request r (SetClusterStatus ldap_ops c r)" for c and r :: ldap_request
    by (simp add: ldap_ops_def LDAP_SetClusterStatus_def)
  show "same_request r s \<Longrightarrow> GetClusterName ldap_ops s = GetClusterName ldap_ops r" for r s :: ldap_request
    by (simp add: ldap_ops_def same_requestD)
qed (simp_all add: ldap_ops_def LDAP_SetClusterStatus_def GetClusterID_def GetConditions_def)

lemma emits_ldap_register [emits]: "(\<And>x y z. P (KEvent x y z)) \<Longrightarrow> emits req_calls P (ldap_register E ev)"
  unfolding ldap_register_def by (intro emits) auto

lemma wp_ldap_register [wp]:
  "wp (ldap_register E ev) Q r = wp (on_world (RegisterAction E ev (Original r) (LDAP_DisplayName (LDAP_Spec (Desired r)))
     (Status_ClusterID (Original r)))) Q r"
  by (simp add: ldap_register_def wp)

text \<open>The state that the controller reads from OCM's answer, and why it may change a provider.\<close>

definition ldap_current :: "ldap_request \<Rightarrow> ocm_idp \<Rightarrow> LDAPIdentityProvider" where
  "ldap_current s idp = LDAP_CopyFrom (ldap_seed (LDAP_Spec (Desired s)) (attr '''' idp_MappingMethod (Some idp))) (idp_LDAP idp)"

definition ldap_lookup :: "LDAPIdentityProvider services \<Rightarrow> ldap_request \<Rightarrow> go_error + ocm_idp option" where
  "ldap_lookup E s = idp_lookup E (req_calls s) (LDAP_DisplayName (LDAP_Spec (Desired s))) (Status_ClusterID (Original s))"

abbreviation ldap_builder :: "ldap_request \<Rightarrow> ocm_idp" where
  "ldap_builder r \<equiv> LDAP_Builder (Desired r) (LDAP_DesiredCA r) (LDAP_DesiredBindPassword r)"

definition ldap_why :: "LDAPIdentityProvider services \<Rightarrow> ldap_request \<Rightarrow> LDAPIdentityProvider call \<Rightarrow> bool" where
  "ldap_why E s c \<longleftrightarrow>
     ldap_lookup E s = Inr None \<and> sends_add E (Status_ClusterID (Original s)) (ldap_builder s) c \<or>
     (\<exists>idp. ldap_lookup E s = Inr (Some idp) \<and> LDAP_Spec (ldap_current s idp) \<noteq> LDAP_Spec (Desired s) \<and>
        sends_update E (Status_ClusterID (Original s)) (ldap_builder s) c)"

lemma wp_LDAP_GetCurrentState:
  "wp (LDAP_GetCurrentState E) (\<lambda>out t. Desired t = Desired s \<and> ldap_builder t = ldap_builder s \<and>
     req_calls t = req_calls s @ [IdpList (Status_ClusterID (Original s))] \<and>
     (\<exists>name. LDAP_OCMClient t = Some (name, Status_ClusterID (Original s))) \<and> (passed out \<longrightarrow>
     ldap_lookup E s = Inr None \<and> Current t = Current s \<or>
     (\<exists>idp. ldap_lookup E s = Inr (Some idp) \<and> Current t = Some (ldap_current s idp)))) s"
  by (auto simp: LDAP_GetCurrentState_def wp ldap_lookup_def ldap_current_def split: sum.splits option.splits)

lemma wp_LDAP_Apply:
  "wp (LDAP_ApplyIdentityProvider E) (\<lambda>out u. idp_changes u = idp_changes t \<or>
     (\<exists>c name cid. idp_changes u = idp_changes t @ [c] \<and> \<not> LDAP_desired t \<and> LDAP_OCMClient t = Some (name, cid) \<and>
       (if Current t = None then sends_add E cid (ldap_builder t) c else sends_update E cid (ldap_builder t) c))) t"
  by (auto simp: LDAP_ApplyIdentityProvider_def wp IdpClient_Create_def IdpClient_Update_def Let_def
      sends_add_def sends_update_def split: sum.splits option.splits)

interpretation ldap_apply: justified_apply ldap_ops LDAP_GetCurrentState LDAP_ApplyIdentityProvider idp_change ldap_why
proof
  show "emits req_calls (\<lambda>c. \<not> idp_change c) (LDAP_GetCurrentState E)" for E
    unfolding LDAP_GetCurrentState_def by (intro emits) simp_all
next
  fix E out and s t :: ldap_request
  assume look: "run_state (LDAP_GetCurrentState E) s = (out, t)" and "passed out" and "Current s = None"
  with wpD [OF wp_LDAP_GetCurrentState look]
  have "ldap_why E s c" if "\<not> LDAP_desired t" "LDAP_OCMClient t = Some (name, cid)"
      "if Current t = None then sends_add E cid (ldap_builder t) c else sends_update E cid (ldap_builder t) c" for c name cid
    using that by (auto simp: ldap_why_def LDAP_desired_def split: if_splits option.splits)
  then show "wp (LDAP_ApplyIdentityProvider E) (\<lambda>out u. idp_changes u = idp_changes t \<or>
      (\<exists>c. idp_changes u = idp_changes t @ [c] \<and> ldap_why E s c)) t"
    by (intro wp_mono [OF wp_LDAP_Apply]) blast
qed simp_all

lemma wp_LDAP_Destroy:
  "wp (LDAP_Destroy E) (\<lambda>out s. passed out \<longrightarrow> idp_gone E (req_calls r) (Original r)
     (LDAP_ClusterName (LDAP_Spec (Desired r))) (LDAP_ProviderID (Original r))) r"
proof (cases "IsSet (IdentityProviderDeleted (kube_Now (Kube E) (req_calls r))) (Original r)")
  case True
  with IsSet_IdentityProviderDeleted show ?thesis by (simp add: LDAP_Destroy_def wp idp_gone_def) blast
next
  case False
  let ?c = "LDAP_ClusterName (LDAP_Spec (Desired r))"
  let ?w = "(World r)\<lparr>calls := req_calls r @ [ClusterSearch (name_filter ?c)]\<rparr>"
  have "wp (IdpClient_Delete E (Status_ClusterID (Original r)) (LDAP_ProviderID (Original r)))
      (\<lambda>e w. wp (case e of Some err \<Rightarrow> State_Monad.return (Ret (OnError ldap_ops r (Some (DeleteError ldap_ops r err))))
        | None \<Rightarrow> K) (\<lambda>out s. passed out \<longrightarrow> idp_gone E (req_calls r) (Original r) ?c (LDAP_ProviderID (Original r)))
          (r\<lparr>World := w\<rparr>)) ?w" for K
    by (rule idp_del.wp_deleteI) (simp_all add: wp idp_gone_def)
  with False show ?thesis
    by (auto simp: LDAP_Destroy_def wp idp_gone_def split: sum.splits)
qed

text \<open>The state of a request that guards the removal of its finalizer.\<close>

definition ldap_gone :: "LDAPIdentityProvider services \<Rightarrow> ldap_request \<Rightarrow> bool" where
  "ldap_gone E r \<longleftrightarrow> idp_gone E (req_calls r) (Original r) (LDAP_ClusterName (LDAP_Spec (Desired r))) (LDAP_ProviderID (Original r))"

interpretation ldap_guarded: guarded_delete "\<lambda>E. [(''Destroy'', LDAP_Destroy E)]" ldap_gone
proof
  show "emits req_calls (\<lambda>c. \<not> object_patch c) f" if "(n, f) \<in> set [(''Destroy'', LDAP_Destroy E)]" for n f E
    using that unfolding LDAP_Destroy_def by (auto intro!: emits)
  show "ldap_gone E r" if "passes [(''Destroy'', LDAP_Destroy E)] r s" for E r s
    using that by (auto simp: passes_Cons_iff ldap_gone_def dest: wpD [OF wp_LDAP_Destroy])
qed

lemma LDAP_NewRequest_cases:
  assumes "run_state (LDAP_NewRequest E ns n) w = (Ret (Inr req), w')"
  shows "kube_Get (Kube E) (calls w) ns n = Inr (Original req)" and "Desired req = ldap_desired_state (Original req)"
    and "Current req = None" and "LDAP_DesiredBindPassword req \<noteq> ''''"
    and "LDAP_CA (LDAP_Spec (Original req)) \<noteq> '''' \<Longrightarrow> LDAP_DesiredCA req \<noteq> ''''"
  using assms by (auto simp: LDAP_NewRequest_def GetSecretData_def GetConfigMapData_def split: sum.splits if_splits)

lemma ldap_desired_defaulted: "ldap_defaulted (LDAP_Attributes (LDAP_Spec (ldap_desired_state x)))"
  by (simp add: ldap_desired_state_def Let_def)

text \<open>A provider as it is after creation.\<close>

definition example_ldap :: LDAPIdentityProvider where
  "example_ldap = zero_LDAP\<lparr>Kind := ''LDAPIdentityProvider'', Group := ''ocm.mobb.redhat.com'', Version := ''v1alpha1'',
     Name := ''corp'', Namespace := ''ocm'', Generation := 1, CreationTimestamp := 1, Status_ClusterID := ''c1'',
     LDAP_ProviderID := ''i1'',
     LDAP_Spec := (LDAP_Spec zero_LDAP)\<lparr>LDAP_URL := ''ldap://x'', LDAP_ClusterName := ''prod'', LDAP_BindPassword := ''pw'',
       LDAP_MappingMethod := ''claim''\<rparr>\<rparr>"

definition ldap_sample_request :: "LDAPIdentityProvider \<Rightarrow> ldap_request" where
  "ldap_sample_request obj = \<lparr>World = empty_world, Original = obj, Desired = ldap_desired_state obj, Current = None,
     Trigger = Update, LDAP_OCMClient = None, LDAP_DesiredBindPassword = ''pw'', LDAP_DesiredCA = ''''\<rparr>"

section \<open>Properties\<close>

text \<open>
  C9: the delete path of an LDAP identity provider patches the object, and so removes its finalizer,
  only when the provider is gone: its deletion is recorded in the conditions, or its cluster does not
  exist, or OCM has confirmed the deletion of the recorded provider identifier.
\<close>

theorem ldap_finalizer_kept_until_gone:
  assumes "run_state (LDAP_ReconcileDelete E) r = (out, t)" and "object_patches t \<noteq> object_patches r"
  shows "idp_gone E (req_calls r) (Original r) (LDAP_ClusterName (LDAP_Spec (Desired r))) (LDAP_ProviderID (Original r))"
  using ldap_guarded.patched_only_if_gone [of ldap_ops E "''CompleteDestroy''" "CompleteDestroy E ldap_ops" r out t] assms
  by (simp add: LDAP_ReconcileDelete_def ldap_gone_def)

definition deleted_ldap :: LDAPIdentityProvider where
  "deleted_ldap = example_ldap\<lparr>Finalizers := [FinalizerName example_ldap], DeletionTimestamp := Some 2,
     Status_Conditions := [IdentityProviderDeleted 0]\<rparr>"

theorem ldap_finalizer_kept_until_gone_witness:
  "\<exists>out t. run_state (LDAP_ReconcileDelete (sample_services deleted_ldap)) (ldap_sample_request deleted_ldap) = (out, t) \<and>
     object_patches t \<noteq> [] \<and> idp_gone (sample_services deleted_ldap) [] deleted_ldap ''prod'' ''i1''"
proof -
  let ?E = "sample_services deleted_ldap" and ?r = "ldap_sample_request deleted_ldap"
  have "IsSet (IdentityProviderDeleted 0) deleted_ldap"
    by (simp add: IsSet_iff deleted_ldap_def GetConditions_def)
  then have set: "IsSet (IdentityProviderDeleted t) deleted_ldap" for t
    unfolding IdentityProviderDeleted_def using IsSet_make_condition by blast
  have fin: "FinalizerName deleted_ldap = FinalizerName example_ldap" "Finalizers deleted_ldap = [FinalizerName example_ldap]"
    by (simp_all add: deleted_ldap_def FinalizerName_def)
  have "wp (LDAP_ReconcileDelete ?E) (\<lambda>out t. object_patches t \<noteq> []) ?r"
    by (simp add: LDAP_ReconcileDelete_def wp LDAP_Destroy_def ldap_sample_request_def set CompleteDestroy_def wp_RemoveFinalizer
        HasFinalizer_def fin Let_def)
  then obtain out t where t: "run_state (LDAP_ReconcileDelete ?E) ?r = (out, t)" "object_patches t \<noteq> []"
    by (auto simp: wp_def split: prod.splits)
  from ldap_finalizer_kept_until_gone [OF t(1)] t show ?thesis
    by (simp add: ldap_sample_request_def empty_world_def ldap_desired_state_def Let_def deleted_ldap_def example_ldap_def zero_LDAP_def)
qed

lemma ldap_create_changes:
  assumes "run_state (LDAP_ReconcileCreate E interval) r = (out, t)" and "Current r = None"
  shows "idp_changes t = idp_changes r \<or>
    (\<exists>s c. create_reaches E (take 1 (ldap_create_phases E interval)) r s \<and> same_request r s \<and>
      idp_changes t = idp_changes r @ [c] \<and> ldap_why E s c)"
  by (rule ldap_apply.cluster_path_changes [OF assms(2), where late = "drop 3 (ldap_create_phases E interval)" and
        phases = "ldap_create_phases E interval", OF _ _ assms(1) [unfolded LDAP_ReconcileCreate_def]])
    (auto simp: ldap_create_phases_def intro!: emits)

text \<open>
  Creating or updating an LDAP identity provider makes at most one change in OCM: the provider is
  added only if OCM has just listed none of its name, and updated only if the one that OCM has
  just listed differs from the desired state. What is sent is built from the desired state. \<open>s\<close> is the
  state in which the path makes its lookup.
\<close>

theorem ldap_create_changes_justified:
  assumes "run_state (LDAP_ReconcileCreate E interval) r = (out, t)" and "Current r = None"
  shows "idp_changes t = idp_changes r \<or>
    (\<exists>s c. create_reaches E (take 1 (ldap_create_phases E interval)) r s \<and> idp_changes t = idp_changes r @ [c] \<and>
      (case ldap_lookup E s of
         Inl err \<Rightarrow> False
       | Inr None \<Rightarrow> sends_add E (Status_ClusterID (Original s)) (ldap_builder r) c
       | Inr (Some idp) \<Rightarrow> LDAP_Spec (ldap_current s idp) \<noteq> LDAP_Spec (Desired r) \<and>
           sends_update E (Status_ClusterID (Original s)) (ldap_builder r) c))"
  using ldap_create_changes [OF assms]
proof (elim disjE exE conjE)
  fix s c
  assume "create_reaches E (take 1 (ldap_create_phases E interval)) r s" "same_request r s" "idp_changes t = idp_changes r @ [c]"
    "ldap_why E s c"
  moreover from this have "ldap_builder s = ldap_builder r" "Desired s = Desired r"
    by (cases r; cases s; simp add: same_request_def)+
  ultimately show ?thesis
    by (intro disjI2 exI [of _ s] exI [of _ c]) (auto simp: ldap_why_def split: option.splits)
qed simp

theorem ldap_create_changes_justified_witness:
  "\<exists>t. t = snd (run_state (LDAP_ReconcileCreate (sample_services example_ldap) 5) (ldap_sample_request example_ldap)) \<and>
    length (idp_changes t) \<le> 1"
proof -
  obtain out t where t: "run_state (LDAP_ReconcileCreate (sample_services example_ldap) 5) (ldap_sample_request example_ldap) = (out, t)"
    by fastforce
  from ldap_create_changes_justified [OF t] t show ?thesis
    by (auto simp: ldap_sample_request_def empty_world_def)
qed

text \<open>
  C15: an LDAP identity provider converges: when OCM lists the provider as it was built from the desired
  state of a request, with whatever identifier, reconciling that request makes no change in OCM.
\<close>

theorem ldap_converges:
  assumes "run_state (LDAP_NewRequest E ns n) w = (Ret (Inr req), w')"
    and "\<And>h cid. \<exists>ident. ocm_IdpList (Ocm2 E) h cid =
      sdk_ok [(LDAP_Builder (Desired req) ca password)\<lparr>idp_ID := ident\<rparr>]"
    and "run_state (LDAP_ReconcileCreate E interval) (req\<lparr>World := w'\<rparr>) = (out, t)"
  shows "idp_changes t = filter idp_change (calls w')"
proof -
  let ?b = "\<lambda>ident. (LDAP_Builder (Desired req) ca password)\<lparr>idp_ID := ident\<rparr>"
  note req = LDAP_NewRequest_cases [OF assms(1)]
  have name: "attr [] idp_Name (Some (?b i)) = LDAP_DisplayName (LDAP_Spec (Desired req))" for i
    by (simp add: LDAP_Builder_def)
  have no: "\<not> ldap_why E s c" if s: "same_request (req\<lparr>World := w'\<rparr>) s" for s c
  proof -
    from same_requestD(1) [OF s] have d: "Desired s = Desired req" by simp
    obtain i where "ocm_IdpList (Ocm2 E) (req_calls s) (Status_ClusterID (Original s)) = sdk_ok [?b i]"
      using assms(2) by blast
    then have "ldap_lookup E s = Inr (Some (?b i))"
      using name d by (simp add: ldap_lookup_def idp_lookup_def sdk_ok_def Let_def)
    moreover have "LDAP_Spec (ldap_current s (?b i)) = LDAP_Spec (Desired s)"
      using LDAP_CopyFrom_Builder [of "Desired req" ca password] ldap_desired_defaulted [of "Original req"] req(2) d
      by (simp add: ldap_current_def)
    ultimately show ?thesis by (simp add: ldap_why_def)
  qed
  from ldap_create_changes [OF assms(3)] req(3) no show ?thesis by auto
qed

text \<open>An OCM account that holds the provider of \<open>example_ldap\<close>.\<close>

definition ldap_converged :: "LDAPIdentityProvider services" where
  "ldap_converged = (sample_services example_ldap)\<lparr>Ocm2 := sample_ocm2\<lparr>ocm_IdpList := (\<lambda>h cid.
     sdk_ok [(LDAP_Builder (ldap_desired_state example_ldap) '''' ''pw'')\<lparr>idp_ID := Some ''i1''\<rparr>])\<rparr>\<rparr>"

theorem ldap_converges_witness:
  "\<exists>req w'. run_state (LDAP_NewRequest ldap_converged ''ocm'' ''corp'') empty_world = (Ret (Inr req), w') \<and>
     idp_changes (snd (run_state (LDAP_ReconcileCreate ldap_converged 5) (req\<lparr>World := w'\<rparr>))) = []"
proof -
  have "\<exists>req w'. run_state (LDAP_NewRequest ldap_converged ''ocm'' ''corp'') empty_world = (Ret (Inr req), w') \<and>
      filter idp_change (calls w') = []"
    by (simp add: LDAP_NewRequest_def GetSecretData_def ldap_converged_def sample_services_def sample_kube_def example_ldap_def
        zero_LDAP_def LDAPBindPasswordKey_def GitLabClientSecretKey_def empty_world_def idp_change_def)
  then obtain req w' where r: "run_state (LDAP_NewRequest ldap_converged ''ocm'' ''corp'') empty_world = (Ret (Inr req), w')"
    and w': "filter idp_change (calls w') = []" by blast
  then have "Original req = example_ldap"
    using LDAP_NewRequest_cases(1) [OF r] by (simp add: ldap_converged_def sample_services_def sample_kube_def)
  then have "Desired req = ldap_desired_state example_ldap" using LDAP_NewRequest_cases(2) [OF r] by simp
  then have l: "\<exists>ident. ocm_IdpList (Ocm2 ldap_converged) h cid = sdk_ok [(LDAP_Builder (Desired req) '''' ''pw'')\<lparr>idp_ID := ident\<rparr>]" for h cid
    by (auto simp: ldap_converged_def)
  obtain out t where t: "run_state (LDAP_ReconcileCreate ldap_converged 5) (req\<lparr>World := w'\<rparr>) = (out, t)" by fastforce
  from ldap_converges [OF r l t] r t w' show ?thesis by auto
qed

text \<open>
  C31: without a bind password (no secret, or one without the key) reconciliation ends with an error and
  without a requeue after reading the resource and the secret, whatever the trigger: a resource whose secret has been
  deleted first keeps its finalizer. This includes a resource that names no secret, although the type declares the
  reference as optional: the secret of the empty name is asked for, and the provider is never configured.
\<close>

theorem ldap_needs_password:
  assumes "kube_Get (Kube E) (calls w) ns n = Inr obj"
    and "fst (fst (run_state (GetSecretData E (LDAP_BindPassword (LDAP_Spec obj)) ns LDAPBindPasswordKey)
      (w\<lparr>calls := calls w @ [KGet ns n]\<rparr>))) = ''''"
  shows "run_state (LDAP_Reconcile E interval ns n) w =
    (Ret (Skip (Some (Wrap ''unable to create request - '' (errGetBindPassword obj)))),
     w\<lparr>calls := calls w @ [KGet ns n, KSecretGet ns (LDAP_BindPassword (LDAP_Spec obj))]\<rparr>)"
  using assms
  by (auto simp: LDAP_Reconcile_def Reconcile_def ldap_controller_def LDAP_NewRequest_def GetSecretData_def
      errGetBindPassword_def ErrMissingBindPassword_def split: sum.splits if_splits)

text \<open>A resource that names no secret for its bind password.\<close>

definition no_secret_ldap :: LDAPIdentityProvider where
  "no_secret_ldap = example_ldap\<lparr>LDAP_Spec := (LDAP_Spec example_ldap)\<lparr>LDAP_BindPassword := ''''\<rparr>\<rparr>"

theorem ldap_needs_password_witness:
  "fst (run_state (LDAP_Reconcile ((sample_services deleted_ldap)\<lparr>Kube := (sample_kube deleted_ldap)
      \<lparr>kube_Secret := (\<lambda>h ns n. Inl (ApiStatus ''NotFound'' ''no secret''))\<rparr>\<rparr>) 5 ''ocm'' ''corp'') empty_world) =
    Ret (Skip (Some (Wrap ''unable to create request - '' (errGetBindPassword deleted_ldap)))) \<and>
   fst (run_state (LDAP_Reconcile ((sample_services no_secret_ldap)\<lparr>Kube := (sample_kube no_secret_ldap)
      \<lparr>kube_Secret := (\<lambda>h ns n. Inl (ApiStatus ''NotFound'' ''no secret''))\<rparr>\<rparr>) 5 ''ocm'' ''corp'') empty_world) =
    Ret (Skip (Some (Wrap ''unable to create request - '' (errGetBindPassword no_secret_ldap))))"
proof
  show "fst (run_state (LDAP_Reconcile ((sample_services deleted_ldap)\<lparr>Kube := (sample_kube deleted_ldap)
      \<lparr>kube_Secret := (\<lambda>h ns n. Inl (ApiStatus ''NotFound'' ''no secret''))\<rparr>\<rparr>) 5 ''ocm'' ''corp'') empty_world) =
    Ret (Skip (Some (Wrap ''unable to create request - '' (errGetBindPassword deleted_ldap))))"
    by (subst ldap_needs_password [where obj = deleted_ldap]) (simp_all add: sample_services_def sample_kube_def GetSecretData_def)
  show "fst (run_state (LDAP_Reconcile ((sample_services no_secret_ldap)\<lparr>Kube := (sample_kube no_secret_ldap)
      \<lparr>kube_Secret := (\<lambda>h ns n. Inl (ApiStatus ''NotFound'' ''no secret''))\<rparr>\<rparr>) 5 ''ocm'' ''corp'') empty_world) =
    Ret (Skip (Some (Wrap ''unable to create request - '' (errGetBindPassword no_secret_ldap))))"
    by (subst ldap_needs_password [where obj = no_secret_ldap]) (simp_all add: sample_services_def sample_kube_def GetSecretData_def)
qed

section \<open>Runs\<close>

definition ldap_differs :: "LDAPIdentityProvider \<Rightarrow> ocm_idp \<Rightarrow> bool" where
  "ldap_differs d idp \<longleftrightarrow> LDAP_Spec (LDAP_CopyFrom (ldap_seed (LDAP_Spec d) (attr [] idp_MappingMethod (Some idp))) (idp_LDAP idp)) \<noteq> LDAP_Spec d"

lemma LDAP_NewRequest_calls:
  assumes "run_state (LDAP_NewRequest E ns n) w = (Ret (Inr req), w')"
  shows "\<exists>x. calls w' = calls w @ KGet ns n # x"
  using assms by (auto simp: LDAP_NewRequest_def GetSecretData_def GetConfigMapData_def split: sum.splits if_splits option.splits)

abbreviation ldap_removal :: "LDAPIdentityProvider services \<Rightarrow> ldap_request \<Rightarrow> LDAPIdentityProvider hist \<Rightarrow> LDAPIdentityProvider call \<Rightarrow> bool" where
  "ldap_removal E s \<equiv> idp_removal E s (LDAP_ClusterName (LDAP_Spec (Desired s))) (LDAP_ProviderID (Original s))"

lemma wp_LDAP_Destroy_justified:
  "wp (LDAP_Destroy E) (\<lambda>out u. justified_after (\<lambda>h c. idp_change c \<longrightarrow> ldap_removal E s h c) (req_calls s) u) s"
proof (cases "IsSet (IdentityProviderDeleted (kube_Now (Kube E) (req_calls s))) (Original s)")
  case False
  note delete = wp_idp_delete_justified [OF False, of E "LDAP_ClusterName (LDAP_Spec (Desired s))"]
  from False show ?thesis
    unfolding LDAP_Destroy_def
    by (auto simp: wp_bind wp_get wp_if wp_on_world wp_ClusterExists wp_return split: sum.splits option.splits
        intro!: delete emits justified_afterI)
qed (simp add: LDAP_Destroy_def wp)

interpretation ldap_safe: safe_controller E "ldap_controller E interval" idp_change "ldap_removal E"
  "\<lambda>r. idp_reason E (LDAP_DisplayName (LDAP_Spec (Desired r))) (ldap_builder r) (ldap_differs (Desired r)) (req_calls r)" for E interval
proof
  fix ns n
  show "emits calls (\<lambda>c. \<not> idp_change c) (NewRequest (ldap_controller E interval) ns n)"
    unfolding ldap_controller_def by (simp add: LDAP_NewRequest_def Let_def) (intro emits; simp add: idp_change_def)
next
  fix r t :: ldap_request and out
  assume r: "Current r = None" and "run_state (ReconcileCreate (ldap_controller E interval)) r = (out, t)"
  then have run: "run_state (LDAP_ReconcileCreate E interval) r = (out, t)" by (simp add: ldap_controller_def)
  show "\<exists>cs. req_calls t = req_calls r @ cs \<and> justified_from (\<lambda>h c. idp_change c \<longrightarrow>
      idp_reason E (LDAP_DisplayName (LDAP_Spec (Desired r))) (ldap_builder r) (ldap_differs (Desired r)) (req_calls r) h c) (req_calls r) cs"
  proof (rule ldap_apply.cluster_path_justified [OF r, where late = "drop 3 (ldap_create_phases E interval)",
        OF _ _ _ run [unfolded LDAP_ReconcileCreate_def]])
    fix s u :: ldap_request and rest :: "LDAPIdentityProvider hist" and found x c
    assume s: "same_request r s" "req_calls s = req_calls r @ x" "run_state (LDAP_GetCurrentState E) s = (found, u)" "ldap_why E s c"
      "filter idp_change rest = []"
    have "ldap_builder s = ldap_builder r" "Desired s = Desired r"
      using s(1) by (cases r; cases s; simp add: same_request_def)+
    with s wpD [OF wp_LDAP_GetCurrentState s(3)]
    show "idp_reason E (LDAP_DisplayName (LDAP_Spec (Desired r))) (ldap_builder r) (ldap_differs (Desired r)) (req_calls r) (req_calls u @ rest) c"
      by (intro idp_reasonI [of s _ x _ "Status_ClusterID (Original s)" rest])
        (auto simp: ldap_why_def ldap_lookup_def ldap_differs_def ldap_current_def)
  qed (auto simp: ldap_create_phases_def LDAP_ApplyIdentityProvider_def Let_def intro!: emits)
next
  fix r s :: ldap_request and h c x
  assume "same_request r s" and x: "req_calls s = req_calls r @ x"
  then have "ldap_builder s = ldap_builder r" "Desired s = Desired r" by (cases r; cases s; simp add: same_request_def)+
  moreover assume "idp_reason E (LDAP_DisplayName (LDAP_Spec (Desired s))) (ldap_builder s) (ldap_differs (Desired s)) (req_calls s) h c"
  ultimately show "idp_reason E (LDAP_DisplayName (LDAP_Spec (Desired r))) (ldap_builder r) (ldap_differs (Desired r)) (req_calls r) h c"
    using x by (auto intro: idp_reason_later)
next
  fix r t :: ldap_request and out
  assume run: "run_state (ReconcileDelete (ldap_controller E interval)) r = (out, t)"
  have "wp (LDAP_ReconcileDelete E) (\<lambda>out u. justified_after (\<lambda>h c. idp_change c \<longrightarrow> ldap_removal E r h c) (req_calls r) u) r"
    unfolding LDAP_ReconcileDelete_def
    by (rule wp_justified_Execute [OF wp_LDAP_Destroy_justified, where P = "\<lambda>c. \<not> idp_change c"]) (auto intro!: emits)
  from wpD [OF this] run show "\<exists>cs. req_calls t = req_calls r @ cs \<and>
      justified_from (\<lambda>h c. idp_change c \<longrightarrow> ldap_removal E r h c) (req_calls r) cs"
    by (simp add: ldap_controller_def justified_after_def)
qed (auto simp: ldap_controller_def LDAP_ReconcileUpdate_def dest: LDAP_NewRequest_cases)

text \<open>
  C11: in every run of the controller, every change to an identity provider in OCM follows a request \<open>r\<close> for a resource that was read
  before. For a resource that is being deleted the change deletes the recorded provider of the recorded cluster, right after
  OCM has found the cluster and while the deletion is not recorded. For any other resource a provider is added only after OCM,
  asked after the request was made, has listed none of the desired name, or updated only after OCM has listed one that differs from
  the desired state; what is sent is built from the desired state, and nothing was changed since the listing.
\<close>

theorem ldap_run_safe:
  assumes "reached (LDAP_Reconcile E interval) empty_world w" and "calls w = pre @ c # post" and "idp_change c"
  shows "\<exists>h ns n x r rest. pre = h @ KGet ns n # x @ rest \<and> kube_Get (Kube E) h ns n = Inr (Original r) \<and>
    Desired r = ldap_desired_state (Original r) \<and> req_calls r = h @ KGet ns n # x \<and>
    (if GetTrigger (Original r) = Delete then \<exists>s. dispatched E r s \<and> ldap_removal E s pre c
     else idp_reason E (LDAP_DisplayName (LDAP_Spec (Desired r))) (ldap_builder r) (ldap_differs (Desired r)) (req_calls r) pre c)"
proof -
  from ldap_safe.run_safe [OF assms(1) [unfolded LDAP_Reconcile_def] assms(2,3)] obtain r rest where
    made: "request_made (ldap_controller E interval) r" and pre: "pre = req_calls r @ rest"
    and why: "if GetTrigger (Original r) = Delete then \<exists>s. dispatched E r s \<and> ldap_removal E s pre c
      else idp_reason E (LDAP_DisplayName (LDAP_Spec (Desired r))) (ldap_builder r) (ldap_differs (Desired r)) (req_calls r) pre c" by blast
  from made obtain ns n v req w' where new: "run_state (LDAP_NewRequest E ns n) v = (Ret (Inr req), w')"
    and r: "r = req\<lparr>World := w'\<rparr>"
    unfolding request_made_def by (auto simp: ldap_controller_def)
  obtain x where x: "req_calls r = calls v @ KGet ns n # x" using LDAP_NewRequest_calls [OF new] r by auto
  have "kube_Get (Kube E) (calls v) ns n = Inr (Original r)" "Desired r = ldap_desired_state (Original r)"
    using LDAP_NewRequest_cases(1,2) [OF new] r by simp_all
  moreover have "pre = calls v @ KGet ns n # x @ rest" using pre x by simp
  ultimately show ?thesis using why x by blast
qed

text \<open>A provider that is marked for deletion, and an OCM that does not delete it yet.\<close>

definition doomed_ldap :: LDAPIdentityProvider where
  "doomed_ldap = example_ldap\<lparr>DeletionTimestamp := Some 2, Status_Conditions := [Reconciling Delete 0]\<rparr>"

definition ldap_failing :: "LDAPIdentityProvider services" where
  "ldap_failing = (sample_services doomed_ldap)\<lparr>Ocm2 := sample_ocm2\<lparr>ocm_IdpDelete := (\<lambda>h cid i. sdk_error 500 ''down'')\<rparr>\<rparr>"

theorem ldap_run_safe_witness:
  "\<exists>w pre c post. reached (LDAP_Reconcile ldap_failing 5) empty_world w \<and> calls w = pre @ c # post \<and> idp_change c \<and>
     (\<exists>h ns n rest cid i. pre = h @ KGet ns n # rest \<and> c = IdpDelete cid i)"
proof -
  have t: "GetTrigger doomed_ldap = Delete"
    by (simp add: GetTrigger_def doomed_ldap_def example_ldap_def)
  have "IsSet (Reconciling Delete 0) doomed_ldap" by (simp add: IsSet_iff GetConditions_def doomed_ldap_def)
  then have c: "IsSet (Reconciling Delete x) doomed_ldap" for x
    unfolding Reconciling_def using IsSet_make_condition by blast
  have d: "\<not> IsSet (IdentityProviderDeleted x) doomed_ldap" for x
    by (simp add: IsSet_iff GetConditions_def doomed_ldap_def IdentityProviderDeleted_def Reconciling_def make_condition_def)
  have e: "kube_Get (Kube ldap_failing) h ns n = Inr doomed_ldap" "ocm_IdpDelete (Ocm2 ldap_failing) h cid i = sdk_error 500 ''down''" for h ns n cid i
    by (simp_all add: ldap_failing_def)
  have l: "cluster_lookup ldap_failing h name = Inr (Some sample_cluster)" for h name
    by (simp add: cluster_lookup_def ClusterClient_Get_def ldap_failing_def sample_services_def sample_ocm_def sdk_ok_def)
  have "\<exists>req w'. run_state (LDAP_NewRequest ldap_failing ''ocm'' ''x'') empty_world = (Ret (Inr req), w')"
    by (simp add: LDAP_NewRequest_def GetSecretData_def GetConfigMapData_def ldap_failing_def sample_services_def sample_kube_def doomed_ldap_def
        example_ldap_def zero_LDAP_def LDAPBindPasswordKey_def GitLabClientSecretKey_def empty_world_def)
  then obtain req w' where new: "run_state (LDAP_NewRequest ldap_failing ''ocm'' ''x'') empty_world = (Ret (Inr req), w')" by blast
  have o: "Original req = doomed_ldap" using LDAP_NewRequest_cases(1) [OF new] e(1) by simp
  have "wp (LDAP_Reconcile ldap_failing 5 ''ocm'' ''x'') (\<lambda>out w. filter idp_change (calls w) \<noteq> []) empty_world"
    by (simp add: LDAP_Reconcile_def Reconcile_def ldap_controller_def wp_bind wp_def [of "LDAP_NewRequest ldap_failing ''ocm'' ''x''"] new)
      (simp add: wp Let_def t o dispatch_def condition_Update_def c d LDAP_ReconcileDelete_def LDAP_Destroy_def wp_ClusterExists
        IdpClient_Delete_def e l sdk_error_def StatusNotFound_def idp_change_def)
  moreover obtain out w where run: "run_state (LDAP_Reconcile ldap_failing 5 ''ocm'' ''x'') empty_world = (out, w)" by fastforce
  ultimately have "filter idp_change (calls w) \<noteq> []" by (rule wpD)
  then obtain pre c post where w: "calls w = pre @ c # post" "idp_change c"
    by (auto simp: filter_empty_conv in_set_conv_decomp)
  have r: "reached (LDAP_Reconcile ldap_failing 5) empty_world w"
    by (rule reached_step [where R = "LDAP_Reconcile ldap_failing 5", OF reached_start run])
  have "\<exists>h ns n rest cid i. pre = h @ KGet ns n # rest \<and> c = IdpDelete cid i"
    using ldap_run_safe [OF r w] e(1) t by (auto simp: idp_removal_def)
  with r w show ?thesis by blast
qed

text \<open>Every addition of a run follows a listing that has shown no provider of that name.\<close>

interpretation ldap_unique: unique_additions
  "\<lambda>h. builds_idp_names E \<and> (\<exists>w. reached (LDAP_Reconcile E interval) empty_world w \<and> calls w = h)" idp_key "idp_absent E" for E interval
proof
  fix pre post c k
  assume run: "builds_idp_names E \<and> (\<exists>w. reached (LDAP_Reconcile E interval) empty_world w \<and> calls w = pre @ c # post)"
    and k: "idp_key c = Some k"
  then have "idp_change c" using idp_key_change by fastforce
  moreover from run obtain w where "reached (Reconcile E (ldap_controller E interval)) empty_world w" "calls w = pre @ c # post"
    by (auto simp: LDAP_Reconcile_def)
  ultimately obtain r where "if GetTrigger (Original r) = Delete then \<exists>s. dispatched E r s \<and> ldap_removal E s pre c
      else idp_reason E (LDAP_DisplayName (LDAP_Spec (Desired r))) (ldap_builder r) (ldap_differs (Desired r)) (req_calls r) pre c"
    using ldap_safe.run_safe by blast
  moreover have "\<not> ldap_removal E s pre c" for s using k by (auto simp: idp_removal_def)
  moreover have "LDAP_DisplayName (LDAP_Spec (Desired r)) = idp_name (ldap_builder r)" for r :: ldap_request by (simp add: LDAP_Builder_def)
  ultimately have "idp_reason E (idp_name (ldap_builder r)) (ldap_builder r) (ldap_differs (Desired r)) (req_calls r) pre c"
    by (auto split: if_splits)
  from idp_reason_looked_up [OF this _ k] run
  show "\<exists>h later. pre = h @ later \<and> idp_absent E k h \<and> (\<forall>d \<in> set later. idp_key d = None)" by blast
qed

text \<open>
  C12: no provider is created twice: if OCM has accepted a provider and lists it until it is deleted, then in every run of the
  controller a second addition of that name to the same cluster comes only after a deletion in that cluster, however often and for
  whatever resources the controller reconciles in between.
\<close>

theorem ldap_added_once:
  assumes "reached (LDAP_Reconcile E interval) empty_world w" and "calls w = h @ IdpAdd cid a # h' @ IdpAdd cid b # post"
    and "idp_name a = idp_name b" and "resp_Err (ocm_IdpAdd (Ocm2 E) h cid a) = None" and "builds_idp_names E" and "lists_idps E"
  shows "\<exists>i. IdpDelete cid i \<in> set h'"
proof -
  have "\<exists>x \<in> set h'. \<exists>i. x = IdpDelete cid i"
    by (rule ldap_unique.added_once [of E interval h "IdpAdd cid a" h' "IdpAdd cid b" post "(cid, idp_name b)"])
      (use assms lists_idps_absent [OF assms(6,4)] in auto)
  then show ?thesis by blast
qed

text \<open>A provider that is in its last state when it is reconciled again, and services that make the controller create it twice.\<close>

definition settled_ldap :: LDAPIdentityProvider where
  "settled_ldap = example_ldap\<lparr>Finalizers := [FinalizerName example_ldap],
     Status_Conditions := [Reconciling Update 0, UpstreamCluster Create True 0]\<rparr>"

abbreviation ldap_again :: "LDAPIdentityProvider services" where
  "ldap_again \<equiv> recreating settled_ldap doomed_ldap"

lemma settled_ldap_simps [simp]:
  "Status_ClusterID settled_ldap = ''c1''" "GetTrigger settled_ldap = Update" "LDAP_CA (LDAP_Spec settled_ldap) = []"
  "LDAP_BindPassword (LDAP_Spec settled_ldap) = ''pw''" "LDAP_DisplayName (LDAP_Spec (ldap_desired_state settled_ldap)) = ''corp''"
  "LDAP_ClusterName (LDAP_Spec (ldap_desired_state settled_ldap)) = ''prod''" "HasFinalizer ldap_again settled_ldap"
  "IsSet (Reconciling Update x) settled_ldap" "IsSet (UpstreamCluster Create True x) settled_ldap"
  by (simp_all add: settled_ldap_def example_ldap_def GetTrigger_def ldap_desired_state_def Let_def zero_LDAP_def GetConditions_def
    HasFinalizer_def FinalizerName_def IsSet_iff Reconciling_def UpstreamCluster_def make_condition_def cond_content_def)

lemma doomed_ldap_simps [simp]:
  "Status_ClusterID doomed_ldap = ''c1''" "GetTrigger doomed_ldap = Delete" "LDAP_CA (LDAP_Spec doomed_ldap) = []"
  "LDAP_BindPassword (LDAP_Spec doomed_ldap) = ''pw''" "LDAP_ProviderID doomed_ldap = ''i1''"
  "IsSet (Reconciling Delete x) doomed_ldap" "\<not> IsSet (IdentityProviderDeleted x) doomed_ldap"
  by (simp_all add: doomed_ldap_def example_ldap_def GetTrigger_def zero_LDAP_def GetConditions_def
    IsSet_iff Reconciling_def IdentityProviderDeleted_def make_condition_def cond_content_def)

lemma run_NewRequest_again:
  assumes "kube_Get (Kube ldap_again) (calls w) ns n = Inr obj" and "obj = settled_ldap \<or> obj = doomed_ldap"
  shows "run_state (LDAP_NewRequest ldap_again ns n) w = (Ret (Inr \<lparr>World = w\<lparr>calls := calls w @ [KGet ns n, KSecretGet ns ''pw'']\<rparr>,
    Original = obj, Desired = ldap_desired_state obj, Current = None, Trigger = GetTrigger obj, LDAP_OCMClient = None,
    LDAP_DesiredBindPassword = ''pw'', LDAP_DesiredCA = []\<rparr>), w\<lparr>calls := calls w @ [KGet ns n, KSecretGet ns ''pw'']\<rparr>)"
  using assms by (auto simp: LDAP_NewRequest_def GetSecretData_def LDAPBindPasswordKey_def GitLabClientSecretKey_def split: if_splits)

lemma ldap_again_adds:
  assumes "fold (store_idp ''c1'') (filter idp_change (calls w)) [] = []" and "kube_Get (Kube ldap_again) (calls w) ns n = Inr settled_ldap"
  shows "wp (LDAP_Reconcile ldap_again 5 ns n) (\<lambda>out t. \<exists>b. filter idp_change (calls t) = filter idp_change (calls w) @ [IdpAdd ''c1'' b] \<and>
    idp_name b = ''corp'') w"
proof -
  let ?r = "\<lparr>World = w\<lparr>calls := calls w @ [KGet ns n, KSecretGet ns ''pw'']\<rparr>, Original = settled_ldap,
    Desired = ldap_desired_state settled_ldap, Current = None, Trigger = Update, LDAP_OCMClient = None, LDAP_DesiredBindPassword = ''pw'',
    LDAP_DesiredCA = []\<rparr>"
  have "wp (Execute ldap_ops (ldap_create_phases ldap_again 5)) (\<lambda>out t. \<exists>b. idp_changes t = idp_changes s @ [IdpAdd ''c1'' b] \<and>
      idp_name b = ''corp'') s"
    if "Original s = settled_ldap" "Desired s = ldap_desired_state settled_ldap" "Current s = None"
      "fold (store_idp ''c1'') (idp_changes s) [] = []" for s
    using that
    by (simp add: wp ldap_create_phases_def HandleClusterPhase_def GetUpstreamCluster_def find_upstream_def condition_Update_def
        sample_ocm_def sdk_ok_def ldap_ops_def LDAP_SetClusterStatus_def GetClusterID_def cluster_State_def sample_cluster_def Let_def
        LDAP_GetCurrentState_def idp_lookup_def LDAP_ApplyIdentityProvider_def LDAP_desired_def IdpClient_Create_def Complete_def
        LDAP_Builder_def)
  from this [of ?r] assms(1)
  have "wp (LDAP_ReconcileCreate ldap_again 5) (\<lambda>out t. \<exists>b. idp_changes t = filter idp_change (calls w) @ [IdpAdd ''c1'' b] \<and>
      idp_name b = ''corp'') ?r"
    by (simp add: LDAP_ReconcileCreate_def wp wp_AddFinalizer idp_change_def)
  then show ?thesis
    by (simp add: LDAP_Reconcile_def Reconcile_def ldap_controller_def wp wp_def [of "LDAP_NewRequest ldap_again ns n"]
        run_NewRequest_again [OF assms(2)] dispatch_def condition_Update_def Let_def LDAP_ReconcileUpdate_def)
qed

lemma ldap_again_deletes:
  assumes "kube_Get (Kube ldap_again) (calls w) ns n = Inr doomed_ldap"
  shows "wp (LDAP_Reconcile ldap_again 5 ns n) (\<lambda>out t. filter idp_change (calls t) = filter idp_change (calls w) @ [IdpDelete ''c1'' ''i1'']) w"
proof -
  have "cluster_lookup ldap_again h name = Inr (Some sample_cluster)" for h name
    by (simp add: cluster_lookup_def ClusterClient_Get_def sample_ocm_def sdk_ok_def)
  then show ?thesis
    by (simp add: LDAP_Reconcile_def Reconcile_def ldap_controller_def wp wp_def [of "LDAP_NewRequest ldap_again ns n"]
        run_NewRequest_again [OF assms] dispatch_def condition_Update_def Let_def LDAP_ReconcileDelete_def LDAP_Destroy_def
        IdpClient_Delete_def sdk_ok_def idp_change_def CompleteDestroy_def wp_RemoveFinalizer)
qed

theorem ldap_added_once_witness:
  "\<exists>w h a h' b post. reached (LDAP_Reconcile ldap_again 5) empty_world w \<and>
     calls w = h @ IdpAdd ''c1'' a # h' @ IdpAdd ''c1'' b # post \<and> idp_name a = idp_name b \<and> (\<exists>i. IdpDelete ''c1'' i \<in> set h')"
proof -
  from recreating_run [where R = "LDAP_Reconcile ldap_again 5", OF ldap_again_adds ldap_again_deletes] obtain w h a h' b post where
    w: "reached (LDAP_Reconcile ldap_again 5) empty_world w" "calls w = h @ IdpAdd ''c1'' a # h' @ IdpAdd ''c1'' b # post"
      "idp_name a = idp_name b" by blast
  have "resp_Err (ocm_IdpAdd (Ocm2 ldap_again) h ''c1'' a) = None" by (simp add: sdk_ok_def)
  from ldap_added_once [OF w this recreating_relies] w show ?thesis by blast
qed

end
