(* ===== verification/GitLab_Controller.thy ===== *)
theory GitLab_Controller
  imports Identity_Providers
begin

text \<open>
  The GitLab identity provider controller (\<^verbatim>\<open>controllers/reconcilers/gitlabidentityprovider\<close>). Its request extends
  the common one with the OCM client, by the name and the cluster identifier it was made from, and with the client
  secret and the CA data. The GitLab API client and the phase that uses it are commented out in the code.

  Shown here: what a request needs; that a provider is created only if OCM lists none of its name; that a
  provider with a CA is updated on every reconciliation because the CA data overwrites the CA
  reference; that the finalizer is removed only when the provider is gone; that in every run a provider is changed only for a
  reason and none is created twice.
\<close>

section \<open>Requests\<close>

record gl_request = "GitLabIdentityProvider request" +
  GL_OCMClient :: "(string \<times> string) option"
  GL_RequestClientSecret :: string
  GL_RequestCA :: string

definition defaultGitLabIdentityProviderRequeue :: int where
  "defaultGitLabIdentityProviderRequeue = 30 * Second"

definition gl_desired_state :: "GitLabIdentityProvider \<Rightarrow> GitLabIdentityProvider" where
  "gl_desired_state original =
     (if GL_DisplayName (GL_Spec original) = ''''
      then original\<lparr>GL_Spec := (GL_Spec original)\<lparr>GL_DisplayName := Name original\<rparr>\<rparr> else original)"

text \<open>
  The check after the CA lookup tests the client secret again, which is not empty there, so an
  error of the lookup is ignored and the CA is empty.
\<close>

definition GL_NewRequest ::
    "GitLabIdentityProvider services \<Rightarrow> string \<Rightarrow> string \<Rightarrow>
     (GitLabIdentityProvider world, (go_error + gl_request) outcome) state" where
  "GL_NewRequest E namespace name = do {
     res \<leftarrow> invoke (KGet namespace name) (\<lambda>h. kube_Get (Kube E) h namespace name);
     (case res of
        Inl err \<Rightarrow> State_Monad.return (Ret (Inl
          (if \<not> IsNotFound err then Wrap ''unable to fetch cluster object - '' err else err)))
      | Inr original \<Rightarrow> do {
          (clientSecret, err) \<leftarrow> GetSecretData E (GL_ClientSecret (GL_Spec original)) namespace GitLabClientSecretKey;
          (if clientSecret = ''''
           then State_Monad.return (Ret (Inl (wrap_nilable ''unable to obtain client secret from cluster - '' err)))
           else do {
             (ca, caErr) \<leftarrow> GetConfigMapData E (GL_CA (GL_Spec original)) namespace GitLabCAKey;
             (if clientSecret = ''''
              then State_Monad.return (Ret (Inl (wrap_nilable ''unable to obtain client secret from cluster - '' caErr)))
              else do {
                w \<leftarrow> State_Monad.get;
                State_Monad.return (Ret (Inr \<lparr>World = w, Original = original, Desired = gl_desired_state original,
                  Current = None, Trigger = GetTrigger original, GL_OCMClient = None,
                  GL_RequestClientSecret = clientSecret, GL_RequestCA = ca\<rparr>))
              })
           })
        })
   }"

definition GL_SetClusterStatus :: "ocm_cluster option \<Rightarrow> gl_request \<Rightarrow> gl_request" where
  "GL_SetClusterStatus cluster req =
     (let o0 = Original req;
          o1 = (if Status_ClusterID o0 = '''' then o0\<lparr>Status_ClusterID := attr '''' cl_ID cluster\<rparr> else o0);
          o2 = (if GL_CallbackURL o1 = ''''
                then o1\<lparr>GL_CallbackURL := GetCallbackURL cluster (GL_DisplayName (GL_Spec (Desired req)))\<rparr> else o1)
      in req\<lparr>Original := o2\<rparr>)"

definition gl_ops :: "gl_request cluster_ops" where
  "gl_ops = \<lparr>DefaultRequeue = (\<lambda>req. defaultGitLabIdentityProviderRequeue),
     GetName = (\<lambda>req. GL_DisplayName (GL_Spec (Desired req))),
     GetClusterName = (\<lambda>req. GL_ClusterName (GL_Spec (Desired req))),
     SetClusterStatus = GL_SetClusterStatus\<rparr>"

definition GL_desired :: "gl_request \<Rightarrow> bool" where
  "GL_desired req =
     (case Current req of None \<Rightarrow> False | Some cur \<Rightarrow> GL_Spec (Desired req) = GL_Spec cur)"

section \<open>Phases\<close>

definition GL_GetCurrentState :: "GitLabIdentityProvider services \<Rightarrow> (gl_request, go_result outcome) state" where
  "GL_GetCurrentState E = do {
     modify (\<lambda>req. req\<lparr>GL_OCMClient := Some (GL_DisplayName (GL_Spec (Desired req)), Status_ClusterID (Original req))\<rparr>);
     req \<leftarrow> State_Monad.get;
     res \<leftarrow> on_world (IdpClient_Get E (GL_DisplayName (GL_Spec (Desired req))) (Status_ClusterID (Original req)));
     (case res of
        Inl err \<Rightarrow> State_Monad.return (Ret (OnError gl_ops req (Some (GetError gl_ops req err))))
      | Inr None \<Rightarrow> State_Monad.return (Ret Next)
      | Inr (Some idp) \<Rightarrow> do {
          modify (\<lambda>req. req\<lparr>Current := Some (GL_CopyFrom
            (gl_seed (GL_Spec (Desired req)) (attr '''' idp_MappingMethod (Some idp))) idp)\<rparr>);
          State_Monad.return (Ret Next)
        })
   }"

definition gl_register :: "GitLabIdentityProvider services \<Rightarrow> event \<Rightarrow> (gl_request, unit) state" where
  "gl_register E event = do {
     req \<leftarrow> State_Monad.get;
     on_world (RegisterAction E event (Original req) (GL_DisplayName (GL_Spec (Desired req)))
       (Status_ClusterID (Original req)))
   }"

definition GL_errUnableToUpdateStatusProviderID :: "gl_request \<Rightarrow> string \<Rightarrow> go_error \<Rightarrow> go_result" where
  "GL_errUnableToUpdateStatusProviderID req i err = OnError gl_ops req (Some (Wrap
     (''unable to update gitlab identity provider ['' @ GetName gl_ops req @ ''] status [providerID='' @ i @ ''] - '') err))"

text \<open>The client is nil only if \<open>GetCurrentState\<close> has not run; a method call on it panics.\<close>

definition GL_ApplyIdentityProvider :: "GitLabIdentityProvider services \<Rightarrow> (gl_request, go_result outcome) state" where
  "GL_ApplyIdentityProvider E = do {
     req \<leftarrow> State_Monad.get;
     (if GL_desired req then State_Monad.return (Ret Next)
      else (case GL_OCMClient req of
          None \<Rightarrow> State_Monad.return (Panic ''invalid memory address or nil pointer dereference'')
        | Some (name, clusterID) \<Rightarrow> do {
            let builder = GL_Builder (Desired req) (GL_RequestCA req) (GL_RequestClientSecret req);
            (if Current req = None then do {
               res \<leftarrow> on_world (IdpClient_Create E clusterID builder);
               (case res of
                  Inl err \<Rightarrow> State_Monad.return (Ret (OnError gl_ops req (Some (CreateError gl_ops req err))))
                | Inr idp \<Rightarrow> do {
                    modify (\<lambda>r. r\<lparr>Original := (Original r)\<lparr>GL_ProviderID := attr '''' idp_ID idp\<rparr>\<rparr>);
                    err \<leftarrow> patch_original E (Original req);
                    (case err of
                       Some e \<Rightarrow> State_Monad.return
                         (Ret (GL_errUnableToUpdateStatusProviderID req (attr '''' idp_ID idp) e))
                     | None \<Rightarrow> do {
                         gl_register E Created;
                         State_Monad.return (Ret Next)
                       })
                  })
             } else do {
               res \<leftarrow> on_world (IdpClient_Update E clusterID builder);
               (case res of
                  Inl err \<Rightarrow> State_Monad.return (Ret (OnError gl_ops req (Some (UpdateError gl_ops req err))))
                | Inr _ \<Rightarrow> do {
                    gl_register E Updated;
                    State_Monad.return (Ret Next)
                  })
             })
          }))
   }"

definition GL_Destroy :: "GitLabIdentityProvider services \<Rightarrow> (gl_request, go_result outcome) state" where
  "GL_Destroy E = do {
     req \<leftarrow> State_Monad.get;
     (if IsSet (IdentityProviderDeleted (kube_Now (Kube E) (req_calls req))) (Original req)
      then State_Monad.return (Ret Next)
      else do {
        res \<leftarrow> on_world (ClusterExists E (GL_ClusterName (GL_Spec (Desired req))));
        (case res of
           Inl err \<Rightarrow> State_Monad.return (Ret (OnError gl_ops req (Some err)))
         | Inr (cluster, exists) \<Rightarrow>
             if \<not> exists then State_Monad.return (Ret Next)
             else do {
               deleteErr \<leftarrow> on_world (IdpClient_Delete E (Status_ClusterID (Original req)) (GL_ProviderID (Original req)));
               (case deleteErr of
                  Some err \<Rightarrow> State_Monad.return (Ret (OnError gl_ops req (Some (DeleteError gl_ops req err))))
                | None \<Rightarrow> do {
                    gl_register E Deleted;
                    err \<leftarrow> condition_Update E IdentityProviderDeleted;
                    State_Monad.return (Ret (case err of
                        Some e \<Rightarrow> OnError gl_ops req (Some (UpdateDeletedConditionError e))
                      | None \<Rightarrow> Next))
                  })
             })
      })
   }"

section \<open>Reconciliation\<close>

definition gl_create_phases :: "GitLabIdentityProvider services \<Rightarrow> int \<Rightarrow> gl_request phase list" where
  "gl_create_phases E interval =
     [(''HandleUpstreamCluster'', HandleClusterPhase E gl_ops Create),
      (''GetCurrentState'', GL_GetCurrentState E),
      (''ApplyIdentityProvider'', GL_ApplyIdentityProvider E),
      (''Complete'', Complete E gl_ops Create interval)]"

definition GL_ReconcileCreate ::
    "GitLabIdentityProvider services \<Rightarrow> int \<Rightarrow> (gl_request, go_result outcome) state" where
  "GL_ReconcileCreate E interval = do {
     err \<leftarrow> AddFinalizer E;
     (case err of
        Some e \<Rightarrow> do {
          req \<leftarrow> State_Monad.get;
          State_Monad.return (Ret (OnError gl_ops req (Some (AddFinalizerError e))))
        }
      | None \<Rightarrow> Execute gl_ops (gl_create_phases E interval))
   }"

definition GL_ReconcileUpdate ::
    "GitLabIdentityProvider services \<Rightarrow> int \<Rightarrow> (gl_request, go_result outcome) state" where
  "GL_ReconcileUpdate E interval = GL_ReconcileCreate E interval"

definition GL_ReconcileDelete :: "GitLabIdentityProvider services \<Rightarrow> (gl_request, go_result outcome) state" where
  "GL_ReconcileDelete E = Execute gl_ops
     [(''Destroy'', GL_Destroy E),
      (''CompleteDestroy'', CompleteDestroy E gl_ops)]"

definition gl_controller ::
    "GitLabIdentityProvider services \<Rightarrow> int \<Rightarrow> (GitLabIdentityProvider, gl_request) controller" where
  "gl_controller E interval = \<lparr>NewRequest = GL_NewRequest E, ReconcileCreate = GL_ReconcileCreate E interval,
     ReconcileUpdate = GL_ReconcileUpdate E interval, ReconcileDelete = GL_ReconcileDelete E\<rparr>"

definition GL_Reconcile ::
    "GitLabIdentityProvider services \<Rightarrow> int \<Rightarrow> string \<Rightarrow> string \<Rightarrow>
     (GitLabIdentityProvider world, go_result outcome) state" where
  "GL_Reconcile E interval = Reconcile E (gl_controller E interval)"

section \<open>The interfaces of the common phases\<close>

interpretation gl_cluster: cluster_request gl_ops
proof unfold_locales
  show "same_request r (SetClusterStatus gl_ops c r)" for c and r :: gl_request
    by (simp add: gl_ops_def GL_SetClusterStatus_def Let_def)
  show "same_request r s \<Longrightarrow> GetClusterName gl_ops s = GetClusterName gl_ops r" for r s :: gl_request
    by (simp add: gl_ops_def same_requestD)
qed (simp_all add: gl_ops_def GL_SetClusterStatus_def Let_def GetClusterID_def GetConditions_def)

lemma emits_gl_register [emits]: "(\<And>x y z. P (KEvent x y z)) \<Longrightarrow> emits req_calls P (gl_register E ev)"
  unfolding gl_register_def by (intro emits) auto

lemma wp_gl_register [wp]:
  "wp (gl_register E ev) Q r = wp (on_world (RegisterAction E ev (Original r) (GL_DisplayName (GL_Spec (Desired r)))
     (Status_ClusterID (Original r)))) Q r"
  by (simp add: gl_register_def wp)

text \<open>The state that the controller reads from OCM's answer, and why it may change a provider.\<close>

definition gl_current :: "gl_request \<Rightarrow> ocm_idp \<Rightarrow> GitLabIdentityProvider" where
  "gl_current s idp = GL_CopyFrom (gl_seed (GL_Spec (Desired s)) (attr '''' idp_MappingMethod (Some idp))) idp"

definition gl_lookup :: "GitLabIdentityProvider services \<Rightarrow> gl_request \<Rightarrow> go_error + ocm_idp option" where
  "gl_lookup E s = idp_lookup E (req_calls s) (GL_DisplayName (GL_Spec (Desired s))) (Status_ClusterID (Original s))"

abbreviation gl_builder :: "gl_request \<Rightarrow> ocm_idp" where
  "gl_builder r \<equiv> GL_Builder (Desired r) (GL_RequestCA r) (GL_RequestClientSecret r)"

definition gl_why :: "GitLabIdentityProvider services \<Rightarrow> gl_request \<Rightarrow> GitLabIdentityProvider call \<Rightarrow> bool" where
  "gl_why E s c \<longleftrightarrow>
     gl_lookup E s = Inr None \<and> sends_add E (Status_ClusterID (Original s)) (gl_builder s) c \<or>
     (\<exists>idp. gl_lookup E s = Inr (Some idp) \<and> GL_Spec (gl_current s idp) \<noteq> GL_Spec (Desired s) \<and>
        sends_update E (Status_ClusterID (Original s)) (gl_builder s) c)"

lemma wp_GL_GetCurrentState:
  "wp (GL_GetCurrentState E) (\<lambda>out t. Desired t = Desired s \<and> gl_builder t = gl_builder s \<and>
     req_calls t = req_calls s @ [IdpList (Status_ClusterID (Original s))] \<and>
     (\<exists>name. GL_OCMClient t = Some (name, Status_ClusterID (Original s))) \<and> (passed out \<longrightarrow>
     gl_lookup E s = Inr None \<and> Current t = Current s \<or>
     (\<exists>idp. gl_lookup E s = Inr (Some idp) \<and> Current t = Some (gl_current s idp)))) s"
  by (auto simp: GL_GetCurrentState_def wp gl_lookup_def gl_current_def split: sum.splits option.splits)

lemma wp_GL_Apply:
  "wp (GL_ApplyIdentityProvider E) (\<lambda>out u. idp_changes u = idp_changes t \<or>
     (\<exists>c name cid. idp_changes u = idp_changes t @ [c] \<and> \<not> GL_desired t \<and> GL_OCMClient t = Some (name, cid) \<and>
       (if Current t = None then sends_add E cid (gl_builder t) c else sends_update E cid (gl_builder t) c))) t"
  by (auto simp: GL_ApplyIdentityProvider_def wp IdpClient_Create_def IdpClient_Update_def Let_def
      sends_add_def sends_update_def split: sum.splits option.splits)

interpretation gl_apply: justified_apply gl_ops GL_GetCurrentState GL_ApplyIdentityProvider idp_change gl_why
proof
  show "emits req_calls (\<lambda>c. \<not> idp_change c) (GL_GetCurrentState E)" for E
    unfolding GL_GetCurrentState_def by (intro emits) simp_all
next
  fix E out and s t :: gl_request
  assume look: "run_state (GL_GetCurrentState E) s = (out, t)" and "passed out" and "Current s = None"
  with wpD [OF wp_GL_GetCurrentState look]
  have "gl_why E s c" if "\<not> GL_desired t" "GL_OCMClient t = Some (name, cid)"
      "if Current t = None then sends_add E cid (gl_builder t) c else sends_update E cid (gl_builder t) c" for c name cid
    using that by (auto simp: gl_why_def GL_desired_def split: if_splits option.splits)
  then show "wp (GL_ApplyIdentityProvider E) (\<lambda>out u. idp_changes u = idp_changes t \<or>
      (\<exists>c. idp_changes u = idp_changes t @ [c] \<and> gl_why E s c)) t"
    by (intro wp_mono [OF wp_GL_Apply]) blast
qed simp_all

lemma wp_GL_Destroy:
  "wp (GL_Destroy E) (\<lambda>out s. passed out \<longrightarrow> idp_gone E (req_calls r) (Original r)
     (GL_ClusterName (GL_Spec (Desired r))) (GL_ProviderID (Original r))) r"
proof (cases "IsSet (IdentityProviderDeleted (kube_Now (Kube E) (req_calls r))) (Original r)")
  case True
  with IsSet_IdentityProviderDeleted show ?thesis by (simp add: GL_Destroy_def wp idp_gone_def) blast
next
  case False
  let ?c = "GL_ClusterName (GL_Spec (Desired r))"
  let ?w = "(World r)\<lparr>calls := req_calls r @ [ClusterSearch (name_filter ?c)]\<rparr>"
  have "wp (IdpClient_Delete E (Status_ClusterID (Original r)) (GL_ProviderID (Original r)))
      (\<lambda>e w. wp (case e of Some err \<Rightarrow> State_Monad.return (Ret (OnError gl_ops r (Some (DeleteError gl_ops r err))))
        | None \<Rightarrow> K) (\<lambda>out s. passed out \<longrightarrow> idp_gone E (req_calls r) (Original r) ?c (GL_ProviderID (Original r)))
          (r\<lparr>World := w\<rparr>)) ?w" for K
    by (rule idp_del.wp_deleteI) (simp_all add: wp idp_gone_def)
  with False show ?thesis
    by (auto simp: GL_Destroy_def wp idp_gone_def split: sum.splits)
qed

text \<open>The state of a request that guards the removal of its finalizer.\<close>

definition gl_gone :: "GitLabIdentityProvider services \<Rightarrow> gl_request \<Rightarrow> bool" where
  "gl_gone E r \<longleftrightarrow> idp_gone E (req_calls r) (Original r) (GL_ClusterName (GL_Spec (Desired r))) (GL_ProviderID (Original r))"

interpretation gl_guarded: guarded_delete "\<lambda>E. [(''Destroy'', GL_Destroy E)]" gl_gone
proof
  show "emits req_calls (\<lambda>c. \<not> object_patch c) f" if "(n, f) \<in> set [(''Destroy'', GL_Destroy E)]" for n f E
    using that unfolding GL_Destroy_def by (auto intro!: emits)
  show "gl_gone E r" if "passes [(''Destroy'', GL_Destroy E)] r s" for E r s
    using that by (auto simp: passes_Cons_iff gl_gone_def dest: wpD [OF wp_GL_Destroy])
qed

lemma gl_create_changes:
  assumes "run_state (GL_ReconcileCreate E interval) r = (out, t)" and "Current r = None"
  shows "idp_changes t = idp_changes r \<or>
    (\<exists>s c. create_reaches E (take 1 (gl_create_phases E interval)) r s \<and> same_request r s \<and>
      idp_changes t = idp_changes r @ [c] \<and> gl_why E s c)"
  by (rule gl_apply.cluster_path_changes [OF assms(2), where late = "drop 3 (gl_create_phases E interval)" and
        phases = "gl_create_phases E interval", OF _ _ assms(1) [unfolded GL_ReconcileCreate_def]])
    (auto simp: gl_create_phases_def intro!: emits)

text \<open>A provider as it is after creation.\<close>

definition example_gl :: GitLabIdentityProvider where
  "example_gl = zero_GitLab\<lparr>Kind := ''GitLabIdentityProvider'', Group := ''ocm.mobb.redhat.com'', Version := ''v1alpha1'',
     Name := ''git'', Namespace := ''ocm'', Generation := 1, CreationTimestamp := 1, Status_ClusterID := ''c1'',
     GL_ProviderID := ''i1'',
     GL_Spec := (GL_Spec zero_GitLab)\<lparr>GL_URL := ''https://git'', GL_ClusterName := ''prod'', GL_ClientID := ''id'',
       GL_ClientSecret := ''sec'', GL_CA := ''ca-map'', GL_MappingMethod := ''claim'', GL_DisplayName := ''git''\<rparr>\<rparr>"

definition gl_sample_request :: "GitLabIdentityProvider \<Rightarrow> gl_request" where
  "gl_sample_request obj = \<lparr>World = empty_world, Original = obj, Desired = gl_desired_state obj, Current = None,
     Trigger = Update, GL_OCMClient = None, GL_RequestClientSecret = ''cs'', GL_RequestCA = ''ca''\<rparr>"

section \<open>Properties\<close>

text \<open>
  C10: the delete path of a GitLab identity provider patches the object, and so removes its finalizer,
  only when the provider is gone: its deletion is recorded in the conditions, or its cluster does not
  exist, or OCM has confirmed the deletion of the recorded provider identifier.
\<close>

theorem gl_finalizer_kept_until_gone:
  assumes "run_state (GL_ReconcileDelete E) r = (out, t)" and "object_patches t \<noteq> object_patches r"
  shows "idp_gone E (req_calls r) (Original r) (GL_ClusterName (GL_Spec (Desired r))) (GL_ProviderID (Original r))"
  using gl_guarded.patched_only_if_gone [of gl_ops E "''CompleteDestroy''" "CompleteDestroy E gl_ops" r out t] assms
  by (simp add: GL_ReconcileDelete_def gl_gone_def)

definition deleted_gl :: GitLabIdentityProvider where
  "deleted_gl = example_gl\<lparr>Finalizers := [FinalizerName example_gl], DeletionTimestamp := Some 2,
     Status_Conditions := [IdentityProviderDeleted 0]\<rparr>"

theorem gl_finalizer_kept_until_gone_witness:
  "\<exists>out t. run_state (GL_ReconcileDelete (sample_services deleted_gl)) (gl_sample_request deleted_gl) = (out, t) \<and>
     object_patches t \<noteq> [] \<and> idp_gone (sample_services deleted_gl) [] deleted_gl ''prod'' ''i1''"
proof -
  let ?E = "sample_services deleted_gl" and ?r = "gl_sample_request deleted_gl"
  have "IsSet (IdentityProviderDeleted 0) deleted_gl"
    by (simp add: IsSet_iff deleted_gl_def GetConditions_def)
  then have set: "IsSet (IdentityProviderDeleted t) deleted_gl" for t
    unfolding IdentityProviderDeleted_def using IsSet_make_condition by blast
  have fin: "FinalizerName deleted_gl = FinalizerName example_gl" "Finalizers deleted_gl = [FinalizerName example_gl]"
    by (simp_all add: deleted_gl_def FinalizerName_def)
  have "wp (GL_ReconcileDelete ?E) (\<lambda>out t. object_patches t \<noteq> []) ?r"
    by (simp add: GL_ReconcileDelete_def wp GL_Destroy_def gl_sample_request_def set CompleteDestroy_def wp_RemoveFinalizer
        HasFinalizer_def fin Let_def)
  then obtain out t where t: "run_state (GL_ReconcileDelete ?E) ?r = (out, t)" "object_patches t \<noteq> []"
    by (auto simp: wp_def split: prod.splits)
  from gl_finalizer_kept_until_gone [OF t(1)] t show ?thesis
    by (simp add: gl_sample_request_def empty_world_def gl_desired_state_def deleted_gl_def example_gl_def zero_GitLab_def)
qed

text \<open>
  C30: a GitLab provider that OCM lists as it was built is left alone exactly when its CA data is the same text
  as the name of its CA reference. Otherwise every reconciliation sends one more update, and,
  because the builder sets no identifier, sends it to the empty one.
\<close>

theorem gl_ca_drift:
  assumes "Current s = None" and "\<And>b. lib_BuildIdp (Lib E) b = Inr b"
    and "ocm_IdpList (Ocm2 E) (req_calls s) (Status_ClusterID (Original s)) =
      sdk_ok [(GL_Builder (Desired s) ca secret)\<lparr>idp_ID := ident\<rparr>]"
    and "run_state (Execute gl_ops [(''GetCurrentState'', GL_GetCurrentState E),
      (''ApplyIdentityProvider'', GL_ApplyIdentityProvider E)]) s = (out, t)"
  shows "idp_changes t = (if ca = GL_CA (GL_Spec (Desired s)) then idp_changes s
    else idp_changes s @ [IdpUpdate (Status_ClusterID (Original s)) ''''
      (GL_Builder (Desired s) (GL_RequestCA s) (GL_RequestClientSecret s))])"
proof -
  let ?b = "(GL_Builder (Desired s) ca secret)\<lparr>idp_ID := ident\<rparr>"
  have name: "attr [] idp_Name (Some ?b) = GL_DisplayName (GL_Spec (Desired s))"
    by (simp add: GL_Builder_def Let_def)
  have ident: "idp_ID (GL_Builder (Desired s) x y) = None" for x y
    by (simp add: GL_Builder_def Let_def empty_idp_def)
  have copy: "GL_Spec (GL_CopyFrom (gl_seed (GL_Spec (Desired s)) (attr '''' idp_MappingMethod (Some ?b))) ?b) =
      (GL_Spec (Desired s))\<lparr>GL_CA := ca\<rparr>"
    using GL_CopyFrom_Builder [of "Desired s" ca secret] by (simp add: GL_CopyFrom_def)
  have eq: "GL_Spec (Desired s) = (GL_Spec (Desired s))\<lparr>GL_CA := ca\<rparr> \<longleftrightarrow> ca = GL_CA (GL_Spec (Desired s))"
    by (cases "GL_Spec (Desired s)") auto
  have "idp_lookup E (req_calls s) (GL_DisplayName (GL_Spec (Desired s))) (Status_ClusterID (Original s)) = Inr (Some ?b)"
    using assms(3) name by (simp add: idp_lookup_def sdk_ok_def Let_def)
  then have "wp (Execute gl_ops [(''GetCurrentState'', GL_GetCurrentState E),
      (''ApplyIdentityProvider'', GL_ApplyIdentityProvider E)]) (\<lambda>out t. idp_changes t =
      (if ca = GL_CA (GL_Spec (Desired s)) then idp_changes s
       else idp_changes s @ [IdpUpdate (Status_ClusterID (Original s)) ''''
        (GL_Builder (Desired s) (GL_RequestCA s) (GL_RequestClientSecret s))])) s"
    using copy eq assms(2)
    by (simp add: wp GL_GetCurrentState_def GL_ApplyIdentityProvider_def GL_desired_def IdpClient_Update_def Let_def ident
        split: sum.splits option.splits)
  from wpD [OF this assms(4)] show ?thesis .
qed

text \<open>An OCM account that holds the provider of \<open>example_gl\<close>.\<close>

definition gl_stored :: "GitLabIdentityProvider services" where
  "gl_stored = (sample_services example_gl)\<lparr>Ocm2 := sample_ocm2\<lparr>ocm_IdpList := (\<lambda>h cid.
     sdk_ok [(GL_Builder (gl_desired_state example_gl) ''ca'' ''cs'')\<lparr>idp_ID := Some ''i1''\<rparr>])\<rparr>\<rparr>"

theorem gl_ca_drift_witness:
  "idp_changes (snd (run_state (Execute gl_ops [(''GetCurrentState'', GL_GetCurrentState gl_stored),
      (''ApplyIdentityProvider'', GL_ApplyIdentityProvider gl_stored)]) (gl_sample_request example_gl))) =
    [IdpUpdate ''c1'' '''' (GL_Builder (gl_desired_state example_gl) ''ca'' ''cs'')]"
proof -
  let ?s = "gl_sample_request example_gl"
  obtain out t where t: "run_state (Execute gl_ops [(''GetCurrentState'', GL_GetCurrentState gl_stored),
      (''ApplyIdentityProvider'', GL_ApplyIdentityProvider gl_stored)]) ?s = (out, t)" by fastforce
  have "GL_CA (GL_Spec (gl_desired_state example_gl)) = ''ca-map''" "Status_ClusterID example_gl = ''c1''"
    by (simp_all add: gl_desired_state_def example_gl_def zero_GitLab_def)
  moreover have "Lib gl_stored = sample_libs" by (simp add: gl_stored_def)
  ultimately show ?thesis
    using gl_ca_drift [where ca = "''ca''" and secret = "''cs''" and ident = "Some ''i1''", OF _ _ _ t] t
    by (simp add: gl_stored_def gl_sample_request_def empty_world_def)
qed

text \<open>
  Creating or updating a GitLab identity provider makes at most one change in OCM: the provider is
  added only if OCM has just listed none of its name, and updated only if the one that OCM has
  just listed differs from the desired state. What is sent is built from the desired state. \<open>s\<close> is the
  state in which the path makes its lookup.
\<close>

theorem gl_create_changes_justified:
  assumes "run_state (GL_ReconcileCreate E interval) r = (out, t)" and "Current r = None"
  shows "idp_changes t = idp_changes r \<or>
    (\<exists>s c. create_reaches E (take 1 (gl_create_phases E interval)) r s \<and> idp_changes t = idp_changes r @ [c] \<and>
      (case gl_lookup E s of
         Inl err \<Rightarrow> False
       | Inr None \<Rightarrow> sends_add E (Status_ClusterID (Original s)) (gl_builder r) c
       | Inr (Some idp) \<Rightarrow> GL_Spec (gl_current s idp) \<noteq> GL_Spec (Desired r) \<and>
           sends_update E (Status_ClusterID (Original s)) (gl_builder r) c))"
  using gl_create_changes [OF assms]
proof (elim disjE exE conjE)
  fix s c
  assume "create_reaches E (take 1 (gl_create_phases E interval)) r s" "same_request r s" "idp_changes t = idp_changes r @ [c]"
    "gl_why E s c"
  moreover from this have "gl_builder s = gl_builder r" "Desired s = Desired r"
    by (cases r; cases s; simp add: same_request_def)+
  ultimately show ?thesis
    by (intro disjI2 exI [of _ s] exI [of _ c]) (auto simp: gl_why_def split: option.splits)
qed simp

theorem gl_create_changes_justified_witness:
  "length (idp_changes (snd (run_state (GL_ReconcileCreate (sample_services example_gl) 5) (gl_sample_request example_gl)))) \<le> 1"
proof -
  obtain out t where t: "run_state (GL_ReconcileCreate (sample_services example_gl) 5) (gl_sample_request example_gl) = (out, t)"
    by fastforce
  from gl_create_changes_justified [OF t] t show ?thesis
    by (auto simp: gl_sample_request_def empty_world_def)
qed

text \<open>
  C32: when the secret of a GitLab provider does not exist, reconciliation ends silently: neither an
  error nor a requeue is reported, because the wrapped error of the lookup still says that an object was not
  found. A missing config map for the CA, on the other hand, does not stop the request.
\<close>

theorem gl_missing_secret_is_silent:
  assumes "kube_Get (Kube E) (calls w) ns n = Inr obj"
    and "kube_Secret (Kube E) (calls w @ [KGet ns n]) ns (GL_ClientSecret (GL_Spec obj)) = Inl err" and "IsNotFound err"
  shows "run_state (GL_Reconcile E interval ns n) w =
    (Ret (Skip None), w\<lparr>calls := calls w @ [KGet ns n, KSecretGet ns (GL_ClientSecret (GL_Spec obj))]\<rparr>)"
  using assms
  by (simp add: GL_Reconcile_def Reconcile_def gl_controller_def GL_NewRequest_def GetSecretData_def)

theorem gl_missing_secret_is_silent_witness:
  "fst (run_state (GL_Reconcile ((sample_services example_gl)\<lparr>Kube := (sample_kube example_gl)
      \<lparr>kube_Secret := (\<lambda>h ns n. Inl (ApiStatus ''NotFound'' ''no secret''))\<rparr>\<rparr>) 5 ''ocm'' ''git'') empty_world) = Ret (Skip None)"
  by (subst gl_missing_secret_is_silent [where obj = example_gl and err = "ApiStatus ''NotFound'' ''no secret''"])
    (simp_all add: sample_services_def sample_kube_def)

section \<open>Runs\<close>

definition gl_differs :: "GitLabIdentityProvider \<Rightarrow> ocm_idp \<Rightarrow> bool" where
  "gl_differs d idp \<longleftrightarrow> GL_Spec (GL_CopyFrom (gl_seed (GL_Spec d) (attr [] idp_MappingMethod (Some idp))) idp) \<noteq> GL_Spec d"

lemma GL_NewRequest_cases:
  assumes "run_state (GL_NewRequest E ns n) w = (Ret (Inr req), w')"
  shows "kube_Get (Kube E) (calls w) ns n = Inr (Original req)" and "Desired req = gl_desired_state (Original req)"
    and "Current req = None"
  using assms by (auto simp: GL_NewRequest_def GetSecretData_def GetConfigMapData_def split: sum.splits if_splits)

lemma GL_NewRequest_calls:
  assumes "run_state (GL_NewRequest E ns n) w = (Ret (Inr req), w')"
  shows "\<exists>x. calls w' = calls w @ KGet ns n # x"
  using assms by (auto simp: GL_NewRequest_def GetSecretData_def GetConfigMapData_def split: sum.splits if_splits option.splits)

abbreviation gl_removal :: "GitLabIdentityProvider services \<Rightarrow> gl_request \<Rightarrow> GitLabIdentityProvider hist \<Rightarrow> GitLabIdentityProvider call \<Rightarrow> bool" where
  "gl_removal E s \<equiv> idp_removal E s (GL_ClusterName (GL_Spec (Desired s))) (GL_ProviderID (Original s))"

lemma wp_GL_Destroy_justified:
  "wp (GL_Destroy E) (\<lambda>out u. justified_after (\<lambda>h c. idp_change c \<longrightarrow> gl_removal E s h c) (req_calls s) u) s"
proof (cases "IsSet (IdentityProviderDeleted (kube_Now (Kube E) (req_calls s))) (Original s)")
  case False
  note delete = wp_idp_delete_justified [OF False, of E "GL_ClusterName (GL_Spec (Desired s))"]
  from False show ?thesis
    unfolding GL_Destroy_def
    by (auto simp: wp_bind wp_get wp_if wp_on_world wp_ClusterExists wp_return split: sum.splits option.splits
        intro!: delete emits justified_afterI)
qed (simp add: GL_Destroy_def wp)

interpretation gl_safe: safe_controller E "gl_controller E interval" idp_change "gl_removal E"
  "\<lambda>r. idp_reason E (GL_DisplayName (GL_Spec (Desired r))) (gl_builder r) (gl_differs (Desired r)) (req_calls r)" for E interval
proof
  fix ns n
  show "emits calls (\<lambda>c. \<not> idp_change c) (NewRequest (gl_controller E interval) ns n)"
    unfolding gl_controller_def by (simp add: GL_NewRequest_def Let_def) (intro emits; simp add: idp_change_def)
next
  fix r t :: gl_request and out
  assume r: "Current r = None" and "run_state (ReconcileCreate (gl_controller E interval)) r = (out, t)"
  then have run: "run_state (GL_ReconcileCreate E interval) r = (out, t)" by (simp add: gl_controller_def)
  show "\<exists>cs. req_calls t = req_calls r @ cs \<and> justified_from (\<lambda>h c. idp_change c \<longrightarrow>
      idp_reason E (GL_DisplayName (GL_Spec (Desired r))) (gl_builder r) (gl_differs (Desired r)) (req_calls r) h c) (req_calls r) cs"
  proof (rule gl_apply.cluster_path_justified [OF r, where late = "drop 3 (gl_create_phases E interval)",
        OF _ _ _ run [unfolded GL_ReconcileCreate_def]])
    fix s u :: gl_request and rest :: "GitLabIdentityProvider hist" and found x c
    assume s: "same_request r s" "req_calls s = req_calls r @ x" "run_state (GL_GetCurrentState E) s = (found, u)" "gl_why E s c"
      "filter idp_change rest = []"
    have "gl_builder s = gl_builder r" "Desired s = Desired r"
      using s(1) by (cases r; cases s; simp add: same_request_def)+
    with s wpD [OF wp_GL_GetCurrentState s(3)]
    show "idp_reason E (GL_DisplayName (GL_Spec (Desired r))) (gl_builder r) (gl_differs (Desired r)) (req_calls r) (req_calls u @ rest) c"
      by (intro idp_reasonI [of s _ x _ "Status_ClusterID (Original s)" rest])
        (auto simp: gl_why_def gl_lookup_def gl_differs_def gl_current_def)
  qed (auto simp: gl_create_phases_def GL_ApplyIdentityProvider_def Let_def intro!: emits)
next
  fix r s :: gl_request and h c x
  assume "same_request r s" and x: "req_calls s = req_calls r @ x"
  then have "gl_builder s = gl_builder r" "Desired s = Desired r" by (cases r; cases s; simp add: same_request_def)+
  moreover assume "idp_reason E (GL_DisplayName (GL_Spec (Desired s))) (gl_builder s) (gl_differs (Desired s)) (req_calls s) h c"
  ultimately show "idp_reason E (GL_DisplayName (GL_Spec (Desired r))) (gl_builder r) (gl_differs (Desired r)) (req_calls r) h c"
    using x by (auto intro: idp_reason_later)
next
  fix r t :: gl_request and out
  assume run: "run_state (ReconcileDelete (gl_controller E interval)) r = (out, t)"
  have "wp (GL_ReconcileDelete E) (\<lambda>out u. justified_after (\<lambda>h c. idp_change c \<longrightarrow> gl_removal E r h c) (req_calls r) u) r"
    unfolding GL_ReconcileDelete_def
    by (rule wp_justified_Execute [OF wp_GL_Destroy_justified, where P = "\<lambda>c. \<not> idp_change c"]) (auto intro!: emits)
  from wpD [OF this] run show "\<exists>cs. req_calls t = req_calls r @ cs \<and>
      justified_from (\<lambda>h c. idp_change c \<longrightarrow> gl_removal E r h c) (req_calls r) cs"
    by (simp add: gl_controller_def justified_after_def)
qed (auto simp: gl_controller_def GL_ReconcileUpdate_def dest: GL_NewRequest_cases)

text \<open>
  C13: in every run of the controller, every change to an identity provider in OCM follows a request \<open>r\<close> for a resource that was read
  before. For a resource that is being deleted the change deletes the recorded provider of the recorded cluster, right after
  OCM has found the cluster and while the deletion is not recorded. For any other resource a provider is added only after OCM,
  asked after the request was made, has listed none of the desired name, or updated only after OCM has listed one that differs from
  the desired state; what is sent is built from the desired state, and nothing was changed since the listing.
\<close>

theorem gl_run_safe:
  assumes "reached (GL_Reconcile E interval) empty_world w" and "calls w = pre @ c # post" and "idp_change c"
  shows "\<exists>h ns n x r rest. pre = h @ KGet ns n # x @ rest \<and> kube_Get (Kube E) h ns n = Inr (Original r) \<and>
    Desired r = gl_desired_state (Original r) \<and> req_calls r = h @ KGet ns n # x \<and>
    (if GetTrigger (Original r) = Delete then \<exists>s. dispatched E r s \<and> gl_removal E s pre c
     else idp_reason E (GL_DisplayName (GL_Spec (Desired r))) (gl_builder r) (gl_differs (Desired r)) (req_calls r) pre c)"
proof -
  from gl_safe.run_safe [OF assms(1) [unfolded GL_Reconcile_def] assms(2,3)] obtain r rest where
    made: "request_made (gl_controller E interval) r" and pre: "pre = req_calls r @ rest"
    and why: "if GetTrigger (Original r) = Delete then \<exists>s. dispatched E r s \<and> gl_removal E s pre c
      else idp_reason E (GL_DisplayName (GL_Spec (Desired r))) (gl_builder r) (gl_differs (Desired r)) (req_calls r) pre c" by blast
  from made obtain ns n v req w' where new: "run_state (GL_NewRequest E ns n) v = (Ret (Inr req), w')"
    and r: "r = req\<lparr>World := w'\<rparr>"
    unfolding request_made_def by (auto simp: gl_controller_def)
  obtain x where x: "req_calls r = calls v @ KGet ns n # x" using GL_NewRequest_calls [OF new] r by auto
  have "kube_Get (Kube E) (calls v) ns n = Inr (Original r)" "Desired r = gl_desired_state (Original r)"
    using GL_NewRequest_cases(1,2) [OF new] r by simp_all
  moreover have "pre = calls v @ KGet ns n # x @ rest" using pre x by simp
  ultimately show ?thesis using why x by blast
qed

text \<open>A provider that is marked for deletion, and an OCM that does not delete it yet.\<close>

definition doomed_gl :: GitLabIdentityProvider where
  "doomed_gl = example_gl\<lparr>DeletionTimestamp := Some 2, Status_Conditions := [Reconciling Delete 0]\<rparr>"

definition gl_failing :: "GitLabIdentityProvider services" where
  "gl_failing = (sample_services doomed_gl)\<lparr>Ocm2 := sample_ocm2\<lparr>ocm_IdpDelete := (\<lambda>h cid i. sdk_error 500 ''down'')\<rparr>\<rparr>"

theorem gl_run_safe_witness:
  "\<exists>w pre c post. reached (GL_Reconcile gl_failing 5) empty_world w \<and> calls w = pre @ c # post \<and> idp_change c \<and>
     (\<exists>h ns n rest cid i. pre = h @ KGet ns n # rest \<and> c = IdpDelete cid i)"
proof -
  have t: "GetTrigger doomed_gl = Delete"
    by (simp add: GetTrigger_def doomed_gl_def example_gl_def)
  have "IsSet (Reconciling Delete 0) doomed_gl" by (simp add: IsSet_iff GetConditions_def doomed_gl_def)
  then have c: "IsSet (Reconciling Delete x) doomed_gl" for x
    unfolding Reconciling_def using IsSet_make_condition by blast
  have d: "\<not> IsSet (IdentityProviderDeleted x) doomed_gl" for x
    by (simp add: IsSet_iff GetConditions_def doomed_gl_def IdentityProviderDeleted_def Reconciling_def make_condition_def)
  have e: "kube_Get (Kube gl_failing) h ns n = Inr doomed_gl" "ocm_IdpDelete (Ocm2 gl_failing) h cid i = sdk_error 500 ''down''" for h ns n cid i
    by (simp_all add: gl_failing_def)
  have l: "cluster_lookup gl_failing h name = Inr (Some sample_cluster)" for h name
    by (simp add: cluster_lookup_def ClusterClient_Get_def gl_failing_def sample_services_def sample_ocm_def sdk_ok_def)
  have "\<exists>req w'. run_state (GL_NewRequest gl_failing ''ocm'' ''x'') empty_world = (Ret (Inr req), w')"
    by (simp add: GL_NewRequest_def GetSecretData_def GetConfigMapData_def gl_failing_def sample_services_def sample_kube_def doomed_gl_def
        example_gl_def zero_GitLab_def LDAPBindPasswordKey_def GitLabClientSecretKey_def empty_world_def)
  then obtain req w' where new: "run_state (GL_NewRequest gl_failing ''ocm'' ''x'') empty_world = (Ret (Inr req), w')" by blast
  have o: "Original req = doomed_gl" using GL_NewRequest_cases(1) [OF new] e(1) by simp
  have "wp (GL_Reconcile gl_failing 5 ''ocm'' ''x'') (\<lambda>out w. filter idp_change (calls w) \<noteq> []) empty_world"
    by (simp add: GL_Reconcile_def Reconcile_def gl_controller_def wp_bind wp_def [of "GL_NewRequest gl_failing ''ocm'' ''x''"] new)
      (simp add: wp Let_def t o dispatch_def condition_Update_def c d GL_ReconcileDelete_def GL_Destroy_def wp_ClusterExists
        IdpClient_Delete_def e l sdk_error_def StatusNotFound_def idp_change_def)
  moreover obtain out w where run: "run_state (GL_Reconcile gl_failing 5 ''ocm'' ''x'') empty_world = (out, w)" by fastforce
  ultimately have "filter idp_change (calls w) \<noteq> []" by (rule wpD)
  then obtain pre c post where w: "calls w = pre @ c # post" "idp_change c"
    by (auto simp: filter_empty_conv in_set_conv_decomp)
  have r: "reached (GL_Reconcile gl_failing 5) empty_world w"
    by (rule reached_step [where R = "GL_Reconcile gl_failing 5", OF reached_start run])
  have "\<exists>h ns n rest cid i. pre = h @ KGet ns n # rest \<and> c = IdpDelete cid i"
    using gl_run_safe [OF r w] e(1) t by (auto simp: idp_removal_def)
  with r w show ?thesis by blast
qed

text \<open>Every addition of a run follows a listing that has shown no provider of that name.\<close>

interpretation gl_unique: unique_additions
  "\<lambda>h. builds_idp_names E \<and> (\<exists>w. reached (GL_Reconcile E interval) empty_world w \<and> calls w = h)" idp_key "idp_absent E" for E interval
proof
  fix pre post c k
  assume run: "builds_idp_names E \<and> (\<exists>w. reached (GL_Reconcile E interval) empty_world w \<and> calls w = pre @ c # post)"
    and k: "idp_key c = Some k"
  then have "idp_change c" using idp_key_change by fastforce
  moreover from run obtain w where "reached (Reconcile E (gl_controller E interval)) empty_world w" "calls w = pre @ c # post"
    by (auto simp: GL_Reconcile_def)
  ultimately obtain r where "if GetTrigger (Original r) = Delete then \<exists>s. dispatched E r s \<and> gl_removal E s pre c
      else idp_reason E (GL_DisplayName (GL_Spec (Desired r))) (gl_builder r) (gl_differs (Desired r)) (req_calls r) pre c"
    using gl_safe.run_safe by blast
  moreover have "\<not> gl_removal E s pre c" for s using k by (auto simp: idp_removal_def)
  moreover have "GL_DisplayName (GL_Spec (Desired r)) = idp_name (gl_builder r)" for r :: gl_request by (simp add: GL_Builder_def Let_def)
  ultimately have "idp_reason E (idp_name (gl_builder r)) (gl_builder r) (gl_differs (Desired r)) (req_calls r) pre c"
    by (auto split: if_splits)
  from idp_reason_looked_up [OF this _ k] run
  show "\<exists>h later. pre = h @ later \<and> idp_absent E k h \<and> (\<forall>d \<in> set later. idp_key d = None)" by blast
qed

text \<open>
  C14: no provider is created twice: if OCM has accepted a provider and lists it until it is deleted, then in every run of the
  controller a second addition of that name to the same cluster comes only after a deletion in that cluster, however often and for
  whatever resources the controller reconciles in between.
\<close>

theorem gl_added_once:
  assumes "reached (GL_Reconcile E interval) empty_world w" and "calls w = h @ IdpAdd cid a # h' @ IdpAdd cid b # post"
    and "idp_name a = idp_name b" and "resp_Err (ocm_IdpAdd (Ocm2 E) h cid a) = None" and "builds_idp_names E" and "lists_idps E"
  shows "\<exists>i. IdpDelete cid i \<in> set h'"
proof -
  have "\<exists>x \<in> set h'. \<exists>i. x = IdpDelete cid i"
    by (rule gl_unique.added_once [of E interval h "IdpAdd cid a" h' "IdpAdd cid b" post "(cid, idp_name b)"])
      (use assms lists_idps_absent [OF assms(6,4)] in auto)
  then show ?thesis by blast
qed

text \<open>A provider that is in its last state when it is reconciled again, and services that make the controller create it twice.\<close>

definition settled_gl :: GitLabIdentityProvider where
  "settled_gl = example_gl\<lparr>GL_CallbackURL := ''url'', Finalizers := [FinalizerName example_gl],
     Status_Conditions := [Reconciling Update 0, UpstreamCluster Create True 0]\<rparr>"

abbreviation gl_again :: "GitLabIdentityProvider services" where
  "gl_again \<equiv> recreating settled_gl doomed_gl"

lemma settled_gl_simps [simp]:
  "Status_ClusterID settled_gl = ''c1''" "GL_CallbackURL settled_gl = ''url''" "GetTrigger settled_gl = Update" "GL_CA (GL_Spec settled_gl) = ''ca-map''"
  "GL_ClientSecret (GL_Spec settled_gl) = ''sec''" "GL_DisplayName (GL_Spec (gl_desired_state settled_gl)) = ''git''"
  "GL_ClusterName (GL_Spec (gl_desired_state settled_gl)) = ''prod''" "HasFinalizer gl_again settled_gl"
  "IsSet (Reconciling Update x) settled_gl" "IsSet (UpstreamCluster Create True x) settled_gl"
  by (simp_all add: settled_gl_def example_gl_def GetTrigger_def gl_desired_state_def Let_def zero_GitLab_def GetConditions_def
    HasFinalizer_def FinalizerName_def IsSet_iff Reconciling_def UpstreamCluster_def make_condition_def cond_content_def)

lemma doomed_gl_simps [simp]:
  "Status_ClusterID doomed_gl = ''c1''" "GetTrigger doomed_gl = Delete" "GL_CA (GL_Spec doomed_gl) = ''ca-map''"
  "GL_ClientSecret (GL_Spec doomed_gl) = ''sec''" "GL_ProviderID doomed_gl = ''i1''"
  "IsSet (Reconciling Delete x) doomed_gl" "\<not> IsSet (IdentityProviderDeleted x) doomed_gl"
  by (simp_all add: doomed_gl_def example_gl_def GetTrigger_def zero_GitLab_def GetConditions_def
    IsSet_iff Reconciling_def IdentityProviderDeleted_def make_condition_def cond_content_def)

lemma run_GL_NewRequest_again:
  assumes "kube_Get (Kube gl_again) (calls w) ns n = Inr obj" and "obj = settled_gl \<or> obj = doomed_gl"
  shows "run_state (GL_NewRequest gl_again ns n) w = (Ret (Inr \<lparr>World = w\<lparr>calls := calls w @ [KGet ns n, KSecretGet ns ''sec'', KConfigMapGet ns ''ca-map'']\<rparr>,
    Original = obj, Desired = gl_desired_state obj, Current = None, Trigger = GetTrigger obj, GL_OCMClient = None,
    GL_RequestClientSecret = ''cs'', GL_RequestCA = ''ca''\<rparr>), w\<lparr>calls := calls w @ [KGet ns n, KSecretGet ns ''sec'', KConfigMapGet ns ''ca-map'']\<rparr>)"
  using assms by (auto simp: GL_NewRequest_def GetSecretData_def GetConfigMapData_def LDAPBindPasswordKey_def
    GitLabClientSecretKey_def LDAPCAKey_def GitLabCAKey_def split: if_splits)

lemma gl_again_adds:
  assumes "fold (store_idp ''c1'') (filter idp_change (calls w)) [] = []" and "kube_Get (Kube gl_again) (calls w) ns n = Inr settled_gl"
  shows "wp (GL_Reconcile gl_again 5 ns n) (\<lambda>out t. \<exists>b. filter idp_change (calls t) = filter idp_change (calls w) @ [IdpAdd ''c1'' b] \<and>
    idp_name b = ''git'') w"
proof -
  let ?r = "\<lparr>World = w\<lparr>calls := calls w @ [KGet ns n, KSecretGet ns ''sec'', KConfigMapGet ns ''ca-map'']\<rparr>, Original = settled_gl,
    Desired = gl_desired_state settled_gl, Current = None, Trigger = Update, GL_OCMClient = None, GL_RequestClientSecret = ''cs'',
    GL_RequestCA = ''ca''\<rparr>"
  have "wp (Execute gl_ops (gl_create_phases gl_again 5)) (\<lambda>out t. \<exists>b. idp_changes t = idp_changes s @ [IdpAdd ''c1'' b] \<and>
      idp_name b = ''git'') s"
    if "Original s = settled_gl" "Desired s = gl_desired_state settled_gl" "Current s = None"
      "fold (store_idp ''c1'') (idp_changes s) [] = []" for s
    using that
    by (simp add: wp gl_create_phases_def HandleClusterPhase_def GetUpstreamCluster_def find_upstream_def condition_Update_def
        sample_ocm_def sdk_ok_def gl_ops_def GL_SetClusterStatus_def GetClusterID_def cluster_State_def sample_cluster_def Let_def
        GL_GetCurrentState_def idp_lookup_def GL_ApplyIdentityProvider_def GL_desired_def IdpClient_Create_def Complete_def
        GL_Builder_def)
  from this [of ?r] assms(1)
  have "wp (GL_ReconcileCreate gl_again 5) (\<lambda>out t. \<exists>b. idp_changes t = filter idp_change (calls w) @ [IdpAdd ''c1'' b] \<and>
      idp_name b = ''git'') ?r"
    by (simp add: GL_ReconcileCreate_def wp wp_AddFinalizer idp_change_def)
  then show ?thesis
    by (simp add: GL_Reconcile_def Reconcile_def gl_controller_def wp wp_def [of "GL_NewRequest gl_again ns n"]
        run_GL_NewRequest_again [OF assms(2)] dispatch_def condition_Update_def Let_def GL_ReconcileUpdate_def)
qed

lemma gl_again_deletes:
  assumes "kube_Get (Kube gl_again) (calls w) ns n = Inr doomed_gl"
  shows "wp (GL_Reconcile gl_again 5 ns n) (\<lambda>out t. filter idp_change (calls t) = filter idp_change (calls w) @ [IdpDelete ''c1'' ''i1'']) w"
proof -
  have "cluster_lookup gl_again h name = Inr (Some sample_cluster)" for h name
    by (simp add: cluster_lookup_def ClusterClient_Get_def sample_ocm_def sdk_ok_def)
  then show ?thesis
    by (simp add: GL_Reconcile_def Reconcile_def gl_controller_def wp wp_def [of "GL_NewRequest gl_again ns n"]
        run_GL_NewRequest_again [OF assms] dispatch_def condition_Update_def Let_def GL_ReconcileDelete_def GL_Destroy_def
        IdpClient_Delete_def sdk_ok_def idp_change_def CompleteDestroy_def wp_RemoveFinalizer)
qed

theorem gl_added_once_witness:
  "\<exists>w h a h' b post. reached (GL_Reconcile gl_again 5) empty_world w \<and>
     calls w = h @ IdpAdd ''c1'' a # h' @ IdpAdd ''c1'' b # post \<and> idp_name a = idp_name b \<and> (\<exists>i. IdpDelete ''c1'' i \<in> set h')"
proof -
  from recreating_run [where R = "GL_Reconcile gl_again 5", OF gl_again_adds gl_again_deletes] obtain w h a h' b post where
    w: "reached (GL_Reconcile gl_again 5) empty_world w" "calls w = h @ IdpAdd ''c1'' a # h' @ IdpAdd ''c1'' b # post"
      "idp_name a = idp_name b" by blast
  have "resp_Err (ocm_IdpAdd (Ocm2 gl_again) h ''c1'' a) = None" by (simp add: sdk_ok_def)
  from gl_added_once [OF w this recreating_relies] w show ?thesis by blast
qed

end
