(* ===== verification/GitLab_Application.thy ===== *)
theory GitLab_Application
  imports OCM_Types
begin

text \<open>
  The client for the applications of a GitLab server (\<^verbatim>\<open>pkg/identityprovider/gitlab.go\<close>). The request of the
  GitLab controller has a field for it, but the phases that used it are commented out in the source,
  so no other theory depends on this one. The GitLab server is a parameter: what it answers is a function of
  the calls made so far. The lemmas show that the search by name is complete, that the comparison is equality up
  to the identifier of the backend object, and that updating an application adds a second one.
\<close>

record gitlab_application =
  app_ID :: int
  app_ApplicationID :: string
  app_ApplicationName :: string
  app_Secret :: string
  app_CallbackURL :: string
  app_Confidential :: bool

datatype gitlab_call =
    ListApplications
  | AddApplication string string string bool

record gitlab_api =
  gitlab_List :: "gitlab_call list \<Rightarrow> go_error + gitlab_application list"
  gitlab_Create :: "gitlab_call list \<Rightarrow> string \<Rightarrow> string \<Rightarrow> string \<Rightarrow> bool \<Rightarrow> go_error + gitlab_application"

section \<open>Operations\<close>

definition ErrMissingApplication :: go_error where
  "ErrMissingApplication = NewError ''unable to find gitlab application''"

definition gitlab_ask :: "gitlab_call \<Rightarrow> (gitlab_call list \<Rightarrow> 'a) \<Rightarrow> (gitlab_call list, 'a) state" where
  "gitlab_ask c answer = State (\<lambda>h. (answer h, h @ [c]))"

fun find_application :: "string \<Rightarrow> gitlab_application list \<Rightarrow> gitlab_application option" where
  "find_application name [] = None"
| "find_application name (app # apps) =
     (if app_ApplicationName app = name then Some app else find_application name apps)"

definition GetApplication ::
    "gitlab_api \<Rightarrow> string \<Rightarrow> (gitlab_call list, go_error + gitlab_application) state" where
  "GetApplication G name = do {
     res \<leftarrow> gitlab_ask ListApplications (gitlab_List G);
     State_Monad.return (case res of
         Inl err \<Rightarrow> Inl (Wrap ''unable to list gitlab applications - '' err)
       | Inr applications \<Rightarrow> (case find_application name applications of
             Some app \<Rightarrow> Inr app
           | None \<Rightarrow> Inl (Wrap (''unable to find gitlab application ['' @ name @ ''] - '') ErrMissingApplication)))
   }"

definition CreateApplication ::
    "gitlab_api \<Rightarrow> string \<Rightarrow> string \<Rightarrow> (gitlab_call list, go_error + gitlab_application) state" where
  "CreateApplication G name callbackURL = do {
     res \<leftarrow> gitlab_ask (AddApplication name callbackURL ''openid'' True)
              (\<lambda>h. gitlab_Create G h name callbackURL ''openid'' True);
     State_Monad.return (case res of
         Inl err \<Rightarrow> Inl (Wrap ''unable to create gitlab application - '' err)
       | Inr application \<Rightarrow> Inr application)
   }"

definition UpdateApplication ::
    "gitlab_api \<Rightarrow> string \<Rightarrow> string \<Rightarrow> (gitlab_call list, go_error + gitlab_application) state" where
  "UpdateApplication G name callbackURL = do {
     res \<leftarrow> gitlab_ask (AddApplication name callbackURL ''openid'' True)
              (\<lambda>h. gitlab_Create G h name callbackURL ''openid'' True);
     State_Monad.return (case res of
         Inl err \<Rightarrow> Inl (Wrap ''unable to create gitlab application - '' err)
       | Inr application \<Rightarrow> Inr application)
   }"

definition EqualGitLab :: "gitlab_application \<Rightarrow> gitlab_application \<Rightarrow> bool" where
  "EqualGitLab compare_app with_app = (compare_app\<lparr>app_ID := app_ID with_app\<rparr> = with_app)"

definition DesiredGitLab :: "string \<Rightarrow> string \<Rightarrow> string \<Rightarrow> string \<Rightarrow> bool \<Rightarrow> gitlab_application" where
  "DesiredGitLab name clientID clientSecret callbackURL confidential =
     \<lparr>app_ID = 0, app_ApplicationID = clientID, app_ApplicationName = name, app_Secret = clientSecret,
      app_CallbackURL = callbackURL, app_Confidential = confidential\<rparr>"

section \<open>Behaviour\<close>

lemma find_application_Some: "find_application name apps = Some app \<Longrightarrow> app \<in> set apps \<and> app_ApplicationName app = name"
  by (induction apps) (auto split: if_splits)

lemma find_application_None: "find_application name apps = None \<longleftrightarrow> name \<notin> app_ApplicationName ` set apps"
  by (induction apps) auto

lemma run_gitlab_ask [simp]: "run_state (gitlab_ask c f) h = (f h, h @ [c])"
  by (simp add: gitlab_ask_def)

text \<open>The search succeeds exactly when an application of the name is listed, and finds one of that name.\<close>

lemma GetApplication_complete:
  assumes "gitlab_List G h = Inr apps"
  shows "(\<exists>app. fst (run_state (GetApplication G name) h) = Inr app) \<longleftrightarrow> name \<in> app_ApplicationName ` set apps"
    and "fst (run_state (GetApplication G name) h) = Inr app \<Longrightarrow> app \<in> set apps \<and> app_ApplicationName app = name"
  using assms
  by (auto simp: GetApplication_def find_application_None [symmetric] dest: find_application_Some split: option.splits)

lemma EqualGitLab_iff:
  "EqualGitLab a b \<longleftrightarrow>
     app_ApplicationID a = app_ApplicationID b \<and> app_ApplicationName a = app_ApplicationName b \<and>
     app_Secret a = app_Secret b \<and> app_CallbackURL a = app_CallbackURL b \<and>
     app_Confidential a = app_Confidential b"
  by (cases a; cases b) (auto simp: EqualGitLab_def)

lemma EqualGitLab_equivp: "equivp EqualGitLab"
  by (intro equivpI reflpI sympI transpI) (auto simp: EqualGitLab_iff)

text \<open>
  On a server that lists what it has created, an update of a listed application leaves two applications of its name.
\<close>

lemma UpdateApplication_duplicates:
  assumes "\<And>h. gitlab_List G h =
      Inr (existing @ concat (map (\<lambda>c. case c of AddApplication n u s conf \<Rightarrow>
        [DesiredGitLab n '''' '''' u conf] | ListApplications \<Rightarrow> []) h))"
    and "app \<in> set existing"
    and "run_state (UpdateApplication G (app_ApplicationName app) url) [] = (out, h')"
  shows "\<exists>apps. gitlab_List G h' = Inr apps \<and> 2 \<le> length (filter (\<lambda>a. app_ApplicationName a = app_ApplicationName app) apps)"
proof -
  have "filter (\<lambda>a. app_ApplicationName a = app_ApplicationName app) existing \<noteq> []"
    using assms(2) by (auto simp: filter_empty_conv)
  then show ?thesis
    using assms(1,3)
    by (cases "filter (\<lambda>a. app_ApplicationName a = app_ApplicationName app) existing")
      (auto simp: UpdateApplication_def DesiredGitLab_def)
qed

end
