(* ===== verification/OCM_STS.thy ===== *)
theory OCM_STS
  imports OCM_Client "HOL-Library.Multiset"
begin

text \<open>
  The OpenShift versions (\<^verbatim>\<open>pkg/ocm/version.go\<close>) and the operator roles (\<^verbatim>\<open>pkg/ocm/sts.go\<close>).

  The list of versions is read page by page in a loop without a bound, so it is a partial function;
  \<open>Diverge\<close> is a call that never returns. A list of the SDK gives a copy of its items
  (\<open>Slice\<close>), so the sort in \<open>GetVersionObject\<close> has no effect on the version it returns. The tag names and the
  functions of the rosa packages, the comparison of versions and \<open>sort.Slice\<close> are parameters.

  Shown here: the paging loop returns once a page is not full; the default version is one of those listed and none of
  them is newer; when the operator roles have been created AWS has confirmed the policy, the role and its
  attachment for every credential request, and when they have been deleted AWS has confirmed the deletion
  of every role it found.
\<close>

section \<open>Versions\<close>

definition ErrVersionNotFound :: go_error where
  "ErrVersionNotFound = NewError ''unable to find version''"

definition ErrVersionsNotFound :: go_error where
  "ErrVersionsNotFound = NewError ''unable to find available versions''"

definition raw_id :: "ocm_version \<Rightarrow> string" where
  "raw_id v = attr '''' ver_RawID (Some v)"

definition version_less :: "rosa_libs \<Rightarrow> ocm_version \<Rightarrow> ocm_version \<Rightarrow> bool" where
  "version_less L v w =
     (if \<not> lib_NewVersion_ok L (raw_id v) \<or> \<not> lib_NewVersion_ok L (raw_id w) then False
      else lib_GreaterThan L (raw_id v) (raw_id w))"

definition sortVersions :: "rosa_libs \<Rightarrow> ocm_version list \<Rightarrow> ocm_version list" where
  "sortVersions L versions = lib_sort_Slice L (version_less L) versions"

definition version_filter :: "string \<Rightarrow> string" where
  "version_filter rawVersion = ''enabled = '' @ quoted ''true'' @ '' AND rosa_enabled = '' @ quoted ''true'' @
     '' AND raw_id = '' @ quoted rawVersion @ '' AND channel_group = '' @ quoted ''stable''"

definition GetVersionObject :: "'o services \<Rightarrow> string \<Rightarrow> ('o world, go_error + ocm_version) state" where
  "GetVersionObject E rawVersion = do {
     res \<leftarrow> invoke (VersionsSearch (version_filter rawVersion))
              (\<lambda>h. ocm_VersionsSearch (Ocm2 E) h (version_filter rawVersion));
     State_Monad.return (case resp_Err res of
         Some err \<Rightarrow> Inl (Wrap ''unable to get versions - '' err)
       | None \<Rightarrow> (case resp_Body res of
             None \<Rightarrow> Inl ErrVersionNotFound
           | Some items \<Rightarrow> if length items = 0 then Inl ErrVersionNotFound else Inr (items ! 0)))
   }"

definition MajorMinorVersion :: "ocm_version option \<Rightarrow> string outcome" where
  "MajorMinorVersion version =
     (let versionSplit = strings_Split (attr '''' ver_RawID version) (CHR ''.'')
      in outcome_bind (go_index versionSplit 0) (\<lambda>major.
         outcome_bind (go_index versionSplit 1) (\<lambda>minor. Ret (major @ ''.'' @ minor))))"

definition available_filter :: string where
  "available_filter = ''enabled = '' @ quoted ''true'' @ '' AND rosa_enabled = '' @ quoted ''true'' @
     '' AND channel_group = '' @ quoted ''stable'' @ '' AND default = '' @ quoted ''true''"

definition page_size :: int where
  "page_size = 100"

text \<open>The decimal digits of a page number, for the error message.\<close>

fun show_digits :: "nat \<Rightarrow> string" where
  "show_digits n = (if n < 10 then [char_of (48 + n)] else show_digits (n div 10) @ [char_of (48 + n mod 10)])"

declare show_digits.simps [simp del]

partial_function (option) versions_loop ::
    "'o services \<Rightarrow> nat \<Rightarrow> ocm_version list \<Rightarrow> 'o world \<Rightarrow> ((go_error + ocm_version list) \<times> 'o world) option" where
  "versions_loop E page versions w =
     (case run_state (invoke (VersionsPage available_filter (int page) page_size)
         (\<lambda>h. ocm_VersionsPage (Ocm2 E) h available_filter (int page) page_size)) w of
        (response, w1) \<Rightarrow>
          (case resp_Err response of
             Some err \<Rightarrow> Some (Inl (Wrap (''unable to list versions at page ['' @ show_digits page @ ''] - '') err), w1)
           | None \<Rightarrow>
               (case (case resp_Body response of None \<Rightarrow> ([], 0) | Some b \<Rightarrow> b) of
                  (items, reported) \<Rightarrow>
                    if reported < page_size then Some (Inr (versions @ items), w1)
                    else versions_loop E (page + 1) (versions @ items) w1)))"

definition GetAvailableVersions ::
    "'o services \<Rightarrow> ('o world, (go_error + ocm_version list) outcome) state" where
  "GetAvailableVersions E = State (\<lambda>w.
     case versions_loop E 1 [] w of
       None \<Rightarrow> (Diverge, w)
     | Some (Inl err, w') \<Rightarrow> (Ret (Inl err), w')
     | Some (Inr versions, w') \<Rightarrow> (Ret (Inr (sortVersions (Rosa E) versions)), w'))"

text \<open>The items of a list of the SDK are never nil, so the test of the first one for nil always holds.\<close>

definition GetDefaultVersion :: "'o services \<Rightarrow> ('o world, (go_error + ocm_version) outcome) state" where
  "GetDefaultVersion E = do {
     res \<leftarrow> GetAvailableVersions E;
     State_Monad.return (case res of
         Panic m \<Rightarrow> Panic m
       | Diverge \<Rightarrow> Diverge
       | Ret (Inl err) \<Rightarrow> Ret (Inl (Wrap ''unable to get available versions - '' err))
       | Ret (Inr response) \<Rightarrow> Ret (if length response > 0 then Inr (response ! 0) else Inl ErrVersionsNotFound))
   }"

section \<open>Operator roles\<close>

definition operatorRolesPolicyType :: string where
  "operatorRolesPolicyType = ''OperatorRole''"

definition ErrCredentialRequestsEmpty :: go_error where
  "ErrCredentialRequestsEmpty = NewError ''unable to retrieve credential requests; empty response''"

definition ErrPolicyARNEmpty :: go_error where
  "ErrPolicyARNEmpty = NewError ''unable to find policy arn''"

text \<open>The two prepared SDK requests of a client are given by its other fields.\<close>

record STSClient =
  sts_Prefix :: string
  sts_AccountID :: string
  sts_HostedControlPlane :: bool
  sts_OIDCEndpointURL :: string
  sts_ManagedPolicies :: bool

record STSCredentialRequest =
  scr_ID :: string
  scr_Namespace :: string
  scr_Operator :: "ocm_sts_operator option"
  scr_RoleARN :: string

definition NewSTSClient :: "bool \<Rightarrow> bool \<Rightarrow> string \<Rightarrow> string \<Rightarrow> string \<Rightarrow> STSClient" where
  "NewSTSClient hostedControlPlane managedPolicies pre accountID oidcEndpointURL =
     \<lparr>sts_Prefix = pre, sts_AccountID = accountID, sts_HostedControlPlane = hostedControlPlane,
      sts_OIDCEndpointURL = oidcEndpointURL, sts_ManagedPolicies = managedPolicies\<rparr>"

fun credential_requests ::
    "'o services \<Rightarrow> STSClient \<Rightarrow> ocm_credential_request list \<Rightarrow> go_error + STSCredentialRequest list" where
  "credential_requests E c [] = Inr []"
| "credential_requests E c (req # reqs) =
     (let ident = attr '''' cr_Name (Some req);
          namespace = attr '''' op_Namespace (cr_Operator req);
          name = attr '''' op_Name (cr_Operator req)
      in case lib_BuildRole (Lib E) ident namespace
             (GetOperatorRoleArn (Rosa E) name namespace (sts_AccountID c) (sts_Prefix c)) of
           Inl err \<Rightarrow> Inl (Wrap ''unable to build iam operator roles - '' err)
         | Inr role \<Rightarrow> (case credential_requests E c reqs of
               Inl err \<Rightarrow> Inl err
             | Inr rest \<Rightarrow> Inr (\<lparr>scr_ID = ident, scr_Namespace = namespace, scr_Operator = cr_Operator req,
                              scr_RoleARN = role\<rparr> # rest)))"

definition GetCredentialRequests ::
    "'o services \<Rightarrow> STSClient \<Rightarrow> ('o world, go_error + STSCredentialRequest list) state" where
  "GetCredentialRequests E c = do {
     res \<leftarrow> invoke (StsCredentialRequests (sts_HostedControlPlane c))
              (\<lambda>h. ocm_CredentialRequests (Ocm2 E) h (sts_HostedControlPlane c));
     State_Monad.return (case resp_Err res of
         Some err \<Rightarrow> Inl (Wrap ''error retrieving sts credential requests - '' err)
       | None \<Rightarrow> (let items = (case resp_Body res of None \<Rightarrow> [] | Some xs \<Rightarrow> xs)
                 in if length items = 0 then Inl ErrCredentialRequestsEmpty else credential_requests E c items))
   }"

fun getPolicyARNByID :: "string \<Rightarrow> ocm_sts_policy list \<Rightarrow> string" where
  "getPolicyARNByID i [] = ''''"
| "getPolicyARNByID i (policy # existing) =
     (if attr '''' pol_ID (Some policy) = i then attr '''' pol_ARN (Some policy) else getPolicyARNByID i existing)"

fun getPolicyDetails :: "string \<Rightarrow> ocm_sts_policy list \<Rightarrow> string" where
  "getPolicyDetails i [] = ''''"
| "getPolicyDetails i (policy # existing) =
     (if attr '''' pol_ID (Some policy) = i then attr '''' pol_Details (Some policy) else getPolicyDetails i existing)"

definition role_tags :: "rosa_libs \<Rightarrow> STSClient \<Rightarrow> string \<Rightarrow> STSCredentialRequest \<Rightarrow> go_map" where
  "role_tags L c version req =
     (let t0 = fmupd (lib_tag_OpenShiftVersion L) version (fmupd (lib_tag_RolePrefix L) (sts_Prefix c)
            (fmupd (lib_tag_RedHatManaged L) (lib_True L) (fmupd (lib_tag_OperatorName L) (attr '''' op_Name (scr_Operator req))
            (fmupd (lib_tag_OperatorNamespace L) (scr_Namespace req) fmempty))));
          t1 = (if sts_ManagedPolicies c then fmupd (lib_tag_ManagedPolicies L) (lib_True L) t0 else t0);
          t2 = (if sts_HostedControlPlane c then fmupd (lib_tag_HypershiftPolicies L) (lib_True L) t1 else t1)
      in Some t2)"

text \<open>The policy of a request: found among the managed ones, or made sure to exist.\<close>

definition ensure_policy ::
    "'o services \<Rightarrow> string \<Rightarrow> STSClient \<Rightarrow> ocm_sts_policy list \<Rightarrow> string \<Rightarrow> STSCredentialRequest \<Rightarrow>
     ('o world, go_error + string) state" where
  "ensure_policy E region c policies version req =
     (let policyID = lib_GetOperatorPolicyKey (Rosa E) (scr_ID req) False
      in if sts_ManagedPolicies c then
           State_Monad.return (if getPolicyARNByID policyID policies = ''''
             then Inl (Wrap (''error retrieving policy id ['' @ policyID @ ''] - '') ErrPolicyARNEmpty)
             else Inr (getPolicyARNByID policyID policies))
         else do {
           let policyARN = lib_GetOperatorPolicyARN (Rosa E) (sts_AccountID c) (sts_Prefix c) (scr_Namespace req) (scr_ID req) '''';
           let details = getPolicyDetails policyID policies;
           let tags = role_tags (Rosa E) c version req;
           res \<leftarrow> invoke (AwsEnsurePolicy region policyARN details version tags)
                    (\<lambda>h. aws_EnsurePolicy (Aws E) h region policyARN details version tags);
           State_Monad.return (case res of
               Inl err \<Rightarrow> Inl (Wrap (''unable to create policy ['' @ policyID @ ''] - '') err)
             | Inr _ \<Rightarrow> Inr policyARN)
         })"

definition create_role ::
    "'o services \<Rightarrow> string \<Rightarrow> STSClient \<Rightarrow> ocm_sts_policy list \<Rightarrow> string \<Rightarrow> STSCredentialRequest \<Rightarrow>
     ('o world, go_error option) state" where
  "create_role E region c policies version req =
     (case lib_GetResourceIdFromARN (Rosa E) (scr_RoleARN req) of
        (roleName, err) \<Rightarrow>
          if err \<noteq> None \<or> roleName = ''''
          then State_Monad.return (Some (wrap_nilable (''unable to find role name from role arn ['' @ scr_RoleARN req @ ''] - '') err))
          else do {
            res \<leftarrow> ensure_policy E region c policies version req;
            (case res of
               Inl err \<Rightarrow> State_Monad.return (Some err)
             | Inr policyARN \<Rightarrow>
                 (case lib_GenerateRolePolicy (Rosa E) (sts_OIDCEndpointURL c) (sts_AccountID c) (scr_Operator req)
                     (getPolicyDetails ''operator_iam_role_policy'' policies) of
                    Inl err \<Rightarrow> State_Monad.return (Some (Wrap ''error retrieving iam role policy details - '' err))
                  | Inr policy \<Rightarrow> do {
                      let tags = role_tags (Rosa E) c version req;
                      role \<leftarrow> invoke (AwsEnsureRole region roleName policy tags (sts_ManagedPolicies c))
                        (\<lambda>h. aws_EnsureRole (Aws E) h region roleName policy tags (sts_ManagedPolicies c));
                      (case role of
                         Inl err \<Rightarrow> State_Monad.return (Some (Wrap (''unable to create aws iam role ['' @ roleName @ ''] - '') err))
                       | Inr _ \<Rightarrow> do {
                           attachErr \<leftarrow> invoke (AwsAttachRolePolicy region roleName policyARN)
                             (\<lambda>h. aws_AttachRolePolicy (Aws E) h region roleName policyARN);
                           State_Monad.return (map_option (Wrap (''unable to attach iam policy ['' @ policyARN @
                             ''] to iam role ['' @ roleName @ ''] - '')) attachErr)
                         })
                    }))
          })"

fun create_roles ::
    "'o services \<Rightarrow> string \<Rightarrow> STSClient \<Rightarrow> ocm_sts_policy list \<Rightarrow> string \<Rightarrow> STSCredentialRequest list \<Rightarrow>
     ('o world, go_error option) state" where
  "create_roles E region c policies version [] = State_Monad.return None"
| "create_roles E region c policies version (req # reqs) = do {
     err \<leftarrow> create_role E region c policies version req;
     (case err of Some e \<Rightarrow> State_Monad.return (Some e) | None \<Rightarrow> create_roles E region c policies version reqs)
   }"

definition policy_filter :: string where
  "policy_filter = ''policy_type = '' @ quoted operatorRolesPolicyType"

definition CreateOperatorRoles ::
    "'o services \<Rightarrow> string \<Rightarrow> STSClient \<Rightarrow> ocm_version option \<Rightarrow> STSCredentialRequest list \<Rightarrow>
     ('o world, go_error option outcome) state" where
  "CreateOperatorRoles E region c ver requests = do {
     res \<leftarrow> invoke (StsPolicies policy_filter) (\<lambda>h. ocm_Policies (Ocm2 E) h policy_filter);
     (case resp_Err res of
        Some err \<Rightarrow> State_Monad.return (Ret (Some (Wrap ''unable to retrieve sts policies - '' err)))
      | None \<Rightarrow> do {
          let policies = (case resp_Body res of None \<Rightarrow> [] | Some xs \<Rightarrow> xs);
          (case MajorMinorVersion ver of
             Panic m \<Rightarrow> State_Monad.return (Panic m)
           | Diverge \<Rightarrow> State_Monad.return Diverge
           | Ret version \<Rightarrow> do {
               err \<leftarrow> create_roles E region c policies version requests;
               State_Monad.return (Ret err)
             })
        })
   }"

fun delete_roles :: "'o services \<Rightarrow> string \<Rightarrow> STSClient \<Rightarrow> string list \<Rightarrow> ('o world, go_error option) state" where
  "delete_roles E region c [] = State_Monad.return None"
| "delete_roles E region c (role # roles) = do {
     err \<leftarrow> invoke (AwsDeleteOperatorRole region role (sts_ManagedPolicies c))
              (\<lambda>h. aws_DeleteOperatorRole (Aws E) h region role (sts_ManagedPolicies c));
     (case err of
        Some e \<Rightarrow> State_Monad.return (Some (Wrap (''unable to delete role ['' @ role @ ''] - '') e))
      | None \<Rightarrow> delete_roles E region c roles)
   }"

definition requests_map :: "STSCredentialRequest list \<Rightarrow> (string, ocm_sts_operator option) fmap" where
  "requests_map requests = fold (\<lambda>r m. fmupd (scr_ID r) (scr_Operator r) m) requests fmempty"

definition DeleteOperatorRoles ::
    "'o services \<Rightarrow> string \<Rightarrow> STSClient \<Rightarrow> STSCredentialRequest list \<Rightarrow> ('o world, go_error option) state" where
  "DeleteOperatorRoles E region c requests = do {
     let requestsMap = requests_map requests;
     res \<leftarrow> invoke (AwsGetOperatorRoles region (sts_Prefix c) requestsMap)
              (\<lambda>h. aws_GetOperatorRoles (Aws E) h region (sts_Prefix c) requestsMap);
     (case res of
        Inl err \<Rightarrow> State_Monad.return (Some (Wrap ''unable to retrieve operator roles - '' err))
      | Inr operatorRoles \<Rightarrow>
          if length operatorRoles = 0 then State_Monad.return None else delete_roles E region c operatorRoles)
   }"

section \<open>Lemmas: versions\<close>

text \<open>The body of a page, as the SDK reads it.\<close>

definition page_body :: "(ocm_version list \<times> int) sdk_response \<Rightarrow> ocm_version list \<times> int" where
  "page_body response = (case resp_Body response of None \<Rightarrow> ([], 0) | Some b \<Rightarrow> b)"

text \<open>An account whose list of versions has \<open>k\<close> pages, all full but the last one.\<close>

definition version_pages :: "'o services \<Rightarrow> (nat \<Rightarrow> ocm_version list \<times> int) \<Rightarrow> nat \<Rightarrow> bool" where
  "version_pages E pages k \<longleftrightarrow> 1 \<le> k \<and> snd (pages k) < page_size \<and> (\<forall>p < k. 1 \<le> p \<longrightarrow> page_size \<le> snd (pages p)) \<and>
     (\<forall>h p. 1 \<le> p \<and> p \<le> k \<longrightarrow> ocm_VersionsPage (Ocm2 E) h available_filter (int p) page_size = sdk_ok (pages p))"

definition page_calls :: "nat \<Rightarrow> nat \<Rightarrow> 'o call list" where
  "page_calls p k = map (\<lambda>q. VersionsPage available_filter (int q) page_size) [p..<Suc k]"

lemma versions_loop_pages:
  assumes "version_pages E pages k" and "1 \<le> p" and "p \<le> k"
  shows "versions_loop E p vs w = Some (Inr (vs @ concat (map (\<lambda>q. fst (pages q)) [p..<Suc k])),
    w\<lparr>calls := calls w @ page_calls p k\<rparr>)"
  using assms(2,3)
proof (induction "k - p" arbitrary: p vs w)
  case 0
  then have "p = k" by simp
  with assms(1) 0 show ?case
    by (subst versions_loop.simps) (auto simp: version_pages_def sdk_ok_def page_calls_def split: prod.splits)
next
  case (Suc d)
  then have lt: "p < k" by simp
  let ?w = "w\<lparr>calls := calls w @ [VersionsPage available_filter (int p) page_size]\<rparr>"
  have "versions_loop E p vs w = versions_loop E (p + 1) (vs @ fst (pages p)) ?w"
    using assms(1) lt Suc.prems by (subst versions_loop.simps) (auto simp: version_pages_def sdk_ok_def split: prod.splits)
  also have "\<dots> = Some (Inr ((vs @ fst (pages p)) @ concat (map (\<lambda>q. fst (pages q)) [p + 1..<Suc k])),
      ?w\<lparr>calls := calls ?w @ page_calls (p + 1) k\<rparr>)"
    using Suc by (intro Suc.hyps(1)) auto
  also have "[p..<Suc k] = p # [p + 1..<Suc k]" using lt by (simp add: upt_rec)
  then have "(vs @ fst (pages p)) @ concat (map (\<lambda>q. fst (pages q)) [p + 1..<Suc k]) =
      vs @ concat (map (\<lambda>q. fst (pages q)) [p..<Suc k])"
    and "calls ?w @ page_calls (p + 1) k = calls w @ page_calls p k"
    by (simp_all add: page_calls_def)
  then have "Some (Inr ((vs @ fst (pages p)) @ concat (map (\<lambda>q. fst (pages q)) [p + 1..<Suc k])),
      ?w\<lparr>calls := calls ?w @ page_calls (p + 1) k\<rparr>) =
    Some (Inr (vs @ concat (map (\<lambda>q. fst (pages q)) [p..<Suc k])), w\<lparr>calls := calls w @ page_calls p k\<rparr>)" by simp
  finally show ?case .
qed

text \<open>What \<open>sort.Slice\<close> promises for a strict weak order.\<close>

definition strict_weak :: "('a \<Rightarrow> 'a \<Rightarrow> bool) \<Rightarrow> 'a set \<Rightarrow> bool" where
  "strict_weak lt A \<longleftrightarrow> (\<forall>x\<in>A. \<not> lt x x) \<and> (\<forall>x\<in>A. \<forall>y\<in>A. \<forall>z\<in>A. lt x y \<longrightarrow> lt y z \<longrightarrow> lt x z) \<and>
     (\<forall>x\<in>A. \<forall>y\<in>A. \<forall>z\<in>A. \<not> lt x y \<longrightarrow> \<not> lt y z \<longrightarrow> \<not> lt x z)"

definition sorts :: "((ocm_version \<Rightarrow> ocm_version \<Rightarrow> bool) \<Rightarrow> ocm_version list \<Rightarrow> ocm_version list) \<Rightarrow> bool" where
  "sorts by_less \<longleftrightarrow> (\<forall>lt xs. mset (by_less lt xs) = mset xs \<and>
     (strict_weak lt (set xs) \<longrightarrow> sorted_wrt (\<lambda>x y. \<not> lt y x) (by_less lt xs)))"

lemma mset_newest_first: "mset (newest_first lt x ys) = add_mset x (mset ys)"
  by (induction ys) auto

lemma strict_weakD:
  assumes "strict_weak lt A" "x \<in> A" "y \<in> A" "z \<in> A"
  shows "\<not> lt x x" "lt x y \<Longrightarrow> lt y z \<Longrightarrow> lt x z" "\<not> lt x y \<Longrightarrow> \<not> lt y z \<Longrightarrow> \<not> lt x z"
  using assms unfolding strict_weak_def by blast+

lemma sorted_newest_first:
  assumes "strict_weak lt A" "set (x # ys) \<subseteq> A" "sorted_wrt (\<lambda>x y. \<not> lt y x) ys"
  shows "sorted_wrt (\<lambda>x y. \<not> lt y x) (newest_first lt x ys)"
  using assms(2,3)
proof (induction ys)
  case (Cons y ys)
  note sw = strict_weakD [OF assms(1)]
  have "set_mset (mset (newest_first lt x ys)) = insert x (set ys)" by (simp add: mset_newest_first)
  then have els: "set (newest_first lt x ys) = insert x (set ys)" by simp
  show ?case
  proof (cases "lt y x")
    case True
    then have "\<not> lt x y" using sw(1) [of x x x] sw(2) [of x y x] Cons.prems by auto
    with True Cons els show ?thesis by auto
  next
    case False
    have "\<not> lt u x" if "u \<in> set ys" for u
      using sw(3) [of u y x] Cons.prems that False by auto
    with False Cons.prems show ?thesis by auto
  qed
qed simp

lemma insertion_sorts: "sorts (\<lambda>lt xs. foldr (newest_first lt) xs [])"
proof -
  have m: "mset (foldr (newest_first lt) xs []) = mset xs" for lt xs
    by (induction xs) (auto simp: mset_newest_first)
  have "sorted_wrt (\<lambda>x y. \<not> lt y x) (foldr (newest_first lt) xs [])" if "strict_weak lt A" "set xs \<subseteq> A" for lt xs A
    using that(2)
  proof (induction xs)
    case (Cons x xs)
    have "set (foldr (newest_first lt) xs []) = set xs" using m by (metis mset_eq_setD)
    with Cons sorted_newest_first [OF that(1), of x "foldr (newest_first lt) xs []"] show ?case by auto
  qed simp
  with m show ?thesis by (auto simp: sorts_def)
qed

section \<open>Lemmas: roles\<close>

lemma versions_loop_emits:
  assumes "\<And>f p n. P (VersionsPage f p n)" and "versions_loop E page vs w = Some x"
  shows "\<exists>cs. calls (snd x) = calls w @ cs \<and> list_all P cs"
proof (rule versions_loop.raw_induct [OF _ assms(2)])
  fix loop :: "'a services \<Rightarrow> nat \<Rightarrow> ocm_version list \<Rightarrow> 'a world \<Rightarrow> ((go_error + ocm_version list) \<times> 'a world) option"
  fix E :: "'a services" and page vs and w :: "'a world" and x
  let ?w = "w\<lparr>calls := calls w @ [VersionsPage available_filter (int page) page_size]\<rparr>"
  assume hyp: "\<And>E page vs w y. loop E page vs w = Some y \<Longrightarrow> \<exists>cs. calls (snd y) = calls w @ cs \<and> list_all P cs"
  assume "(case run_state (invoke (VersionsPage available_filter (int page) page_size)
         (\<lambda>h. ocm_VersionsPage (Ocm2 E) h available_filter (int page) page_size)) w of
        (response, w1) \<Rightarrow>
          (case resp_Err response of
             None \<Rightarrow> (case (case resp_Body response of None \<Rightarrow> ([], 0) | Some b \<Rightarrow> b) of
                  (items, reported) \<Rightarrow>
                    if reported < page_size then Some (Inr (vs @ items), w1)
                    else loop E (page + 1) (vs @ items) w1)
           | Some err \<Rightarrow> Some (Inl (Wrap (''unable to list versions at page ['' @ show_digits page @ ''] - '') err), w1))) = Some x"
  then have "snd x = ?w \<or> (\<exists>us. loop E (page + 1) us ?w = Some x)"
    by (auto split: option.splits prod.splits if_splits)
  then have "calls (snd x) = calls ?w \<or> (\<exists>cs. calls (snd x) = calls ?w @ cs \<and> list_all P cs)"
    using hyp by (metis (no_types))
  then show "\<exists>cs. calls (snd x) = calls w @ cs \<and> list_all P cs" using assms(1) by auto
qed

lemma emits_versions [emits]:
  assumes "\<And>f p n. P (VersionsPage f p n)"
  shows "emits calls P (GetDefaultVersion E)"
proof -
  have "emits calls P (GetAvailableVersions E)"
    unfolding emits_def GetAvailableVersions_def
    using versions_loop_emits [of P E 1 "[]", OF assms] by (fastforce split: option.splits sum.splits)
  then show ?thesis unfolding GetDefaultVersion_def by (intro emits)
qed

lemma emits_GetVersionObject [emits]: "(\<And>f. P (VersionsSearch f)) \<Longrightarrow> emits calls P (GetVersionObject E v)"
  unfolding GetVersionObject_def by (intro emits) auto

lemma emits_ensure_policy [emits]:
  "(\<And>a d v t. P (AwsEnsurePolicy region a d v t)) \<Longrightarrow> emits calls P (ensure_policy E region c ps v req)"
  unfolding ensure_policy_def Let_def by (intro emits) auto

lemma emits_create_role [emits]:
  assumes "\<And>a d v t. P (AwsEnsurePolicy region a d v t)" "\<And>n p t m. P (AwsEnsureRole region n p t m)"
    "\<And>n a. P (AwsAttachRolePolicy region n a)"
  shows "emits calls P (create_role E region c ps v req)"
  unfolding create_role_def Let_def using assms by (intro emits) auto

lemma emits_create_roles [emits]:
  assumes "\<And>a d v t. P (AwsEnsurePolicy region a d v t)" "\<And>n p t m. P (AwsEnsureRole region n p t m)"
    "\<And>n a. P (AwsAttachRolePolicy region n a)"
  shows "emits calls P (create_roles E region c ps v reqs)"
  using assms by (induction reqs) (auto intro!: emits)

lemma emits_CreateOperatorRoles [emits]:
  assumes "\<And>a d v t. P (AwsEnsurePolicy region a d v t)" "\<And>n p t m. P (AwsEnsureRole region n p t m)"
    "\<And>n a. P (AwsAttachRolePolicy region n a)" "P (StsPolicies policy_filter)"
  shows "emits calls P (CreateOperatorRoles E region c ver reqs)"
  unfolding CreateOperatorRoles_def Let_def using assms by (intro emits) auto

lemma emits_GetCredentialRequests [emits]:
  "(\<And>b. P (StsCredentialRequests b)) \<Longrightarrow> emits calls P (GetCredentialRequests E c)"
  unfolding GetCredentialRequests_def by (intro emits)

lemma emits_delete_roles [emits]:
  "(\<And>r m. P (AwsDeleteOperatorRole region r m)) \<Longrightarrow> emits calls P (delete_roles E region c roles)"
  by (induction roles) (auto intro!: emits)

lemma emits_DeleteOperatorRoles [emits]:
  assumes "\<And>r m. P (AwsDeleteOperatorRole region r m)" "\<And>p m. P (AwsGetOperatorRoles region p m)"
  shows "emits calls P (DeleteOperatorRoles E region c reqs)"
  unfolding DeleteOperatorRoles_def Let_def using assms by (intro emits) auto

text \<open>
  The policy of a request after the history \<open>h\<close>: the managed policy that OCM lists for its key, or the
  policy of the account, which AWS has just confirmed to exist.
\<close>

definition policy_ready ::
    "'o services \<Rightarrow> string \<Rightarrow> STSClient \<Rightarrow> ocm_sts_policy list \<Rightarrow> string \<Rightarrow> 'o hist \<Rightarrow> STSCredentialRequest \<Rightarrow> string \<Rightarrow> bool" where
  "policy_ready E region c policies version h req arn \<longleftrightarrow>
     (let key = lib_GetOperatorPolicyKey (Rosa E) (scr_ID req) False
      in if sts_ManagedPolicies c then arn = getPolicyARNByID key policies \<and> arn \<noteq> ''''
         else arn = lib_GetOperatorPolicyARN (Rosa E) (sts_AccountID c) (sts_Prefix c) (scr_Namespace req) (scr_ID req) '''' \<and>
           (\<exists>g x. h = g @ [AwsEnsurePolicy region arn (getPolicyDetails key policies) version (role_tags (Rosa E) c version req)] \<and>
              aws_EnsurePolicy (Aws E) g region arn (getPolicyDetails key policies) version (role_tags (Rosa E) c version req) = Inr x))"

text \<open>
  In the history \<open>h\<close> a request got its role: its policy was ready, AWS confirmed the role with the generated
  trust policy and the tags of the request, and AWS confirmed the policy attached to it.
\<close>

definition role_made ::
    "'o services \<Rightarrow> string \<Rightarrow> STSClient \<Rightarrow> ocm_sts_policy list \<Rightarrow> string \<Rightarrow> 'o hist \<Rightarrow> STSCredentialRequest \<Rightarrow> bool" where
  "role_made E region c policies version h req \<longleftrightarrow> (\<exists>name trust arn pre post x.
     let tags = role_tags (Rosa E) c version req;
         ensured = AwsEnsureRole region name trust tags (sts_ManagedPolicies c)
     in lib_GetResourceIdFromARN (Rosa E) (scr_RoleARN req) = (name, None) \<and> name \<noteq> '''' \<and>
        lib_GenerateRolePolicy (Rosa E) (sts_OIDCEndpointURL c) (sts_AccountID c) (scr_Operator req)
          (getPolicyDetails ''operator_iam_role_policy'' policies) = Inr trust \<and>
        h = pre @ ensured # AwsAttachRolePolicy region name arn # post \<and>
        policy_ready E region c policies version pre req arn \<and>
        aws_EnsureRole (Aws E) pre region name trust tags (sts_ManagedPolicies c) = Inr x \<and>
        aws_AttachRolePolicy (Aws E) (pre @ [ensured]) region name arn = None)"

lemma role_made_append: "role_made E region c ps v h req \<Longrightarrow> role_made E region c ps v (h @ cs) req"
  unfolding role_made_def Let_def by fastforce

lemma wp_ensure_policy:
  "wp (ensure_policy E region c ps v req) (\<lambda>res w'. \<forall>arn. res = Inr arn \<longrightarrow> policy_ready E region c ps v (calls w') req arn) w"
  by (auto simp: ensure_policy_def policy_ready_def wp Let_def split: sum.splits)

lemma wp_create_role:
  "wp (create_role E region c ps v req) (\<lambda>e w'. e = None \<longrightarrow> role_made E region c ps v (calls w') req) w"
proof (cases "lib_GetResourceIdFromARN (Rosa E) (scr_RoleARN req)")
  case (Pair name err)
  show ?thesis
  proof (cases "err \<noteq> None \<or> name = ''''")
    case True
    with Pair show ?thesis by (simp add: create_role_def wp)
  next
    case False
    then show ?thesis
      unfolding create_role_def Pair prod.case
      by (simp add: wp_bind, intro wp_mono [OF wp_ensure_policy])
         (auto simp: wp Let_def role_made_def Pair split: sum.splits)
  qed
qed

lemma wp_create_roles:
  "wp (create_roles E region c ps v reqs) (\<lambda>e w'. e = None \<longrightarrow> (\<forall>req \<in> set reqs. role_made E region c ps v (calls w') req)) w"
proof (induction reqs arbitrary: w)
  case (Cons req reqs)
  show ?case
    unfolding create_roles.simps wp_bind
  proof (rule wp_mono [OF wp_create_role], goal_cases)
    case (1 e u)
    show ?case
    proof (cases e)
      case None
      have "emits calls (\<lambda>c. True) (create_roles E region c ps v reqs)" by (intro emits) simp_all
      then have "wp (create_roles E region c ps v reqs) (\<lambda>e w'. \<exists>cs. calls w' = calls u @ cs) u"
        by (auto simp: wp_def emits_def split: prod.splits) (metis snd_conv)
      then have "wp (create_roles E region c ps v reqs) (\<lambda>e w'. (\<exists>cs. calls w' = calls u @ cs) \<and>
          (e = None \<longrightarrow> (\<forall>req \<in> set reqs. role_made E region c ps v (calls w') req))) u"
        using Cons.IH by (simp add: wp_conj)
      then show ?thesis using None 1 by (auto elim!: wp_mono intro: role_made_append)
    qed (simp add: wp)
  qed
qed (simp add: wp)

text \<open>AWS confirmed the deletion of every one of the roles, which were deleted one after the other from the history \<open>h\<close>.\<close>

definition deletions_confirmed :: "'o services \<Rightarrow> string \<Rightarrow> bool \<Rightarrow> 'o hist \<Rightarrow> string list \<Rightarrow> bool" where
  "deletions_confirmed E region managed h roles \<longleftrightarrow> (\<forall>i < length roles.
     aws_DeleteOperatorRole (Aws E) (h @ map (\<lambda>role. AwsDeleteOperatorRole region role managed) (take i roles))
       region (roles ! i) managed = None)"

lemma deletions_confirmed_Cons:
  "deletions_confirmed E region m h (r # roles) \<longleftrightarrow> aws_DeleteOperatorRole (Aws E) h region r m = None \<and>
     deletions_confirmed E region m (h @ [AwsDeleteOperatorRole region r m]) roles"
  by (auto simp: deletions_confirmed_def less_Suc_eq_0_disj)

lemma wp_delete_roles:
  "wp (delete_roles E region c roles) (\<lambda>e w'. e = None \<longrightarrow>
     deletions_confirmed E region (sts_ManagedPolicies c) (calls w) roles \<and>
     calls w' = calls w @ map (\<lambda>r. AwsDeleteOperatorRole region r (sts_ManagedPolicies c)) roles) w"
proof (induction roles arbitrary: w)
  case Nil
  show ?case by (simp add: wp deletions_confirmed_def)
next
  case (Cons r roles)
  let ?m = "sts_ManagedPolicies c"
  let ?w = "w\<lparr>calls := calls w @ [AwsDeleteOperatorRole region r ?m]\<rparr>"
  have "wp (delete_roles E region c roles) (\<lambda>e w'. e = None \<longrightarrow>
      deletions_confirmed E region ?m (calls w) (r # roles) \<and>
      calls w' = calls w @ map (\<lambda>r. AwsDeleteOperatorRole region r ?m) (r # roles)) ?w"
    if "aws_DeleteOperatorRole (Aws E) (calls w) region r ?m = None"
    by (rule wp_mono [OF Cons.IH]) (simp add: that deletions_confirmed_Cons)
  then show ?case by (simp add: wp split: option.splits)
qed

lemma wp_DeleteOperatorRoles:
  "wp (DeleteOperatorRoles E region c requests) (\<lambda>e w'. e = None \<longrightarrow> (\<exists>roles.
     let listed = AwsGetOperatorRoles region (sts_Prefix c) (requests_map requests)
     in aws_GetOperatorRoles (Aws E) (calls w) region (sts_Prefix c) (requests_map requests) = Inr roles \<and>
        deletions_confirmed E region (sts_ManagedPolicies c) (calls w @ [listed]) roles \<and>
        calls w' = calls w @ listed # map (\<lambda>role. AwsDeleteOperatorRole region role (sts_ManagedPolicies c)) roles)) w"
proof (cases "aws_GetOperatorRoles (Aws E) (calls w) region (sts_Prefix c) (requests_map requests)")
  case (Inr roles)
  let ?w = "w\<lparr>calls := calls w @ [AwsGetOperatorRoles region (sts_Prefix c) (requests_map requests)]\<rparr>"
  from Inr wp_delete_roles [of E region c roles ?w] show ?thesis
    by (cases roles) (auto simp: DeleteOperatorRoles_def wp Let_def deletions_confirmed_def elim!: wp_mono)
qed (simp add: DeleteOperatorRoles_def wp Let_def)

section \<open>Properties\<close>

text \<open>
  C19: the paging loop ends and misses nothing: for a list of \<open>k\<close> pages that are full but for the last one,
  it asks for the pages 1 to \<open>k\<close> once each, in order, and returns all their versions, sorted.
\<close>

theorem available_versions_all_pages:
  assumes "version_pages E pages k"
  shows "run_state (GetAvailableVersions E) w =
    (Ret (Inr (sortVersions (Rosa E) (concat (map (\<lambda>q. fst (pages q)) [1..<Suc k])))),
     w\<lparr>calls := calls w @ map (\<lambda>q. VersionsPage available_filter (int q) page_size) [1..<Suc k]\<rparr>)"
  using versions_loop_pages [OF assms, of 1] assms
  by (simp add: GetAvailableVersions_def version_pages_def page_calls_def)

text \<open>Two pages, the first of them full.\<close>

definition two_pages :: "'o services \<Rightarrow> 'o services" where
  "two_pages E = E\<lparr>Ocm2 := (Ocm2 E)\<lparr>ocm_VersionsPage := (\<lambda>h f p n.
     sdk_ok (if p = 1 then ([\<lparr>ver_ID = Some ''a'', ver_RawID = Some ''4.12''\<rparr>], 100)
             else ([\<lparr>ver_ID = Some ''b'', ver_RawID = Some ''4.13.1''\<rparr>], 1)))\<rparr>\<rparr>"

theorem available_versions_all_pages_witness:
  "length (calls (snd (run_state (GetAvailableVersions (two_pages (sample_services example_pool))) empty_world))) = 2"
proof -
  let ?p = "\<lambda>p. if p = 1 then ([\<lparr>ver_ID = Some ''a'', ver_RawID = Some ''4.12''\<rparr>], 100)
             else ([\<lparr>ver_ID = Some ''b'', ver_RawID = Some ''4.13.1''\<rparr>], 1 :: int)"
  have "version_pages (two_pages (sample_services example_pool)) ?p 2"
    by (auto simp: version_pages_def two_pages_def page_size_def)
  from available_versions_all_pages [OF this] show ?thesis by (simp add: empty_world_def)
qed

text \<open>
  C20: the default version is one of the versions that were listed, and none of those is newer, provided
  that \<open>sort.Slice\<close> sorts and that the comparison of the listed versions is a strict weak order.
\<close>

theorem default_version_newest:
  assumes "sorts (lib_sort_Slice (Rosa E))" and "versions_loop E 1 [] w = Some (Inr versions, w1)"
    and "strict_weak (version_less (Rosa E)) (set versions)"
    and "run_state (GetDefaultVersion E) w = (Ret (Inr v), w')"
  shows "v \<in> set versions \<and> (\<forall>u \<in> set versions. \<not> version_less (Rosa E) u v)"
proof -
  let ?s = "sortVersions (Rosa E) versions"
  have s: "set ?s = set versions" "sorted_wrt (\<lambda>x y. \<not> version_less (Rosa E) y x) ?s"
    using assms(1,3) unfolding sorts_def sortVersions_def by (metis mset_eq_setD, blast)
  from assms(2,4) have v: "?s \<noteq> []" "v = hd ?s"
    by (auto simp: GetDefaultVersion_def GetAvailableVersions_def hd_conv_nth split: if_splits)
  then obtain us where us: "?s = v # us" by (metis list.collapse)
  moreover from s(1) us assms(3) have "\<not> version_less (Rosa E) v v" by (auto simp: strict_weak_def)
  ultimately show ?thesis using s by auto
qed

theorem default_version_newest_witness:
  "\<exists>v w'. run_state (GetDefaultVersion (two_pages (sample_services example_pool))) empty_world = (Ret (Inr v), w') \<and>
     v = \<lparr>ver_ID = Some ''b'', ver_RawID = Some ''4.13.1''\<rparr>"
proof -
  let ?E = "two_pages (sample_services example_pool)"
  let ?a = "\<lparr>ver_ID = Some ''a'', ver_RawID = Some ''4.12''\<rparr>" and ?b = "\<lparr>ver_ID = Some ''b'', ver_RawID = Some ''4.13.1''\<rparr>"
  have srt: "sorts (lib_sort_Slice (Rosa ?E))"
    using insertion_sorts by (simp add: two_pages_def sample_rosa_def)
  have "\<exists>w1. versions_loop ?E 1 [] empty_world = Some (Inr [?a, ?b], w1)"
    by (subst versions_loop.simps, simp, subst versions_loop.simps) (simp add: two_pages_def sdk_ok_def page_size_def)
  then obtain w1 where loop: "versions_loop ?E 1 [] empty_world = Some (Inr [?a, ?b], w1)" ..
  have order: "strict_weak (version_less (Rosa ?E)) (set [?a, ?b])" and less: "version_less (Rosa ?E) ?b ?a"
    by (auto simp: strict_weak_def version_less_def two_pages_def sample_rosa_def raw_id_def)
  have "length (sortVersions (Rosa ?E) [?a, ?b]) = 2"
    using srt unfolding sorts_def sortVersions_def by (metis length_Cons list.size(3) numeral_2_eq_2 size_mset)
  then have "\<exists>v w'. run_state (GetDefaultVersion ?E) empty_world = (Ret (Inr v), w')"
    using loop by (simp add: GetDefaultVersion_def GetAvailableVersions_def)
  then obtain v w' where run: "run_state (GetDefaultVersion ?E) empty_world = (Ret (Inr v), w')" by blast
  from default_version_newest [OF srt loop order run] less have "v = ?b" by auto
  with run show ?thesis by blast
qed

text \<open>
  C17: if the creation of the operator roles succeeds, OCM has listed the policies and every credential request
  has its role: its policy is the managed one that OCM lists or has been confirmed by AWS, AWS has confirmed
  the role named by its ARN, with the generated trust policy and the request's tags, and right after that
  AWS has confirmed that this very policy is attached to it.
\<close>

theorem operator_roles_complete:
  assumes "run_state (CreateOperatorRoles E region c ver requests) w = (Ret None, w')"
    and "listed = ocm_Policies (Ocm2 E) (calls w) policy_filter"
  shows "resp_Err listed = None \<and> (\<exists>version. MajorMinorVersion ver = Ret version \<and>
    (\<forall>req \<in> set requests.
       role_made E region c (case resp_Body listed of None \<Rightarrow> [] | Some xs \<Rightarrow> xs) version (calls w') req))"
proof -
  have "wp (CreateOperatorRoles E region c ver requests) (\<lambda>out w'. out = Ret None \<longrightarrow>
      resp_Err listed = None \<and> (\<exists>version. MajorMinorVersion ver = Ret version \<and> (\<forall>req \<in> set requests.
        role_made E region c (case resp_Body listed of None \<Rightarrow> [] | Some xs \<Rightarrow> xs) version (calls w') req))) w"
    unfolding CreateOperatorRoles_def assms(2)
    by (auto simp: wp Let_def intro!: wp_mono [OF wp_create_roles] split: option.splits outcome.splits)
  from wpD [OF this assms(1)] show ?thesis by simp
qed

theorem operator_roles_complete_witness:
  "\<exists>w'. run_state (CreateOperatorRoles (sample_services example_pool) ''us-east-1''
      (NewSTSClient False False ''p'' ''123'' ''https://issuer'') (Some \<lparr>ver_ID = None, ver_RawID = Some ''4.12.1''\<rparr>)
      [\<lparr>scr_ID = ''r1'', scr_Namespace = ''ns'', scr_Operator = None, scr_RoleARN = ''arn:aws:iam::123:role/p-ns-op''\<rparr>]) empty_world =
    (Ret None, w') \<and> (\<exists>policies. role_made (sample_services example_pool) ''us-east-1''
      (NewSTSClient False False ''p'' ''123'' ''https://issuer'') policies ''4.12'' (calls w')
      \<lparr>scr_ID = ''r1'', scr_Namespace = ''ns'', scr_Operator = None, scr_RoleARN = ''arn:aws:iam::123:role/p-ns-op''\<rparr>)"
proof -
  let ?req = "\<lparr>scr_ID = ''r1'', scr_Namespace = ''ns'', scr_Operator = None, scr_RoleARN = ''arn:aws:iam::123:role/p-ns-op''\<rparr>"
  let ?ver = "Some \<lparr>ver_ID = None, ver_RawID = Some ''4.12.1''\<rparr>"
  have version: "MajorMinorVersion ?ver = Ret ''4.12''" by (simp add: MajorMinorVersion_def go_index_def)
  have "\<exists>w'. run_state (CreateOperatorRoles (sample_services example_pool) ''us-east-1''
      (NewSTSClient False False ''p'' ''123'' ''https://issuer'') ?ver [?req]) empty_world = (Ret None, w')"
    by (simp add: CreateOperatorRoles_def sample_ocm2_def sdk_ok_def version create_role_def
        sample_rosa_def ensure_policy_def NewSTSClient_def sample_aws_def Let_def)
  then show ?thesis using operator_roles_complete [OF _ refl] version by fastforce
qed

text \<open>
  C18: if the deletion of the operator roles succeeds, exactly the roles that AWS found for the prefix have been
  deleted, in order and each one once, and AWS has confirmed every one of these deletions.
\<close>

theorem operator_roles_deleted:
  assumes "run_state (DeleteOperatorRoles E region c requests) w = (None, w')"
    and "listed = AwsGetOperatorRoles region (sts_Prefix c) (requests_map requests)"
  shows "\<exists>roles. aws_GetOperatorRoles (Aws E) (calls w) region (sts_Prefix c) (requests_map requests) = Inr roles \<and>
    calls w' = calls w @ listed # map (\<lambda>role. AwsDeleteOperatorRole region role (sts_ManagedPolicies c)) roles \<and>
    deletions_confirmed E region (sts_ManagedPolicies c) (calls w @ [listed]) roles"
  using wpD [OF wp_DeleteOperatorRoles assms(1)] assms(2) by (simp add: Let_def) blast

theorem operator_roles_deleted_witness:
  "AwsDeleteOperatorRole ''us-east-1'' ''role1'' False \<in> set (calls (snd (run_state
     (DeleteOperatorRoles (sample_services example_pool) ''us-east-1'' (NewSTSClient False False ''p'' ''123'' '''') []) empty_world)))"
proof -
  let ?c = "NewSTSClient False False ''p'' ''123'' ''''"
  have "\<exists>w'. run_state (DeleteOperatorRoles (sample_services example_pool) ''us-east-1'' ?c []) empty_world = (None, w')"
    by (simp add: DeleteOperatorRoles_def sample_aws_def)
  then obtain w' where run: "run_state (DeleteOperatorRoles (sample_services example_pool) ''us-east-1'' ?c []) empty_world = (None, w')" ..
  from operator_roles_deleted [OF run refl] run show ?thesis
    by (auto simp: sample_aws_def NewSTSClient_def)
qed

end
