(* ===== verification/ROSA_Controller.thy ===== *)
theory ROSA_Controller
  imports Runs OCM_STS
begin

text \<open>
  The ROSA cluster controller (\<^verbatim>\<open>controllers/reconcilers/rosacluster\<close>): the request with the choice of the
  version and of the operator role prefix, the creation and update of a cluster with its OIDC provider and operator
  roles, the phases and the reconciliation functions. Its request extends the common one with the OCM client (by the
  cluster name it looks for), the cluster and the version. The AWS client belongs to the controller and is kept in
  the world (\<open>aws_client\<close>); it is created once, by the first reconciliation.

  Several functions patch the status relative to a copy of the object that they took at their start,
  so the base of a patch is an argument of \<open>patch_original\<close>.

  What the create path does is shown in \<open>ROSA_Create\<close>, what the delete path does in \<open>ROSA_Delete\<close>.
\<close>

section \<open>Programs that may panic\<close>

definition and_then ::
    "('s, 'a outcome) state \<Rightarrow> ('a \<Rightarrow> ('s, 'b outcome) state) \<Rightarrow> ('s, 'b outcome) state" where
  "and_then m f = do {
     x \<leftarrow> m;
     (case x of Ret a \<Rightarrow> f a | Panic e \<Rightarrow> State_Monad.return (Panic e) | Diverge \<Rightarrow> State_Monad.return Diverge)
   }"

section \<open>Requests\<close>

record rosa_request = "ROSACluster request" +
  RR_OCMClient :: "string option"
  RR_Cluster :: "ocm_cluster option"
  RR_Version :: "ocm_version option"

definition defaultClusterRequeue :: int where
  "defaultClusterRequeue = 30 * Second"

definition defaultClusterRequeueHostedPostProvision :: int where
  "defaultClusterRequeueHostedPostProvision = 60 * Second"

definition defaultClusterRequeueClassicPostProvision :: int where
  "defaultClusterRequeueClassicPostProvision = 300 * Second"

definition rosa_ops :: "rosa_request request_ops" where
  "rosa_ops = \<lparr>DefaultRequeue = (\<lambda>req. defaultClusterRequeue),
     GetName = (\<lambda>req. RC_DisplayName (RC_Spec (Desired req)))\<rparr>"

definition provisionRequeueTime :: "rosa_request \<Rightarrow> int" where
  "provisionRequeueTime req =
     (if RC_HostedControlPlane (RC_Spec (Desired req)) then defaultClusterRequeueHostedPostProvision
      else defaultClusterRequeueClassicPostProvision)"

text \<open>The client of the controller; a method call on a nil client panics.\<close>

definition with_aws :: "(string \<Rightarrow> (rosa_request, 'a outcome) state) \<Rightarrow> (rosa_request, 'a outcome) state" where
  "with_aws f = do {
     req \<leftarrow> State_Monad.get;
     (case aws_client (World req) of
        None \<Rightarrow> State_Monad.return (Panic nil_dereference)
      | Some region \<Rightarrow> f region)
   }"

section \<open>The version\<close>

definition set_spec_version :: "string \<Rightarrow> rosa_request \<Rightarrow> rosa_request" where
  "set_spec_version v req =
     req\<lparr>Desired := (Desired req)\<lparr>RC_Spec := (RC_Spec (Desired req))\<lparr>RC_OpenShiftVersion := v\<rparr>\<rparr>\<rparr>"

text \<open>The first part of \<open>setVersion\<close>: the version that the spec, the status or the default asks for.\<close>

definition choose_version :: "ROSACluster services \<Rightarrow> (rosa_request, go_error option outcome) state" where
  "choose_version E = do {
     req \<leftarrow> State_Monad.get;
     (if RC_OpenShiftVersion (RC_Spec (Desired req)) \<noteq> '''' then State_Monad.return (Ret None)
      else if RC_StatusOpenShiftVersion (Desired req) = '''' then
        and_then (on_world (GetDefaultVersion E)) (\<lambda>res.
          (case res of
             Inl err \<Rightarrow> State_Monad.return (Ret (Some (Wrap ''unable to retrieve default version - '' err)))
           | Inr version \<Rightarrow> do {
               modify (set_spec_version (raw_id version));
               modify (\<lambda>r. r\<lparr>RR_Version := Some version\<rparr>);
               State_Monad.return (Ret None)
             }))
      else do {
        modify (set_spec_version (RC_StatusOpenShiftVersion (Desired req)));
        State_Monad.return (Ret None)
      })
   }"

text \<open>Its second part: the version object is looked up, unless it is the default one, and recorded in the status once.\<close>

definition record_version :: "ROSACluster services \<Rightarrow> (rosa_request, go_error option outcome) state" where
  "record_version E = do {
     req \<leftarrow> State_Monad.get;
     res \<leftarrow> (case RR_Version req of
         Some version \<Rightarrow> State_Monad.return (Inr version)
       | None \<Rightarrow> on_world (GetVersionObject E (RC_OpenShiftVersion (RC_Spec (Desired req)))));
     (case res of
        Inl err \<Rightarrow> State_Monad.return (Ret (Some (Wrap (''found invalid version ['' @
          RC_OpenShiftVersion (RC_Spec (Desired req)) @ ''] - '') err)))
      | Inr version \<Rightarrow> do {
          modify (\<lambda>r. r\<lparr>RR_Version := Some version\<rparr>);
          (if RC_OpenShiftVersionID (Original req) = '''' then do {
             modify (\<lambda>r. r\<lparr>Original := (Original r)\<lparr>
               RC_StatusOpenShiftVersion := RC_OpenShiftVersion (RC_Spec (Desired r)),
               RC_OpenShiftVersionID := attr '''' ver_ID (Some version)\<rparr>\<rparr>);
             err \<leftarrow> patch_original E (Original req);
             State_Monad.return (Ret (map_option (Wrap ''unable to update status operatorRolesCreated=true - '') err))
           } else State_Monad.return (Ret None))
        })
   }"

definition setVersion :: "ROSACluster services \<Rightarrow> (rosa_request, go_error option outcome) state" where
  "setVersion E = and_then (choose_version E) (\<lambda>chosen.
     (case chosen of
        Some err \<Rightarrow> State_Monad.return (Ret (Some err))
      | None \<Rightarrow> record_version E))"

section \<open>New requests\<close>

definition set_prefix :: "string \<Rightarrow> ROSACluster \<Rightarrow> ROSACluster" where
  "set_prefix p c = c\<lparr>RC_Spec := (RC_Spec c)\<lparr>RC_IAM := (RC_IAM (RC_Spec c))\<lparr>OperatorRolesPrefix := p\<rparr>\<rparr>\<rparr>"

text \<open>
  The prefix of the operator roles: from the status, or from the spec, or generated; a new one is stored in the
  status. Returned are the original as it is after the patch and the prefix.
\<close>

definition roles_prefix ::
    "ROSACluster services \<Rightarrow> ROSACluster \<Rightarrow> ROSACluster \<Rightarrow>
     (ROSACluster world, (go_error + ROSACluster \<times> string) outcome) state" where
  "roles_prefix E original desired =
     (if RC_OperatorRolesPrefix original \<noteq> ''''
      then State_Monad.return (Ret (Inr (original, RC_OperatorRolesPrefix original)))
      else and_then
        (if OperatorRolesPrefix (RC_IAM (RC_Spec desired)) = ''''
         then asks (\<lambda>w. GetOperatorRolesPrefixForCluster E (calls w) (RC_DisplayName (RC_Spec desired)))
         else State_Monad.return (Ret (OperatorRolesPrefix (RC_IAM (RC_Spec desired)))))
        (\<lambda>p. do {
           (obj, err) \<leftarrow> PatchStatus E original (original\<lparr>RC_OperatorRolesPrefix := p\<rparr>);
           State_Monad.return (Ret (case err of
               Some e \<Rightarrow> Inl (Wrap ''unable to update status operatorRolesCreated=true - '' e)
             | None \<Rightarrow> Inr (obj, p)))
         }))"

text \<open>The desired state: the display name is defaulted, the prefix set, and without subnets the network is defaulted.\<close>

definition default_display_name :: "ROSACluster \<Rightarrow> ROSACluster" where
  "default_display_name original =
     (if RC_DisplayName (RC_Spec original) = ''''
      then original\<lparr>RC_Spec := (RC_Spec original)\<lparr>RC_DisplayName := Name original\<rparr>\<rparr> else original)"

definition rosa_desired_state :: "string \<Rightarrow> ROSACluster \<Rightarrow> ROSACluster" where
  "rosa_desired_state p desired =
     (let d = set_prefix p desired in if \<not> HasSubnets d then SetNetworkDefaults d else d)"

definition RC_NewRequest ::
    "ROSACluster services \<Rightarrow> string \<Rightarrow> string \<Rightarrow> (ROSACluster world, (go_error + rosa_request) outcome) state" where
  "RC_NewRequest E namespace name = do {
     res \<leftarrow> invoke (KGet namespace name) (\<lambda>h. kube_Get (Kube E) h namespace name);
     (case res of
        Inl err \<Rightarrow> State_Monad.return (Ret (Inl
          (if \<not> IsNotFound err then Wrap ''unable to fetch cluster object - '' err else err)))
      | Inr original \<Rightarrow> do {
          and_then (roles_prefix E original (default_display_name original)) (\<lambda>pre.
            (case pre of
               Inl err \<Rightarrow> State_Monad.return (Ret (Inl err))
             | Inr (original', p) \<Rightarrow> do {
                 w \<leftarrow> State_Monad.get;
                 let req = \<lparr>World = w, Original = original', Desired = rosa_desired_state p (default_display_name original), Current = None,
                   Trigger = GetTrigger original', RR_OCMClient = None, RR_Cluster = None, RR_Version = None\<rparr>;
                 let versioned = run_state (setVersion E) req;
                 State_Monad.set (World (snd versioned));
                 State_Monad.return (case fst versioned of
                     Panic m \<Rightarrow> Panic m
                   | Diverge \<Rightarrow> Diverge
                   | Ret (Some err) \<Rightarrow> Ret (Inl (Wrap ''unable to determine openshift version - '' err))
                   | Ret None \<Rightarrow> Ret (Inr (snd versioned)))
               }))
        })
   }"

section \<open>The desired state\<close>

definition tags_match :: "go_map \<Rightarrow> go_map \<Rightarrow> bool" where
  "tags_match wanted current =
     (case wanted of None \<Rightarrow> True | Some f \<Rightarrow> fmpred (\<lambda>k v. map_get current k = v) f)"

text \<open>\<open>desired()\<close> copies the account, and then the tags, into the current state before it compares.\<close>

definition RC_desired :: "(rosa_request, bool) state" where
  "RC_desired = do {
     req \<leftarrow> State_Monad.get;
     (case Current req of
        None \<Rightarrow> State_Monad.return False
      | Some cur \<Rightarrow> do {
          let spec1 = (RC_Spec cur)\<lparr>RC_AccountID := RC_AccountID (RC_Spec (Desired req))\<rparr>;
          modify (\<lambda>r. r\<lparr>Current := Some (cur\<lparr>RC_Spec := spec1\<rparr>)\<rparr>);
          (if \<not> tags_match (RC_Tags (RC_Spec (Desired req))) (RC_Tags spec1) then State_Monad.return False
           else do {
             let spec2 = spec1\<lparr>RC_Tags := RC_Tags (RC_Spec (Desired req))\<rparr>;
             modify (\<lambda>r. r\<lparr>Current := Some (cur\<lparr>RC_Spec := spec2\<rparr>)\<rparr>);
             State_Monad.return (RC_Spec (Desired req) = spec2)
           })
        })
   }"


section \<open>OIDC and operator roles\<close>

text \<open>
  \<open>ensureOIDCProvider\<close>: the configuration in OCM and then the provider in AWS, each only if the status does not
  record it yet. Both patches have as base the copy of the object taken at the start.
\<close>

definition ensure_oidc_config ::
    "ROSACluster services \<Rightarrow> ROSACluster \<Rightarrow> (rosa_request, go_error + ocm_oidc_config option) state" where
  "ensure_oidc_config E original = do {
     req \<leftarrow> State_Monad.get;
     (if RC_OIDCConfigID (Original req) = '''' then do {
        res \<leftarrow> on_world (OidcClient_Create E);
        (case res of
           Inl err \<Rightarrow> State_Monad.return (Inl (Wrap ''unable to create oidc config - '' err))
         | Inr config \<Rightarrow> do {
             modify (\<lambda>r. r\<lparr>Original := (Original r)\<lparr>RC_OIDCConfigID := attr '''' oidc_ID config\<rparr>\<rparr>);
             err \<leftarrow> patch_original E original;
             State_Monad.return (case err of
                 Some e \<Rightarrow> Inl (Wrap (''unable to update status oidcConfigID='' @ attr '''' oidc_ID config @ '' - '') e)
               | None \<Rightarrow> Inr config)
           })
      } else do {
        res \<leftarrow> on_world (OidcClient_Get E (RC_OIDCConfigID (Original req)));
        State_Monad.return (case res of
            Inl err \<Rightarrow> Inl (Wrap (''unable to get oidc config ['' @ RC_OIDCConfigID (Original req) @ ''] - '') err)
          | Inr config \<Rightarrow> Inr config)
      })
   }"

definition ensure_oidc_provider ::
    "ROSACluster services \<Rightarrow> ROSACluster \<Rightarrow> ocm_oidc_config option \<Rightarrow> (rosa_request, go_error option outcome) state" where
  "ensure_oidc_provider E original config = do {
     req \<leftarrow> State_Monad.get;
     (if RC_OIDCProviderARN (Original req) = '''' then
        and_then (with_aws (\<lambda>region. on_world (CreateOIDCProvider E region (attr '''' oidc_IssuerUrl config)))) (\<lambda>res.
          (case res of
             Inl err \<Rightarrow> State_Monad.return (Ret (Some (Wrap ''unable to create oidc provider - '' err)))
           | Inr providerARN \<Rightarrow> do {
               modify (\<lambda>r. r\<lparr>Original := (Original r)\<lparr>RC_OIDCProviderARN := providerARN\<rparr>\<rparr>);
               err \<leftarrow> patch_original E original;
               State_Monad.return (Ret (map_option
                 (Wrap (''unable to update status oidcProviderARN='' @ providerARN @ '' - '')) err))
             }))
      else State_Monad.return (Ret None))
   }"

definition ensureOIDCProvider ::
    "ROSACluster services \<Rightarrow> (rosa_request, (go_error + ocm_oidc_config option) outcome) state" where
  "ensureOIDCProvider E = do {
     req \<leftarrow> State_Monad.get;
     res \<leftarrow> ensure_oidc_config E (Original req);
     (case res of
        Inl err \<Rightarrow> State_Monad.return (Ret (Inl err))
      | Inr config \<Rightarrow> and_then (ensure_oidc_provider E (Original req) config) (\<lambda>err.
          State_Monad.return (Ret (case err of Some e \<Rightarrow> Inl e | None \<Rightarrow> Inr config))))
   }"

definition rosa_sts_client :: "rosa_request \<Rightarrow> string \<Rightarrow> STSClient" where
  "rosa_sts_client req issuerURL =
     NewSTSClient (RC_HostedControlPlane (RC_Spec (Desired req))) (EnableManagedPolicies (RC_IAM (RC_Spec (Desired req))))
       (OperatorRolesPrefix (RC_IAM (RC_Spec (Desired req)))) (RC_AccountID (RC_Spec (Desired req))) issuerURL"

definition createOperatorRoles ::
    "ROSACluster services \<Rightarrow> ocm_oidc_config option \<Rightarrow> (rosa_request, go_error option outcome) state" where
  "createOperatorRoles E oidc = do {
     req \<leftarrow> State_Monad.get;
     let stsClient = rosa_sts_client req (attr '''' oidc_IssuerUrl oidc);
     res \<leftarrow> on_world (GetCredentialRequests E stsClient);
     (case res of
        Inl err \<Rightarrow> State_Monad.return (Ret (Some (Wrap ''unable to retrieve sts credential requests - '' err)))
      | Inr requests \<Rightarrow>
          and_then (with_aws (\<lambda>region. on_world (CreateOperatorRoles E region stsClient (RR_Version req) requests))) (\<lambda>err.
            (case err of
               Some e \<Rightarrow> State_Monad.return (Ret (Some (Wrap ''unable to create operator roles - '' e)))
             | None \<Rightarrow> do {
                 r1 \<leftarrow> State_Monad.get;
                 modify (\<lambda>r. r\<lparr>Original := (Original r)\<lparr>RC_OperatorRolesCreated := True\<rparr>\<rparr>);
                 err \<leftarrow> patch_original E (Original r1);
                 State_Monad.return (Ret (map_option (Wrap ''unable to update status operatorRolesCreated=true - '') err))
               })))
   }"

definition destroyOperatorRoles :: "ROSACluster services \<Rightarrow> (rosa_request, go_error option outcome) state" where
  "destroyOperatorRoles E = do {
     req \<leftarrow> State_Monad.get;
     let stsClient = rosa_sts_client req '''';
     res \<leftarrow> on_world (GetCredentialRequests E stsClient);
     (case res of
        Inl err \<Rightarrow> State_Monad.return (Ret (Some (Wrap ''unable to retrieve sts credential requests - '' err)))
      | Inr requests \<Rightarrow>
          with_aws (\<lambda>region. do {
            err \<leftarrow> on_world (DeleteOperatorRoles E region stsClient requests);
            State_Monad.return (Ret (map_option (Wrap ''unable to delete operator roles - '') err))
          }))
   }"

section \<open>Creating and updating the cluster\<close>

definition subnet_zones :: "ROSACluster services \<Rightarrow> (rosa_request, (go_error + string list) outcome) state" where
  "subnet_zones E = do {
     req \<leftarrow> State_Monad.get;
     (if HasSubnets (Desired req) then
        with_aws (\<lambda>region. do {
          res \<leftarrow> on_world (GetAvailabilityZonesBySubnet E region
            (case Subnets (RC_Network (RC_Spec (Desired req))) of None \<Rightarrow> [] | Some ss \<Rightarrow> ss));
          State_Monad.return (Ret (case res of
              Inl err \<Rightarrow> Inl (Wrap ''unable to retrieve availability zones from provided subnets - '' err)
            | Inr zones \<Rightarrow> Inr zones))
        })
      else State_Monad.return (Ret (Inr [])))
   }"

text \<open>A request of the OCM client of the request: a nil client panics once the object has been built.\<close>

definition with_ocm ::
    "ROSACluster services \<Rightarrow> ocm_cluster \<Rightarrow> (ROSACluster world, 'a) state \<Rightarrow> (rosa_request, 'a outcome) state" where
  "with_ocm E builder m = do {
     req \<leftarrow> State_Monad.get;
     (if RR_OCMClient req = None \<and> \<not> isl (lib_BuildCluster (Lib E) builder)
      then State_Monad.return (Panic nil_dereference)
      else do { res \<leftarrow> on_world m; State_Monad.return (Ret res) })
   }"

definition rosa_builder ::
    "ROSACluster services \<Rightarrow> rosa_request \<Rightarrow> ocm_oidc_config option \<Rightarrow> string list \<Rightarrow> ocm_cluster" where
  "rosa_builder E req oidc zones =
     RC_Builder (lib_Unique (Lib E)) (Desired req) oidc (RC_OpenShiftVersionID (Original req)) zones"

definition create_in_ocm ::
    "ROSACluster services \<Rightarrow> ROSACluster \<Rightarrow> ocm_oidc_config option \<Rightarrow> string list \<Rightarrow>
     (rosa_request, go_error option outcome) state" where
  "create_in_ocm E original oidc zones = do {
     req \<leftarrow> State_Monad.get;
     let builder = rosa_builder E req oidc zones;
     and_then (with_ocm E builder (ClusterClient_Create E builder)) (\<lambda>res.
       (case res of
          Inl err \<Rightarrow> State_Monad.return (Ret (Some (Wrap ''unable to create rosa cluster in ocm - '' err)))
        | Inr cluster \<Rightarrow> do {
            modify (\<lambda>r. r\<lparr>Original := (Original r)\<lparr>Status_ClusterID := attr '''' cl_ID cluster\<rparr>, RR_Cluster := cluster\<rparr>);
            err \<leftarrow> patch_original E original;
            State_Monad.return (Ret (map_option
              (Wrap (''unable to update status providerID='' @ attr '''' cl_ID cluster @ '' - '')) err))
          }))
   }"

text \<open>The part of \<open>createCluster\<close> that follows the OIDC objects; \<open>original\<close> is the copy taken at its start.\<close>

definition create_with_oidc ::
    "ROSACluster services \<Rightarrow> ROSACluster \<Rightarrow> ocm_oidc_config option \<Rightarrow> (rosa_request, go_error option outcome) state" where
  "create_with_oidc E original oidc = do {
     req \<leftarrow> State_Monad.get;
     and_then (if \<not> RC_OperatorRolesCreated (Original req) then createOperatorRoles E oidc
               else State_Monad.return (Ret None)) (\<lambda>rolesErr.
       (case rolesErr of
          Some err \<Rightarrow> State_Monad.return (Ret (Some err))
        | None \<Rightarrow> and_then (subnet_zones E) (\<lambda>zonesRes.
            (case zonesRes of
               Inl err \<Rightarrow> State_Monad.return (Ret (Some err))
             | Inr zones \<Rightarrow> create_in_ocm E original oidc zones))))
   }"

definition createCluster :: "ROSACluster services \<Rightarrow> (rosa_request, go_error option outcome) state" where
  "createCluster E = do {
     req \<leftarrow> State_Monad.get;
     let original = Original req;
     and_then (ensureOIDCProvider E) (\<lambda>res.
       (case res of
          Inl err \<Rightarrow> State_Monad.return (Ret (Some err))
        | Inr oidc \<Rightarrow> create_with_oidc E original oidc))
   }"

definition updateCluster :: "ROSACluster services \<Rightarrow> (rosa_request, go_error option outcome) state" where
  "updateCluster E = do {
     req \<leftarrow> State_Monad.get;
     res \<leftarrow> on_world (OidcClient_Get E (RC_OIDCConfigID (Original req)));
     (case res of
        Inl err \<Rightarrow> State_Monad.return (Ret (Some (Wrap ''unable to get oidc config from ocm - '' err)))
      | Inr oidc \<Rightarrow> and_then (subnet_zones E) (\<lambda>zonesRes.
          (case zonesRes of
             Inl err \<Rightarrow> State_Monad.return (Ret (Some err))
           | Inr zones \<Rightarrow> do {
               let builder = (rosa_builder E req oidc zones)\<lparr>cl_ID := Some (Status_ClusterID (Original req))\<rparr>;
               and_then (with_ocm E builder (ClusterClient_Update E builder)) (\<lambda>updated.
                 (case updated of
                    Inl err \<Rightarrow> State_Monad.return (Ret (Some (Wrap ''unable to update rosa cluster in ocm - '' err)))
                  | Inr cluster \<Rightarrow> do {
                      modify (\<lambda>r. r\<lparr>RR_Cluster := cluster\<rparr>);
                      State_Monad.return (Ret None)
                    }))
             })))
   }"

section \<open>Notifications\<close>

text \<open>The condition is made, with its time, before the event is registered.\<close>

definition notify ::
    "ROSACluster services \<Rightarrow> event \<Rightarrow> (int \<Rightarrow> condition) \<Rightarrow> string \<Rightarrow> (rosa_request, go_error option) state" where
  "notify E event mk name = do {
     req \<leftarrow> State_Monad.get;
     let condition = mk (kube_Now (Kube E) (req_calls req));
     on_world (RegisterAction E event (Original req) name (Status_ClusterID (Original req)));
     condition_Update E (\<lambda>_. condition)
   }"

definition rosa_fails :: "string \<Rightarrow> go_error \<Rightarrow> (rosa_request, go_result outcome) state" where
  "rosa_fails message err = do {
     req \<leftarrow> State_Monad.get;
     State_Monad.return (Ret (OnError rosa_ops req (Some (Wrap message err))))
   }"

definition notify_next ::
    "ROSACluster services \<Rightarrow> event \<Rightarrow> (int \<Rightarrow> condition) \<Rightarrow> string \<Rightarrow> string \<Rightarrow> (rosa_request, go_result outcome) state" where
  "notify_next E event mk name message = do {
     err \<leftarrow> notify E event mk name;
     (case err of Some e \<Rightarrow> rosa_fails message e | None \<Rightarrow> State_Monad.return (Ret Next))
   }"

section \<open>Phases\<close>

definition rosa_seed :: "string \<Rightarrow> ROSACluster" where
  "rosa_seed displayName = zero_ROSACluster\<lparr>RC_Spec := zero_ROSASpec\<lparr>RC_DisplayName := displayName\<rparr>\<rparr>"

definition RC_GetCurrentState :: "ROSACluster services \<Rightarrow> (rosa_request, go_result outcome) state" where
  "RC_GetCurrentState E = do {
     modify (\<lambda>req. req\<lparr>RR_OCMClient := Some (RC_DisplayName (RC_Spec (Desired req)))\<rparr>);
     req \<leftarrow> State_Monad.get;
     res \<leftarrow> on_world (ClusterClient_Get E (RC_DisplayName (RC_Spec (Desired req))));
     (case res of
        Inl err \<Rightarrow> rosa_fails (''unable to retrieve cluster from ocm [name='' @ RC_DisplayName (RC_Spec (Desired req)) @ ''] - '') err
      | Inr None \<Rightarrow> State_Monad.return (Ret Next)
      | Inr (Some cluster) \<Rightarrow>
          (case RC_CopyFrom (rosa_seed (RC_DisplayName (RC_Spec (Desired req)))) cluster of
             Panic m \<Rightarrow> State_Monad.return (Panic m)
           | Diverge \<Rightarrow> State_Monad.return Diverge
           | Ret cur \<Rightarrow> do {
               modify (\<lambda>r. r\<lparr>Current := Some cur, RR_Cluster := Some cluster\<rparr>);
               State_Monad.return (Ret Next)
             }))
   }"

definition ApplyCluster :: "ROSACluster services \<Rightarrow> (rosa_request, go_result outcome) state" where
  "ApplyCluster E = do {
     req \<leftarrow> State_Monad.get;
     (if Current req = None then
        (if IsSet (ClusterCreated (kube_Now (Kube E) (req_calls req))) (Original req) then State_Monad.return (Ret Next)
         else and_then (createCluster E) (\<lambda>err.
           (case err of
              Some e \<Rightarrow> rosa_fails ''error in createCluster - '' e
            | None \<Rightarrow> notify_next E Created ClusterCreated ''ROSAClusterCreated''
                ''error sending cluster created notification - '')))
      else if cluster_State (RR_Cluster req) \<noteq> ClusterStateReady then State_Monad.return (Ret Next)
      else do {
        same \<leftarrow> RC_desired;
        (if same then State_Monad.return (Ret Next)
         else and_then (updateCluster E) (\<lambda>err.
           (case err of
              Some e \<Rightarrow> rosa_fails ''error in updateCluster - '' e
            | None \<Rightarrow> notify_next E Updated ClusterUpdated ''ROSAClusterUpdated''
                ''error sending cluster updated notification - '')))
      })
   }"

text \<open>The children in the order of the code, each by the name of its type and its query.\<close>

definition cluster_children ::
    "ROSACluster services \<Rightarrow> (string \<times> (string \<Rightarrow> (ROSACluster world, bool \<times> go_error option) state)) list" where
  "cluster_children E =
     [(''*v1alpha1.GitLabIdentityProvider'', GitLab_ExistsForClusterID E),
      (''*v1alpha1.LDAPIdentityProvider'', LDAP_ExistsForClusterID E),
      (''*v1alpha1.MachinePool'', MachinePool_ExistsForClusterID E)]"

fun find_children ::
    "(string \<times> (string \<Rightarrow> (ROSACluster world, bool \<times> go_error option) state)) list \<Rightarrow>
     (rosa_request, go_result outcome) state" where
  "find_children [] = State_Monad.return (Ret Next)"
| "find_children ((object, ExistsForClusterID) # rest) = do {
     req \<leftarrow> State_Monad.get;
     (exists, err) \<leftarrow> on_world (ExistsForClusterID (Status_ClusterID (Original req)));
     (case err of
        Some e \<Rightarrow> rosa_fails (''unable to determine if object ['' @ object @ ''] has a parent cluster with ID ['' @
          Status_ClusterID (Original req) @ ''] - '') e
      | None \<Rightarrow> (if exists then State_Monad.return (Ret (Retry rosa_ops req)) else find_children rest))
   }"

definition FindChildObjects :: "ROSACluster services \<Rightarrow> (rosa_request, go_result outcome) state" where
  "FindChildObjects E = find_children (cluster_children E)"

definition DestroyCluster :: "ROSACluster services \<Rightarrow> (rosa_request, go_result outcome) state" where
  "DestroyCluster E = do {
     req \<leftarrow> State_Monad.get;
     (if IsSet (ClusterUninstalling (kube_Now (Kube E) (req_calls req))) (Original req) \<or>
         \<not> IsSet (ClusterCreated (kube_Now (Kube E) (req_calls req))) (Original req)
      then State_Monad.return (Ret Next)
      else do {
        modify (\<lambda>r. r\<lparr>RR_OCMClient := Some (RC_DisplayName (RC_Spec (Desired r)))\<rparr>);
        err \<leftarrow> on_world (ClusterClient_Delete E (Status_ClusterID (Original req)));
        (case err of
           Some e \<Rightarrow> rosa_fails (''unable to delete cluster with id ['' @ Status_ClusterID (Original req) @ ''] from ocm - '') e
         | None \<Rightarrow> notify_next E Deleted ClusterUninstalling ''ROSAClusterUninstalling''
             ''error sending cluster deleted notification - '')
      })
   }"

definition RC_WaitUntilMissing :: "ROSACluster services \<Rightarrow> (rosa_request, go_result outcome) state" where
  "RC_WaitUntilMissing E = do {
     req \<leftarrow> State_Monad.get;
     (if IsSet (ClusterDeleted (kube_Now (Kube E) (req_calls req))) (Original req) then State_Monad.return (Ret Next)
      else do {
        res \<leftarrow> on_world (ClusterExists E (RC_DisplayName (RC_Spec (Desired req))));
        (case res of
           Inl err \<Rightarrow> rosa_fails (''unable to retrieve cluster from ocm [name='' @ RC_DisplayName (RC_Spec (Desired req)) @ ''] - '') err
         | Inr (cluster, exists) \<Rightarrow>
             (if \<not> exists then State_Monad.return (Ret Next)
              else if cluster = None then do {
                err \<leftarrow> condition_Update E ClusterDeleted;
                (case err of
                   Some e \<Rightarrow> rosa_fails ''error updating deleted condition - '' e
                 | None \<Rightarrow> State_Monad.return (Ret Next))
              }
              else State_Monad.return (Ret (case cluster_State cluster of
                  ClusterStateUninstalling \<Rightarrow> After (provisionRequeueTime req) None
                | ClusterStateError \<Rightarrow> After (provisionRequeueTime req) None
                | _ \<Rightarrow> After (provisionRequeueTime req) None))))
      })
   }"

definition DestroyOperatorRoles :: "ROSACluster services \<Rightarrow> (rosa_request, go_result outcome) state" where
  "DestroyOperatorRoles E = do {
     req \<leftarrow> State_Monad.get;
     (if IsSet (OperatorRolesDeleted (kube_Now (Kube E) (req_calls req))) (Original req) then State_Monad.return (Ret Next)
      else and_then (destroyOperatorRoles E) (\<lambda>err.
        (case err of
           Some e \<Rightarrow> rosa_fails ''unable to destroy operator roles - '' e
         | None \<Rightarrow> notify_next E Deleted OperatorRolesDeleted ''ROSAOperatorRolesDeleted''
             ''error sending operator roles deleted notification - '')))
   }"

text \<open>
  The two halves of \<open>DestroyOIDC\<close>. The first deletes the OIDC configuration in OCM and records the condition of the
  provider; the second deletes the provider in AWS and records the condition of the configuration.
\<close>

definition destroy_oidc_config :: "ROSACluster services \<Rightarrow> (rosa_request, go_result outcome) state" where
  "destroy_oidc_config E = do {
     req \<leftarrow> State_Monad.get;
     (if IsSet (OIDCProviderDeleted (kube_Now (Kube E) (req_calls req))) (Original req) then State_Monad.return (Ret Next)
      else do {
        err \<leftarrow> on_world (OidcClient_Delete E (RC_OIDCConfigID (Original req)));
        (case err of
           Some e \<Rightarrow> rosa_fails ''unable to delete oidc provider - '' e
         | None \<Rightarrow> notify_next E Deleted OIDCProviderDeleted ''OIDCProviderDeleted''
             ''error sending oidc provider deleted notification - '')
      })
   }"

definition destroy_oidc_provider :: "ROSACluster services \<Rightarrow> (rosa_request, go_result outcome) state" where
  "destroy_oidc_provider E = do {
     req \<leftarrow> State_Monad.get;
     (if IsSet (OIDCConfigDeleted (kube_Now (Kube E) (req_calls req))) (Original req) then State_Monad.return (Ret Next)
      else and_then (with_aws (\<lambda>region. do {
          err \<leftarrow> on_world (DeleteOIDCProvider E region (RC_OIDCProviderARN (Original req)));
          State_Monad.return (Ret err)
        })) (\<lambda>err.
        (case err of
           Some e \<Rightarrow> rosa_fails ''unable to delete oidc config - '' e
         | None \<Rightarrow> notify_next E Deleted OIDCConfigDeleted ''OIDCConfigDeleted''
             ''error sending oidc config deleted notification - '')))
   }"

definition DestroyOIDC :: "ROSACluster services \<Rightarrow> (rosa_request, go_result outcome) state" where
  "DestroyOIDC E = and_then (destroy_oidc_config E) (\<lambda>res.
     (if res = Next then destroy_oidc_provider E else State_Monad.return (Ret res)))"

definition RC_WaitUntilReady :: "(rosa_request, go_result outcome) state" where
  "RC_WaitUntilReady = do {
     req \<leftarrow> State_Monad.get;
     State_Monad.return (Ret (case cluster_State (RR_Cluster req) of
         ClusterStateReady \<Rightarrow> Next
       | ClusterStateError \<Rightarrow> After (provisionRequeueTime req) None
       | _ \<Rightarrow> After (provisionRequeueTime req) None))
   }"

section \<open>Reconciliation\<close>

definition RC_Setup :: "ROSACluster services \<Rightarrow> (rosa_request, go_error option) state" where
  "RC_Setup E = do {
     req \<leftarrow> State_Monad.get;
     (case aws_client (World req) of
        Some region \<Rightarrow> State_Monad.return None
      | None \<Rightarrow> do {
          res \<leftarrow> on_world (NewClient E (RC_Region (RC_Spec (Desired req))));
          (case res of
             Inl err \<Rightarrow> State_Monad.return (Some (Wrap ''unable to create aws client - '' err))
           | Inr region \<Rightarrow> do {
               modify (\<lambda>r. r\<lparr>World := (World r)\<lparr>aws_client := Some region\<rparr>\<rparr>);
               State_Monad.return None
             })
        })
   }"

definition rosa_create_phases :: "ROSACluster services \<Rightarrow> int \<Rightarrow> rosa_request phase list" where
  "rosa_create_phases E interval =
     [(''GetCurrentState'', RC_GetCurrentState E),
      (''ApplyCluster'', ApplyCluster E),
      (''WaitUntilReady'', RC_WaitUntilReady),
      (''Complete'', Complete E rosa_ops Create interval)]"

definition RC_ReconcileCreate :: "ROSACluster services \<Rightarrow> int \<Rightarrow> (rosa_request, go_result outcome) state" where
  "RC_ReconcileCreate E interval = do {
     setup \<leftarrow> RC_Setup E;
     (case setup of
        Some err \<Rightarrow> rosa_fails ''error executing setup method - '' err
      | None \<Rightarrow> do {
          err \<leftarrow> AddFinalizer E;
          (case err of
             Some e \<Rightarrow> do {
               req \<leftarrow> State_Monad.get;
               State_Monad.return (Ret (OnError rosa_ops req (Some (AddFinalizerError e))))
             }
           | None \<Rightarrow> Execute rosa_ops (rosa_create_phases E interval))
        })
   }"

definition RC_ReconcileUpdate :: "ROSACluster services \<Rightarrow> int \<Rightarrow> (rosa_request, go_result outcome) state" where
  "RC_ReconcileUpdate E interval = RC_ReconcileCreate E interval"

definition rosa_delete_phases :: "ROSACluster services \<Rightarrow> rosa_request phase list" where
  "rosa_delete_phases E =
     [(''FindChildObjects'', FindChildObjects E),
      (''DestroyCluster'', DestroyCluster E),
      (''WaitUntilMissing'', RC_WaitUntilMissing E),
      (''DestroyOperatorRoles'', DestroyOperatorRoles E),
      (''DestroyOIDC'', DestroyOIDC E)]"

definition RC_ReconcileDelete :: "ROSACluster services \<Rightarrow> (rosa_request, go_result outcome) state" where
  "RC_ReconcileDelete E = do {
     setup \<leftarrow> RC_Setup E;
     (case setup of
        Some err \<Rightarrow> rosa_fails ''error executing setup method - '' err
      | None \<Rightarrow> Execute rosa_ops (rosa_delete_phases E @ [(''CompleteDestroy'', CompleteDestroy E rosa_ops)]))
   }"

definition rosa_controller :: "ROSACluster services \<Rightarrow> int \<Rightarrow> (ROSACluster, rosa_request) controller" where
  "rosa_controller E interval = \<lparr>NewRequest = RC_NewRequest E, ReconcileCreate = RC_ReconcileCreate E interval,
     ReconcileUpdate = RC_ReconcileUpdate E interval, ReconcileDelete = RC_ReconcileDelete E\<rparr>"

definition RC_Reconcile :: "ROSACluster services \<Rightarrow> int \<Rightarrow> string \<Rightarrow> string \<Rightarrow> (ROSACluster world, go_result outcome) state" where
  "RC_Reconcile E interval namespace name = Reconcile E (rosa_controller E interval) namespace name"

section \<open>Lemmas: programs\<close>

lemma wp_and_then [wp]:
  "wp (and_then m f) Q s = wp m (\<lambda>x t. case x of Ret a \<Rightarrow> wp (f a) Q t | Panic e \<Rightarrow> Q (Panic e) t | Diverge \<Rightarrow> Q Diverge t) s"
  unfolding and_then_def wp_bind
  by (rule arg_cong [where f = "\<lambda>X. wp m X s"]) (auto simp: fun_eq_iff wp split: outcome.splits)

lemma emits_and_then [emits]: "emits h P m \<Longrightarrow> (\<And>a. emits h P (f a)) \<Longrightarrow> emits h P (and_then m f)"
  unfolding and_then_def by (intro emits)

lemma keeps_and_then [keeps]: "keeps g m \<Longrightarrow> (\<And>a. keeps g (f a)) \<Longrightarrow> keeps g (and_then m f)"
  unfolding and_then_def by (intro keeps)

lemma wp_with_aws [wp]:
  "wp (with_aws f) Q r = (case aws_client (World r) of None \<Rightarrow> Q (Panic nil_dereference) r | Some region \<Rightarrow> wp (f region) Q r)"
  by (simp add: with_aws_def wp split: option.split)

lemma emits_with_aws [emits]: "(\<And>region. emits req_calls P (f region)) \<Longrightarrow> emits req_calls P (with_aws f)"
  unfolding with_aws_def by (intro emits)

lemma keeps_with_aws [keeps]: "(\<And>region. keeps g (f region)) \<Longrightarrow> keeps g (with_aws f)"
  unfolding with_aws_def by (intro keeps)

lemma emits_with_ocm [emits]: "emits calls P m \<Longrightarrow> emits req_calls P (with_ocm E b m)"
  unfolding with_ocm_def by (intro emits)

lemma wp_rosa_fails [wp]:
  "wp (rosa_fails m err) Q r = Q (Ret (OnError rosa_ops r (Some (Wrap m err)))) r"
  by (simp add: rosa_fails_def wp)

lemma emits_rosa_fails [emits]: "emits req_calls P (rosa_fails m err)"
  unfolding rosa_fails_def by (intro emits)

lemma emits_notify [emits]:
  assumes "\<And>x y z. P (KEvent x y z)" "\<And>b p. P (KStatusPatch b p)"
  shows "emits req_calls P (notify E ev mk n)" "emits req_calls P (notify_next E ev mk n m)"
proof -
  show "emits req_calls P (notify E ev mk n)"
    unfolding notify_def Let_def using assms by (intro emits) auto
  then show "emits req_calls P (notify_next E ev mk n m)"
    unfolding notify_next_def by (intro emits)
qed

lemma emits_subnet_zones [emits]: "(\<And>g s. P (AwsSubnetZone g s)) \<Longrightarrow> emits req_calls P (subnet_zones E)"
  unfolding subnet_zones_def by (intro emits) auto

lemma emits_oidc_config [emits]:
  assumes "\<And>i. P (OidcGet i)" "\<And>x. P (OidcAdd x)" "\<And>b p. P (KStatusPatch b p)"
  shows "emits req_calls P (ensure_oidc_config E original)"
  unfolding ensure_oidc_config_def using assms by (intro emits) auto

lemma emits_oidc_provider [emits]:
  assumes "P StartTimers" "P SelectTimer" "\<And>u. P (HttpGet u)" "\<And>g u t. P (AwsCreateOIDC g u t)" "\<And>b p. P (KStatusPatch b p)"
  shows "emits req_calls P (ensure_oidc_provider E original config)"
  unfolding ensure_oidc_provider_def using assms by (intro emits) auto

text \<open>Calls that make operator roles.\<close>

fun role_call :: "'o call \<Rightarrow> bool" where
  "role_call (AwsEnsurePolicy g a d v t) = True"
| "role_call (AwsEnsureRole g n p t m) = True"
| "role_call (AwsAttachRolePolicy g n a) = True"
| "role_call _ = False"

lemma emits_createOperatorRoles [emits]:
  assumes "\<And>b. P (StsCredentialRequests b)" "\<And>f. P (StsPolicies f)" "\<And>b p. P (KStatusPatch b p)"
    "\<And>c. role_call c \<Longrightarrow> P c"
  shows "emits req_calls P (createOperatorRoles E oidc)"
  unfolding createOperatorRoles_def Let_def using assms by (intro emits) auto

lemma wp_RC_Setup:
  "wp (RC_Setup E) (\<lambda>err s. same_request r s \<and> Original s = Original r \<and> (err = None \<longrightarrow> aws_client (World s) \<noteq> None) \<and>
     (req_calls s = req_calls r \<or> (\<exists>g. req_calls s = req_calls r @ [AwsNewClient g]))) r"
  by (auto simp: RC_Setup_def wp split: option.splits sum.splits)

end
