(* ===== verification/ROSA_Request.thy ===== *)
theory ROSA_Request
  imports ROSA_Controller
begin

text \<open>
  The requests of the ROSA cluster controller. Shown here: which version and which prefix of the operator roles a
  request carries, on every branch of \<open>NewRequest\<close> and \<open>setVersion\<close>, which answers of OCM they rest on, and what
  has been recorded of them in the status.
\<close>

section \<open>Lemmas: requests\<close>

text \<open>The version that a request asks for: of the spec, or of the status, or the one that was found.\<close>

definition asked_version :: "ROSACluster \<Rightarrow> ocm_version option \<Rightarrow> string" where
  "asked_version obj ver =
     (if RC_OpenShiftVersion (RC_Spec obj) \<noteq> '''' then RC_OpenShiftVersion (RC_Spec obj)
      else if RC_StatusOpenShiftVersion obj \<noteq> '''' then RC_StatusOpenShiftVersion obj
      else attr '''' ver_RawID ver)"

text \<open>
  What OCM has answered for the version \<open>ver\<close> of a request, from the world \<open>w\<close>: a version that is \<open>given\<close> by the spec or the
  status is the first one that OCM finds under it; otherwise it is OCM's default. The calls made by then are \<open>h\<close>.
\<close>

definition version_known ::
    "ROSACluster services \<Rightarrow> ROSACluster world \<Rightarrow> bool \<Rightarrow> string \<Rightarrow> ocm_version \<Rightarrow> ROSACluster hist \<Rightarrow> bool" where
  "version_known E w given v ver h \<longleftrightarrow>
     (if given then
        h = calls w @ [VersionsSearch (version_filter v)] \<and>
        resp_Err (ocm_VersionsSearch (Ocm2 E) (calls w) (version_filter v)) = None \<and>
        (\<exists>others. resp_Body (ocm_VersionsSearch (Ocm2 E) (calls w) (version_filter v)) = Some (ver # others))
      else \<exists>w'. run_state (GetDefaultVersion E) w = (Ret (Inr ver), w') \<and> calls w' = h)"

text \<open>
  The server has answered the status patch from \<open>base\<close> to \<open>sent\<close> with the object \<open>obj\<close>; a conflict counts as an answer
  too, the object then stays as it was sent.
\<close>

definition status_answered :: "ROSACluster services \<Rightarrow> ROSACluster hist \<Rightarrow> ROSACluster \<Rightarrow> ROSACluster \<Rightarrow> ROSACluster \<Rightarrow> bool" where
  "status_answered E h base sent obj \<longleftrightarrow>
     (case kube_StatusPatch (Kube E) h base sent of
        Inr stored \<Rightarrow> obj = stored
      | Inl err \<Rightarrow> isOptimisticLockError err \<and> obj = sent)"

text \<open>From \<open>obj\<close> and the history \<open>h\<close> to \<open>obj'\<close> and \<open>h'\<close>: the version is recorded in the status, unless one is recorded.\<close>

definition version_recorded ::
    "ROSACluster services \<Rightarrow> ROSACluster hist \<Rightarrow> ROSACluster \<Rightarrow> string \<Rightarrow> ocm_version \<Rightarrow> ROSACluster \<Rightarrow> ROSACluster hist \<Rightarrow> bool" where
  "version_recorded E h obj v ver obj' h' \<longleftrightarrow>
     (if RC_OpenShiftVersionID obj = '''' then
        let sent = obj\<lparr>RC_StatusOpenShiftVersion := v, RC_OpenShiftVersionID := attr '''' ver_ID (Some ver)\<rparr>
        in status_answered E h obj sent obj' \<and> h' = h @ [KStatusPatch obj sent]
      else obj' = obj \<and> h' = h)"

text \<open>The same for the prefix of the operator roles.\<close>

definition prefix_recorded ::
    "ROSACluster services \<Rightarrow> ROSACluster hist \<Rightarrow> ROSACluster \<Rightarrow> string \<Rightarrow> ROSACluster \<Rightarrow> ROSACluster hist \<Rightarrow> bool" where
  "prefix_recorded E h obj p obj' h' \<longleftrightarrow>
     (if RC_OperatorRolesPrefix obj = '''' then
        let sent = obj\<lparr>RC_OperatorRolesPrefix := p\<rparr>
        in status_answered E h obj sent obj' \<and> h' = h @ [KStatusPatch obj sent]
      else obj' = obj \<and> p = RC_OperatorRolesPrefix obj \<and> h' = h)"

abbreviation version_given :: "ROSACluster \<Rightarrow> bool" where
  "version_given obj \<equiv> RC_OpenShiftVersion (RC_Spec obj) \<noteq> '''' \<or> RC_StatusOpenShiftVersion obj \<noteq> ''''"

lemma wp_choose_version:
  assumes "RR_Version r = None"
  shows "wp (choose_version E) (\<lambda>out s. Current s = Current r \<and> Original s = Original r \<and> (out = Ret None \<longrightarrow>
    Desired s = (Desired r)\<lparr>RC_Spec := (RC_Spec (Desired r))\<lparr>RC_OpenShiftVersion := asked_version (Desired r) (RR_Version s)\<rparr>\<rparr> \<and>
    (if version_given (Desired r) then RR_Version s = None \<and> World s = World r
     else \<exists>ver. RR_Version s = Some ver \<and> run_state (GetDefaultVersion E) (World r) = (Ret (Inr ver), World s)))) r"
proof -
  have "wp (GetDefaultVersion E) (\<lambda>out w'. run_state (GetDefaultVersion E) w = (out, w')) w" for w by (simp add: wp_run)
  note default = wp_mono [OF this]
  show ?thesis
    unfolding choose_version_def wp_bind wp_get wp_if wp_and_then wp_on_world
    using assms by (auto simp: wp set_spec_version_def asked_version_def raw_id_def intro!: default split: outcome.splits sum.splits)
qed

lemma wp_record_version:
  fixes s :: rosa_request
  defines "v \<equiv> RC_OpenShiftVersion (RC_Spec (Desired s))"
  shows "wp (record_version E) (\<lambda>out t. Current t = Current s \<and> Desired t = Desired s \<and> (out = Ret None \<longrightarrow>
     (\<exists>ver h. RR_Version t = Some ver \<and> version_recorded E h (Original s) v ver (Original t) (req_calls t) \<and>
        (case RR_Version s of Some u \<Rightarrow> ver = u \<and> h = req_calls s | None \<Rightarrow> version_known E (World s) True v ver h)))) s"
proof -
  have items: "items \<noteq> [] \<Longrightarrow> \<exists>others. items = items ! 0 # others" for items :: "ocm_version list"
    by (cases items) auto
  show ?thesis
    unfolding v_def
    by (auto simp: record_version_def wp GetVersionObject_def version_known_def version_recorded_def status_answered_def Let_def items
        split: option.splits sum.splits)
qed

lemma wp_setVersion:
  assumes "RR_Version r = None"
  shows "wp (setVersion E) (\<lambda>out t. out = Ret None \<longrightarrow> Current t = Current r \<and> (\<exists>ver h. RR_Version t = Some ver \<and>
    Desired t = (Desired r)\<lparr>RC_Spec := (RC_Spec (Desired r))\<lparr>RC_OpenShiftVersion := asked_version (Desired r) (Some ver)\<rparr>\<rparr> \<and>
    version_known E (World r) (version_given (Desired r)) (asked_version (Desired r) (Some ver)) ver h \<and>
    version_recorded E h (Original r) (asked_version (Desired r) (Some ver)) ver (Original t) (req_calls t))) r"
  unfolding setVersion_def wp_and_then
proof (rule wp_mono [OF wp_choose_version [OF assms]], goal_cases)
  case (1 out s)
  show ?case
  proof (cases "out = Ret None")
    case True
    have given: "asked_version (Desired r) (Some x) = asked_version (Desired r) None" if "version_given (Desired r)" for x
      using that by (auto simp: asked_version_def)
    show ?thesis
      unfolding True outcome.case option.case
      by (rule wp_mono [OF wp_record_version], use 1 True in \<open>cases "version_given (Desired r)"\<close>)
         (auto simp: version_known_def given)
  qed (cases out; auto simp: wp split: option.splits)
qed

definition generated_prefix :: "string \<Rightarrow> string \<Rightarrow> bool" where
  "generated_prefix cluster p \<longleftrightarrow> (\<exists>t. p = cluster @ ''-'' @ t \<and> length t = 6 \<and>
     set t \<subseteq> set ''abcdefghijklmnopqrstuvwxyz0123456789'')"

lemma wp_roles_prefix:
  "wp (roles_prefix E original desired) (\<lambda>out w'. \<forall>obj p. out = Ret (Inr (obj, p)) \<longrightarrow>
     (\<exists>h. w' = w\<lparr>calls := h\<rparr> \<and> prefix_recorded E (calls w) original p obj h) \<and>
     (if RC_OperatorRolesPrefix original \<noteq> [] then p = RC_OperatorRolesPrefix original
      else if OperatorRolesPrefix (RC_IAM (RC_Spec desired)) \<noteq> [] then p = OperatorRolesPrefix (RC_IAM (RC_Spec desired))
      else generated_prefix (RC_DisplayName (RC_Spec desired)) p)) w"
proof -
  have "generated_prefix c p" if "GetOperatorRolesPrefixForCluster E h c = Ret p" for h c p
    using operator_roles_prefix_shape [OF that] unfolding generated_prefix_def .
  then show ?thesis
    unfolding roles_prefix_def wp_if wp_and_then
    by (auto simp: wp prefix_recorded_def status_answered_def Let_def split: outcome.splits option.splits prod.splits sum.splits if_splits)
qed

lemma rosa_desired_state_fields:
  "RC_DisplayName (RC_Spec (rosa_desired_state p d)) = RC_DisplayName (RC_Spec d)"
  "OperatorRolesPrefix (RC_IAM (RC_Spec (rosa_desired_state p d))) = p"
  "RC_OpenShiftVersion (RC_Spec (rosa_desired_state p d)) = RC_OpenShiftVersion (RC_Spec d)"
  "RC_StatusOpenShiftVersion (rosa_desired_state p d) = RC_StatusOpenShiftVersion d"
  by (simp_all add: rosa_desired_state_def set_prefix_def SetNetworkDefaults_def Let_def)

lemma default_display_name_fields:
  "RC_DisplayName (RC_Spec (default_display_name d)) = (if RC_DisplayName (RC_Spec d) = '''' then Name d else RC_DisplayName (RC_Spec d))"
  "RC_IAM (RC_Spec (default_display_name d)) = RC_IAM (RC_Spec d)"
  "RC_OpenShiftVersion (RC_Spec (default_display_name d)) = RC_OpenShiftVersion (RC_Spec d)"
  "RC_StatusOpenShiftVersion (default_display_name d) = RC_StatusOpenShiftVersion d"
  by (simp_all add: default_display_name_def)

text \<open>How a request comes about: the resource is read, the prefix is chosen and stored, and the version is determined.\<close>

lemma RC_NewRequest_cases:
  assumes "run_state (RC_NewRequest E ns n) w = (Ret (Inr req), w')"
  obtains obj obj' p w1 where "kube_Get (Kube E) (calls w) ns n = Inr obj"
    and "run_state (roles_prefix E obj (default_display_name obj)) (w\<lparr>calls := calls w @ [KGet ns n]\<rparr>) = (Ret (Inr (obj', p)), w1)"
    and "run_state (setVersion E) \<lparr>World = w1, Original = obj', Desired = rosa_desired_state p (default_display_name obj), Current = None,
      Trigger = GetTrigger obj', RR_OCMClient = None, RR_Cluster = None, RR_Version = None\<rparr> = (Ret None, req)"
    and "World req = w'"
proof (cases "kube_Get (Kube E) (calls w) ns n")
  case (Inl e)
  with assms show ?thesis by (simp add: RC_NewRequest_def)
next
  case (Inr obj)
  let ?d = "default_display_name obj" and ?w = "w\<lparr>calls := calls w @ [KGet ns n]\<rparr>"
  obtain res w1 where pre: "run_state (roles_prefix E obj ?d) ?w = (res, w1)" by fastforce
  from assms Inr pre obtain obj' p where res: "res = Ret (Inr (obj', p))"
    by (cases res) (auto simp: RC_NewRequest_def and_then_def split: sum.splits)
  let ?r = "\<lparr>World = w1, Original = obj', Desired = rosa_desired_state p ?d, Current = None, Trigger = GetTrigger obj',
    RR_OCMClient = None, RR_Cluster = None, RR_Version = None\<rparr>"
  have "run_state (setVersion E) ?r = (Ret None, req) \<and> World req = w'"
    using assms Inr pre res by (cases "run_state (setVersion E) ?r")
      (auto simp: RC_NewRequest_def and_then_def Let_def split: outcome.splits option.splits)
  with Inr pre res show ?thesis using that by blast
qed

section \<open>Properties\<close>

text \<open>
  C22: a request for a ROSA cluster exists only for a stored resource whose OpenShift version OCM knows, and its calls
  are exactly these. The display name defaults to the name of the resource. The prefix of its operator roles is the
  recorded one if there is one; otherwise it is the one of the spec or else a generated one (the display name, a
  dash and six characters), and the request has sent it to the status of the resource. Its version is the one of
  the spec, or else the recorded one, and OCM's search for it has returned the version object; without either it
  is OCM's default. A version that is not yet recorded has been sent to the status with its identifier.
\<close>

theorem RC_NewRequest_valid:
  assumes "run_state (RC_NewRequest E ns n) w = (Ret (Inr req), w')"
    and "pre = OperatorRolesPrefix (RC_IAM (RC_Spec (Desired req)))"
    and "version = RC_OpenShiftVersion (RC_Spec (Desired req))"
  shows "\<exists>obj ver obj' h1 h2. kube_Get (Kube E) (calls w) ns n = Inr obj \<and> Current req = None \<and> RR_Version req = Some ver \<and>
    RC_DisplayName (RC_Spec (Desired req)) =
      (if RC_DisplayName (RC_Spec obj) = '''' then Name obj else RC_DisplayName (RC_Spec obj)) \<and>
    version =
      (if RC_OpenShiftVersion (RC_Spec obj) \<noteq> '''' then RC_OpenShiftVersion (RC_Spec obj)
       else if RC_StatusOpenShiftVersion obj \<noteq> '''' then RC_StatusOpenShiftVersion obj
       else attr '''' ver_RawID (Some ver)) \<and>
    (if RC_OperatorRolesPrefix obj \<noteq> '''' then pre = RC_OperatorRolesPrefix obj
     else if OperatorRolesPrefix (RC_IAM (RC_Spec obj)) \<noteq> '''' then pre = OperatorRolesPrefix (RC_IAM (RC_Spec obj))
     else generated_prefix (RC_DisplayName (RC_Spec (Desired req))) pre) \<and>
    prefix_recorded E (calls w @ [KGet ns n]) obj pre obj' h1 \<and>
    version_known E (w\<lparr>calls := h1\<rparr>)
      (RC_OpenShiftVersion (RC_Spec obj) \<noteq> '''' \<or> RC_StatusOpenShiftVersion obj \<noteq> '''') version ver h2 \<and>
    version_recorded E h2 obj' version ver (Original req) (calls w')"
proof -
  obtain obj obj' p w1 where obj: "kube_Get (Kube E) (calls w) ns n = Inr obj"
    and rp: "run_state (roles_prefix E obj (default_display_name obj)) (w\<lparr>calls := calls w @ [KGet ns n]\<rparr>) = (Ret (Inr (obj', p)), w1)"
    and sv: "run_state (setVersion E) \<lparr>World = w1, Original = obj', Desired = rosa_desired_state p (default_display_name obj),
      Current = None, Trigger = GetTrigger obj', RR_OCMClient = None, RR_Cluster = None, RR_Version = None\<rparr> = (Ret None, req)"
    and w': "World req = w'"
    by (rule RC_NewRequest_cases [OF assms(1)])
  let ?d = "rosa_desired_state p (default_display_name obj)"
  note fields = rosa_desired_state_fields default_display_name_fields
  note rp' = wpD [OF wp_roles_prefix rp, rule_format, OF refl, unfolded fields]
  from rp' obtain h1 where h1: "w1 = w\<lparr>calls := h1\<rparr>"
    and recorded: "prefix_recorded E (calls w @ [KGet ns n]) obj p obj' h1" by auto
  from wpD [OF wp_setVersion sv] w' obtain ver h2 where ver: "RR_Version req = Some ver" "Current req = None"
    and d: "Desired req = ?d\<lparr>RC_Spec := (RC_Spec ?d)\<lparr>RC_OpenShiftVersion := asked_version ?d (Some ver)\<rparr>\<rparr>"
    and known: "version_known E w1 (version_given ?d) (asked_version ?d (Some ver)) ver h2"
    and sent: "version_recorded E h2 obj' (asked_version ?d (Some ver)) ver (Original req) (calls w')" by auto
  have asked: "asked_version ?d (Some ver) = asked_version obj (Some ver)" "version_given ?d \<longleftrightarrow> version_given obj"
    by (simp_all add: asked_version_def fields)
  from d have shape: "pre = p" "version = asked_version obj (Some ver)"
    "RC_DisplayName (RC_Spec (Desired req)) = (if RC_DisplayName (RC_Spec obj) = [] then Name obj else RC_DisplayName (RC_Spec obj))"
    by (simp_all add: assms(2,3) asked fields)
  show ?thesis
    using obj ver rp' recorded known sent
    unfolding shape h1 asked asked_version_def [of obj "Some ver"] by blast
qed

theorem RC_NewRequest_valid_witness:
  "\<exists>req w'. run_state (RC_NewRequest (sample_services example_rosa) ''ocm'' ''prod'') empty_world = (Ret (Inr req), w') \<and>
     OperatorRolesPrefix (RC_IAM (RC_Spec (Desired req))) = ''prod-abc''"
proof -
  let ?E = "sample_services example_rosa"
  have f: "RC_DisplayName (RC_Spec example_rosa) = ''prod''" "OperatorRolesPrefix (RC_IAM (RC_Spec example_rosa)) = ''prod-abc''"
    "RC_OpenShiftVersion (RC_Spec example_rosa) = ''4.12.15''" "RC_OperatorRolesPrefix example_rosa = []"
    by (simp_all add: example_rosa_def zero_ROSACluster_def)
  have d: "default_display_name example_rosa = example_rosa" using f by (simp add: default_display_name_def)
  have pre: "\<exists>obj w1. run_state (roles_prefix ?E example_rosa example_rosa) w = (Ret (Inr (obj, ''prod-abc'')), w1)" for w
    by (simp add: roles_prefix_def and_then_def f PatchStatus_def)
  have found: "run_state (GetVersionObject ?E x) w = (Inr \<lparr>ver_ID = Some ''openshift-v4.12.15'', ver_RawID = Some ''4.12.15''\<rparr>,
      w\<lparr>calls := calls w @ [VersionsSearch (version_filter x)]\<rparr>)" for x w
    by (simp add: GetVersionObject_def sample_ocm2_def sdk_ok_def)
  have ver: "fst (run_state (record_version ?E) r) = Ret None" if "RR_Version r = None" for r
    using that by (simp add: record_version_def found patch_original_def PatchStatus_def)
  have "fst (run_state (setVersion ?E) r) = Ret None"
    if "RC_OpenShiftVersion (RC_Spec (Desired r)) = ''4.12.15''" "RR_Version r = None" for r
    using that ver [of r] by (simp add: setVersion_def and_then_def choose_version_def)
  note version = this
  have "\<exists>req w'. run_state (RC_NewRequest ?E ''ocm'' ''prod'') empty_world = (Ret (Inr req), w')"
    using pre [of "empty_world\<lparr>calls := calls empty_world @ [KGet ''ocm'' ''prod'']\<rparr>"]
    by (auto simp: RC_NewRequest_def and_then_def d version rosa_desired_state_fields f Let_def)
  then obtain req w' where r: "run_state (RC_NewRequest ?E ''ocm'' ''prod'') empty_world = (Ret (Inr req), w')" by blast
  from RC_NewRequest_valid [OF r refl refl] r show ?thesis
    by (auto simp: example_rosa_def zero_ROSACluster_def)
qed

end
