(* ===== verification/ROSA_Create.thy ===== *)
theory ROSA_Create
  imports ROSA_Controller
begin

text \<open>
  The create and update path of the ROSA cluster controller. Shown here: a reconciliation makes at most one change to
  a cluster in OCM, which the lookup of the cluster justifies and which is built from the desired state; what the status
  records as created is not created again; a cluster that OCM shows as it was built is left alone.
\<close>

section \<open>Lemmas: changes of clusters\<close>

fun cluster_change :: "'o call \<Rightarrow> bool" where
  "cluster_change (ClusterAdd c) = True"
| "cluster_change (ClusterUpdate i c) = True"
| "cluster_change (ClusterDelete i) = True"
| "cluster_change _ = False"

abbreviation cluster_changes :: "('o, 'x) request_scheme \<Rightarrow> 'o hist" where
  "cluster_changes r \<equiv> filter cluster_change (req_calls r)"

text \<open>A program that makes at most one change, and only one that satisfies \<open>P\<close>.\<close>

definition one_change :: "('o call \<Rightarrow> bool) \<Rightarrow> (('o, 'x) request_scheme, 'b) state \<Rightarrow> ('o, 'x) request_scheme \<Rightarrow> bool" where
  "one_change P m s \<longleftrightarrow> wp m (\<lambda>a u. cluster_changes u = cluster_changes s \<or>
     (\<exists>c. cluster_changes u = cluster_changes s @ [c] \<and> P c)) s"

lemma one_change_none: "emits req_calls (\<lambda>c. \<not> cluster_change c) m \<Longrightarrow> one_change P m s"
  unfolding one_change_def by (rule wp_mono [OF wp_filter_emits]) auto

lemma one_change_after:
  assumes "emits req_calls (\<lambda>c. \<not> cluster_change c) m" and "\<And>a t. run_state m s = (a, t) \<Longrightarrow> one_change P (f a) t"
  shows "one_change P (State_Monad.bind m f) s"
proof -
  obtain a t where m: "run_state m s = (a, t)" by fastforce
  from filter_emits [OF assms(1) m] assms(2) [OF m] m show ?thesis
    by (simp add: one_change_def wp_bind wp_def [of m])
qed

lemma one_change_before:
  assumes "one_change P m s" and "\<And>a. emits req_calls (\<lambda>c. \<not> cluster_change c) (f a)"
  shows "one_change P (State_Monad.bind m f) s"
proof -
  obtain a t where m: "run_state m s = (a, t)" by fastforce
  obtain b u where f: "run_state (f a) t = (b, u)" by fastforce
  from filter_emits [OF assms(2) f] assms(1) m f show ?thesis
    by (simp add: one_change_def wp_def)
qed

lemma one_change_and_then_after:
  assumes "emits req_calls (\<lambda>c. \<not> cluster_change c) m" and "\<And>a t. run_state m s = (Ret a, t) \<Longrightarrow> one_change P (f a) t"
  shows "one_change P (and_then m f) s"
  unfolding and_then_def using assms(1)
proof (rule one_change_after)
  fix x t
  assume "run_state m s = (x, t)"
  with assms(2) show "one_change P (case x of Ret a \<Rightarrow> f a | Panic e \<Rightarrow> State_Monad.return (Panic e)
      | Diverge \<Rightarrow> State_Monad.return Diverge) t"
    by (cases x) (auto intro!: one_change_none emits)
qed

lemma one_change_and_then_before:
  assumes "one_change P m s" and "\<And>a. emits req_calls (\<lambda>c. \<not> cluster_change c) (f a)"
  shows "one_change P (and_then m f) s"
  unfolding and_then_def using assms by (intro one_change_before emits)

lemma one_change_return: "one_change P (State_Monad.return x) s"
  by (intro one_change_none emits)

lemma one_change_get: "one_change P (f s) s \<Longrightarrow> one_change P (State_Monad.bind State_Monad.get f) s"
  by (rule one_change_after [OF emits_get]) auto

lemma one_change_case_sum:
  "(\<And>x. one_change P (f x) s) \<Longrightarrow> (\<And>x. one_change P (g x) s) \<Longrightarrow> one_change P (case y of Inl x \<Rightarrow> f x | Inr x \<Rightarrow> g x) s"
  by (cases y) auto

lemma one_change_case_option:
  "one_change P m s \<Longrightarrow> (\<And>x. one_change P (f x) s) \<Longrightarrow> one_change P (case y of None \<Rightarrow> m | Some x \<Rightarrow> f x) s"
  by (cases y) auto

text \<open>A step that keeps the desired state and makes no change.\<close>

lemma one_change_keeping:
  assumes "Desired s = d" and "emits req_calls (\<lambda>c. \<not> cluster_change c) m" and "keeps Desired m"
    and "\<And>a t. Desired t = d \<Longrightarrow> one_change P (f a) t"
  shows "one_change P (and_then m f) s"
proof (rule one_change_and_then_after [OF assms(2)])
  fix a t
  assume "run_state m s = (Ret a, t)"
  with keepsD [OF assms(3)] assms(1) have "Desired t = d" by blast
  then show "one_change P (f a) t" by (rule assms(4))
qed

lemma keeps_rosa_steps [keeps]:
  assumes "\<And>r w. f (r\<lparr>World := w\<rparr>) = f r" "\<And>r obj. f (r\<lparr>Original := obj\<rparr>) = f r"
  shows "keeps f (ensureOIDCProvider E)" "keeps f (createOperatorRoles E oidc)" "keeps f (subnet_zones E)"
  unfolding ensureOIDCProvider_def ensure_oidc_config_def ensure_oidc_provider_def createOperatorRoles_def
    subnet_zones_def Let_def
  by (intro keeps assms)+

text \<open>A cluster that is built from a desired state and added, or sent as an update of the cluster \<open>i\<close>.\<close>

definition built_add :: "ROSACluster services \<Rightarrow> ROSACluster \<Rightarrow> ROSACluster call \<Rightarrow> bool" where
  "built_add E d c \<longleftrightarrow> (\<exists>object oidc v zones. c = ClusterAdd object \<and>
     lib_BuildCluster (Lib E) (RC_Builder (lib_Unique (Lib E)) d oidc v zones) = Inr object)"

definition built_update :: "ROSACluster services \<Rightarrow> ROSACluster \<Rightarrow> string \<Rightarrow> ROSACluster call \<Rightarrow> bool" where
  "built_update E d i c \<longleftrightarrow> (\<exists>object oidc v zones. c = ClusterUpdate (attr '''' cl_ID (Some object)) object \<and>
     lib_BuildCluster (Lib E) ((RC_Builder (lib_Unique (Lib E)) d oidc v zones)\<lparr>cl_ID := Some i\<rparr>) = Inr object)"

lemma one_change_with_ocm:
  assumes "\<And>w. wp m (\<lambda>a w'. filter cluster_change (calls w') = filter cluster_change (calls w) \<or>
    (\<exists>c. filter cluster_change (calls w') = filter cluster_change (calls w) @ [c] \<and> P c)) w"
  shows "one_change P (with_ocm E b m) s"
  unfolding one_change_def with_ocm_def using assms [of "World s"] by (simp add: wp)

lemma one_change_create_in_ocm: "one_change (built_add E (Desired s)) (create_in_ocm E original oidc zones) s"
  unfolding create_in_ocm_def Let_def
proof (rule one_change_after [OF emits_get], rule one_change_and_then_before)
  fix a t
  assume "run_state State_Monad.get s = (a, t)"
  then show "one_change (built_add E (Desired s)) (with_ocm E (rosa_builder E a oidc zones)
      (ClusterClient_Create E (rosa_builder E a oidc zones))) t"
    by (intro one_change_with_ocm)
      (auto simp: ClusterClient_Create_def wp built_add_def rosa_builder_def split: sum.splits)
qed (auto intro!: emits)

lemma one_change_create_with_oidc: "one_change (built_add E (Desired s)) (create_with_oidc E original oidc) s"
  unfolding create_with_oidc_def
proof (rule one_change_get)
  let ?create = "and_then (subnet_zones E) (\<lambda>zonesRes. case zonesRes of
      Inl err \<Rightarrow> State_Monad.return (Ret (Some err)) | Inr zones \<Rightarrow> create_in_ocm E original oidc zones)"
  let ?roles = "\<lambda>b. if b then createOperatorRoles E oidc else State_Monad.return (Ret None)"
  have create: "one_change (built_add E (Desired s)) ?create u" if "Desired u = Desired s" for u
    using that by (rule one_change_keeping)
      (auto intro!: keeps emits one_change_case_sum one_change_return, metis one_change_create_in_ocm)
  have roles: "emits req_calls (\<lambda>c. \<not> cluster_change c) (?roles b)" "keeps Desired (?roles b)" for b
    by (auto intro!: emits keeps elim: role_call.elims)
  show "one_change (built_add E (Desired s)) (and_then (?roles (\<not> RC_OperatorRolesCreated (Original s)))
      (\<lambda>rolesErr. case rolesErr of Some err \<Rightarrow> State_Monad.return (Ret (Some err)) | None \<Rightarrow> ?create)) s"
    using refl roles by (rule one_change_keeping) (intro one_change_case_option one_change_return create)
qed

lemma one_change_createCluster: "one_change (built_add E (Desired s)) (createCluster E) s"
  unfolding createCluster_def Let_def
proof (rule one_change_get, rule one_change_keeping [OF refl])
  show "emits req_calls (\<lambda>c. \<not> cluster_change c) (ensureOIDCProvider E)"
    unfolding ensureOIDCProvider_def by (auto intro!: emits)
  show "keeps Desired (ensureOIDCProvider E)" by (intro keeps) simp_all
  show "one_change (built_add E (Desired s)) (case res of Inl err \<Rightarrow> State_Monad.return (Ret (Some err))
      | Inr oidc \<Rightarrow> create_with_oidc E (Original s) oidc) t" if "Desired t = Desired s" for res t
    using that one_change_create_with_oidc [of E t] by (intro one_change_case_sum one_change_return) simp
qed

lemma one_change_updateCluster: "one_change (built_update E (Desired s) (Status_ClusterID (Original s))) (updateCluster E) s"
  unfolding updateCluster_def Let_def
proof (rule one_change_get)
  let ?b = "\<lambda>oidc zones. (rosa_builder E s oidc zones)\<lparr>cl_ID := Some (Status_ClusterID (Original s))\<rparr>"
  have update: "one_change (built_update E (Desired s) (Status_ClusterID (Original s)))
      (and_then (with_ocm E (?b oidc zones) (ClusterClient_Update E (?b oidc zones))) (\<lambda>updated. case updated of
        Inl err \<Rightarrow> State_Monad.return (Ret (Some (Wrap ''unable to update rosa cluster in ocm - '' err)))
      | Inr cluster \<Rightarrow> do { modify (\<lambda>r. r\<lparr>RR_Cluster := cluster\<rparr>); State_Monad.return (Ret None) })) u" for oidc zones u
    by (intro one_change_and_then_before one_change_with_ocm emits)
      (auto simp: ClusterClient_Update_def wp built_update_def rosa_builder_def split: sum.splits)
  have zones: "emits req_calls (\<lambda>c. \<not> cluster_change c) (subnet_zones E)" by (intro emits) simp
  have get: "emits req_calls (\<lambda>c. \<not> cluster_change c) (on_world (OidcClient_Get E i))" for i by (intro emits) simp
  show "one_change (built_update E (Desired s) (Status_ClusterID (Original s)))
      (on_world (OidcClient_Get E (RC_OIDCConfigID (Original s))) \<bind> (\<lambda>res. case res of
        Inl err \<Rightarrow> State_Monad.return (Ret (Some (Wrap ''unable to get oidc config from ocm - '' err)))
      | Inr oidc \<Rightarrow> and_then (subnet_zones E) (\<lambda>zonesRes. case zonesRes of
          Inl err \<Rightarrow> State_Monad.return (Ret (Some err))
        | Inr zones \<Rightarrow> and_then (with_ocm E (?b oidc zones) (ClusterClient_Update E (?b oidc zones))) (\<lambda>updated.
            case updated of
              Inl err \<Rightarrow> State_Monad.return (Ret (Some (Wrap ''unable to update rosa cluster in ocm - '' err)))
            | Inr cluster \<Rightarrow> do { modify (\<lambda>r. r\<lparr>RR_Cluster := cluster\<rparr>); State_Monad.return (Ret None) })))) s"
    by (intro one_change_after [OF get] one_change_case_sum one_change_return one_change_and_then_after [OF zones] update)
qed

text \<open>What the lookup finds, and whether a copy of it agrees with the desired state, the tags that Red Hat adds apart.\<close>

definition rosa_lookup :: "ROSACluster services \<Rightarrow> rosa_request \<Rightarrow> go_error + ocm_cluster option" where
  "rosa_lookup E s = cluster_lookup E (req_calls s) (RC_DisplayName (RC_Spec (Desired s)))"

definition rosa_copy :: "rosa_request \<Rightarrow> ocm_cluster \<Rightarrow> ROSACluster outcome" where
  "rosa_copy s cluster = RC_CopyFrom (rosa_seed (RC_DisplayName (RC_Spec (Desired s)))) cluster"

definition rosa_matches :: "ROSAClusterSpec \<Rightarrow> ROSAClusterSpec \<Rightarrow> bool" where
  "rosa_matches wanted found \<longleftrightarrow> tags_match (RC_Tags wanted) (RC_Tags found) \<and>
     wanted = found\<lparr>RC_AccountID := RC_AccountID wanted, RC_Tags := RC_Tags wanted\<rparr>"

definition rosa_why :: "ROSACluster services \<Rightarrow> rosa_request \<Rightarrow> ROSACluster call \<Rightarrow> bool" where
  "rosa_why E s c \<longleftrightarrow>
     rosa_lookup E s = Inr None \<and> \<not> IsSet (ClusterCreated 0) (Original s) \<and> built_add E (Desired s) c \<or>
     (\<exists>cluster cur. rosa_lookup E s = Inr (Some cluster) \<and> cluster_State (Some cluster) = ClusterStateReady \<and>
        rosa_copy s cluster = Ret cur \<and> \<not> rosa_matches (RC_Spec (Desired s)) (RC_Spec cur) \<and>
        built_update E (Desired s) (Status_ClusterID (Original s)) c)"

lemma wp_RC_GetCurrentState:
  "wp (RC_GetCurrentState E) (\<lambda>out t. passed out \<longrightarrow> Desired t = Desired s \<and> Original t = Original s \<and>
     (rosa_lookup E s = Inr None \<and> Current t = Current s \<or>
      (\<exists>cluster cur. rosa_lookup E s = Inr (Some cluster) \<and> rosa_copy s cluster = Ret cur \<and>
        Current t = Some cur \<and> RR_Cluster t = Some cluster))) s"
  by (auto simp: RC_GetCurrentState_def wp rosa_lookup_def rosa_copy_def split: sum.splits option.splits outcome.splits)

lemma wp_RC_desired:
  assumes "Current s = Some cur"
  shows "wp RC_desired (\<lambda>same t. same = rosa_matches (RC_Spec (Desired s)) (RC_Spec cur) \<and>
    World t = World s \<and> Desired t = Desired s \<and> Original t = Original s \<and> RR_OCMClient t = RR_OCMClient s) s"
  using assms by (auto simp: RC_desired_def wp Let_def rosa_matches_def)

lemma IsSet_ClusterCreated: "IsSet (ClusterCreated t) w \<longleftrightarrow> IsSet (ClusterCreated 0) w"
  unfolding ClusterCreated_def by (rule IsSet_make_condition)

lemma one_change_ApplyCluster:
  "one_change (\<lambda>c. case Current s of
       None \<Rightarrow> \<not> IsSet (ClusterCreated 0) (Original s) \<and> built_add E (Desired s) c
     | Some cur \<Rightarrow> cluster_State (RR_Cluster s) = ClusterStateReady \<and> \<not> rosa_matches (RC_Spec (Desired s)) (RC_Spec cur) \<and>
         built_update E (Desired s) (Status_ClusterID (Original s)) c) (ApplyCluster E) s"
    (is "one_change ?P _ s")
  unfolding ApplyCluster_def
proof (rule one_change_get)
  have more: "emits req_calls (\<lambda>c. \<not> cluster_change c) (case err of Some e \<Rightarrow> rosa_fails m e
      | None \<Rightarrow> notify_next E ev mk n m')" for err m ev mk n m'
    by (intro emits) simp_all
  have create: "one_change ?P (createCluster E) s"
    if "Current s = None" "\<not> IsSet (ClusterCreated 0) (Original s)"
    using one_change_createCluster [of E s] that by simp
  have update: "one_change ?P (if same then State_Monad.return (Ret Next) else and_then (updateCluster E)
      (\<lambda>err. case err of Some e \<Rightarrow> rosa_fails m e | None \<Rightarrow> notify_next E ev mk n m')) u"
    if cur: "Current s = Some cur" and run: "run_state RC_desired s = (same, u)"
      and ready: "cluster_State (RR_Cluster s) = ClusterStateReady" for cur same u m ev mk n m'
  proof (cases same)
    case False
    with wpD [OF wp_RC_desired [OF cur] run] one_change_updateCluster [of E u] cur ready
    have "one_change ?P (updateCluster E) u" by auto
    with False more show ?thesis by (auto intro: one_change_and_then_before)
  qed (simp add: one_change_return)
  have quiet: "emits req_calls (\<lambda>c. \<not> cluster_change c) RC_desired"
    unfolding RC_desired_def Let_def by (intro emits) simp_all
  show "one_change ?P (if Current s = None then
        (if IsSet (ClusterCreated (kube_Now (Kube E) (req_calls s))) (Original s) then State_Monad.return (Ret Next)
         else and_then (createCluster E) (\<lambda>err. case err of
            Some e \<Rightarrow> rosa_fails ''error in createCluster - '' e
          | None \<Rightarrow> notify_next E Created ClusterCreated ''ROSAClusterCreated''
              ''error sending cluster created notification - ''))
      else if cluster_State (RR_Cluster s) \<noteq> ClusterStateReady then State_Monad.return (Ret Next)
      else RC_desired \<bind> (\<lambda>same. if same then State_Monad.return (Ret Next)
         else and_then (updateCluster E) (\<lambda>err. case err of
            Some e \<Rightarrow> rosa_fails ''error in updateCluster - '' e
          | None \<Rightarrow> notify_next E Updated ClusterUpdated ''ROSAClusterUpdated''
              ''error sending cluster updated notification - ''))) s"
  proof (cases "Current s")
    case None
    show ?thesis
    proof (cases "IsSet (ClusterCreated (kube_Now (Kube E) (req_calls s))) (Original s)")
      case False
      then have "\<not> IsSet (ClusterCreated 0) (Original s)" using IsSet_ClusterCreated by blast
      from one_change_and_then_before [OF create [OF None this] more] False show ?thesis
        by (simp only: None simp_thms if_True if_False)
    qed (simp only: None simp_thms if_True one_change_return)
  next
    case (Some cur)
    show ?thesis
    proof (cases "cluster_State (RR_Cluster s) = ClusterStateReady")
      case True
      have "one_change ?P (RC_desired \<bind> (\<lambda>same. if same then State_Monad.return (Ret Next)
         else and_then (updateCluster E) (\<lambda>err. case err of
            Some e \<Rightarrow> rosa_fails ''error in updateCluster - '' e
          | None \<Rightarrow> notify_next E Updated ClusterUpdated ''ROSAClusterUpdated''
              ''error sending cluster updated notification - ''))) s"
        by (rule one_change_after [OF quiet update [OF Some _ True]])
      with Some True show ?thesis by (simp only: option.distinct if_False simp_thms)
    qed (use Some one_change_return in simp)
  qed
qed

interpretation rosa_apply: justified_changes RC_GetCurrentState ApplyCluster cluster_change rosa_why
proof
  show "emits req_calls (\<lambda>c. \<not> cluster_change c) (RC_GetCurrentState E)" for E
    unfolding RC_GetCurrentState_def by (intro emits) simp_all
next
  fix E out and s t :: rosa_request
  assume look: "run_state (RC_GetCurrentState E) s = (out, t)" and "passed out" and "Current s = None"
  with wpD [OF wp_RC_GetCurrentState look] one_change_ApplyCluster [of t E]
  show "wp (ApplyCluster E) (\<lambda>out u. cluster_changes u = cluster_changes t \<or>
      (\<exists>c. cluster_changes u = cluster_changes t @ [c] \<and> rosa_why E s c)) t"
    unfolding one_change_def by (elim wp_mono) (auto simp: rosa_why_def)
qed simp

section \<open>Lemmas: what is created once\<close>

fun oidc_config_add :: "'o call \<Rightarrow> bool" where
  "oidc_config_add (OidcAdd x) = True"
| "oidc_config_add _ = False"

fun oidc_provider_add :: "'o call \<Rightarrow> bool" where
  "oidc_provider_add (AwsCreateOIDC g u t) = True"
| "oidc_provider_add _ = False"

lemma emits_create_with_oidc [emits]:
  assumes "\<And>b. P (StsCredentialRequests b)" "\<And>f. P (StsPolicies f)" "\<And>b p. P (KStatusPatch b p)"
    "\<And>c. role_call c \<Longrightarrow> P c" "\<And>g s. P (AwsSubnetZone g s)" "\<And>c. P (ClusterAdd c)"
  shows "emits req_calls P (create_with_oidc E original oidc)"
  unfolding create_with_oidc_def create_in_ocm_def Let_def using assms by (intro emits) auto

lemma wp_config_recorded:
  assumes "RC_OIDCConfigID (Original r) \<noteq> ''''" and "\<And>i. \<not> bad (OidcGet i)"
  shows "wp (ensure_oidc_config E original) (\<lambda>res s. Original s = Original r \<and>
    filter bad (req_calls s) = filter bad (req_calls r)) r"
  using assms by (simp add: ensure_oidc_config_def wp OidcClient_Get_def)

lemma createCluster_quiet:
  assumes "RC_OIDCConfigID (Original r) \<noteq> ''''" and "\<And>i. \<not> bad (OidcGet i)"
    and "\<And>s config. Original s = Original r \<Longrightarrow>
      wp (ensure_oidc_provider E (Original r) config) (\<lambda>e t. filter bad (req_calls t) = filter bad (req_calls s) \<and>
        (\<forall>oidc. wp (create_with_oidc E (Original r) oidc) (\<lambda>e u. filter bad (req_calls u) = filter bad (req_calls t)) t)) s"
  shows "wp (createCluster E) (\<lambda>out t. filter bad (req_calls t) = filter bad (req_calls r)) r"
  unfolding createCluster_def ensureOIDCProvider_def Let_def wp_bind wp_get wp_and_then
proof (rule wp_mono [OF wp_config_recorded [where bad = bad, OF assms(1,2)]], goal_cases)
  case (1 res s)
  then have "wp (ensure_oidc_provider E (Original r) config) (\<lambda>e t. filter bad (req_calls t) = filter bad (req_calls r) \<and>
      (\<forall>oidc. wp (create_with_oidc E (Original r) oidc) (\<lambda>e u. filter bad (req_calls u) = filter bad (req_calls r)) t)) s" for config
    by (intro wp_mono [OF assms(3) [of s config]]) auto
  note provider = this
  show ?case
  proof (cases res)
    case (Inr config)
    show ?thesis unfolding Inr
      by (simp add: wp) (rule wp_mono [OF provider], auto simp: wp split: outcome.splits option.splits)
  qed (use 1 in \<open>simp add: wp\<close>)
qed

lemma wp_provider_recorded:
  assumes "RC_OIDCProviderARN (Original r) \<noteq> ''''" and "Q (Ret None) r"
  shows "wp (ensure_oidc_provider E original config) Q r"
  using assms by (simp add: ensure_oidc_provider_def wp)

lemma wp_roles_recorded:
  assumes "RC_OperatorRolesCreated (Original r)"
  shows "wp (create_with_oidc E original oidc) (\<lambda>e t. filter role_call (req_calls t) = filter role_call (req_calls r)) r"
proof -
  have "emits req_calls (\<lambda>c. \<not> role_call c) (and_then (subnet_zones E) (\<lambda>zonesRes. case zonesRes of
      Inl err \<Rightarrow> State_Monad.return (Ret (Some err)) | Inr zones \<Rightarrow> create_in_ocm E original oidc zones))"
    unfolding create_in_ocm_def Let_def by (intro emits) auto
  from wp_filter_emits [OF this] show ?thesis
    using assms by (simp add: create_with_oidc_def wp)
qed

section \<open>Properties\<close>

text \<open>The state in which the create path looks up the cluster: set up, and with the finalizer on the object.\<close>

definition rosa_looks_from :: "ROSACluster services \<Rightarrow> rosa_request \<Rightarrow> rosa_request \<Rightarrow> bool" where
  "rosa_looks_from E r s \<longleftrightarrow> (\<exists>a. run_state (RC_Setup E) r = (None, a) \<and> create_reaches E [] a s)"

lemma rosa_create_changes:
  assumes "run_state (RC_ReconcileCreate E interval) r = (out, t)" and "Current r = None"
  shows "cluster_changes t = cluster_changes r \<or>
    (\<exists>s c. rosa_looks_from E r s \<and> same_request r s \<and> cluster_changes t = cluster_changes r @ [c] \<and> rosa_why E s c)"
proof -
  obtain err s where st: "run_state (RC_Setup E) r = (err, s)" by fastforce
  from wpD [OF wp_RC_Setup st] have s: "same_request r s" "cluster_changes s = cluster_changes r" by auto
  show ?thesis
  proof (cases err)
    case None
    with assms(1) st have run: "run_state (do {
        err \<leftarrow> AddFinalizer E;
        (case err of
           Some e \<Rightarrow> do { req \<leftarrow> State_Monad.get; State_Monad.return (Ret (OnError rosa_ops req (Some (AddFinalizerError e)))) }
         | None \<Rightarrow> Execute rosa_ops (rosa_create_phases E interval))
      }) s = (out, t)" by (simp add: RC_ReconcileCreate_def)
    have "cluster_changes t = cluster_changes s \<or>
      (\<exists>s' c. create_reaches E [] s s' \<and> same_request s s' \<and> cluster_changes t = cluster_changes s @ [c] \<and> rosa_why E s' c)"
      by (rule rosa_apply.create_path_changes [where pre = "[]" and late = "drop 2 (rosa_create_phases E interval)" and
            phases = "rosa_create_phases E interval", OF _ _ _ _ run])
        (use assms(2) same_requestD(2) [OF s(1)] in \<open>auto simp: rosa_create_phases_def RC_WaitUntilReady_def intro!: emits\<close>)
    with s None st show ?thesis
      unfolding rosa_looks_from_def using same_request_trans by (metis (no_types, lifting))
  next
    case (Some e)
    with assms(1) st s(2) show ?thesis by (auto simp: RC_ReconcileCreate_def rosa_fails_def)
  qed
qed

text \<open>
  C3: creating or updating a ROSA cluster makes at most one change to a cluster in OCM: a cluster built from the
  desired state is added only if OCM has just found none of its name and the object does not record one as
  created; the recorded cluster is updated to the desired state only if OCM has just shown a ready cluster
  whose copy differs from it. \<open>s\<close> is the state in which the path makes its lookup.
\<close>

theorem rosa_create_changes_justified:
  assumes "run_state (RC_ReconcileCreate E interval) r = (out, t)" and "Current r = None"
  shows "cluster_changes t = cluster_changes r \<or>
    (\<exists>s c. rosa_looks_from E r s \<and> cluster_changes t = cluster_changes r @ [c] \<and>
      (case rosa_lookup E s of
         Inl err \<Rightarrow> False
       | Inr None \<Rightarrow> \<not> IsSet (ClusterCreated 0) (Original s) \<and> built_add E (Desired r) c
       | Inr (Some cluster) \<Rightarrow> cluster_State (Some cluster) = ClusterStateReady \<and>
           (\<exists>cur. rosa_copy s cluster = Ret cur \<and> \<not> rosa_matches (RC_Spec (Desired r)) (RC_Spec cur)) \<and>
           built_update E (Desired r) (Status_ClusterID (Original s)) c))"
  using rosa_create_changes [OF assms]
proof (elim disjE exE conjE)
  fix s c
  assume "rosa_looks_from E r s" "same_request r s" "cluster_changes t = cluster_changes r @ [c]" "rosa_why E s c"
  then show ?thesis
    using same_requestD(1) [of r s]
    by (intro disjI2 exI [of _ s] exI [of _ c]) (auto simp: rosa_why_def split: option.splits)
qed simp

text \<open>
  C7: what the status records is not created again: with an OIDC configuration recorded, creating the cluster adds none
  to OCM; with a provider recorded as well, it creates none in AWS; with the operator roles recorded as well, it
  makes no call that creates a role or a policy. So a creation that failed part of the way is resumed.
\<close>

theorem rosa_created_once:
  assumes "run_state (createCluster E) r = (out, t)" and "RC_OIDCConfigID (Original r) \<noteq> ''''"
  shows "filter oidc_config_add (req_calls t) = filter oidc_config_add (req_calls r) \<and>
    (RC_OIDCProviderARN (Original r) \<noteq> '''' \<longrightarrow>
       filter oidc_provider_add (req_calls t) = filter oidc_provider_add (req_calls r) \<and>
       (RC_OperatorRolesCreated (Original r) \<longrightarrow> filter role_call (req_calls t) = filter role_call (req_calls r)))"
proof (intro conjI impI)
  have rest: "wp (create_with_oidc E o' oidc) (\<lambda>e u. filter bad (req_calls u) = filter bad (req_calls s)) s"
    if "bad = oidc_config_add \<or> bad = oidc_provider_add" for bad o' oidc s
    using that by (intro wp_filter_emits emits) (auto elim: role_call.elims)
  have "wp (ensure_oidc_provider E o' config) (\<lambda>e t. filter oidc_config_add (req_calls t) = filter oidc_config_add (req_calls s)) s" for o' config s
    by (intro wp_filter_emits emits) auto
  then have "wp (createCluster E) (\<lambda>out t. filter oidc_config_add (req_calls t) = filter oidc_config_add (req_calls r)) r"
    using assms(2) rest by (intro createCluster_quiet) (auto simp: wp_conj)
  from wpD [OF this assms(1)] show "filter oidc_config_add (req_calls t) = filter oidc_config_add (req_calls r)" .
next
  assume arn: "RC_OIDCProviderARN (Original r) \<noteq> ''''"
  have "wp (createCluster E) (\<lambda>out t. filter oidc_provider_add (req_calls t) = filter oidc_provider_add (req_calls r)) r"
    using assms(2) arn by (intro createCluster_quiet wp_provider_recorded) (auto intro!: wp_filter_emits emits elim: role_call.elims)
  from wpD [OF this assms(1)] show "filter oidc_provider_add (req_calls t) = filter oidc_provider_add (req_calls r)" .
  assume "RC_OperatorRolesCreated (Original r)"
  then have "wp (createCluster E) (\<lambda>out t. filter role_call (req_calls t) = filter role_call (req_calls r)) r"
    using assms(2) arn by (intro createCluster_quiet wp_provider_recorded) (auto intro!: wp_roles_recorded)
  from wpD [OF this assms(1)] show "filter role_call (req_calls t) = filter role_call (req_calls r)" .
qed

text \<open>A request for an object whose display name is set.\<close>

definition rosa_sample_request :: "ROSACluster \<Rightarrow> rosa_request" where
  "rosa_sample_request obj = \<lparr>World = empty_world, Original = obj, Desired = obj, Current = None, Trigger = Update,
     RR_OCMClient = None, RR_Cluster = None, RR_Version = None\<rparr>"

theorem rosa_create_changes_justified_witness:
  "\<exists>t. t = snd (run_state (RC_ReconcileCreate (sample_services example_rosa) 5) (rosa_sample_request example_rosa)) \<and>
    length (cluster_changes t) \<le> 1"
proof -
  obtain out t where t: "run_state (RC_ReconcileCreate (sample_services example_rosa) 5) (rosa_sample_request example_rosa) = (out, t)"
    by fastforce
  from rosa_create_changes_justified [OF t] t show ?thesis
    by (auto simp: rosa_sample_request_def empty_world_def)
qed

theorem rosa_created_once_witness:
  "\<exists>t. t = snd (run_state (createCluster (sample_services example_rosa)) (rosa_sample_request
      (example_rosa\<lparr>RC_OIDCConfigID := ''o1'', RC_OIDCProviderARN := ''arn'', RC_OperatorRolesCreated := True\<rparr>))) \<and>
    filter role_call (req_calls t) = [] \<and> filter oidc_config_add (req_calls t) = []"
proof -
  let ?r = "rosa_sample_request (example_rosa\<lparr>RC_OIDCConfigID := ''o1'', RC_OIDCProviderARN := ''arn'', RC_OperatorRolesCreated := True\<rparr>)"
  obtain out t where t: "run_state (createCluster (sample_services example_rosa)) ?r = (out, t)" by fastforce
  from rosa_created_once [OF t] t show ?thesis
    by (simp add: rosa_sample_request_def empty_world_def)
qed





end
