(* ===== verification/ROSA_Delete.thy ===== *)
theory ROSA_Delete
  imports ROSA_Controller
begin

text \<open>
  The delete path of the ROSA cluster controller. Shown here: a cluster counts as free of children exactly when the
  three listings succeed and hold no object with its identifier; the finalizer is removed only when no child is left,
  OCM no longer finds the cluster, and AWS and OCM have confirmed that the operator roles and the OIDC objects are deleted; once all of this
  is recorded, the delete path completes.
\<close>

section \<open>Lemmas: children\<close>

text \<open>No child of the cluster exists: what the three listings of \<open>FindChildObjects\<close> return from the request \<open>r\<close>.\<close>

definition no_children :: "ROSACluster services \<Rightarrow> rosa_request \<Rightarrow> bool" where
  "no_children E r \<longleftrightarrow> (\<exists>gitlabs ldaps pools.
     kube_GitLabs (Kube E) (req_calls r) = Inr gitlabs \<and>
     kube_LDAPs (Kube E) (req_calls r @ [KListGitLabs]) = Inr ldaps \<and>
     kube_MachinePools (Kube E) (req_calls r @ [KListGitLabs, KListLDAPs]) = Inr pools \<and>
     Status_ClusterID (Original r) \<notin>
       GetClusterID ` set gitlabs \<union> GetClusterID ` set ldaps \<union> GetClusterID ` set pools)"

lemma run_children:
  "run_state (GitLab_ExistsForClusterID E cid) w =
     (fst (run_state (GitLab_ExistsForClusterID E cid) w), w\<lparr>calls := calls w @ [KListGitLabs]\<rparr>)"
  "run_state (LDAP_ExistsForClusterID E cid) w =
     (fst (run_state (LDAP_ExistsForClusterID E cid) w), w\<lparr>calls := calls w @ [KListLDAPs]\<rparr>)"
  "run_state (MachinePool_ExistsForClusterID E cid) w =
     (fst (run_state (MachinePool_ExistsForClusterID E cid) w), w\<lparr>calls := calls w @ [KListMachinePools]\<rparr>)"
  using gitlab_child.one_call ldap_child.one_call mp_child.one_call by (metis prod.collapse)+

lemma passed_find_child:
  assumes "run_state (q (Status_ClusterID (Original r))) (World r) = (x, w)"
  shows "passed (fst (run_state (find_children ((n, q) # rest)) r)) \<longleftrightarrow>
    x = (False, None) \<and> passed (fst (run_state (find_children rest) (r\<lparr>World := w\<rparr>)))"
  using assms by (cases x) (auto simp: rosa_fails_def split: option.splits)

lemmas passed_children = passed_find_child [OF run_children(1)] passed_find_child [OF run_children(2)]
  passed_find_child [OF run_children(3)]

lemma FindChildObjects_passes_iff: "passed (fst (run_state (FindChildObjects E) r)) \<longleftrightarrow> no_children E r"
  unfolding FindChildObjects_def cluster_children_def passed_children
  by (simp add: gitlab_child.no_child_iff ldap_child.no_child_iff mp_child.no_child_iff no_children_def) blast

section \<open>Lemmas: what has been deleted\<close>

text \<open>The object carries a condition, whatever its time.\<close>

definition recorded :: "(int \<Rightarrow> condition) \<Rightarrow> 'a workload_scheme \<Rightarrow> bool" where
  "recorded mk w \<longleftrightarrow> IsSet (mk 0) w"

lemma IsSet_recorded:
  "IsSet (ClusterDeleted t) w \<longleftrightarrow> recorded ClusterDeleted w"
  "IsSet (OperatorRolesDeleted t) w \<longleftrightarrow> recorded OperatorRolesDeleted w"
  "IsSet (OIDCProviderDeleted t) w \<longleftrightarrow> recorded OIDCProviderDeleted w"
  "IsSet (OIDCConfigDeleted t) w \<longleftrightarrow> recorded OIDCConfigDeleted w"
  "IsSet (ClusterUninstalling t) w \<longleftrightarrow> recorded ClusterUninstalling w"
  "IsSet (ClusterCreated t) w \<longleftrightarrow> recorded ClusterCreated w"
  unfolding recorded_def ClusterDeleted_def OperatorRolesDeleted_def OIDCProviderDeleted_def OIDCConfigDeleted_def
    ClusterUninstalling_def ClusterCreated_def
  by (rule IsSet_make_condition)+

text \<open>The cluster is recorded as deleted, or OCM finds none of its name from the request \<open>u\<close>.\<close>

definition cluster_missing :: "ROSACluster services \<Rightarrow> rosa_request \<Rightarrow> bool" where
  "cluster_missing E u \<longleftrightarrow> recorded ClusterDeleted (Original u) \<or>
     cluster_lookup E (req_calls u) (RC_DisplayName (RC_Spec (Desired u))) = Inr None"

lemma WaitUntilMissing_passes_iff:
  "passed (fst (run_state (RC_WaitUntilMissing E) u)) \<longleftrightarrow> cluster_missing E u"
proof -
  have "wp (RC_WaitUntilMissing E) (\<lambda>out s. passed out \<longleftrightarrow> cluster_missing E u) u"
    by (auto simp: RC_WaitUntilMissing_def wp cluster_missing_def IsSet_recorded
        split: sum.splits option.splits cluster_state.splits)
  then show ?thesis by (simp add: wp_run)
qed

text \<open>
  The operator roles are recorded as deleted, or between \<open>u\<close> and \<open>v\<close> AWS has listed the roles of the prefix for the
  credential requests of OCM, every one of them has been deleted and AWS has confirmed each of these deletions.
\<close>

definition roles_deleted :: "ROSACluster services \<Rightarrow> rosa_request \<Rightarrow> rosa_request \<Rightarrow> bool" where
  "roles_deleted E u v \<longleftrightarrow> recorded OperatorRolesDeleted (Original u) \<or>
     (\<exists>region requests roles.
        let c = rosa_sts_client u '''';
            h = req_calls u @ [StsCredentialRequests (sts_HostedControlPlane c)];
            q = requests_map requests;
            listed = AwsGetOperatorRoles region (sts_Prefix c) q
        in aws_client (World u) = Some region \<and>
           fst (run_state (GetCredentialRequests E c) (World u)) = Inr requests \<and>
           aws_GetOperatorRoles (Aws E) h region (sts_Prefix c) q = Inr roles \<and>
           deletions_confirmed E region (sts_ManagedPolicies c) (h @ [listed]) roles \<and>
           prefix (h @ listed # map (\<lambda>role. AwsDeleteOperatorRole region role (sts_ManagedPolicies c)) roles) (req_calls v))"

lemma extends_emits: "emits h P m \<Longrightarrow> wp m (\<lambda>a t. prefix (h s) (h t)) s"
  unfolding emits_def wp_run prefix_def by metis

lemma wp_GetCredentialRequests:
  "wp (GetCredentialRequests E c) Q w = Q (fst (run_state (GetCredentialRequests E c) w))
     (w\<lparr>calls := calls w @ [StsCredentialRequests (sts_HostedControlPlane c)]\<rparr>)"
  by (simp add: GetCredentialRequests_def wp)

lemma wp_destroyOperatorRoles:
  "wp (destroyOperatorRoles E) (\<lambda>out s. out = Ret None \<longrightarrow> roles_deleted E u s) u"
proof (cases "fst (run_state (GetCredentialRequests E (rosa_sts_client u '''')) (World u))")
  case (Inr requests)
  let ?c = "rosa_sts_client u ''''"
  let ?w = "(World u)\<lparr>calls := req_calls u @ [StsCredentialRequests (sts_HostedControlPlane ?c)]\<rparr>"
  have "wp (DeleteOperatorRoles E region ?c requests) (\<lambda>e w'. e = None \<longrightarrow> roles_deleted E u (u\<lparr>World := w'\<rparr>)) ?w"
    if "aws_client (World u) = Some region" for region
    by (rule wp_mono [OF wp_DeleteOperatorRoles]) (use Inr that in \<open>auto simp: roles_deleted_def Let_def\<close>)
  with Inr show ?thesis
    by (simp add: destroyOperatorRoles_def Let_def wp wp_GetCredentialRequests split: option.splits)
qed (simp add: destroyOperatorRoles_def Let_def wp wp_GetCredentialRequests)

lemma roles_deleted_mono: "roles_deleted E u v \<Longrightarrow> prefix (req_calls v) (req_calls w) \<Longrightarrow> roles_deleted E u w"
  unfolding roles_deleted_def Let_def using prefix_order.trans by blast

lemma wp_notified: "wp (notify_next E ev mk n m) (\<lambda>out v. prefix (req_calls t) (req_calls v)) t"
  by (intro extends_emits [where P = "\<lambda>c. True"] emits) simp_all

lemma wp_DestroyOperatorRoles:
  "wp (DestroyOperatorRoles E) (\<lambda>out v. passed out \<longrightarrow> roles_deleted E u v) u"
proof (cases "recorded OperatorRolesDeleted (Original u)")
  case True
  then show ?thesis by (simp add: DestroyOperatorRoles_def wp IsSet_recorded roles_deleted_def)
next
  case False
  have notified: "wp (notify_next E ev mk n m) (\<lambda>out v. passed out \<longrightarrow> roles_deleted E u v) t"
    if "roles_deleted E u t" for t ev mk n m
    using that by (intro wp_mono [OF wp_notified]) (blast intro: roles_deleted_mono)
  from False show ?thesis
    unfolding DestroyOperatorRoles_def wp_bind wp_get IsSet_recorded wp_if wp_and_then
    by (simp, intro wp_mono [OF wp_destroyOperatorRoles])
      (auto simp: wp notified split: outcome.splits option.splits)
qed

text \<open>
  OCM has confirmed from the request \<open>u\<close> that the OIDC configuration is gone, and AWS from \<open>x\<close> that it has deleted the provider,
  or the conditions record it. The code swaps the two conditions.
\<close>

definition oidc_config_deleted :: "ROSACluster services \<Rightarrow> rosa_request \<Rightarrow> bool" where
  "oidc_config_deleted E u \<longleftrightarrow> recorded OIDCProviderDeleted (Original u) \<or>
     sdk_gone (ocm_OidcDelete (Ocm2 E) (req_calls u) (RC_OIDCConfigID (Original u)))"

definition oidc_provider_deleted :: "ROSACluster services \<Rightarrow> rosa_request \<Rightarrow> bool" where
  "oidc_provider_deleted E x \<longleftrightarrow> recorded OIDCConfigDeleted (Original x) \<or>
     (\<exists>region. aws_client (World x) = Some region \<and>
       aws_DeleteOpenIDConnectProvider (Aws E) (req_calls x) region (RC_OIDCProviderARN (Original x)) = None)"

lemma wp_notify_next: "wp (notify_next E ev mk n m) (\<lambda>out v. passed out \<longrightarrow> out = Ret Next) t"
  unfolding notify_next_def wp_bind by (rule wp_mono [OF wp_True]) (auto simp: wp split: option.splits)

lemma wp_destroy_oidc_config:
  "wp (destroy_oidc_config E) (\<lambda>out x. passed out \<longrightarrow> out = Ret Next \<and> oidc_config_deleted E u) u"
proof (cases "recorded OIDCProviderDeleted (Original u)")
  case False
  then show ?thesis
    unfolding destroy_oidc_config_def wp_bind wp_get IsSet_recorded wp_if wp_on_world
    by simp (rule oidc_del.wp_deleteI; auto simp: wp oidc_config_deleted_def intro!: wp_mono [OF wp_notify_next])
qed (simp add: destroy_oidc_config_def wp IsSet_recorded oidc_config_deleted_def)

lemma wp_destroy_oidc_provider:
  "wp (destroy_oidc_provider E) (\<lambda>out t. passed out \<longrightarrow> oidc_provider_deleted E x) x"
  by (auto simp: destroy_oidc_provider_def wp IsSet_recorded oidc_provider_deleted_def split: option.splits)

lemma wp_DestroyOIDC:
  "wp (DestroyOIDC E) (\<lambda>out t. passed out \<longrightarrow> oidc_config_deleted E u \<and>
     oidc_provider_deleted E (snd (run_state (destroy_oidc_config E) u))) u"
proof -
  obtain out x where first: "run_state (destroy_oidc_config E) u = (out, x)" by fastforce
  have snd: "snd (run_state (destroy_oidc_config E) u) = x" using first by simp
  let ?Q = "\<lambda>out t. passed out \<longrightarrow> oidc_config_deleted E u \<and> oidc_provider_deleted E x"
  have second: "wp (destroy_oidc_provider E) ?Q x" if "oidc_config_deleted E u"
    by (rule wp_mono [OF wp_destroy_oidc_provider]) (use that in simp)
  have run: "wp (DestroyOIDC E) ?Q u = (case out of
      Ret res \<Rightarrow> if res = Next then wp (destroy_oidc_provider E) ?Q x else ?Q (Ret res) x
    | out \<Rightarrow> ?Q out x)"
    unfolding DestroyOIDC_def wp_and_then wp_def [of "destroy_oidc_config E"] first prod.case
    by (cases out) (simp_all add: wp_if wp_return)
  consider "\<not> passed out" | "out = Ret Next" "oidc_config_deleted E u"
    using wpD [OF wp_destroy_oidc_config first] by blast
  then show ?thesis
    unfolding snd run
  proof cases
    case 1
    then show "case out of Ret res \<Rightarrow> if res = Next then wp (destroy_oidc_provider E) ?Q x else ?Q (Ret res) x | out \<Rightarrow> ?Q out x"
      by (cases out) auto
  next
    case 2
    with second [OF 2(2)] show "case out of Ret res \<Rightarrow> if res = Next then wp (destroy_oidc_provider E) ?Q x else ?Q (Ret res) x | out \<Rightarrow> ?Q out x"
      by (simp only: outcome.case if_True simp_thms)
  qed
qed

text \<open>
  What guards the removal of the finalizer, from the request \<open>s\<close> with which the phases start: \<open>u\<close>, \<open>v\<close> and \<open>w\<close> are the
  requests after the first two, three and four phases.
\<close>

definition rosa_gone :: "ROSACluster services \<Rightarrow> rosa_request \<Rightarrow> bool" where
  "rosa_gone E s \<longleftrightarrow> no_children E s \<and> (\<exists>u v w.
     passes (take 2 (rosa_delete_phases E)) s u \<and> cluster_missing E u \<and>
     passes (take 3 (rosa_delete_phases E)) s v \<and> roles_deleted E v w \<and>
     passes (take 4 (rosa_delete_phases E)) s w \<and> oidc_config_deleted E w \<and>
     oidc_provider_deleted E (snd (run_state (destroy_oidc_config E) w)))"

interpretation rosa_guarded: guarded_delete rosa_delete_phases rosa_gone
proof
  show "emits req_calls (\<lambda>c. \<not> object_patch c) f" if "(n, f) \<in> set (rosa_delete_phases E)" for n f E
  proof -
    have "emits req_calls (\<lambda>c. \<not> object_patch c) (FindChildObjects E)"
      unfolding FindChildObjects_def cluster_children_def find_children.simps by (intro emits) simp_all
    moreover have "emits req_calls (\<lambda>c. \<not> object_patch c) (DestroyCluster E)"
      unfolding DestroyCluster_def by (intro emits) simp_all
    moreover have "emits req_calls (\<lambda>c. \<not> object_patch c) (RC_WaitUntilMissing E)"
      unfolding RC_WaitUntilMissing_def by (intro emits) simp_all
    moreover have "emits req_calls (\<lambda>c. \<not> object_patch c) (DestroyOperatorRoles E)"
      unfolding DestroyOperatorRoles_def destroyOperatorRoles_def Let_def by (intro emits) simp_all
    moreover have "emits req_calls (\<lambda>c. \<not> object_patch c) (DestroyOIDC E)"
      unfolding DestroyOIDC_def destroy_oidc_config_def destroy_oidc_provider_def by (intro emits) simp_all
    ultimately show ?thesis using that by (auto simp: rosa_delete_phases_def)
  qed
  show "rosa_gone E s" if all: "passes (rosa_delete_phases E) s t" for E s t
  proof -
    from all obtain o1 s1 o2 u o3 v o4 w o5 where
      p1: "run_state (FindChildObjects E) s = (o1, s1)" "passed o1" and
      p2: "run_state (DestroyCluster E) s1 = (o2, u)" "passed o2" and
      p3: "run_state (RC_WaitUntilMissing E) u = (o3, v)" "passed o3" and
      p4: "run_state (DestroyOperatorRoles E) v = (o4, w)" "passed o4" and
      p5: "run_state (DestroyOIDC E) w = (o5, t)" "passed o5"
      unfolding rosa_delete_phases_def by (auto simp: passes_Cons_iff)
    have "passes (take 2 (rosa_delete_phases E)) s u" "passes (take 3 (rosa_delete_phases E)) s v"
      "passes (take 4 (rosa_delete_phases E)) s w"
      using p1 p2 p3 p4 by (auto simp: rosa_delete_phases_def passes_Cons_iff numeral_eq_Suc)
    moreover have "no_children E s" using p1 FindChildObjects_passes_iff [of E s] by simp
    moreover have "cluster_missing E u" using p3 WaitUntilMissing_passes_iff [of E u] by simp
    ultimately show ?thesis
      using wpD [OF wp_DestroyOperatorRoles p4(1)] p4(2) wpD [OF wp_DestroyOIDC p5(1)] p5(2)
      unfolding rosa_gone_def by blast
  qed
qed

section \<open>Properties\<close>

text \<open>
  C2: the delete path of a ROSA cluster patches the object, and so removes its finalizer, only when the cluster and
  everything around it is gone: no identity provider and no machine pool with its identifier is listed;
  its deletion is recorded or OCM finds no cluster of its name; the operator roles that AWS lists for its prefix have all been
  deleted, each deletion confirmed by AWS; OCM no longer has the OIDC configuration and AWS has deleted the provider (or the conditions
  of the object record these deletions).
\<close>

theorem rosa_finalizer_kept_until_gone:
  assumes "run_state (RC_ReconcileDelete E) r = (out, t)" and "object_patches t \<noteq> object_patches r"
    and "s = snd (run_state (RC_Setup E) r)"
  shows "no_children E s \<and> (\<exists>u v w.
     passes (take 2 (rosa_delete_phases E)) s u \<and> cluster_missing E u \<and>
     passes (take 3 (rosa_delete_phases E)) s v \<and> roles_deleted E v w \<and>
     passes (take 4 (rosa_delete_phases E)) s w \<and> oidc_config_deleted E w \<and>
     oidc_provider_deleted E (snd (run_state (destroy_oidc_config E) w)))"
proof -
  obtain err s' where st: "run_state (RC_Setup E) r = (err, s')" by fastforce
  with assms(3) have s: "s' = s" by simp
  from wpD [OF wp_RC_Setup st] s have p: "object_patches s = object_patches r" by auto
  with assms(1,2) st s have "run_state (Execute rosa_ops (rosa_delete_phases E @ [(''CompleteDestroy'', CompleteDestroy E rosa_ops)])) s = (out, t)"
    by (cases err) (auto simp: RC_ReconcileDelete_def rosa_fails_def)
  from rosa_guarded.patched_only_if_gone [OF this] assms(2) p show ?thesis
    unfolding rosa_gone_def by simp
qed

text \<open>A cluster whose deletion is recorded step by step.\<close>

definition deleted_rosa :: ROSACluster where
  "deleted_rosa = example_rosa\<lparr>Finalizers := [FinalizerName example_rosa], DeletionTimestamp := Some 2,
     Status_ClusterID := ''c1'',
     Status_Conditions := [ClusterCreated 0, ClusterUninstalling 0, ClusterDeleted 0, OperatorRolesDeleted 0, OIDCProviderDeleted 0,
       OIDCConfigDeleted 0]\<rparr>"

definition rosa_delete_request :: rosa_request where
  "rosa_delete_request = \<lparr>World = empty_world, Original = deleted_rosa, Desired = deleted_rosa, Current = None, Trigger = Delete,
     RR_OCMClient = None, RR_Cluster = None, RR_Version = None\<rparr>"

lemma deleted_rosa_recorded:
  "recorded ClusterUninstalling deleted_rosa" "recorded ClusterDeleted deleted_rosa"
  "recorded OperatorRolesDeleted deleted_rosa" "recorded OIDCProviderDeleted deleted_rosa" "recorded OIDCConfigDeleted deleted_rosa"
  by (auto simp: recorded_def IsSet_iff deleted_rosa_def GetConditions_def)

lemma keeps_FindChildObjects:
  "(\<And>r w. f (r\<lparr>World := w\<rparr>) = f r) \<Longrightarrow> keeps f (FindChildObjects E)"
  unfolding FindChildObjects_def cluster_children_def find_children.simps rosa_fails_def by (intro keeps)

lemma phases_recorded:
  assumes "recorded ClusterUninstalling (Original r) \<or> \<not> recorded ClusterCreated (Original r)"
    "recorded OperatorRolesDeleted (Original r)" "recorded OIDCProviderDeleted (Original r)" "recorded OIDCConfigDeleted (Original r)"
  shows "run_state (DestroyCluster E) r = (Ret Next, r)" "run_state (DestroyOperatorRoles E) r = (Ret Next, r)"
    "run_state (DestroyOIDC E) r = (Ret Next, r)"
  using assms by (simp_all add: DestroyCluster_def DestroyOperatorRoles_def DestroyOIDC_def destroy_oidc_config_def
      destroy_oidc_provider_def and_then_def IsSet_recorded)

lemma run_WaitUntilMissing:
  assumes "cluster_missing E u"
  shows "\<exists>w. run_state (RC_WaitUntilMissing E) u = (Ret Next, u\<lparr>World := w\<rparr>)"
proof -
  have "wp (RC_WaitUntilMissing E) (\<lambda>out s. \<exists>w. (out, s) = (Ret Next, u\<lparr>World := w\<rparr>)) u"
    using assms by (auto simp: RC_WaitUntilMissing_def wp cluster_missing_def IsSet_recorded intro: exI [of _ "World u"])
  then show ?thesis by (simp add: wp_run prod_eq_iff)
qed

lemma delete_phases_pass:
  assumes "no_children E s"
    and "recorded ClusterUninstalling (Original s) \<or> \<not> recorded ClusterCreated (Original s)"
    and "recorded ClusterDeleted (Original s) \<or> (\<forall>h. cluster_lookup E h (RC_DisplayName (RC_Spec (Desired s))) = Inr None)"
    and "recorded OperatorRolesDeleted (Original s)" "recorded OIDCProviderDeleted (Original s)" "recorded OIDCConfigDeleted (Original s)"
  shows "\<exists>t. passes (rosa_delete_phases E) s t \<and> Original t = Original s"
proof -
  obtain o1 s1 where f: "run_state (FindChildObjects E) s = (o1, s1)" by fastforce
  from f assms(1) FindChildObjects_passes_iff [of E s] have p: "passed o1" by simp
  from keepsD [OF keeps_FindChildObjects f, of Original] keepsD [OF keeps_FindChildObjects f, of Desired]
  have s1: "Original s1 = Original s" "Desired s1 = Desired s" by simp_all
  then obtain w where w: "run_state (RC_WaitUntilMissing E) s1 = (Ret Next, s1\<lparr>World := w\<rparr>)"
    using run_WaitUntilMissing [of E s1] assms(3) by (auto simp: cluster_missing_def)
  have "run_state (DestroyCluster E) s1 = (Ret Next, s1)"
    "run_state (DestroyOperatorRoles E) (s1\<lparr>World := w\<rparr>) = (Ret Next, s1\<lparr>World := w\<rparr>)"
    "run_state (DestroyOIDC E) (s1\<lparr>World := w\<rparr>) = (Ret Next, s1\<lparr>World := w\<rparr>)"
    using phases_recorded [of s1] phases_recorded [of "s1\<lparr>World := w\<rparr>"] assms s1 by simp_all
  with f p w s1 show ?thesis by (auto simp: rosa_delete_phases_def passes_Cons_iff)
qed

text \<open>
  C16: the deletion of a ROSA cluster completes: once no child is left, OCM finds no cluster of its name (or the deletion
  is recorded), and the deletion of the operator roles and of the OIDC objects is recorded, the delete path
  removes the finalizer and asks for no requeue, provided that the clients can be set up and the server accepts and
  stores the patch.
\<close>

theorem rosa_delete_completes:
  assumes "run_state (RC_Setup E) r = (None, s)" and "no_children E s"
    and "recorded ClusterUninstalling (Original s) \<or> \<not> recorded ClusterCreated (Original s)"
    and "recorded ClusterDeleted (Original s) \<or> (\<forall>h. cluster_lookup E h (RC_DisplayName (RC_Spec (Desired s))) = Inr None)"
    and "recorded OperatorRolesDeleted (Original s)" "recorded OIDCProviderDeleted (Original s)" "recorded OIDCConfigDeleted (Original s)"
    and "finalizer_libs (Lib E)" and "patch_stores E" and "\<And>h b p. \<exists>p'. kube_Patch (Kube E) h b p = Inr p'"
  shows "\<exists>t. run_state (RC_ReconcileDelete E) r = (Ret (Skip None), t) \<and> \<not> HasFinalizer E (Original t)"
proof -
  obtain t where "passes (rosa_delete_phases E) s t" using delete_phases_pass [OF assms(2-7)] by blast
  from rosa_guarded.completes [OF this assms(8-10)] assms(1) show ?thesis
    by (simp add: RC_ReconcileDelete_def)
qed

theorem rosa_delete_completes_witness:
  "\<exists>t. run_state (RC_ReconcileDelete (sample_services deleted_rosa)) rosa_delete_request = (Ret (Skip None), t) \<and>
     \<not> HasFinalizer (sample_services deleted_rosa) (Original t)"
proof -
  let ?E = "sample_services deleted_rosa" and ?r = "rosa_delete_request"
  have r: "Original ?r = deleted_rosa" by (simp add: rosa_delete_request_def)
  obtain s where st: "run_state (RC_Setup ?E) ?r = (None, s)" "Original s = deleted_rosa"
    by (simp add: RC_Setup_def rosa_delete_request_def NewClient_def sample_aws_def empty_world_def)
  have "no_children ?E s" by (simp add: no_children_def)
  moreover have "finalizer_libs (Lib ?E)" "patch_stores ?E" by (auto simp: finalizer_libs_def patch_stores_def)
  ultimately show ?thesis
    using st deleted_rosa_recorded by (intro rosa_delete_completes [OF st(1)]) auto
qed

text \<open>A cluster of which all but the deletion of the operator roles is recorded.\<close>

definition roles_left_rosa :: ROSACluster where
  "roles_left_rosa = deleted_rosa\<lparr>Status_Conditions := [ClusterCreated 0, ClusterUninstalling 0, ClusterDeleted 0,
     OIDCProviderDeleted 0, OIDCConfigDeleted 0]\<rparr>"

definition roles_left_request :: rosa_request where
  "roles_left_request = rosa_delete_request\<lparr>Original := roles_left_rosa, Desired := roles_left_rosa\<rparr>"

lemma roles_left_recorded:
  "recorded ClusterUninstalling roles_left_rosa" "recorded ClusterDeleted roles_left_rosa"
  "recorded OIDCProviderDeleted roles_left_rosa" "recorded OIDCConfigDeleted roles_left_rosa"
  "\<not> recorded OperatorRolesDeleted roles_left_rosa"
  by (auto simp: recorded_def IsSet_iff roles_left_rosa_def GetConditions_def OperatorRolesDeleted_def ClusterCreated_def
      ClusterUninstalling_def ClusterDeleted_def OIDCProviderDeleted_def OIDCConfigDeleted_def make_condition_def)

lemma roles_left_kept:
  "recorded OIDCProviderDeleted (SetConditions (addCondition (GetConditions roles_left_rosa) (OperatorRolesDeleted now)) roles_left_rosa)"
  "recorded OIDCConfigDeleted (SetConditions (addCondition (GetConditions roles_left_rosa) (OperatorRolesDeleted now)) roles_left_rosa)"
  "HasFinalizer (sample_services roles_left_rosa)
     (SetConditions (addCondition (GetConditions roles_left_rosa) (OperatorRolesDeleted now)) roles_left_rosa)"
  by (auto simp: recorded_def IsSet_iff roles_left_rosa_def GetConditions_def SetConditions_def addCondition_def OperatorRolesDeleted_def
      ClusterCreated_def ClusterUninstalling_def ClusterDeleted_def OIDCProviderDeleted_def OIDCConfigDeleted_def make_condition_def
      HasFinalizer_def deleted_rosa_def FinalizerName_def)

lemma roles_left_deleted:
  assumes "Original r = roles_left_rosa" "aws_client (World r) = Some region"
  shows "\<exists>t. run_state (DestroyOperatorRoles (sample_services roles_left_rosa)) r = (Ret Next, t) \<and>
    recorded OIDCProviderDeleted (Original t) \<and> recorded OIDCConfigDeleted (Original t) \<and>
    HasFinalizer (sample_services roles_left_rosa) (Original t)"
proof -
  have "wp (DestroyOperatorRoles (sample_services roles_left_rosa)) (\<lambda>out t. out = Ret Next \<and>
    recorded OIDCProviderDeleted (Original t) \<and> recorded OIDCConfigDeleted (Original t) \<and>
    HasFinalizer (sample_services roles_left_rosa) (Original t)) r"
    using assms roles_left_recorded roles_left_kept
    by (simp add: DestroyOperatorRoles_def destroyOperatorRoles_def wp wp_and_then IsSet_recorded Let_def
        GetCredentialRequests_def DeleteOperatorRoles_def notify_next_def notify_def condition_Update_def
        sample_ocm2_def sample_aws_def sample_libs_def sdk_ok_def)
  then show ?thesis by (simp add: wp_run prod_eq_iff)
qed


lemma roles_left_reached:
  fixes r :: rosa_request
  assumes "Original r = roles_left_rosa"
  shows "passes (take 3 (rosa_delete_phases (sample_services roles_left_rosa))) r v \<longleftrightarrow>
    v = r\<lparr>World := (World r)\<lparr>calls := req_calls r @ [KListGitLabs, KListLDAPs, KListMachinePools]\<rparr>\<rparr>"
proof -
  let ?E = "sample_services roles_left_rosa"
  let ?v = "r\<lparr>World := (World r)\<lparr>calls := req_calls r @ [KListGitLabs, KListLDAPs, KListMachinePools]\<rparr>\<rparr>"
  have "wp (FindChildObjects ?E) (\<lambda>out t. (out, t) = (Ret Next, ?v)) r"
    unfolding FindChildObjects_def cluster_children_def
    by (simp add: wp GitLab_ExistsForClusterID_def LDAP_ExistsForClusterID_def MachinePool_ExistsForClusterID_def
        GitLab_FindAllByClusterID_def LDAP_FindAllByClusterID_def MachinePool_FindAllByClusterID_def
        GitLab_FindAll_def LDAP_FindAll_def MachinePool_FindAll_def)
  then have "run_state (FindChildObjects ?E) r = (Ret Next, ?v)" by (simp add: wp_run prod_eq_iff)
  moreover have "run_state (DestroyCluster ?E) ?v = (Ret Next, ?v)" "run_state (RC_WaitUntilMissing ?E) ?v = (Ret Next, ?v)"
    using assms roles_left_recorded by (simp_all add: DestroyCluster_def RC_WaitUntilMissing_def IsSet_recorded)
  ultimately show ?thesis by (auto simp: rosa_delete_phases_def passes_Cons_iff numeral_eq_Suc)
qed

theorem rosa_finalizer_kept_until_gone_witness:
  "\<exists>t v w. t = snd (run_state (RC_ReconcileDelete (sample_services roles_left_rosa)) roles_left_request) \<and>
     object_patches t \<noteq> [] \<and> \<not> recorded OperatorRolesDeleted (Original v) \<and> roles_deleted (sample_services roles_left_rosa) v w"
proof -
  let ?E = "sample_services roles_left_rosa" and ?r = "roles_left_request"
  obtain s region where st: "run_state (RC_Setup ?E) ?r = (None, s)" "Original s = roles_left_rosa" "aws_client (World s) = Some region"
    by (simp add: RC_Setup_def roles_left_request_def rosa_delete_request_def NewClient_def sample_aws_def empty_world_def)
  let ?v = "s\<lparr>World := (World s)\<lparr>calls := req_calls s @ [KListGitLabs, KListLDAPs, KListMachinePools]\<rparr>\<rparr>"
  from st roles_left_deleted [of ?v] obtain w where w: "run_state (DestroyOperatorRoles ?E) ?v = (Ret Next, w)"
    "recorded OIDCProviderDeleted (Original w)" "recorded OIDCConfigDeleted (Original w)" "HasFinalizer ?E (Original w)" by auto
  have "wp (CompleteDestroy ?E rosa_ops) (\<lambda>out t. passed out \<and> object_patches t \<noteq> []) w"
    by (simp add: CompleteDestroy_def wp wp_RemoveFinalizer Let_def w(4))
  then obtain out t where c: "run_state (CompleteDestroy ?E rosa_ops) w = (out, t)" "passed out" "object_patches t \<noteq> []"
    by (auto simp: wp_def split: prod.splits)
  have oidc: "run_state (DestroyOIDC ?E) w = (Ret Next, w)"
    using w by (simp add: DestroyOIDC_def destroy_oidc_config_def destroy_oidc_provider_def and_then_def IsSet_recorded)
  have split: "rosa_delete_phases ?E = take 3 (rosa_delete_phases ?E) @
      [(''DestroyOperatorRoles'', DestroyOperatorRoles ?E), (''DestroyOIDC'', DestroyOIDC ?E)]"
    by (simp add: rosa_delete_phases_def)
  have "passes (rosa_delete_phases ?E @ [(''CompleteDestroy'', CompleteDestroy ?E rosa_ops)]) s t"
    using roles_left_reached [OF st(2)] w(1) oidc c(1,2) by (subst split) (auto simp: passes_append passes_Cons_iff)
  from Execute_passes [OF this, of rosa_ops] st(1)
  have run: "run_state (RC_ReconcileDelete ?E) ?r = (Ret (Skip None), t)" by (simp add: RC_ReconcileDelete_def)
  have "object_patches t \<noteq> object_patches ?r"
    using c(3) by (simp add: roles_left_request_def rosa_delete_request_def empty_world_def)
  from rosa_finalizer_kept_until_gone [OF run this refl] st obtain v w where
    "passes (take 3 (rosa_delete_phases ?E)) s v" "roles_deleted ?E v w" by auto
  moreover from this(1) roles_left_reached [OF st(2)] st(2) roles_left_recorded(5)
  have "\<not> recorded OperatorRolesDeleted (Original v)" by simp
  ultimately show ?thesis using run c(3) by auto
qed

end
