(* ===== verification/ROSA_Runs.thy ===== *)
theory ROSA_Runs
  imports ROSA_Request ROSA_Create ROSA_Delete
begin

text \<open>
  Runs of the ROSA cluster controller. Shown here: in every run, a cluster is removed in OCM only for a resource that is being
  deleted, and added or updated only after the lookup that justifies it.
\<close>

section \<open>Lemmas: calls\<close>

lemma emits_run_inner:
  assumes "emits req_calls P m" and "\<And>w. World (mk w) = w"
  shows "emits calls P (do {
    w \<leftarrow> State_Monad.get;
    State_Monad.set (World (snd (run_state m (mk w))));
    State_Monad.return (f (run_state m (mk w)))
  })"
  unfolding emits_def
proof
  fix w
  obtain a r where m: "run_state m (mk w) = (a, r)" by fastforce
  from emitsD [OF assms(1) m] assms(2) m
  show "\<exists>cs. calls (snd (run_state (do {
      w \<leftarrow> State_Monad.get;
      State_Monad.set (World (snd (run_state m (mk w))));
      State_Monad.return (f (run_state m (mk w)))
    }) w)) = calls w @ cs \<and> list_all P cs" by simp
qed

lemma emits_setVersion:
  assumes "\<And>f p n. P (VersionsPage f p n)" "\<And>f. P (VersionsSearch f)" "\<And>b p. P (KStatusPatch b p)"
  shows "emits req_calls P (setVersion E)"
  unfolding setVersion_def choose_version_def record_version_def using assms
  by (intro emits) (auto simp: set_spec_version_def)

lemma emits_RC_NewRequest:
  assumes "\<And>f p n. P (VersionsPage f p n)" "\<And>f. P (VersionsSearch f)" "\<And>b p. P (KStatusPatch b p)" "P (KGet ns n)"
  shows "emits calls P (RC_NewRequest E ns n)"
  unfolding RC_NewRequest_def roles_prefix_def Let_def using assms
  by (intro emits emits_run_inner emits_setVersion) auto

lemma RC_NewRequest_made:
  assumes "run_state (RC_NewRequest E ns n) w = (Ret (Inr req), w')"
  shows "\<exists>obj x. kube_Get (Kube E) (calls w) ns n = Inr obj \<and> Current req = None \<and> calls w' = calls w @ KGet ns n # x \<and>
    RC_DisplayName (RC_Spec (Desired req)) = (if RC_DisplayName (RC_Spec obj) = [] then Name obj else RC_DisplayName (RC_Spec obj))"
proof -
  obtain obj obj' p w1 where obj: "kube_Get (Kube E) (calls w) ns n = Inr obj"
    and pre: "run_state (roles_prefix E obj (default_display_name obj)) (w\<lparr>calls := calls w @ [KGet ns n]\<rparr>) = (Ret (Inr (obj', p)), w1)"
    and sv: "run_state (setVersion E) \<lparr>World = w1, Original = obj', Desired = rosa_desired_state p (default_display_name obj),
      Current = None, Trigger = GetTrigger obj', RR_OCMClient = None, RR_Cluster = None, RR_Version = None\<rparr> = (Ret None, req)"
    and w': "World req = w'"
    by (rule RC_NewRequest_cases [OF assms])
  have "emits calls (\<lambda>c. True) (roles_prefix E obj (default_display_name obj))"
    unfolding roles_prefix_def by (intro emits) simp_all
  from emitsD [OF this pre] emitsD [OF emits_setVersion sv, of "\<lambda>c. True"] w' have "\<exists>x. calls w' = calls w @ KGet ns n # x" by auto
  with obj wpD [OF wp_setVersion sv] show ?thesis
    by (auto simp: rosa_desired_state_fields default_display_name_fields)
qed

lemma RC_GetCurrentState_calls:
  assumes "run_state (RC_GetCurrentState E) s = (out, t)"
  shows "req_calls t = req_calls s @ [ClusterSearch (name_filter (RC_DisplayName (RC_Spec (Desired s))))]"
  using wpD [OF _ assms, of "\<lambda>out t. req_calls t = req_calls s @ [ClusterSearch (name_filter (RC_DisplayName (RC_Spec (Desired s))))]"]
  by (simp add: RC_GetCurrentState_def wp split: sum.splits option.splits outcome.splits)

section \<open>Runs\<close>

text \<open>
  Why a cluster may be added or updated for the request \<open>r\<close>: what OCM has answered since the request was made, with no change
  since. The delete path deletes the recorded cluster right after it has found no child, while the cluster is recorded as
  created and not as being uninstalled.
\<close>

definition rosa_reason :: "ROSACluster services \<Rightarrow> rosa_request \<Rightarrow> ROSACluster hist \<Rightarrow> ROSACluster call \<Rightarrow> bool" where
  "rosa_reason E r h c \<longleftrightarrow> (let d = Desired r; name = RC_DisplayName (RC_Spec d) in
     \<exists>mid later. h = req_calls r @ mid @ ClusterSearch (name_filter name) # later \<and> filter cluster_change later = [] \<and>
       (case cluster_lookup E (req_calls r @ mid) name of
          Inl err \<Rightarrow> False
        | Inr None \<Rightarrow> built_add E d c
        | Inr (Some cluster) \<Rightarrow> cluster_State (Some cluster) = ClusterStateReady \<and>
            (\<exists>cur. RC_CopyFrom (rosa_seed name) cluster = Ret cur \<and> \<not> rosa_matches (RC_Spec d) (RC_Spec cur)) \<and>
            (\<exists>i. built_update E d i c)))"

definition rosa_removal :: "ROSACluster services \<Rightarrow> rosa_request \<Rightarrow> ROSACluster hist \<Rightarrow> ROSACluster call \<Rightarrow> bool" where
  "rosa_removal E s h c \<longleftrightarrow> (\<exists>a. run_state (RC_Setup E) s = (None, a) \<and> no_children E a \<and>
     h = req_calls a @ [KListGitLabs, KListLDAPs, KListMachinePools]) \<and>
     recorded ClusterCreated (Original s) \<and> \<not> recorded ClusterUninstalling (Original s) \<and> c = ClusterDelete (Status_ClusterID (Original s))"

lemma rosa_reasonI:
  assumes "same_request r s" and "req_calls s = req_calls r @ x" and "rosa_why E s c" and "filter cluster_change rest = []"
    and "run_state (RC_GetCurrentState E) s = (out, t)"
  shows "rosa_reason E r (req_calls t @ rest) c"
proof -
  have d: "Desired s = Desired r" using same_requestD(1) [OF assms(1)] .
  let ?name = "RC_DisplayName (RC_Spec (Desired r))"
  have "req_calls t @ rest = req_calls r @ x @ ClusterSearch (name_filter ?name) # rest \<and> filter cluster_change rest = [] \<and>
       (case cluster_lookup E (req_calls r @ x) ?name of
          Inl err \<Rightarrow> False
        | Inr None \<Rightarrow> built_add E (Desired r) c
        | Inr (Some cluster) \<Rightarrow> cluster_State (Some cluster) = ClusterStateReady \<and>
            (\<exists>cur. RC_CopyFrom (rosa_seed ?name) cluster = Ret cur \<and> \<not> rosa_matches (RC_Spec (Desired r)) (RC_Spec cur)) \<and>
            (\<exists>i. built_update E (Desired r) i c))"
    using RC_GetCurrentState_calls [OF assms(5)] assms(2-4) d by (auto simp: rosa_why_def rosa_lookup_def rosa_copy_def)
  then show ?thesis unfolding rosa_reason_def Let_def by blast
qed

lemma rosa_reason_same:
  assumes "same_request r s" and "req_calls s = req_calls r @ x" and "rosa_reason E s h c"
  shows "rosa_reason E r h c"
proof -
  have d: "Desired s = Desired r" using same_requestD(1) [OF assms(1)] .
  from assms(3) obtain mid later where "h = req_calls r @ (x @ mid) @ ClusterSearch (name_filter (RC_DisplayName (RC_Spec (Desired r)))) # later \<and>
       filter cluster_change later = [] \<and> (case cluster_lookup E (req_calls r @ x @ mid) (RC_DisplayName (RC_Spec (Desired r))) of
          Inl err \<Rightarrow> False
        | Inr None \<Rightarrow> built_add E (Desired r) c
        | Inr (Some cluster) \<Rightarrow> cluster_State (Some cluster) = ClusterStateReady \<and>
            (\<exists>cur. RC_CopyFrom (rosa_seed (RC_DisplayName (RC_Spec (Desired r)))) cluster = Ret cur \<and>
              \<not> rosa_matches (RC_Spec (Desired r)) (RC_Spec cur)) \<and>
            (\<exists>i. built_update E (Desired r) i c))"
    unfolding rosa_reason_def Let_def d assms(2) append_assoc by blast
  then show ?thesis unfolding rosa_reason_def Let_def by blast
qed

lemma rosa_create_justified:
  assumes "Current r = None" and "run_state (RC_ReconcileCreate E interval) r = (out, t)"
  shows "\<exists>cs. req_calls t = req_calls r @ cs \<and> justified_from (\<lambda>h c. cluster_change c \<longrightarrow> rosa_reason E r h c) (req_calls r) cs"
proof -
  obtain err a where st: "run_state (RC_Setup E) r = (err, a)" by fastforce
  from wpD [OF wp_RC_Setup st] have a: "same_request r a" by simp
  from wpD [OF wp_RC_Setup st] obtain x where x: "req_calls a = req_calls r @ x"
    "justified_from (\<lambda>h c. cluster_change c \<longrightarrow> rosa_reason E r h c) (req_calls r) x" by auto
  have "\<exists>cs. req_calls t = req_calls a @ cs \<and> justified_from (\<lambda>h c. cluster_change c \<longrightarrow> rosa_reason E r h c) (req_calls a) cs"
  proof (cases err)
    case None
    with assms(2) st have run: "run_state (do {
        err \<leftarrow> AddFinalizer E;
        (case err of
           Some e \<Rightarrow> do { req \<leftarrow> State_Monad.get; State_Monad.return (Ret (OnError rosa_ops req (Some (AddFinalizerError e)))) }
         | None \<Rightarrow> Execute rosa_ops (rosa_create_phases E interval))
      }) a = (out, t)" by (simp add: RC_ReconcileCreate_def)
    show ?thesis
    proof (rule rosa_apply.create_path_justified [where pre = "[]" and late = "drop 2 (rosa_create_phases E interval)",
          OF _ _ _ _ _ _ run])
      show "Current a = None" using assms(1) same_requestD(2) [OF a] by simp
      show "emits req_calls (\<lambda>c. True) (ApplyCluster E)"
        unfolding ApplyCluster_def createCluster_def ensureOIDCProvider_def updateCluster_def RC_desired_def Let_def by (intro emits) simp_all
      fix s u :: rosa_request and rest :: "ROSACluster hist" and found y c
      assume "same_request a s" "req_calls s = req_calls a @ y" "run_state (RC_GetCurrentState E) s = (found, u)" "rosa_why E s c"
        "filter cluster_change rest = []"
      then show "rosa_reason E r (req_calls u @ rest) c"
        using rosa_reasonI [OF same_request_trans [OF a]] x(1) by auto
    qed (auto simp: rosa_create_phases_def RC_WaitUntilReady_def intro!: emits)
  next
    case (Some e)
    with assms(2) st show ?thesis by (auto simp: RC_ReconcileCreate_def rosa_fails_def)
  qed
  with x show ?thesis by auto
qed

lemma find_child_passed:
  assumes "run_state (q (Status_ClusterID (Original r))) (World r) = (x, w)" and "run_state (find_children ((n, q) # rest)) r = (out, u)"
    and "passed out"
  shows "run_state (find_children rest) (r\<lparr>World := w\<rparr>) = (out, u)"
  using assms by (cases x) (auto simp: rosa_fails_def split: option.splits if_splits)

lemma FindChildObjects_passed:
  assumes "run_state (FindChildObjects E) a = (out, u)" and "passed out"
  shows "no_children E a" and "u = a\<lparr>World := (World a)\<lparr>calls := req_calls a @ [KListGitLabs, KListLDAPs, KListMachinePools]\<rparr>\<rparr>"
proof -
  show "no_children E a" using FindChildObjects_passes_iff [of E a] assms by simp
  note one = find_child_passed [OF run_children(1) assms(1) [unfolded FindChildObjects_def cluster_children_def] assms(2)]
  note two = find_child_passed [OF run_children(2) one assms(2)]
  from find_child_passed [OF run_children(3) two assms(2)]
  show "u = a\<lparr>World := (World a)\<lparr>calls := req_calls a @ [KListGitLabs, KListLDAPs, KListMachinePools]\<rparr>\<rparr>" by simp
qed

lemma wp_DestroyCluster_justified:
  assumes "run_state (RC_Setup E) s = (None, a)" and "run_state (FindChildObjects E) a = (out, u)" and "passed out"
  shows "wp (DestroyCluster E) (\<lambda>out t. justified_after (\<lambda>h c. cluster_change c \<longrightarrow> rosa_removal E s h c) (req_calls u) t) u"
proof -
  have o: "Original u = Original s"
    using wpD [OF wp_RC_Setup assms(1)] FindChildObjects_passed(2) [OF assms(2,3)] by simp
  have u: "rosa_removal E s (req_calls u) (ClusterDelete (Status_ClusterID (Original s)))"
    if "recorded ClusterCreated (Original s)" "\<not> recorded ClusterUninstalling (Original s)"
    using that assms(1) FindChildObjects_passed [OF assms(2,3)] by (auto simp: rosa_removal_def)
  have rest: "wp (case e of Some x \<Rightarrow> rosa_fails msg x | None \<Rightarrow> notify_next E Deleted ClusterUninstalling m n)
      (\<lambda>out. justified_after (\<lambda>h c. cluster_change c \<longrightarrow> rosa_removal E s h c) (req_calls u)) t"
    if "justified_after (\<lambda>h c. cluster_change c \<longrightarrow> rosa_removal E s h c) (req_calls u) t" for e msg m n t
    by (rule wp_justified_emits [OF that, of "\<lambda>c. \<not> cluster_change c"]) (auto intro!: emits)
  show ?thesis
    unfolding DestroyCluster_def
    by (auto simp: wp_bind wp_get wp_if wp_return wp_modify wp_on_world ClusterClient_Delete_def wp_invoke IsSet_recorded o u
        intro!: rest justified_afterI)
qed

lemma rosa_delete_justified:
  "wp (RC_ReconcileDelete E) (\<lambda>out t. justified_after (\<lambda>h c. cluster_change c \<longrightarrow> rosa_removal E r h c) (req_calls r) t) r"
proof -
  let ?J = "\<lambda>h c. cluster_change c \<longrightarrow> rosa_removal E r h c" and ?ps = "drop 2 (rosa_delete_phases E) @ [(''CompleteDestroy'', CompleteDestroy E rosa_ops)]"
  obtain err a where st: "run_state (RC_Setup E) r = (err, a)" by fastforce
  obtain out u where f: "run_state (FindChildObjects E) a = (out, u)" by fastforce
  have a: "justified_after ?J (req_calls r) a" using wpD [OF wp_RC_Setup st] by (auto intro: justified_afterI)
  have "emits req_calls (\<lambda>c. \<not> cluster_change c) (FindChildObjects E)"
    unfolding FindChildObjects_def cluster_children_def find_children.simps by (intro emits) simp_all
  from wpD [OF wp_justified_emits [OF a this] f] have u: "justified_after ?J (req_calls r) u" by simp
  have late: "emits req_calls (\<lambda>c. \<not> cluster_change c) g" if "(n, g) \<in> set ?ps" for n g
    using that by (auto simp: rosa_delete_phases_def RC_WaitUntilMissing_def DestroyOperatorRoles_def destroyOperatorRoles_def
      DestroyOIDC_def destroy_oidc_config_def destroy_oidc_provider_def Let_def intro!: emits)
  have destroy: "wp (Execute rosa_ops ((''DestroyCluster'', DestroyCluster E) # ?ps)) (\<lambda>out t. justified_after ?J (req_calls u) t) u"
    if "err = None" "passed out"
    using that st f by (intro wp_justified_Execute [where P = "\<lambda>c. \<not> cluster_change c"] wp_DestroyCluster_justified late) auto
  have "wp (Execute rosa_ops ((''DestroyCluster'', DestroyCluster E) # ?ps)) (\<lambda>out t. justified_after ?J (req_calls r) t) u"
    if "err = None" "passed out" by (rule wp_mono [OF destroy [OF that]]) (use u in \<open>auto simp: justified_after_def\<close>)
  then show ?thesis
    using a u by (auto simp: RC_ReconcileDelete_def rosa_delete_phases_def wp_run st run_Execute_Cons [OF f] rosa_fails_def split: option.split)
qed

interpretation rosa_safe: safe_controller E "rosa_controller E interval" cluster_change "rosa_removal E" "rosa_reason E" for E interval
proof
  fix ns n
  show "emits calls (\<lambda>c. \<not> cluster_change c) (NewRequest (rosa_controller E interval) ns n)"
    by (simp add: rosa_controller_def) (intro emits_RC_NewRequest; simp)
next
  fix r t :: rosa_request and out
  assume "Current r = None" and "run_state (ReconcileCreate (rosa_controller E interval)) r = (out, t)"
  then show "\<exists>cs. req_calls t = req_calls r @ cs \<and>
      justified_from (\<lambda>h c. cluster_change c \<longrightarrow> rosa_reason E r h c) (req_calls r) cs"
    using rosa_create_justified by (simp add: rosa_controller_def)
next
  fix r t :: rosa_request and out
  assume "run_state (ReconcileDelete (rosa_controller E interval)) r = (out, t)"
  with wpD [OF rosa_delete_justified] show "\<exists>cs. req_calls t = req_calls r @ cs \<and>
      justified_from (\<lambda>h c. cluster_change c \<longrightarrow> rosa_removal E r h c) (req_calls r) cs"
    by (simp add: rosa_controller_def justified_after_def)
qed (auto simp: rosa_controller_def RC_ReconcileUpdate_def dest: RC_NewRequest_made intro: rosa_reason_same)

section \<open>Properties\<close>

text \<open>
  C6: in every run of the ROSA cluster controller, from the start and whatever the servers answer, each change to a cluster
  follows a request that was created for a stored object, whose display name is the object's or, if that is empty, the object's
  name. If the object was being deleted when the request was created, the change deletes the recorded cluster, right after no
  child of it was listed and while it is recorded as created and not as being uninstalled. Otherwise the cluster is
  added, as built from the desired state of the request, only after OCM has found no cluster of that name, or updated only after
  OCM has returned a ready cluster of that name that differs from the desired state, with no change since that answer.
\<close>

theorem rosa_run_safe:
  assumes "reached (RC_Reconcile E interval) empty_world w" and "calls w = pre @ c # post" and "cluster_change c"
  shows "\<exists>h ns n obj x r rest. pre = h @ KGet ns n # x @ rest \<and> kube_Get (Kube E) h ns n = Inr obj \<and>
    request_made (rosa_controller E interval) r \<and> req_calls r = h @ KGet ns n # x \<and>
    RC_DisplayName (RC_Spec (Desired r)) = (if RC_DisplayName (RC_Spec obj) = [] then Name obj else RC_DisplayName (RC_Spec obj)) \<and>
    (if GetTrigger (Original r) = Delete then \<exists>s. dispatched E r s \<and> rosa_removal E s pre c else rosa_reason E r pre c)"
proof -
  from rosa_safe.run_safe [OF assms(1) [unfolded RC_Reconcile_def] assms(2,3)] obtain r rest where
    made: "request_made (rosa_controller E interval) r" and pre: "pre = req_calls r @ rest"
    and why: "if GetTrigger (Original r) = Delete then \<exists>s. dispatched E r s \<and> rosa_removal E s pre c else rosa_reason E r pre c" by blast
  from made obtain ns n v req w' where new: "run_state (RC_NewRequest E ns n) v = (Ret (Inr req), w')"
    and r: "r = req\<lparr>World := w'\<rparr>"
    unfolding request_made_def by (auto simp: rosa_controller_def)
  from RC_NewRequest_made [OF new] r obtain obj x where "kube_Get (Kube E) (calls v) ns n = Inr obj"
    "req_calls r = calls v @ KGet ns n # x"
    "RC_DisplayName (RC_Spec (Desired r)) = (if RC_DisplayName (RC_Spec obj) = [] then Name obj else RC_DisplayName (RC_Spec obj))"
    by auto
  moreover from this pre have "pre = calls v @ KGet ns n # x @ rest" by simp
  ultimately show ?thesis using made why by blast
qed

text \<open>A cluster that is marked for deletion, and an OCM that does not delete it yet.\<close>

definition doomed_rosa :: ROSACluster where
  "doomed_rosa = example_rosa\<lparr>DeletionTimestamp := Some 2, Status_ClusterID := ''c1'', RC_OperatorRolesPrefix := ''prod-abc'',
     RC_OpenShiftVersionID := ''openshift-v4.12.15'', Status_Conditions := [Reconciling Delete 0, ClusterCreated 0]\<rparr>"

definition rosa_failing :: "ROSACluster services" where
  "rosa_failing = (sample_services doomed_rosa)\<lparr>Ocm := sample_ocm\<lparr>ocm_ClusterDelete := (\<lambda>h i. sdk_error 500 ''down'')\<rparr>\<rparr>"

lemma doomed_rosa_fields:
  "RC_DisplayName (RC_Spec doomed_rosa) = ''prod''" "RC_OpenShiftVersion (RC_Spec doomed_rosa) = ''4.12.15''"
  "RC_OperatorRolesPrefix doomed_rosa = ''prod-abc''" "RC_OpenShiftVersionID doomed_rosa = ''openshift-v4.12.15''"
  "Status_ClusterID doomed_rosa = ''c1''" "GetTrigger doomed_rosa = Delete" "default_display_name doomed_rosa = doomed_rosa"
  by (simp_all add: doomed_rosa_def example_rosa_def zero_ROSACluster_def GetTrigger_def default_display_name_def)

lemma doomed_rosa_conditions:
  "IsSet (Reconciling Delete x) doomed_rosa" "IsSet (ClusterCreated x) doomed_rosa" "\<not> IsSet (ClusterUninstalling x) doomed_rosa"
  by (simp_all add: IsSet_iff GetConditions_def doomed_rosa_def ClusterCreated_def ClusterUninstalling_def Reconciling_def
      make_condition_def cond_content_def)

lemma rosa_failing_request:
  "\<exists>req w'. run_state (RC_NewRequest rosa_failing ns n) w = (Ret (Inr req), w') \<and> Original req = doomed_rosa"
proof -
  have get: "kube_Get (Kube rosa_failing) h ns n = Inr doomed_rosa" for h by (simp add: rosa_failing_def)
  have found: "run_state (GetVersionObject rosa_failing x) w = (Inr \<lparr>ver_ID = Some ''openshift-v4.12.15'', ver_RawID = Some ''4.12.15''\<rparr>,
      w\<lparr>calls := calls w @ [VersionsSearch (version_filter x)]\<rparr>)" for x w
    by (simp add: GetVersionObject_def rosa_failing_def sample_ocm2_def sdk_ok_def)
  have "\<exists>w'. run_state (setVersion rosa_failing) r = (Ret None, r\<lparr>World := w',
      RR_Version := Some \<lparr>ver_ID = Some ''openshift-v4.12.15'', ver_RawID = Some ''4.12.15''\<rparr>\<rparr>)"
    if "Original r = doomed_rosa" "RR_Version r = None" "RC_OpenShiftVersion (RC_Spec (Desired r)) = ''4.12.15''" for r
    using that by (auto simp: setVersion_def choose_version_def record_version_def and_then_def found doomed_rosa_fields)
  from this [of "\<lparr>World = w\<lparr>calls := calls w @ [KGet ns n]\<rparr>, Original = doomed_rosa, Desired = rosa_desired_state ''prod-abc'' doomed_rosa,
      Current = None, Trigger = Delete, RR_OCMClient = None, RR_Cluster = None, RR_Version = None\<rparr>"]
  show ?thesis by (auto simp: RC_NewRequest_def roles_prefix_def and_then_def get doomed_rosa_fields Let_def rosa_desired_state_fields)
qed

lemma rosa_failing_deletes:
  assumes "Original s = doomed_rosa"
  shows "wp (RC_ReconcileDelete rosa_failing) (\<lambda>out t. filter cluster_change (req_calls t) \<noteq> []) s"
proof -
  have "kube_GitLabs (Kube rosa_failing) h = Inr []" "kube_LDAPs (Kube rosa_failing) h = Inr []"
    "kube_MachinePools (Kube rosa_failing) h = Inr []" "aws_NewClient (Aws rosa_failing) h region = None"
    "ocm_ClusterDelete (Ocm rosa_failing) h i = sdk_error 500 ''down''" for h i region
    by (simp_all add: rosa_failing_def sample_aws_def)
  with assms show ?thesis
    by (simp add: RC_ReconcileDelete_def RC_Setup_def rosa_delete_phases_def wp FindChildObjects_def cluster_children_def
      doomed_rosa_fields doomed_rosa_conditions GitLab_ExistsForClusterID_def GitLab_FindAllByClusterID_def GitLab_FindAll_def
      LDAP_ExistsForClusterID_def LDAP_FindAllByClusterID_def LDAP_FindAll_def
      MachinePool_ExistsForClusterID_def MachinePool_FindAllByClusterID_def MachinePool_FindAll_def
      DestroyCluster_def ClusterClient_Delete_def sdk_error_def StatusNotFound_def split: option.split)
qed

theorem rosa_run_safe_witness:
  "\<exists>w pre c post. reached (RC_Reconcile rosa_failing 5) empty_world w \<and> calls w = pre @ c # post \<and> cluster_change c \<and>
     (\<exists>h ns n rest i. pre = h @ KGet ns n # rest \<and> c = ClusterDelete i)"
proof -
  have trigger: "GetTrigger (Original r) = Delete" if made: "request_made (rosa_controller rosa_failing 5) r" for r
  proof -
    from made obtain ns n w q v where q: "run_state (RC_NewRequest rosa_failing ns n) w = (Ret (Inr q), v)" "r = q\<lparr>World := v\<rparr>"
      unfolding request_made_def by (auto simp: rosa_controller_def)
    from rosa_failing_request [of ns n w] q show ?thesis by (auto simp: doomed_rosa_fields)
  qed
  obtain req w' where n: "run_state (RC_NewRequest rosa_failing ''ocm'' ''prod'') empty_world = (Ret (Inr req), w')"
    and o: "Original req = doomed_rosa" using rosa_failing_request by blast
  have "wp (RC_NewRequest rosa_failing ''ocm'' ''prod'') Q empty_world = Q (Ret (Inr req)) w'" for Q by (simp add: wp_run n)
  with o rosa_failing_deletes
  have "wp (RC_Reconcile rosa_failing 5 ''ocm'' ''prod'') (\<lambda>out w. filter cluster_change (calls w) \<noteq> []) empty_world"
    by (simp add: RC_Reconcile_def Reconcile_def rosa_controller_def wp Let_def dispatch_def condition_Update_def
        doomed_rosa_fields doomed_rosa_conditions)
  moreover obtain out w where run: "run_state (RC_Reconcile rosa_failing 5 ''ocm'' ''prod'') empty_world = (out, w)" by fastforce
  ultimately have "filter cluster_change (calls w) \<noteq> []" by (rule wpD)
  then obtain pre c post where w: "calls w = pre @ c # post" "cluster_change c"
    by (auto simp: filter_empty_conv in_set_conv_decomp)
  have r: "reached (RC_Reconcile rosa_failing 5) empty_world w"
    by (rule reached_step [where R = "RC_Reconcile rosa_failing 5", OF reached_start run])
  from rosa_run_safe [OF r w] trigger have "\<exists>h ns n rest i. pre = h @ KGet ns n # rest \<and> c = ClusterDelete i"
    by (auto simp: rosa_removal_def)
  with r w show ?thesis by blast
qed

end
