(* ===== verification/Command_Line.thy ===== *)
theory Command_Line
  imports Prelude
begin

text \<open>
  What the start-up code uses of Go's standard library: \<open>flag.Parse\<close> with the error handling of \<open>flag.CommandLine\<close>, which ends
  the program, and \<open>strconv.ParseBool\<close> and \<open>strconv.ParseInt\<close> with base 0 and 64 bits, which read the values of its flags. A value
  that cannot be read is \<open>None\<close>; which of the errors it is only changes the text that is printed.

  Shown here: decimal numbers in the range are read as what they are, and every number that is read is in the range; flags that are
  not given keep their values.
\<close>

section \<open>Values\<close>

definition ParseBool :: "string \<Rightarrow> bool option" where
  "ParseBool s =
     (if s \<in> set [''1'', ''t'', ''T'', ''true'', ''TRUE'', ''True''] then Some True
      else if s \<in> set [''0'', ''f'', ''F'', ''false'', ''FALSE'', ''False''] then Some False
      else None)"

definition digit_value :: "char \<Rightarrow> nat option" where
  "digit_value c =
     (let n = of_char c; l = of_char (char_lower c) in
      if (48::nat) \<le> n \<and> n \<le> 57 then Some (n - 48)
      else if (97::nat) \<le> l \<and> l \<le> 122 then Some (l - 97 + 10)
      else None)"

text \<open>The loop over the digits, with the check for overflow at 64 bits.\<close>

fun uint_digits :: "nat \<Rightarrow> nat \<Rightarrow> string \<Rightarrow> nat option" where
  "uint_digits base n [] = Some n"
| "uint_digits base n (c # cs) =
     (if c = CHR ''_'' then uint_digits base n cs
      else (case digit_value c of
          None \<Rightarrow> None
        | Some d \<Rightarrow> (if d \<ge> base \<or> n * base + d \<ge> 2 ^ 64 then None else uint_digits base (n * base + d) cs)))"

definition base_prefix :: "string \<Rightarrow> nat \<times> string" where
  "base_prefix s =
     (if s \<noteq> [] \<and> hd s = CHR ''0'' then
        (if length s \<ge> 3 \<and> char_lower (s ! 1) = CHR ''b'' then (2, drop 2 s)
         else if length s \<ge> 3 \<and> char_lower (s ! 1) = CHR ''o'' then (8, drop 2 s)
         else if length s \<ge> 3 \<and> char_lower (s ! 1) = CHR ''x'' then (16, drop 2 s)
         else (8, tl s))
      else (10, s))"

text \<open>Whether underscores only separate digits: \<open>saw\<close> is the class of the character before.\<close>

fun underscores_ok :: "bool \<Rightarrow> char \<Rightarrow> string \<Rightarrow> bool" where
  "underscores_ok hex saw [] \<longleftrightarrow> saw \<noteq> CHR ''_''"
| "underscores_ok hex saw (c # cs) \<longleftrightarrow>
     (case digit_value c of
        Some d \<Rightarrow> (if d < 10 \<or> hex \<and> d < 16 then underscores_ok hex CHR ''0'' cs
                   else saw \<noteq> CHR ''_'' \<and> underscores_ok hex CHR ''!'' cs)
      | None \<Rightarrow> (if c = CHR ''_'' then saw = CHR ''0'' \<and> underscores_ok hex CHR ''_'' cs
                 else saw \<noteq> CHR ''_'' \<and> underscores_ok hex CHR ''!'' cs))"

definition underscoreOK :: "string \<Rightarrow> bool" where
  "underscoreOK s =
     (if length s \<ge> 2 \<and> hd s = CHR ''0'' \<and> char_lower (s ! 1) \<in> {CHR ''b'', CHR ''o'', CHR ''x''}
      then underscores_ok (char_lower (s ! 1) = CHR ''x'') CHR ''0'' (drop 2 s)
      else underscores_ok False CHR ''^'' s)"

definition ParseUint :: "string \<Rightarrow> nat option" where
  "ParseUint s =
     (if s = [] then None
      else (case base_prefix s of (base, digits) \<Rightarrow>
        (if CHR ''_'' \<in> set digits \<and> \<not> underscoreOK s then None else uint_digits base 0 digits)))"

definition ParseInt :: "string \<Rightarrow> int option" where
  "ParseInt s =
     (if s = [] then None
      else
        let neg = (hd s = CHR ''-'');
            digits = (if hd s = CHR ''+'' \<or> hd s = CHR ''-'' then tl s else s)
        in (case ParseUint digits of
              None \<Rightarrow> None
            | Some un \<Rightarrow> (if neg then (if un > 2 ^ 63 then None else Some (- int un))
                          else if un \<ge> 2 ^ 63 then None else Some (int un))))"

section \<open>Flags\<close>

text \<open>A flag of a program with the variables \<open>'c\<close>: \<open>Set\<close> reads a value into its variable.\<close>

record 'c flag =
  IsBoolFlag :: bool
  Set :: "string \<Rightarrow> 'c \<Rightarrow> 'c option"

text \<open>The name and the value of an argument after its dashes; the name has at least one character.\<close>

definition flag_name :: "string \<Rightarrow> string" where
  "flag_name s = (case s of [] \<Rightarrow> [] | c # cs \<Rightarrow> c # takeWhile (\<lambda>x. x \<noteq> CHR ''='') cs)"

definition flag_value :: "string \<Rightarrow> string option" where
  "flag_value s = (case dropWhile (\<lambda>x. x \<noteq> CHR ''='') (tl s) of [] \<Rightarrow> None | x # v \<Rightarrow> Some v)"

text \<open>
  One step of \<open>flag.Parse\<close>: it stops at the first argument that is not a flag, ends the program (with status 0 after a request
  for help, 2 after an error), or goes on with the arguments that are left.
\<close>

datatype 'c parse_step = Stop | Fail int | Seen 'c "string list"

definition assign :: "'c flag \<Rightarrow> string \<Rightarrow> 'c \<Rightarrow> string list \<Rightarrow> 'c parse_step" where
  "assign f v vars args = (case Set f v vars of None \<Rightarrow> Fail 2 | Some vars' \<Rightarrow> Seen vars' args)"

fun parseOne :: "(string \<Rightarrow> 'c flag option) \<Rightarrow> string list \<Rightarrow> 'c \<Rightarrow> 'c parse_step" where
  "parseOne formal [] vars = Stop"
| "parseOne formal (s # args) vars =
     (if length s < 2 \<or> hd s \<noteq> CHR ''-'' \<or> s = ''--'' then Stop
      else
        let name = (if s ! 1 = CHR ''-'' then drop 2 s else tl s)
        in (if hd name = CHR ''-'' \<or> hd name = CHR ''='' then Fail 2
            else (case formal (flag_name name) of
                None \<Rightarrow> Fail (if flag_name name = ''help'' \<or> flag_name name = ''h'' then 0 else 2)
              | Some f \<Rightarrow>
                  (case flag_value name of
                     Some v \<Rightarrow> assign f v vars args
                   | None \<Rightarrow>
                       (if IsBoolFlag f then assign f ''true'' vars args
                        else (case args of [] \<Rightarrow> Fail 2 | v # rest \<Rightarrow> assign f v vars rest))))))"

lemma assign_Seen: "assign f v vars args = Seen vars' args' \<longleftrightarrow> Set f v vars = Some vars' \<and> args' = args"
  by (auto simp: assign_def split: option.splits)

lemma parseOne_Seen:
  assumes "parseOne formal args vars = Seen vars' args'"
  shows "length args' < length args \<and> (\<exists>name f v. formal name = Some f \<and> Set f v vars = Some vars')"
proof (cases args)
  case (Cons s rest)
  with assms show ?thesis
    by (auto simp: assign_Seen Let_def split: if_splits option.splits list.splits)
qed (use assms in simp)

function Parse :: "(string \<Rightarrow> 'c flag option) \<Rightarrow> string list \<Rightarrow> 'c \<Rightarrow> int + 'c" where
  "Parse formal args vars =
     (case parseOne formal args vars of
        Stop \<Rightarrow> Inr vars
      | Fail code \<Rightarrow> Inl code
      | Seen vars' args' \<Rightarrow> Parse formal args' vars')"
  by pat_completeness auto
termination
  by (relation "measure (\<lambda>(formal, args, vars). length args)") (auto dest: parseOne_Seen)

declare Parse.simps [simp del]

section \<open>Lemmas\<close>

text \<open>The decimal notation of a number.\<close>

definition digit_char :: "nat \<Rightarrow> char" where
  "digit_char d = char_of (48 + d)"

fun decimal :: "nat \<Rightarrow> string" where
  "decimal n = (if n < 10 then [digit_char n] else decimal (n div 10) @ [digit_char (n mod 10)])"

declare decimal.simps [simp del]

lemma of_char_digit [simp]: "d < 10 \<Longrightarrow> of_char (digit_char d) = 48 + d"
  by (simp add: digit_char_def)

lemma digit_value_digit [simp]: "d < 10 \<Longrightarrow> digit_value (digit_char d) = Some d"
  by (simp add: digit_value_def Let_def)

lemma digit_char_neq:
  assumes "d < 10"
  shows "digit_char d \<noteq> CHR ''_''" "digit_char d \<noteq> CHR ''-''" "digit_char d \<noteq> CHR ''+''" "0 < d \<Longrightarrow> digit_char d \<noteq> CHR ''0''"
  using of_char_digit [OF assms] assms by (auto simp del: of_char_digit)

lemma uint_digits_append:
  "uint_digits base n (xs @ ys) = (case uint_digits base n xs of None \<Rightarrow> None | Some m \<Rightarrow> uint_digits base m ys)"
  by (induction base n xs rule: uint_digits.induct) (auto split: option.splits)

lemma uint_digits_decimal: "n < 2 ^ 64 \<Longrightarrow> uint_digits 10 0 (decimal n) = Some n"
proof (induction n rule: decimal.induct)
  case (1 n)
  then show ?case
    by (subst decimal.simps) (auto simp: uint_digits_append digit_char_neq)
qed

lemma decimal_chars: "c \<in> set (decimal n) \<Longrightarrow> \<exists>d < 10. c = digit_char d"
proof (induction n rule: decimal.induct)
  case (1 n)
  then show ?case by (subst (asm) decimal.simps) (auto split: if_splits intro: exI [of _ "n mod 10"])
qed

lemma decimal_not_Nil [simp]: "decimal n \<noteq> []"
  by (subst decimal.simps) simp

lemma hd_decimal: "0 < n \<Longrightarrow> hd (decimal n) \<noteq> CHR ''0''"
proof (induction n rule: decimal.induct)
  case (1 n)
  then show ?case by (subst decimal.simps) (auto simp: digit_char_neq hd_append)
qed

lemma ParseUint_decimal:
  assumes "n < 2 ^ 64"
  shows "ParseUint (decimal n) = Some n"
proof (cases "n = 0")
  case True
  moreover have "digit_char 0 = CHR ''0''" by code_simp
  ultimately show ?thesis by (simp add: ParseUint_def decimal.simps base_prefix_def)
next
  case False
  then have "base_prefix (decimal n) = (10, decimal n)" using hd_decimal by (simp add: base_prefix_def)
  moreover have "CHR ''_'' \<notin> set (decimal n)" using decimal_chars digit_char_neq(1) by metis
  ultimately show ?thesis using uint_digits_decimal [OF assms] by (simp add: ParseUint_def)
qed

text \<open>A number in the range of 64 bits, with its sign.\<close>

definition decimal_int :: "int \<Rightarrow> string" where
  "decimal_int i = (if i < 0 then CHR ''-'' # decimal (nat (- i)) else decimal (nat i))"

lemma ParseInt_decimal:
  assumes "int64 i"
  shows "ParseInt (decimal_int i) = Some i"
proof -
  have "hd (decimal n) \<in> set (decimal n)" for n by simp
  then have hd: "hd (decimal n) \<noteq> CHR ''-''" "hd (decimal n) \<noteq> CHR ''+''" for n
    using decimal_chars digit_char_neq(2,3) by metis+
  have "ParseUint (decimal (nat \<bar>i\<bar>)) = Some (nat \<bar>i\<bar>)" using assms by (intro ParseUint_decimal) (auto simp: int64_def)
  with assms hd show ?thesis by (auto simp: ParseInt_def decimal_int_def int64_def abs_if split: if_splits)
qed

lemma ParseInt_int64: "ParseInt s = Some i \<Longrightarrow> int64 i"
  by (auto simp: ParseInt_def int64_def Let_def split: if_splits option.splits)

text \<open>What every accepted value keeps, the command line keeps.\<close>

lemma Parse_keeps:
  assumes "Parse formal args vars = Inr vars'" and "\<And>name f v x y. formal name = Some f \<Longrightarrow> Set f v x = Some y \<Longrightarrow> P x \<Longrightarrow> P y" and "P vars"
  shows "P vars'"
  using assms
proof (induction formal args vars rule: Parse.induct)
  case (1 formal args vars)
  show ?case
  proof (cases "parseOne formal args vars")
    case (Seen x rest)
    from parseOne_Seen [OF this] 1(3) \<open>P vars\<close> have "P x" by blast
    with 1(1) [OF Seen] Seen 1(2,3) show ?thesis by (simp add: Parse.simps [of formal args vars])
  qed (use 1 in \<open>simp_all add: Parse.simps [of formal args vars]\<close>)
qed

end
