(* ===== verification/Startup.thy ===== *)
theory Startup
  imports Command_Line Controllers
begin

text \<open>
  The start of the operator (\<^verbatim>\<open>main.go\<close>, \<^verbatim>\<open>controllers/config.go\<close>, the registration of the types in
  \<^verbatim>\<open>api/v1alpha1\<close> and of the controllers, \<open>SetupWithManager\<close>). What it calls of the controller runtime, the SDK and the logger is a
  parameter that answers from the calls made so far, as are the flags that these libraries register for themselves (\<open>'z\<close> stands for the
  options of the logger). The program is over when \<open>main\<close> returns, or with an exit status, or with a panic.

  Shown here: the manager is started only when everything before has succeeded, in the order of the code, with the four controllers of
  one interval; how the interval follows from the command line, and when it overflows.
\<close>

section \<open>Configuration\<close>

record Config =
  EnableLeaderElection :: bool
  MetricsAddress :: string
  ProbeAddress :: string
  TokenFile :: string
  PollerIntervalMinutes :: int

definition defaultPollerIntervalMinutes :: int where
  "defaultPollerIntervalMinutes = 5"

definition tokenEnvKey :: string where
  "tokenEnvKey = ''OCM_TOKEN''"

definition Minute :: int where
  "Minute = 60 * Second"

text \<open>A variable has the default of its flag before the command line is parsed.\<close>

definition default_config :: Config where
  "default_config = \<lparr>EnableLeaderElection = False, MetricsAddress = '':8080'', ProbeAddress = '':8081'', TokenFile = [],
     PollerIntervalMinutes = defaultPollerIntervalMinutes\<rparr>"

text \<open>The flags of the program; \<open>other\<close> are those that the libraries register.\<close>

definition command_flags :: "(string \<Rightarrow> 'z flag option) \<Rightarrow> string \<Rightarrow> (Config \<times> 'z) flag option" where
  "command_flags other name =
     (if name = ''metrics-bind-address''
      then Some \<lparr>IsBoolFlag = False, Set = (\<lambda>v (c, z). Some (c\<lparr>MetricsAddress := v\<rparr>, z))\<rparr>
      else if name = ''health-probe-bind-address''
      then Some \<lparr>IsBoolFlag = False, Set = (\<lambda>v (c, z). Some (c\<lparr>ProbeAddress := v\<rparr>, z))\<rparr>
      else if name = ''leader-elect''
      then Some \<lparr>IsBoolFlag = True, Set = (\<lambda>v (c, z). map_option (\<lambda>b. (c\<lparr>EnableLeaderElection := b\<rparr>, z)) (ParseBool v))\<rparr>
      else if name = ''poller-interval''
      then Some \<lparr>IsBoolFlag = False, Set = (\<lambda>v (c, z). map_option (\<lambda>i. (c\<lparr>PollerIntervalMinutes := i\<rparr>, z)) (ParseInt v))\<rparr>
      else map_option (\<lambda>f. \<lparr>IsBoolFlag = IsBoolFlag f, Set = (\<lambda>v (c, z). map_option (Pair c) (Set f v z))\<rparr>) (other name))"

section \<open>Calls and answers\<close>

record manager_options =
  MetricsBindAddress :: string
  Port :: int
  HealthProbeBindAddress :: string
  LeaderElection :: bool
  LeaderElectionID :: string

text \<open>A controller: the connection is known by its token, the recorder and the logger by their names.\<close>

record Controller =
  Connection :: string
  Recorder :: string
  Interval :: int
  Logger :: string

text \<open>What \<open>SetupWithManager\<close> asks for: a controller that is told of the events of a kind that pass a filter.\<close>

record registration =
  EventFilter :: "workload watch_event \<Rightarrow> bool"
  For :: string
  Reconciler :: Controller

datatype 'z startup_call =
    AddToScheme string "string list"
  | SetLogger 'z
  | GetConfig
  | NewManager manager_options
  | LookupEnv string
  | BuildConnection string
  | CompleteController registration
  | AddHealthzCheck string
  | AddReadyzCheck string
  | StartManager
  | CloseConnection
  | LogError "go_error option" string "(string \<times> string) list"
  | LogInfo string

type_synonym 'z startup_hist = "'z startup_call list"

record 'z startup_env =
  os_Args :: "string list"
  other_flags :: "string \<Rightarrow> 'z flag option"
  zap_Options :: 'z
  sys_AddToScheme :: "'z startup_hist \<Rightarrow> string \<Rightarrow> go_error option"
  sys_GetConfig :: "'z startup_hist \<Rightarrow> go_error option"
  sys_NewManager :: "'z startup_hist \<Rightarrow> manager_options \<Rightarrow> go_error option"
  sys_LookupEnv :: "'z startup_hist \<Rightarrow> string \<Rightarrow> string option"
  sys_Build :: "'z startup_hist \<Rightarrow> string \<Rightarrow> go_error option"
  sys_Complete :: "'z startup_hist \<Rightarrow> registration \<Rightarrow> go_error option"
  sys_AddHealthzCheck :: "'z startup_hist \<Rightarrow> string \<Rightarrow> go_error option"
  sys_AddReadyzCheck :: "'z startup_hist \<Rightarrow> string \<Rightarrow> go_error option"
  sys_Start :: "'z startup_hist \<Rightarrow> go_error option"
  sys_Close :: "'z startup_hist \<Rightarrow> go_error option"

datatype ending = Returned | Exited int | Panicked go_error

definition ask :: "'z startup_call \<Rightarrow> ('z startup_hist \<Rightarrow> 'a) \<Rightarrow> ('z startup_hist, 'a) state" where
  "ask c f = do {
     h \<leftarrow> State_Monad.get;
     State_Monad.set (h @ [c]);
     State_Monad.return (f h)
   }"

definition log_call :: "'z startup_call \<Rightarrow> ('z startup_hist, unit) state" where
  "log_call c = ask c (\<lambda>h. ())"

text \<open>An error is logged and the program exits with status 1; a step that may fail, and the rest of the program.\<close>

definition fails :: "go_error option \<Rightarrow> string \<Rightarrow> (string \<times> string) list \<Rightarrow> ('z startup_hist, ending) state" where
  "fails err msg kvs = do {
     log_call (LogError err msg kvs);
     State_Monad.return (Exited 1)
   }"

definition checked ::
    "('z startup_hist, go_error option) state \<Rightarrow> string \<Rightarrow> (string \<times> string) list \<Rightarrow> ('z startup_hist, ending) state \<Rightarrow>
     ('z startup_hist, ending) state" where
  "checked m msg kvs rest = do {
     err \<leftarrow> m;
     (case err of Some e \<Rightarrow> fails (Some e) msg kvs | None \<Rightarrow> rest)
   }"

section \<open>Registration\<close>

text \<open>The types that the files of \<^verbatim>\<open>api/v1alpha1\<close> register, in the order in which Go initialises them.\<close>

definition gitlab_types :: "string list" where
  "gitlab_types = [''GitLabIdentityProvider'', ''GitLabIdentityProviderList'']"

definition ldap_types :: "string list" where
  "ldap_types = [''LDAPIdentityProvider'', ''LDAPIdentityProviderList'']"

definition machinepool_types :: "string list" where
  "machinepool_types = [''MachinePool'', ''MachinePoolList'']"

definition rosacluster_types :: "string list" where
  "rosacluster_types = [''ROSACluster'', ''ROSAClusterList'']"

definition GroupVersion :: string where
  "GroupVersion = ''ocm.mobb.redhat.com/v1alpha1''"

definition SchemeBuilder :: "string list" where
  "SchemeBuilder = gitlab_types @ ldap_types @ machinepool_types @ rosacluster_types"

definition init :: "'z startup_env \<Rightarrow> ('z startup_hist, go_error option) state" where
  "init E = do {
     err \<leftarrow> ask (AddToScheme ''client-go'' []) (\<lambda>h. sys_AddToScheme E h ''client-go'');
     (case err of
        Some e \<Rightarrow> State_Monad.return (Some e)
      | None \<Rightarrow> ask (AddToScheme GroupVersion SchemeBuilder) (\<lambda>h. sys_AddToScheme E h GroupVersion))
   }"

definition complete :: "'z startup_env \<Rightarrow> registration \<Rightarrow> ('z startup_hist, go_error option) state" where
  "complete E r = ask (CompleteController r) (\<lambda>h. sys_Complete E h r)"

definition MP_SetupWithManager :: "'z startup_env \<Rightarrow> Controller \<Rightarrow> ('z startup_hist, go_error option) state" where
  "MP_SetupWithManager E r = complete E \<lparr>EventFilter = Predicates, For = ''MachinePool'', Reconciler = r\<rparr>"

definition GL_SetupWithManager :: "'z startup_env \<Rightarrow> Controller \<Rightarrow> ('z startup_hist, go_error option) state" where
  "GL_SetupWithManager E r = complete E \<lparr>EventFilter = Predicates, For = ''GitLabIdentityProvider'', Reconciler = r\<rparr>"

definition LDAP_SetupWithManager :: "'z startup_env \<Rightarrow> Controller \<Rightarrow> ('z startup_hist, go_error option) state" where
  "LDAP_SetupWithManager E r = complete E \<lparr>EventFilter = Predicates, For = ''LDAPIdentityProvider'', Reconciler = r\<rparr>"

definition RC_SetupWithManager :: "'z startup_env \<Rightarrow> Controller \<Rightarrow> ('z startup_hist, go_error option) state" where
  "RC_SetupWithManager E r = complete E \<lparr>EventFilter = Predicates, For = ''ROSACluster'', Reconciler = r\<rparr>"

text \<open>The interval that \<open>Complete\<close> asks to be called again after.\<close>

definition ReconcileInterval :: "Controller \<Rightarrow> int" where
  "ReconcileInterval r = Interval r"

section \<open>The program\<close>

definition poller_interval :: "Config \<Rightarrow> int" where
  "poller_interval config = wrap64 (PollerIntervalMinutes config * Minute)"

definition options_of :: "Config \<Rightarrow> manager_options" where
  "options_of config = \<lparr>MetricsBindAddress = MetricsAddress config, Port = 9443, HealthProbeBindAddress = ProbeAddress config,
     LeaderElection = EnableLeaderElection config, LeaderElectionID = ''453df18d.mobb.redhat.com''\<rparr>"

definition controller_named :: "string \<Rightarrow> Config \<Rightarrow> string \<Rightarrow> Controller" where
  "controller_named token config name =
     \<lparr>Connection = token, Recorder = name, Interval = poller_interval config, Logger = name\<rparr>"

definition setup_controllers ::
    "'z startup_env \<Rightarrow> string \<Rightarrow> Config \<Rightarrow> ('z startup_hist, ending) state \<Rightarrow> ('z startup_hist, ending) state" where
  "setup_controllers E connection config rest =
     checked (MP_SetupWithManager E (controller_named connection config ''machinepool-controller'')) ''unable to create controller''
       [(''controller'', ''MachinePool'')]
     (checked (GL_SetupWithManager E (controller_named connection config ''gitlab-idp-controller'')) ''unable to create controller''
       [(''controller'', ''GitLabIdentityProvider'')]
     (checked (LDAP_SetupWithManager E (controller_named connection config ''ldap-idp-controller'')) ''unable to create controller''
       [(''controller'', ''LDAPIdentityProvider'')]
     (checked (RC_SetupWithManager E (controller_named connection config ''rosa-cluster-controller'')) ''unable to create controller''
       [(''controller'', ''Cluster'')]
      rest)))"

definition run_manager :: "'z startup_env \<Rightarrow> ('z startup_hist, ending) state" where
  "run_manager E = do {
     log_call (LogInfo ''starting manager'');
     err \<leftarrow> ask StartManager (sys_Start E);
     (case err of
        None \<Rightarrow> State_Monad.return Returned
      | Some e \<Rightarrow> do {
          log_call (LogError (Some e) ''problem running manager'' []);
          closeErr \<leftarrow> ask CloseConnection (sys_Close E);
          (case closeErr of
             Some e' \<Rightarrow> log_call (LogError (Some e') ''unable to close ocm connection'' [])
           | None \<Rightarrow> State_Monad.return ());
          State_Monad.return (Exited 1)
        })
   }"

definition start_manager :: "'z startup_env \<Rightarrow> ('z startup_hist, ending) state" where
  "start_manager E =
     checked (ask (AddHealthzCheck ''healthz'') (\<lambda>h. sys_AddHealthzCheck E h ''healthz'')) ''unable to set up health check'' []
     (checked (ask (AddReadyzCheck ''readyz'') (\<lambda>h. sys_AddReadyzCheck E h ''readyz'')) ''unable to set up ready check'' []
      (run_manager E))"

text \<open>
  \<open>main\<close>. \<open>GetConfigOrDie\<close> exits with status 1 if there is no configuration. When the token is missing, the variable \<open>err\<close> that is logged
  still holds the nil error of the creation of the manager.
\<close>

definition main :: "'z startup_env \<Rightarrow> ('z startup_hist, ending) state" where
  "main E =
     (case Parse (command_flags (other_flags E)) (os_Args E) (default_config, zap_Options E) of
        Inl status \<Rightarrow> State_Monad.return (Exited status)
      | Inr (config, opts) \<Rightarrow> do {
          log_call (SetLogger opts);
          cfgErr \<leftarrow> ask GetConfig (sys_GetConfig E);
          (case cfgErr of
             Some e \<Rightarrow> State_Monad.return (Exited 1)
           | None \<Rightarrow>
               checked (ask (NewManager (options_of config)) (\<lambda>h. sys_NewManager E h (options_of config))) ''unable to start manager'' []
               (do {
                  res \<leftarrow> ask (LookupEnv tokenEnvKey) (\<lambda>h. sys_LookupEnv E h tokenEnvKey);
                  (case res of
                     None \<Rightarrow> fails None ''unable to load token'' [(''environment variable'', tokenEnvKey)]
                   | Some token \<Rightarrow>
                       checked (ask (BuildConnection token) (\<lambda>h. sys_Build E h token)) ''unable to create ocm client''
                         [(''environment variable'', tokenEnvKey)]
                       (setup_controllers E token config (start_manager E)))
                }))
        })"

definition program :: "'z startup_env \<Rightarrow> ('z startup_hist, ending) state" where
  "program E = do {
     err \<leftarrow> init E;
     (case err of Some e \<Rightarrow> State_Monad.return (Panicked e) | None \<Rightarrow> main E)
   }"

section \<open>The specification\<close>

text \<open>The calls of a start that succeeds, up to the start of the manager, and when a call succeeds after the history \<open>h\<close>.\<close>

definition registrations :: "string \<Rightarrow> Config \<Rightarrow> registration list" where
  "registrations token config =
     map (\<lambda>(kind, name). \<lparr>EventFilter = Predicates, For = kind, Reconciler = controller_named token config name\<rparr>)
       [(''MachinePool'', ''machinepool-controller''), (''GitLabIdentityProvider'', ''gitlab-idp-controller''),
        (''LDAPIdentityProvider'', ''ldap-idp-controller''), (''ROSACluster'', ''rosa-cluster-controller'')]"

definition start_sequence :: "Config \<Rightarrow> 'z \<Rightarrow> string \<Rightarrow> 'z startup_hist" where
  "start_sequence config opts token =
     [AddToScheme ''client-go'' [], AddToScheme GroupVersion SchemeBuilder, SetLogger opts, GetConfig, NewManager (options_of config),
      LookupEnv tokenEnvKey, BuildConnection token] @ map CompleteController (registrations token config) @
     [AddHealthzCheck ''healthz'', AddReadyzCheck ''readyz'', LogInfo ''starting manager'']"

fun succeeds :: "'z startup_env \<Rightarrow> 'z startup_hist \<Rightarrow> 'z startup_call \<Rightarrow> bool" where
  "succeeds E h (AddToScheme gv types) \<longleftrightarrow> sys_AddToScheme E h gv = None"
| "succeeds E h GetConfig \<longleftrightarrow> sys_GetConfig E h = None"
| "succeeds E h (NewManager opts) \<longleftrightarrow> sys_NewManager E h opts = None"
| "succeeds E h (LookupEnv key) \<longleftrightarrow> sys_LookupEnv E h key \<noteq> None"
| "succeeds E h (BuildConnection token) \<longleftrightarrow> sys_Build E h token = None"
| "succeeds E h (CompleteController r) \<longleftrightarrow> sys_Complete E h r = None"
| "succeeds E h (AddHealthzCheck name) \<longleftrightarrow> sys_AddHealthzCheck E h name = None"
| "succeeds E h (AddReadyzCheck name) \<longleftrightarrow> sys_AddReadyzCheck E h name = None"
| "succeeds E h StartManager \<longleftrightarrow> sys_Start E h = None"
| "succeeds E h CloseConnection \<longleftrightarrow> sys_Close E h = None"
| "succeeds E h _ \<longleftrightarrow> True"

text \<open>The first \<open>k\<close> calls of a sequence were made and have succeeded; the next one was made, has failed, and was at most logged.\<close>

definition done_until :: "'z startup_env \<Rightarrow> 'z startup_hist \<Rightarrow> nat \<Rightarrow> 'z startup_hist \<Rightarrow> bool" where
  "done_until E seq k h \<longleftrightarrow> k \<le> length seq \<and> h = take k seq \<and> (\<forall>i<k. succeeds E (take i seq) (seq ! i))"

definition failed_at :: "'z startup_env \<Rightarrow> 'z startup_hist \<Rightarrow> ending \<Rightarrow> 'z startup_hist \<Rightarrow> bool" where
  "failed_at E seq e h \<longleftrightarrow> (\<exists>k < length seq. done_until E seq k (take k seq) \<and> \<not> succeeds E (take k seq) (seq ! k) \<and>
     (e = Exited 1 \<or> (\<exists>err. e = Panicked err)) \<and>
     (h = take (Suc k) seq \<or> (\<exists>err msg kvs. h = take (Suc k) seq @ [LogError err msg kvs])))"

section \<open>Lemmas\<close>

lemma wp_ask [wp]: "wp (ask c f) Q h = Q (f h) (h @ [c])"
  by (simp add: ask_def wp)

lemma wp_log_call [wp]: "wp (log_call c) Q h = Q () (h @ [c])"
  by (simp add: log_call_def wp)

lemma wp_fails [wp]: "wp (fails err msg kvs) Q h = Q (Exited 1) (h @ [LogError err msg kvs])"
  by (simp add: fails_def wp)

lemma wp_checked [wp]:
  "wp (checked m msg kvs rest) Q h =
     wp m (\<lambda>err h'. case err of Some e \<Rightarrow> Q (Exited 1) (h' @ [LogError (Some e) msg kvs]) | None \<Rightarrow> wp rest Q h') h"
  unfolding checked_def wp_bind by (rule arg_cong [where f = "\<lambda>X. wp m X h"]) (auto simp: fun_eq_iff wp split: option.splits)

lemmas done_defs = start_sequence_def registrations_def

lemma done_step: "done_until E seq k h \<Longrightarrow> k < length seq \<Longrightarrow> succeeds E h (seq ! k) \<Longrightarrow> done_until E seq (Suc k) (h @ [seq ! k])"
  by (auto simp: done_until_def less_Suc_eq take_Suc_conv_app_nth)

lemma failed_step:
  assumes "done_until E seq k h" and "k < length seq" and "\<not> succeeds E h (seq ! k)"
  shows "failed_at E seq (Exited 1) (h @ [seq ! k, LogError err msg kvs])" and "failed_at E seq (Exited 1) (h @ [seq ! k])"
    and "failed_at E seq (Panicked e) (h @ [seq ! k])"
  using assms unfolding failed_at_def done_until_def
  by (auto simp: take_Suc_conv_app_nth intro!: exI [of _ k])

text \<open>A checked call that is the next of the sequence.\<close>

lemma wp_checked_step:
  assumes "done_until E seq k h" and "k < length seq" and "seq ! k = c" and "succeeds E h c \<longleftrightarrow> f h = None"
    and "done_until E seq (Suc k) (h @ [c]) \<Longrightarrow> wp rest Q (h @ [c])"
    and "\<And>h'. failed_at E seq (Exited 1) h' \<Longrightarrow> Q (Exited 1) h'"
  shows "wp (checked (ask c f) msg kvs rest) Q h"
  using assms done_step [OF assms(1,2)] failed_step [OF assms(1,2)] by (auto simp: wp split: option.splits)

text \<open>What is done once all calls of the sequence have succeeded.\<close>

definition managed :: "'z startup_env \<Rightarrow> 'z startup_hist \<Rightarrow> ending \<Rightarrow> 'z startup_hist \<Rightarrow> bool" where
  "managed E seq e h \<longleftrightarrow> done_until E seq (length seq) seq \<and>
     (case sys_Start E seq of
        None \<Rightarrow> e = Returned \<and> h = seq @ [StartManager]
      | Some err \<Rightarrow> let stopped = seq @ [StartManager, LogError (Some err) ''problem running manager'' []] in
          e = Exited 1 \<and> h = stopped @ CloseConnection # (case sys_Close E stopped of
            None \<Rightarrow> []
          | Some closeErr \<Rightarrow> [LogError (Some closeErr) ''unable to close ocm connection'' []]))"

lemma length_start_sequence [simp]: "length (start_sequence config opts token) = 14"
  by (simp add: done_defs)

lemma start_sequence_nth:
  "start_sequence config opts token ! 7 = CompleteController (registrations token config ! 0)"
  "start_sequence config opts token ! 8 = CompleteController (registrations token config ! 1)"
  "start_sequence config opts token ! 9 = CompleteController (registrations token config ! 2)"
  "start_sequence config opts token ! 10 = CompleteController (registrations token config ! 3)"
  "start_sequence config opts token ! 11 = AddHealthzCheck ''healthz''"
  "start_sequence config opts token ! 12 = AddReadyzCheck ''readyz''"
  "start_sequence config opts token ! 13 = LogInfo ''starting manager''"
  by (simp_all add: done_defs)

lemma wp_run_manager:
  fixes config opts token
  defines "seq \<equiv> start_sequence config opts token"
  assumes "done_until E seq 13 h"
  shows "wp (run_manager E) (managed E seq) h"
proof -
  have h: "h @ [LogInfo ''starting manager''] = seq" and seq: "length seq = 14"
    using assms(2) take_Suc_conv_app_nth [of 13 seq] start_sequence_nth(7) [of config opts token] by (auto simp: done_until_def seq_def)
  have all: "done_until E seq 14 seq"
    using done_step [OF assms(2)] start_sequence_nth(7) [of config opts token] h seq by (simp add: seq_def)
  show ?thesis
    by (auto simp: run_manager_def wp h managed_def all seq Let_def split: option.splits)
qed

lemma wp_start_manager:
  fixes config opts token
  defines "seq \<equiv> start_sequence config opts token"
  assumes "done_until E seq 11 h"
  shows "wp (start_manager E) (\<lambda>e h'. failed_at E seq e h' \<or> managed E seq e h') h"
proof -
  note nth = start_sequence_nth [of config opts token, folded seq_def] length_start_sequence [of config opts token, folded seq_def]
  have run: "wp (run_manager E) (\<lambda>e h'. failed_at E seq e h' \<or> managed E seq e h') g" if "done_until E seq 13 g" for g
    by (rule wp_mono [OF wp_run_manager [OF that [unfolded seq_def]]]) (simp add: seq_def)
  have ready: "wp (checked (ask (AddReadyzCheck ''readyz'') (\<lambda>h. sys_AddReadyzCheck E h ''readyz'')) ''unable to set up ready check'' []
      (run_manager E)) (\<lambda>e h'. failed_at E seq e h' \<or> managed E seq e h') g" if "done_until E seq 12 g" for g
    by (rule wp_checked_step [OF that]) (auto simp: nth run)
  show ?thesis
    unfolding start_manager_def by (rule wp_checked_step [OF assms(2)]) (auto simp: nth ready)
qed

lemma registrations_nth:
  "registrations token config ! 0 = \<lparr>EventFilter = Predicates, For = ''MachinePool'', Reconciler = controller_named token config ''machinepool-controller''\<rparr>"
  "registrations token config ! Suc 0 = \<lparr>EventFilter = Predicates, For = ''GitLabIdentityProvider'', Reconciler = controller_named token config ''gitlab-idp-controller''\<rparr>"
  "registrations token config ! 2 = \<lparr>EventFilter = Predicates, For = ''LDAPIdentityProvider'', Reconciler = controller_named token config ''ldap-idp-controller''\<rparr>"
  "registrations token config ! 3 = \<lparr>EventFilter = Predicates, For = ''ROSACluster'', Reconciler = controller_named token config ''rosa-cluster-controller''\<rparr>"
  by (simp_all add: registrations_def)

lemma wp_setup_controllers:
  fixes config opts token
  defines "seq \<equiv> start_sequence config opts token"
  assumes "done_until E seq 7 h"
  shows "wp (setup_controllers E token config (start_manager E)) (\<lambda>e h'. failed_at E seq e h' \<or> managed E seq e h') h"
proof -
  let ?Q = "\<lambda>e h'. failed_at E seq e h' \<or> managed E seq e h'"
  note nth = start_sequence_nth [of config opts token, folded seq_def] length_start_sequence [of config opts token, folded seq_def]
    registrations_nth [of token config] and regs = MP_SetupWithManager_def GL_SetupWithManager_def LDAP_SetupWithManager_def
    RC_SetupWithManager_def complete_def
  have start: "wp (start_manager E) ?Q g" if "done_until E seq 11 g" for g
    using wp_start_manager [OF that [unfolded seq_def]] by (simp add: seq_def)
  have rosa: "wp (checked (RC_SetupWithManager E (controller_named token config ''rosa-cluster-controller'')) msg kvs (start_manager E)) ?Q g"
    if "done_until E seq 10 g" for g msg kvs
    unfolding regs by (rule wp_checked_step [OF that]) (auto simp: nth start)
  have ldap: "wp (checked (LDAP_SetupWithManager E (controller_named token config ''ldap-idp-controller'')) msg kvs m) ?Q g"
    if "done_until E seq 9 g" "\<And>g. done_until E seq 10 g \<Longrightarrow> wp m ?Q g" for g msg kvs m
    unfolding regs by (rule wp_checked_step [OF that(1)]) (auto simp: nth that(2))
  have gitlab: "wp (checked (GL_SetupWithManager E (controller_named token config ''gitlab-idp-controller'')) msg kvs m) ?Q g"
    if "done_until E seq 8 g" "\<And>g. done_until E seq 9 g \<Longrightarrow> wp m ?Q g" for g msg kvs m
    unfolding regs by (rule wp_checked_step [OF that(1)]) (auto simp: nth that(2))
  have pool: "wp (checked (MP_SetupWithManager E (controller_named token config ''machinepool-controller'')) msg kvs m) ?Q g"
    if "done_until E seq 7 g" "\<And>g. done_until E seq 8 g \<Longrightarrow> wp m ?Q g" for g msg kvs m
    unfolding regs by (rule wp_checked_step [OF that(1)]) (auto simp: nth that(2))
  show ?thesis
    unfolding setup_controllers_def by (intro pool gitlab ldap rosa assms)
qed

lemma start_sequence_first:
  "start_sequence config opts token ! 0 = AddToScheme ''client-go'' []" "start_sequence config opts token ! Suc 0 = AddToScheme GroupVersion SchemeBuilder"
  "start_sequence config opts token ! 2 = SetLogger opts" "start_sequence config opts token ! 3 = GetConfig"
  "start_sequence config opts token ! 4 = NewManager (options_of config)" "start_sequence config opts token ! 5 = LookupEnv tokenEnvKey"
  "start_sequence config opts token ! 6 = BuildConnection token"
  by (simp_all add: done_defs)

text \<open>The token is what the environment holds; before it is looked up, the calls do not depend on it.\<close>

definition started :: "'z startup_env \<Rightarrow> Config \<Rightarrow> 'z \<Rightarrow> ending \<Rightarrow> 'z startup_hist \<Rightarrow> bool" where
  "started E config opts e h \<longleftrightarrow> (\<exists>token. let seq = start_sequence config opts token in
     sys_LookupEnv E (take 5 seq) tokenEnvKey \<in> {None, Some token} \<and> (failed_at E seq e h \<or> managed E seq e h))"

lemma wp_connect:
  fixes config opts t
  defines "seq \<equiv> start_sequence config opts"
  assumes "done_until E (seq t) 5 h" and "sys_LookupEnv E h tokenEnvKey = None \<or> sys_LookupEnv E h tokenEnvKey = Some t"
  shows "wp (do {
      res \<leftarrow> ask (LookupEnv tokenEnvKey) (\<lambda>h. sys_LookupEnv E h tokenEnvKey);
      (case res of
         None \<Rightarrow> fails None msg kvs
       | Some token \<Rightarrow> checked (ask (BuildConnection token) (\<lambda>h. sys_Build E h token)) msg' kvs'
           (setup_controllers E token config (start_manager E)))
    }) (started E config opts) h"
proof -
  note nth = start_sequence_first [of config opts t, folded seq_def] length_start_sequence [of config opts t, folded seq_def]
  have h: "h = take 5 (seq t)" using assms(2) by (simp add: done_until_def)
  have ok: "started E config opts e h'" if "failed_at E (seq t) e h' \<or> managed E (seq t) e h'" for e h'
    using that assms(3) h unfolding started_def Let_def seq_def by auto
  have build: "wp (checked (ask (BuildConnection t) (\<lambda>h. sys_Build E h t)) msg' kvs' (setup_controllers E t config (start_manager E)))
      (\<lambda>e h'. failed_at E (seq t) e h' \<or> managed E (seq t) e h') g" if "done_until E (seq t) 6 g" for g
    by (rule wp_checked_step [OF that]) (auto simp: nth wp_setup_controllers [of E config opts t, folded seq_def])
  show ?thesis
  proof (cases "sys_LookupEnv E h tokenEnvKey")
    case None
    with failed_step(1) [OF assms(2)] nth show ?thesis by (simp add: wp ok)
  next
    case (Some token)
    with assms(3) done_step [OF assms(2)] nth have "token = t" "done_until E (seq t) 6 (h @ [LookupEnv tokenEnvKey])" by simp_all
    with Some wp_mono [OF build ok] show ?thesis by (simp add: wp_bind wp_ask)
  qed
qed

lemma token_exists: "\<exists>t. sys_LookupEnv E (take 5 (start_sequence config opts t)) tokenEnvKey \<in> {None, Some t}"
proof -
  have eq: "take 5 (start_sequence config opts t) = take 5 (start_sequence config opts [])" for t
    by (simp add: start_sequence_def)
  show ?thesis
  proof (cases "sys_LookupEnv E (take 5 (start_sequence config opts [])) tokenEnvKey")
    case (Some t)
    then have "sys_LookupEnv E (take 5 (start_sequence config opts t)) tokenEnvKey = Some t" by (simp only: eq [of t])
    then show ?thesis by (intro exI [of _ t]) simp
  qed (auto intro: exI [of _ "[]"])
qed

lemma wp_main:
  assumes "Parse (command_flags (other_flags E)) (os_Args E) (default_config, zap_Options E) = Inr (config, opts)"
    and t: "sys_LookupEnv E (take 5 (start_sequence config opts t)) tokenEnvKey \<in> {None, Some t}"
    and two: "done_until E (start_sequence config opts t) 2 h"
  shows "wp (main E) (started E config opts) h"
proof -
  let ?seq = "start_sequence config opts t"
  note nth = start_sequence_first [of config opts t] length_start_sequence [of config opts t]
  have ok: "started E config opts e h'" if "failed_at E ?seq e h'" for e h'
    using that t unfolding started_def Let_def by auto
  from done_step [OF two] nth have three: "done_until E ?seq 3 (h @ [SetLogger opts])" by simp
  have connect: "wp (do {
      res \<leftarrow> ask (LookupEnv tokenEnvKey) (\<lambda>h. sys_LookupEnv E h tokenEnvKey);
      (case res of
         None \<Rightarrow> fails None msg kvs
       | Some token \<Rightarrow> checked (ask (BuildConnection token) (\<lambda>h. sys_Build E h token)) msg' kvs'
           (setup_controllers E token config (start_manager E)))
    }) (started E config opts) g" if "done_until E ?seq 5 g" for g msg kvs msg' kvs'
    by (rule wp_connect [OF that]) (use t that in \<open>auto simp: done_until_def\<close>)
  have manager: "wp (checked (ask (NewManager (options_of config)) (\<lambda>h. sys_NewManager E h (options_of config))) msg kvs m) (started E config opts) g"
    if "done_until E ?seq 4 g" "\<And>g. done_until E ?seq 5 g \<Longrightarrow> wp m (started E config opts) g" for g msg kvs m
    by (rule wp_checked_step [OF that(1)]) (auto simp: nth that(2) ok)
  show ?thesis
  proof (cases "sys_GetConfig E (h @ [SetLogger opts])")
    case None
    with done_step [OF three] nth have "done_until E ?seq 4 (h @ [SetLogger opts, GetConfig])" by simp
    from manager [OF this connect] None show ?thesis unfolding main_def assms(1) by (simp add: wp_bind wp_log_call wp_ask)
  next
    case (Some e)
    with failed_step(2) [OF three] nth show ?thesis unfolding main_def assms(1) by (simp add: wp ok)
  qed
qed

lemma program_started:
  assumes "Parse (command_flags (other_flags E)) (os_Args E) (default_config, zap_Options E) = Inr (config, opts)"
  shows "wp (program E) (started E config opts) []"
proof -
  obtain t where t: "sys_LookupEnv E (take 5 (start_sequence config opts t)) tokenEnvKey \<in> {None, Some t}"
    using token_exists [of E config opts] by (elim exE)
  let ?seq = "start_sequence config opts t"
  note nth = start_sequence_first [of config opts t] length_start_sequence [of config opts t]
  have ok: "started E config opts e h'" if "failed_at E ?seq e h'" for e h' using that t unfolding started_def Let_def by auto
  have none: "done_until E ?seq 0 []" by (simp add: done_until_def)
  have one: "done_until E ?seq (Suc 0) [AddToScheme ''client-go'' []]" if "sys_AddToScheme E [] ''client-go'' = None"
    using done_step [OF none] nth that by simp
  show ?thesis
    using failed_step(3) [OF none] failed_step(3) [OF one] done_step [OF one] nth
    by (auto simp: program_def init_def wp ok numeral_2_eq_2 intro!: wp_main [OF assms t] split: option.splits)
qed

lemma started_registrations:
  assumes "started E config opts e h" and "CompleteController r \<in> set h"
  shows "\<exists>token. r \<in> set (registrations token config)"
proof -
  from assms(1) obtain token where "failed_at E (start_sequence config opts token) e h \<or> managed E (start_sequence config opts token) e h"
    by (auto simp: started_def Let_def)
  with assms(2) have "CompleteController r \<in> set (start_sequence config opts token)"
    by (auto simp: failed_at_def managed_def Let_def split: option.splits dest: in_set_takeD)
  then show ?thesis by (auto simp: start_sequence_def)
qed

lemma Parse_poller_interval:
  assumes "int64 i"
  shows "Parse (command_flags other) [''-poller-interval='' @ decimal_int i] (c, z) = Inr (c\<lparr>PollerIntervalMinutes := i\<rparr>, z)"
proof -
  let ?name = "''poller-interval='' @ decimal_int i"
  have "flag_name ?name = ''poller-interval''" "flag_value ?name = Some (decimal_int i)"
    by (simp_all add: flag_name_def flag_value_def)
  then have "parseOne (command_flags other) [''-poller-interval='' @ decimal_int i] (c, z) = Seen (c\<lparr>PollerIntervalMinutes := i\<rparr>, z) []"
    using ParseInt_decimal [OF assms] by (simp add: command_flags_def assign_def)
  then show ?thesis by (subst Parse.simps) (simp add: Parse.simps [of _ "[]"])
qed

lemma interval_exact: "wrap64 (i * Minute) = i * Minute \<longleftrightarrow> \<bar>i\<bar> \<le> 153722867"
proof -
  have "wrap64 x = x \<longleftrightarrow> int64 x" for x using int64_wrap64 [of x] wrap64_id [of x] by metis
  then have "wrap64 (i * Minute) = i * Minute \<longleftrightarrow> int64 (i * Minute)" by blast
  also have "\<dots> \<longleftrightarrow> \<bar>i\<bar> \<le> 153722867" unfolding int64_def Minute_def Second_def by auto
  finally show ?thesis .
qed

section \<open>Properties\<close>

text \<open>
  C28: the start of the operator with a command line that can be parsed makes the calls of \<open>start_sequence\<close> in their order and stops at
  the first that fails, with the exit status 1 (or a panic when a type cannot be registered) and at most one line of log: so the manager is
  started only with the types, the options, the token, the connection, the four controllers and the two checks in place. If the
  manager then ends without an error, the program returns; otherwise it closes the connection, once, and exits with status 1.
\<close>

theorem program_starts_in_order:
  assumes "Parse (command_flags (other_flags E)) (os_Args E) (default_config, zap_Options E) = Inr (config, opts)"
    and "run_state (program E) [] = (e, h)"
  shows "\<exists>token. let seq = start_sequence config opts token in
    sys_LookupEnv E (take 5 seq) tokenEnvKey \<in> {None, Some token} \<and> (failed_at E seq e h \<or> managed E seq e h)"
  using wpD [OF program_started [OF assms(1)] assms(2)] unfolding started_def .

text \<open>Libraries that do what they are asked for.\<close>

definition sample_startup :: "unit startup_env" where
  "sample_startup = \<lparr>os_Args = [''-poller-interval='' @ decimal_int 10], other_flags = (\<lambda>name. None), zap_Options = (),
     sys_AddToScheme = (\<lambda>h g. None), sys_GetConfig = (\<lambda>h. None), sys_NewManager = (\<lambda>h o'. None),
     sys_LookupEnv = (\<lambda>h k. Some ''secret''), sys_Build = (\<lambda>h t. None), sys_Complete = (\<lambda>h r. None),
     sys_AddHealthzCheck = (\<lambda>h n. None), sys_AddReadyzCheck = (\<lambda>h n. None), sys_Start = (\<lambda>h. None), sys_Close = (\<lambda>h. None)\<rparr>"

lemma sample_startup_succeeds: "succeeds sample_startup h c"
  by (cases c) (simp_all add: sample_startup_def)

lemma sample_startup_parses:
  "Parse (command_flags (other_flags sample_startup)) (os_Args sample_startup) (default_config, zap_Options sample_startup) =
     Inr (default_config\<lparr>PollerIntervalMinutes := 10\<rparr>, ())"
  using Parse_poller_interval [of 10] by (simp add: sample_startup_def int64_def)

theorem program_starts_in_order_witness:
  "\<exists>h. run_state (program sample_startup) [] = (Returned, h) \<and>
     h = start_sequence (default_config\<lparr>PollerIntervalMinutes := 10\<rparr>) () ''secret'' @ [StartManager]"
proof -
  obtain e h where run: "run_state (program sample_startup) [] = (e, h)" by fastforce
  have "\<not> failed_at sample_startup seq e h" for seq by (simp add: failed_at_def sample_startup_succeeds)
  moreover have "sys_LookupEnv sample_startup g k = Some ''secret''" "sys_Start sample_startup g = None" for g k
    by (simp_all add: sample_startup_def)
  ultimately show ?thesis
    using program_starts_in_order [OF sample_startup_parses run] run by (auto simp: Let_def managed_def)
qed

text \<open>
  C29: when the operator is started with the interval \<open>i\<close> in minutes, every controller that it registers is told of the events that
  pass the filter and has the interval of \<open>i\<close> minutes in nanoseconds, at 64 bits; that is \<open>i\<close> minutes exactly when the absolute value
  of \<open>i\<close> is at most 153722867.
\<close>

theorem poller_interval_from_flag:
  assumes "os_Args E = [''-poller-interval='' @ decimal_int i]" and "int64 i"
    and "run_state (program E) [] = (e, h)" and "CompleteController r \<in> set h"
  shows "EventFilter r = Predicates \<and> ReconcileInterval (Reconciler r) = wrap64 (i * Minute) \<and>
    (ReconcileInterval (Reconciler r) = i * Minute \<longleftrightarrow> \<bar>i\<bar> \<le> 153722867)"
proof -
  from Parse_poller_interval [OF assms(2)] assms(1)
  have "Parse (command_flags (other_flags E)) (os_Args E) (default_config, zap_Options E) =
    Inr (default_config\<lparr>PollerIntervalMinutes := i\<rparr>, zap_Options E)" by simp
  from started_registrations [OF wpD [OF program_started [OF this] assms(3)] assms(4)]
  have "EventFilter r = Predicates \<and> ReconcileInterval (Reconciler r) = wrap64 (i * Minute)"
    by (auto simp: registrations_def controller_named_def poller_interval_def ReconcileInterval_def)
  then show ?thesis using interval_exact by simp
qed

theorem poller_interval_from_flag_witness:
  "\<exists>h r. run_state (program sample_startup) [] = (Returned, h) \<and> CompleteController r \<in> set h \<and>
     ReconcileInterval (Reconciler r) = 600 * Second"
proof -
  obtain e h where run: "run_state (program sample_startup) [] = (e, h)" by fastforce
  from wpD [OF program_started [OF sample_startup_parses] run] sample_startup_succeeds
  obtain token where e: "e = Returned" and
    h: "h = start_sequence (default_config\<lparr>PollerIntervalMinutes := 10\<rparr>) () token @ [StartManager]"
    by (auto simp: started_def Let_def failed_at_def managed_def sample_startup_def split: option.splits)
  have r: "CompleteController (registrations token (default_config\<lparr>PollerIntervalMinutes := 10\<rparr>) ! 0) \<in> set h"
    by (simp add: h start_sequence_def registrations_def)
  have "os_Args sample_startup = [''-poller-interval='' @ decimal_int 10]" "int64 10" by (simp_all add: sample_startup_def int64_def)
  from poller_interval_from_flag [OF this run r] run r e show ?thesis by (auto simp: Minute_def)
qed

end
