(* ===== verification/Spec2Isabelle.thy ===== *)
theory Spec2Isabelle
  imports MachinePool_Controller LDAP_Controller GitLab_Controller GitLab_Application ROSA_Runs Startup
begin

text \<open>
  \<^bold>\<open>ocm-operator\<close> is a Kubernetes operator in Go that keeps clusters, machine pools and identity providers of OpenShift
  Cluster Manager (OCM) in the state that custom resources ask for. This library models the operator and proves what makes it
  correct. It is a shallow embedding: a Go function is a HOL function, a Go function with effects is a program
  of the state monad.

  \<^bold>\<open>The program.\<close> Four controllers, one for each kind of resource (\<^verbatim>\<open>MachinePool\<close>, \<^verbatim>\<open>LDAPIdentityProvider\<close>,
  \<^verbatim>\<open>GitLabIdentityProvider\<close>, \<^verbatim>\<open>ROSACluster\<close>), run the same loop. \<^verbatim>\<open>controllers.Reconcile\<close> asks the controller for a request
  (\<^verbatim>\<open>NewRequest\<close> reads the resource and validates it), records the condition \<^verbatim>\<open>Reconciling\<close> and runs
  \<^verbatim>\<open>ReconcileCreate\<close>, \<^verbatim>\<open>ReconcileUpdate\<close> or \<^verbatim>\<open>ReconcileDelete\<close>, as the timestamps of the resource decide. Each
  of these runs a list of phases until one fails or asks for a requeue: on the create path the cluster is
  looked up, the current state is read from OCM and copied into a resource, and, if it differs from the
  desired state, an object is created or updated in OCM; on the delete path the object is deleted in OCM and then the
  finalizer is removed from the resource. A ROSA cluster also has an OIDC configuration and provider and a set of IAM roles in
  AWS, and is deleted only after its machine pools and identity providers.

  \<^bold>\<open>The theories\<close>, in the order of their dependencies.

  \<^item> \<open>Prelude\<close>: Go's nilable maps, 64-bit integers, truncating division, error chains, panics and endless loops
    (\<open>outcome\<close>), string functions; the weakest precondition \<open>wp\<close> of the state monad and the collections of lemmas that run
    programs symbolically.
  \<^item> \<open>Workload\<close>: the interface of a resource, the watch predicates and the triggers
    (\<^verbatim>\<open>controllers/workload\<close>, \<^verbatim>\<open>controllers/triggers\<close>).
  \<^item> \<open>OCM_Types\<close>: the attributes of the OCM objects that the sources use; the managed labels (\<^verbatim>\<open>pkg/ocm/ocm.go\<close>).
  \<^item> \<open>MachinePool_Types\<close>, \<open>IdentityProvider_Types\<close>, \<open>ROSACluster_Types\<close>: the custom resources and their translations
    from and to OCM (\<^verbatim>\<open>api/v1alpha1\<close>). Shown: round trips, and exactly when they fail; the panics of the copies; the
    desired state of a machine pool.
  \<^item> \<open>Services\<close>: everything outside of the operator, as parameters (see below).
  \<^item> \<open>Kubernetes\<close> (\<^verbatim>\<open>pkg/kubernetes\<close>, \<^verbatim>\<open>controllers/events\<close>, the child lookups of \<^verbatim>\<open>api/v1alpha1\<close>), \<open>AWS\<close> (\<^verbatim>\<open>pkg/aws\<close>),
    \<open>OCM_Client\<close> and \<open>OCM_STS\<close> (\<^verbatim>\<open>pkg/ocm\<close>): the clients. Shown: what a deletion confirms, how the polling
    loop ends, that the paging loop returns, bounds on role names, that the default version is the newest, that operator roles
    are created and deleted completely, each step confirmed by AWS.
  \<^item> \<open>Conditions\<close> (\<^verbatim>\<open>controllers/conditions\<close>): the list of conditions of a resource refines a finite map.
  \<^item> \<open>Controllers\<close> (\<^verbatim>\<open>controllers/controller.go\<close>, \<^verbatim>\<open>finalizers.go\<close>, \<^verbatim>\<open>requeue\<close>, \<^verbatim>\<open>request\<close>, \<^verbatim>\<open>phases\<close>): the loop, the phase
    handler, the shared phases. Shown: the handler is equivalent to its reference, the routing, the finalizers;
    and, in locales, the arguments that all the controllers share (below).
  \<^item> \<open>Runs\<close>: sequences of reconciliations as an inductive relation, and the locales that give a controller safety properties
    of all its runs.
  \<^item> \<open>MachinePool_Controller\<close>, \<open>Identity_Providers\<close> with \<open>LDAP_Controller\<close> and \<open>GitLab_Controller\<close>, and
    \<open>ROSA_Controller\<close> with \<open>ROSA_Request\<close>, \<open>ROSA_Create\<close>, \<open>ROSA_Delete\<close> and \<open>ROSA_Runs\<close>: the four controllers
    (\<^verbatim>\<open>controllers/reconcilers\<close>), each with its request, its phases and its reconciliation functions. Shown for each: what a
    request guarantees, that changes in OCM are justified and cease once OCM shows the desired state, that the finalizer is
    kept until everything is gone, and that all runs are safe; for the identity providers also that none is created twice.
  \<^item> \<open>GitLab_Application\<close>: the client of \<^verbatim>\<open>pkg/identityprovider\<close>, which no phase calls at present.
  \<^item> \<open>Command_Line\<close> and \<open>Startup\<close>: the parts of Go's \<^verbatim>\<open>flag\<close> and \<^verbatim>\<open>strconv\<close> packages that \<^verbatim>\<open>main.go\<close> uses; \<^verbatim>\<open>main.go\<close>,
    \<^verbatim>\<open>controllers/config.go\<close>, the registration of the types and the methods \<^verbatim>\<open>SetupWithManager\<close>. Shown: the start refines a sequence of
    calls that stops at the first failure, so that the manager runs only when everything is in place; the interval of the
    controllers, and when it overflows. The calls of the start have a history of their own, with the libraries as the
    record \<open>startup_env\<close>.

  Definitions have the names of the Go functions; a prefix (\<open>MP_\<close>, \<open>LDAP_\<close>, \<open>GL_\<close>, \<open>RC_\<close>) tells the controllers
  apart, and a helper in lower case is a loop or a section of a function.

  \<^bold>\<open>Outside of the operator.\<close> The Kubernetes API server, OCM, AWS, HTTP endpoints, the SDKs and the other
  third-party packages are parameters: the record \<open>services\<close>, an argument of every definition that uses them. Each
  call that leaves the process is appended to the history in the \<open>world\<close>, and an answer is a function of the history before
  it, so that nothing is assumed about how a server or another client behaves over time. What a theorem needs of
  a parameter is among its hypotheses, for example \<open>patch_stores\<close> (the answer to a patch is the object that was sent),
  \<open>finalizer_libs\<close> (the finalizer functions add and remove an entry), \<open>sorts\<close> or \<open>version_pages\<close>.
  Safety properties need nothing of the servers. The theorems ending in \<open>_witness\<close> apply the others to concrete services.

  \<^bold>\<open>The shared arguments.\<close>
  \<^item> A change is justified: \<open>justified_changes\<close> (a phase that looks and a phase that applies make at most one change,
    and one that the look justifies), extended to the whole create path of the children of a cluster by
    \<open>justified_apply\<close>, with \<open>cluster_request\<close> for the lookup of the cluster. Interpreted for all controllers.
  \<^item> All runs are safe: \<open>safe_controller\<close> (if the parts of a controller make only justified changes, so does every sequence of
    reconciliations, of any resources, with any outcomes and any answers of the servers: each change follows the reading
    of a resource; if that resource was being deleted it removes what the status of the resource names, right after the checks of the
    delete path, and otherwise follows a lookup that justifies it, with no change in between), a
    \<open>sublocale\<close> of \<open>justified_steps\<close>. Interpreted for all controllers.
  \<^item> Nothing is added twice: \<open>unique_additions\<close> (if every addition of a run follows a lookup that has shown nothing of that name, and the
    server shows what it has accepted until it is removed, then a second addition follows a removal). Interpreted for the identity
    providers, on what \<open>safe_controller\<close> gives.
  \<^item> The finalizer is kept: \<open>guarded_delete\<close> (the object is patched only if the phases before have passed, and
    those that pass establish that the object is gone). Interpreted for all controllers.
  \<^item> \<open>ocm_deleter\<close> (the contract of the deletions, for six clients) and \<open>cluster_child\<close> (the interface \<^verbatim>\<open>workload.ClusterChild\<close>, for three kinds).

  \<^bold>\<open>Loops.\<close> Loops over lists are structural recursions. The two loops without a bound, the polling for a thumbprint and
  the paging over the versions, are partial functions (\<open>partial_function (option)\<close>, with \<open>Diverge\<close> as the outcome of a
  call that does not return). The paging loop returns once a page is not full. The polling loop ends in the first poll in which
  \<^verbatim>\<open>select\<close> takes the timeout or the endpoint answers; it hangs exactly if there is none or if a request hangs, which the code
  does not exclude: its HTTP client has no timeout. Which case \<^verbatim>\<open>select\<close> takes is an arbitrary function of the history. No
  definition uses fuel.

  \<^bold>\<open>Choices.\<close> Pointers that Go updates in place (the object of a request, a patched object) are returned. Deep copies
  are the values themselves. A duration is an integer in nanoseconds. Where a method is called on
  the AWS client of the ROSA controller while it is nil, which the order of the reconciliation functions excludes, the model panics
  at the call and Go when the client is used. \<^verbatim>\<open>reflect.DeepEqual\<close> in \<^verbatim>\<open>GetUpstreamCluster\<close> compares values of two Go types
  and so is always false. The interleaving of controllers is not explicit: since answers may depend on the history in any way, they
  may reflect what other controllers do in between.

  \<^bold>\<open>Not modelled.\<close> \<^verbatim>\<open>zz_generated.deepcopy.go\<close>: generated; values of HOL share no memory. \<^verbatim>\<open>pkg/kubernetes/fake.go\<close> and
  \<^verbatim>\<open>internal/factory\<close>: helpers of the tests. The log output of the controllers, the manager between its start and its end, and the conversions between interface types, which the types of HOL make
  unnecessary.
\<close>

end
